(* ===== verification/Prelude.thy ===== *)
theory Prelude
  imports Main "HOL-Library.Word"
begin

text \<open>
  Shared vocabulary of the development: how a C function that changes state, prints and may end
  the process is written (\<open>prog\<close>), the rules by which an invariant is carried through such
  functions (\<open>preserves\<close>, the collection \<open>keeps\<close>), the byte-list and word lemmas the components
  share.
\<close>

section \<open>Functions that change state and may end the process\<close>

text \<open>
  \<open>Exit n\<close> is a call of \<open>exit(n)\<close>; \<open>Null_deref\<close> and \<open>Use_after_free\<close> are the two ways the code
  can read memory it does not own through its metadata pointers; \<open>Assert_fail\<close> is a failed
  \<open>assert\<close>; \<open>Div_by_zero\<close> is the trap of an integer division and
  \<open>Out_of_bounds\<close> an access outside an array or of memory nobody has written. \<open>Loops_forever\<close> is the
  end of the fuel of a loop; the loops that have fuel are proved never to reach it. An aborted run
  keeps the state it had reached, so that what was printed before the exit is still visible.
\<close>

datatype abort = Exit int | Null_deref | Use_after_free | Assert_fail | Div_by_zero
  | Out_of_bounds | Loops_forever

type_synonym ('s, 'a) prog = "'s \<Rightarrow> (abort \<times> 's) + ('a \<times> 's)"

definition ret :: "'a \<Rightarrow> ('s, 'a) prog" where
  "ret x s = Inr (x, s)"

definition andThen :: "('s, 'a) prog \<Rightarrow> ('a \<Rightarrow> ('s, 'b) prog) \<Rightarrow> ('s, 'b) prog" where
  "andThen f g s = (case f s of Inl e \<Rightarrow> Inl e | Inr (x, t) \<Rightarrow> g x t)"

definition gets :: "('s \<Rightarrow> 'a) \<Rightarrow> ('s, 'a) prog" where
  "gets f s = Inr (f s, s)"

definition modify :: "('s \<Rightarrow> 's) \<Rightarrow> ('s, unit) prog" where
  "modify f s = Inr ((), f s)"

definition fail :: "abort \<Rightarrow> ('s, 'a) prog" where
  "fail e s = Inl (e, s)"

definition whenM :: "bool \<Rightarrow> ('s, unit) prog \<Rightarrow> ('s, unit) prog" where
  "whenM b f = (if b then f else ret ())"

text \<open>A pointer that may be NULL, dereferenced: NULL ends the process.\<close>

definition deref :: "'a option \<Rightarrow> ('s, 'a) prog" where
  "deref p = (case p of None \<Rightarrow> fail Null_deref | Some x \<Rightarrow> ret x)"

text \<open>A \<open>for\<close> loop over the elements of a list, in order, with nothing carried between turns.\<close>

fun forM :: "'a list \<Rightarrow> ('a \<Rightarrow> ('s, unit) prog) \<Rightarrow> ('s, unit) prog" where
  "forM [] f = ret ()"
| "forM (x # xs) f = andThen (f x) (\<lambda>_. forM xs f)"

text \<open>The same loop when each turn stores a result in an array.\<close>

fun mapM :: "('a \<Rightarrow> ('s, 'b) prog) \<Rightarrow> 'a list \<Rightarrow> ('s, 'b list) prog" where
  "mapM f [] = ret []"
| "mapM f (x # xs) = andThen (f x) (\<lambda>y. andThen (mapM f xs) (\<lambda>ys. ret (y # ys)))"

lemma ret_run [simp]: "ret x s = Inr (x, s)"
  by (simp add: ret_def)

lemma gets_run [simp]: "gets f s = Inr (f s, s)"
  by (simp add: gets_def)

lemma modify_run [simp]: "modify f s = Inr ((), f s)"
  by (simp add: modify_def)

lemma fail_run [simp]: "fail e s = Inl (e, s)"
  by (simp add: fail_def)

lemma deref_run [simp]:
  "deref None s = Inl (Null_deref, s)"
  "deref (Some x) s = Inr (x, s)"
  by (simp_all add: deref_def)

lemma andThen_Inr: "f s = Inr (x, t) \<Longrightarrow> andThen f g s = g x t"
  by (simp add: andThen_def)

lemma andThen_Inl: "f s = Inl e \<Longrightarrow> andThen f g s = Inl e"
  by (simp add: andThen_def)

lemma andThen_simps [simp]:
  "andThen (ret x) g = g x"
  "andThen (fail e) g = fail e"
  "andThen (gets h) g s = g (h s) s"
  "andThen (modify u) k s = k () (u s)"
  by (simp_all add: andThen_def fun_eq_iff)

lemma andThen_assoc [simp]:
  "andThen (andThen f g) h = andThen f (\<lambda>x. andThen (g x) h)"
  by (auto simp: andThen_def fun_eq_iff split: sum.splits)

lemma whenM_simps [simp]: "whenM True f = f" "whenM False f = ret ()"
  by (simp_all add: whenM_def)

lemma prog_if [simp]: "(if b then f else g) s = (if b then f s else g s)"
  by simp

lemma andThen_if [simp]:
  "andThen (if b then f else g) h = (if b then andThen f h else andThen g h)"
  by simp

lemma andThen_eq_Inr:
  "andThen f g s = Inr r \<longleftrightarrow> (\<exists>x t. f s = Inr (x, t) \<and> g x t = Inr r)"
  by (auto simp: andThen_def split: sum.splits)

section \<open>Invariants through programs\<close>

text \<open>
  \<open>preserves I B f\<close>: from a state in \<open>I\<close>, \<open>f\<close> does not end the process in one of the ways \<open>B\<close>, and
  the state it reaches, returning or ending the process in another way, is in \<open>I\<close>. The rules of the
  collection \<open>keeps\<close> follow the shape of the program.
\<close>

definition preserves :: "('s \<Rightarrow> bool) \<Rightarrow> abort set \<Rightarrow> ('s, 'a) prog \<Rightarrow> bool" where
  "preserves I B f \<longleftrightarrow>
     (\<forall>s. I s \<longrightarrow> (case f s of Inl (e, t) \<Rightarrow> e \<notin> B \<and> I t | Inr (x, t) \<Rightarrow> I t))"

named_theorems keeps

lemma preserves_result:
  "preserves I B f \<Longrightarrow> I s \<Longrightarrow> case f s of Inl (e, t) \<Rightarrow> e \<notin> B \<and> I t | Inr (x, t) \<Rightarrow> I t"
  unfolding preserves_def by blast

lemma preservesI:
  assumes "\<And>s e t. I s \<Longrightarrow> f s = Inl (e, t) \<Longrightarrow> e \<notin> B \<and> I t"
    and "\<And>s x t. I s \<Longrightarrow> f s = Inr (x, t) \<Longrightarrow> I t"
  shows "preserves I B f"
  unfolding preserves_def
proof (intro allI impI)
  fix s
  assume "I s"
  with assms [of s] show "case f s of Inl (e, t) \<Rightarrow> e \<notin> B \<and> I t | Inr (x, t) \<Rightarrow> I t"
    by (cases "f s") (simp_all split: prod.split)
qed

lemma preserves_ret [keeps]: "preserves I B (ret x)"
  by (simp add: preserves_def)

lemma preserves_gets [keeps]: "preserves I B (gets f)"
  by (simp add: preserves_def)

lemma preserves_fail [keeps]: "e \<notin> B \<Longrightarrow> preserves I B (fail e)"
  by (simp add: preserves_def)

lemma preserves_deref [keeps]: "Null_deref \<notin> B \<Longrightarrow> preserves I B (deref p)"
  by (simp add: deref_def preserves_def split: option.splits)

lemma preserves_modify [keeps]: "(\<And>s. I s \<Longrightarrow> I (u s)) \<Longrightarrow> preserves I B (modify u)"
  by (simp add: preserves_def)

lemma preserves_andThen [keeps]:
  assumes "preserves I B f" and "\<And>x. preserves I B (g x)"
  shows "preserves I B (andThen f g)"
  unfolding preserves_def [of I B "andThen f g"]
proof (intro allI impI)
  fix s
  assume I: "I s"
  show "case andThen f g s of Inl (e, t) \<Rightarrow> e \<notin> B \<and> I t | Inr (x, t) \<Rightarrow> I t"
  proof (cases "f s")
    case (Inl p)
    with preserves_result [OF assms(1) I] show ?thesis by (simp add: andThen_def)
  next
    case (Inr q)
    obtain x t where q: "q = (x, t)" by (cases q)
    with preserves_result [OF assms(1) I] Inr have "I t" by simp
    from preserves_result [OF assms(2) this] show ?thesis by (simp add: andThen_def Inr q)
  qed
qed

lemma preserves_if [keeps]:
  "(b \<Longrightarrow> preserves I B f) \<Longrightarrow> (\<not> b \<Longrightarrow> preserves I B g) \<Longrightarrow> preserves I B (if b then f else g)"
  by simp

lemma preserves_whenM [keeps]: "(b \<Longrightarrow> preserves I B f) \<Longrightarrow> preserves I B (whenM b f)"
  by (simp add: whenM_def preserves_ret)

lemma preserves_option [keeps]:
  "(x = None \<Longrightarrow> preserves I B f) \<Longrightarrow> (\<And>y. x = Some y \<Longrightarrow> preserves I B (g y)) \<Longrightarrow>
    preserves I B (case x of None \<Rightarrow> f | Some y \<Rightarrow> g y)"
  by (simp split: option.split)

lemma preserves_list [keeps]:
  "(x = [] \<Longrightarrow> preserves I B f) \<Longrightarrow> (\<And>y ys. x = y # ys \<Longrightarrow> preserves I B (g y ys)) \<Longrightarrow>
    preserves I B (case x of [] \<Rightarrow> f | y # ys \<Rightarrow> g y ys)"
  by (simp split: list.split)

lemma preserves_prod [keeps]:
  "(\<And>x y. p = (x, y) \<Longrightarrow> preserves I B (f x y)) \<Longrightarrow> preserves I B (case p of (x, y) \<Rightarrow> f x y)"
  by (simp split: prod.split)

lemma preserves_let [keeps]: "preserves I B (f x) \<Longrightarrow> preserves I B (let y = x in f y)"
  by simp

lemma preserves_forM [keeps]:
  "(\<And>x. x \<in> set xs \<Longrightarrow> preserves I B (f x)) \<Longrightarrow> preserves I B (forM xs f)"
  by (induction xs) (auto intro!: keeps)

lemma preserves_mapM [keeps]:
  "(\<And>x. x \<in> set xs \<Longrightarrow> preserves I B (f x)) \<Longrightarrow> preserves I B (mapM f xs)"
  by (induction xs) (auto intro!: keeps)

lemma preservesD: "preserves I B f \<Longrightarrow> I s \<Longrightarrow> f s = Inr (x, t) \<Longrightarrow> I t"
  using preserves_result [of I B f s] by simp

lemma preservesD_abort: "preserves I B f \<Longrightarrow> I s \<Longrightarrow> f s = Inl (e, t) \<Longrightarrow> e \<notin> B \<and> I t"
  using preserves_result [of I B f s] by simp

text \<open>
  The same with conditions: from \<open>P\<close>, an end of the process is not in \<open>B\<close> and leaves \<open>E\<close>, a return
  of \<open>x\<close> leaves \<open>Q x\<close>.
\<close>

definition triple ::
  "('s \<Rightarrow> bool) \<Rightarrow> abort set \<Rightarrow> ('s \<Rightarrow> bool) \<Rightarrow> ('s, 'a) prog \<Rightarrow> ('a \<Rightarrow> 's \<Rightarrow> bool) \<Rightarrow> bool" where
  "triple P B E f Q \<longleftrightarrow>
     (\<forall>s. P s \<longrightarrow> (case f s of Inl (e, t) \<Rightarrow> e \<notin> B \<and> E t | Inr (x, t) \<Rightarrow> Q x t))"

lemma preserves_triple: "preserves I B f \<longleftrightarrow> triple I B I f (\<lambda>_. I)"
  by (simp add: preserves_def triple_def)

lemma triple_andThen:
  assumes "triple P B E f Q" and "\<And>x. triple (Q x) B E (g x) R"
  shows "triple P B E (andThen f g) R"
  unfolding triple_def [of P B E "andThen f g"]
proof (intro allI impI)
  fix s
  assume "P s"
  with assms(1) have f: "case f s of Inl (e, t) \<Rightarrow> e \<notin> B \<and> E t | Inr (x, t) \<Rightarrow> Q x t"
    unfolding triple_def by blast
  show "case andThen f g s of Inl (e, t) \<Rightarrow> e \<notin> B \<and> E t | Inr (x, t) \<Rightarrow> R x t"
  proof (cases "f s")
    case (Inl p)
    with f show ?thesis by (simp add: andThen_def)
  next
    case (Inr q)
    obtain x t where q: "q = (x, t)" by (cases q)
    with f Inr have "Q x t" by simp
    with assms(2) [of x] show ?thesis unfolding triple_def by (simp add: andThen_def Inr q)
  qed
qed

lemma triple_from_preserves:
  "preserves I B f \<Longrightarrow> (\<And>s. P s \<Longrightarrow> I s) \<Longrightarrow> triple P B I f (\<lambda>_. I)"
  unfolding preserves_triple triple_def by blast

lemma triple_option:
  "(x = None \<Longrightarrow> triple P B E f Q) \<Longrightarrow> (\<And>y. x = Some y \<Longrightarrow> triple P B E (g y) Q) \<Longrightarrow>
    triple P B E (case x of None \<Rightarrow> f | Some y \<Rightarrow> g y) Q"
  by (simp split: option.split)

section \<open>Words\<close>

lemma unat_of_nat_eq: "x < 2 ^ LENGTH('a) \<Longrightarrow> unat (of_nat x :: 'a::len word) = x"
  by (simp add: unsigned_of_nat take_bit_nat_eq_self)

lemma unat_ucast_wider:
  "LENGTH('a) \<le> LENGTH('b) \<Longrightarrow> unat (ucast (x :: 'a::len word) :: 'b::len word) = unat x"
  by (simp add: unsigned_ucast_eq take_bit_nat_eq_self_iff unsigned_less [THEN less_le_trans])

lemma unat_add_fits:
  "unat a + unat b < 2 ^ LENGTH('a) \<Longrightarrow> unat (a + b :: 'a::len word) = unat a + unat b"
  by (simp add: unat_word_ariths)

lemma unat_mult_fits:
  "unat a * unat b < 2 ^ LENGTH('a) \<Longrightarrow> unat (a * b :: 'a::len word) = unat a * unat b"
  by (simp add: unat_word_ariths)

end
