(* ===== verification/Cl_Types.thy ===== *)
theory Cl_Types
  imports Prelude
begin

text \<open>
  The OpenCL and detector data types the code shares: handles and sizes as 64-bit words, the
  OpenCL enumerations as datatypes with the names of \<open>CL/cl.h\<close> (each with a constructor for the
  values the code does not name), bit-fields as sets of flags, and the constants of
  \<open>src/include/detector_defines.h\<close>. Nothing here depends on the numeric values of \<open>CL/cl.h\<close>,
  which is not part of the repository.
\<close>

type_synonym u8 = "8 word"
type_synonym u32 = "32 word"
type_synonym u64 = "64 word"

text \<open>Opaque handles and host pointers: the value 0 is NULL.\<close>

type_synonym ptr = "64 word"
type_synonym cl_mem = "64 word"
type_synonym cl_context = "64 word"
type_synonym cl_kernel = "64 word"
type_synonym cl_event = "64 word"
type_synonym cl_command_queue = "64 word"
type_synonym cl_device_id = "64 word"

section \<open>Constants of \<open>detector_defines.h\<close>\<close>

text \<open>\<open>UNDERFLOW_CHECK\<close> is defined there, so each buffer has two poisoned regions.\<close>

definition POISON_FILL_LENGTH :: "'a::len word" where
  "POISON_FILL_LENGTH = 4096"

definition POISON_REGIONS :: "'a::len word" where
  "POISON_REGIONS = 2"

definition IMAGE_POISON_WIDTH :: "'a::len word" where
  "IMAGE_POISON_WIDTH = 16"

definition IMAGE_POISON_HEIGHT :: "'a::len word" where
  "IMAGE_POISON_HEIGHT = 16"

definition IMAGE_POISON_DEPTH :: "'a::len word" where
  "IMAGE_POISON_DEPTH = 16"

definition POISON_FILL :: u8 where
  "POISON_FILL = 0xC2"

definition POISON_FILL_32B :: u32 where
  "POISON_FILL_32B = 0xC2C2C2C2"

definition poisonWordLen :: u32 where
  "poisonWordLen = POISON_FILL_LENGTH div 4"

named_theorems poison_defs

declare POISON_FILL_LENGTH_def [poison_defs] POISON_REGIONS_def [poison_defs]
  IMAGE_POISON_WIDTH_def [poison_defs] IMAGE_POISON_HEIGHT_def [poison_defs]
  IMAGE_POISON_DEPTH_def [poison_defs] POISON_FILL_def [poison_defs]
  POISON_FILL_32B_def [poison_defs]

text \<open>A region of \<open>n\<close> bytes of the poison value, as \<open>memset(p, POISON_FILL, n)\<close> writes it.\<close>

definition poison_bytes :: "nat \<Rightarrow> u8 list" where
  "poison_bytes n = replicate n POISON_FILL"

lemma poison_bytes_simps [simp]:
  "length (poison_bytes n) = n"
  "set (poison_bytes n) \<subseteq> {POISON_FILL}"
  "i < n \<Longrightarrow> poison_bytes n ! i = POISON_FILL"
  by (auto simp: poison_bytes_def)

section \<open>Status codes\<close>

datatype (plugins only: code size) cl_int =
    CL_SUCCESS | CL_DEVICE_NOT_FOUND | CL_DEVICE_NOT_AVAILABLE | CL_COMPILER_NOT_AVAILABLE
  | CL_MEM_OBJECT_ALLOCATION_FAILURE | CL_OUT_OF_RESOURCES | CL_OUT_OF_HOST_MEMORY
  | CL_PROFILING_INFO_NOT_AVAILABLE | CL_MEM_COPY_OVERLAP | CL_IMAGE_FORMAT_MISMATCH
  | CL_IMAGE_FORMAT_NOT_SUPPORTED | CL_BUILD_PROGRAM_FAILURE | CL_MAP_FAILURE
  | CL_MISALIGNED_SUB_BUFFER_OFFSET | CL_EXEC_STATUS_ERROR_FOR_EVENTS_IN_WAIT_LIST
  | CL_COMPILE_PROGRAM_FAILURE | CL_LINKER_NOT_AVAILABLE | CL_LINK_PROGRAM_FAILURE
  | CL_DEVICE_PARTITION_FAILED | CL_KERNEL_ARG_INFO_NOT_AVAILABLE | CL_INVALID_VALUE
  | CL_INVALID_DEVICE_TYPE | CL_INVALID_PLATFORM | CL_INVALID_DEVICE | CL_INVALID_CONTEXT
  | CL_INVALID_QUEUE_PROPERTIES | CL_INVALID_COMMAND_QUEUE | CL_INVALID_HOST_PTR
  | CL_INVALID_MEM_OBJECT | CL_INVALID_IMAGE_FORMAT_DESCRIPTOR | CL_INVALID_IMAGE_SIZE
  | CL_INVALID_SAMPLER | CL_INVALID_BINARY | CL_INVALID_BUILD_OPTIONS | CL_INVALID_PROGRAM
  | CL_INVALID_PROGRAM_EXECUTABLE | CL_INVALID_KERNEL_NAME | CL_INVALID_KERNEL_DEFINITION
  | CL_INVALID_KERNEL | CL_INVALID_ARG_INDEX | CL_INVALID_ARG_VALUE | CL_INVALID_ARG_SIZE
  | CL_INVALID_KERNEL_ARGS | CL_INVALID_WORK_DIMENSION | CL_INVALID_WORK_GROUP_SIZE
  | CL_INVALID_WORK_ITEM_SIZE | CL_INVALID_GLOBAL_OFFSET | CL_INVALID_EVENT_WAIT_LIST
  | CL_INVALID_EVENT | CL_INVALID_OPERATION | CL_INVALID_GL_OBJECT | CL_INVALID_BUFFER_SIZE
  | CL_INVALID_MIP_LEVEL | CL_INVALID_GLOBAL_WORK_SIZE | CL_INVALID_PROPERTY
  | CL_INVALID_IMAGE_DESCRIPTOR | CL_INVALID_COMPILER_OPTIONS | CL_INVALID_LINKER_OPTIONS
  | CL_INVALID_DEVICE_PARTITION_COUNT | CL_INVALID_PIPE_SIZE | CL_INVALID_DEVICE_QUEUE
  | Other_status int

text \<open>The values the wrappers start from: \<open>INT_MIN\<close> and the bare \<open>-100\<close>.\<close>

definition INT_MIN_status :: cl_int where
  "INT_MIN_status = Other_status (-2147483648)"

definition minus_100_status :: cl_int where
  "minus_100_status = Other_status (-100)"

definition INT_MAX :: int where
  "INT_MAX = 2147483647"

section \<open>Memory flags, image types and formats\<close>

datatype mem_flag =
    CL_MEM_READ_WRITE | CL_MEM_WRITE_ONLY | CL_MEM_READ_ONLY | CL_MEM_USE_HOST_PTR
  | CL_MEM_ALLOC_HOST_PTR | CL_MEM_COPY_HOST_PTR | CL_MEM_HOST_WRITE_ONLY
  | CL_MEM_HOST_READ_ONLY | CL_MEM_HOST_NO_ACCESS | CL_MEM_SVM_FINE_GRAIN_BUFFER
  | CL_MEM_SVM_ATOMICS | Other_mem_flag nat

type_synonym cl_mem_flags = "mem_flag set"

datatype cl_mem_object_type =
    CL_MEM_OBJECT_IMAGE1D | CL_MEM_OBJECT_IMAGE1D_BUFFER | CL_MEM_OBJECT_IMAGE1D_ARRAY
  | CL_MEM_OBJECT_IMAGE2D | CL_MEM_OBJECT_IMAGE2D_ARRAY | CL_MEM_OBJECT_IMAGE3D
  | Other_mem_object nat

datatype cl_channel_type =
    CL_SNORM_INT8 | CL_UNORM_INT8 | CL_SIGNED_INT8 | CL_UNSIGNED_INT8
  | CL_SNORM_INT16 | CL_UNORM_INT16 | CL_SIGNED_INT16 | CL_HALF_FLOAT | CL_UNSIGNED_INT16
  | CL_UNORM_SHORT_565 | CL_UNORM_SHORT_555 | CL_UNORM_INT24
  | CL_SIGNED_INT32 | CL_UNSIGNED_INT32 | CL_FLOAT | CL_UNORM_INT_101010
  | Other_channel_type nat

datatype cl_channel_order =
    CL_R | CL_Rx | CL_A | CL_INTENSITY | CL_LUMINANCE | CL_DEPTH | CL_RG | CL_RGx | CL_RA
  | CL_RGB | CL_RGBx | CL_RGBA | CL_sRGB | CL_sRGBx | CL_sRGBA | CL_sBGRA | CL_ARGB
  | CL_BGRA | CL_ABGR | CL_DEPTH_STENCIL | Other_channel_order nat

record cl_image_format =
  image_channel_order :: cl_channel_order
  image_channel_data_type :: cl_channel_type

text \<open>\<open>cl_image_desc\<close>; the field \<open>buffer\<close> is called \<open>image_buffer\<close> here.\<close>

record cl_image_desc =
  image_type :: cl_mem_object_type
  image_width :: u64
  image_height :: u64
  image_depth :: u64
  image_array_size :: u64
  image_row_pitch :: u64
  image_slice_pitch :: u64
  num_mip_levels :: u32
  num_samples :: u32
  image_buffer :: cl_mem

definition zero_image_format :: cl_image_format where
  "zero_image_format =
     \<lparr>image_channel_order = Other_channel_order 0, image_channel_data_type = Other_channel_type 0\<rparr>"

definition zero_image_desc :: cl_image_desc where
  "zero_image_desc =
     \<lparr>image_type = Other_mem_object 0, image_width = 0, image_height = 0, image_depth = 0,
      image_array_size = 0, image_row_pitch = 0, image_slice_pitch = 0, num_mip_levels = 0,
      num_samples = 0, image_buffer = 0\<rparr>"

section \<open>Pointers and sizes as stored bytes\<close>

text \<open>
  A pointer-sized value as the eight bytes it occupies in memory on the little-endian machines
  the tool runs on, and \<open>*(cl_mem*)p\<close>, which reads them back.
\<close>

definition bytes_of_u64 :: "u64 \<Rightarrow> u8 list" where
  "bytes_of_u64 w = map (\<lambda>i. ucast (drop_bit (8 * i) w)) [0..<8]"

definition u64_of_bytes :: "u8 list \<Rightarrow> u64" where
  "u64_of_bytes bs = foldr (\<lambda>b acc. ucast b + 256 * acc) (take 8 bs) 0"

definition u32_of_bytes :: "u8 list \<Rightarrow> u32" where
  "u32_of_bytes bs = foldr (\<lambda>b acc. ucast b + 256 * acc) (take 4 bs) 0"

end
