(* ===== verification/Util_Functions.thy ===== *)
theory Util_Functions
  imports Cl_Types
begin

text \<open>
  The pure helpers of \<open>src/utils/util_functions.c\<close> and \<open>src/utils/cl_err.c\<close>: the environment
  variables that configure the tool, the size of an image element, the names of the status codes.
  The C library functions they call (\<open>getenv\<close>, \<open>strtol\<close>, \<open>strtoul\<close>) are modelled from their
  documented behaviour.
\<close>

section \<open>The C library's number parser\<close>

definition is_space :: "char \<Rightarrow> bool" where
  "is_space c \<longleftrightarrow> (of_char c :: nat) \<in> {9, 10, 11, 12, 13, 32}"

definition digit_val :: "char \<Rightarrow> nat" where
  "digit_val c = (let n = (of_char c :: nat) in
     if 48 \<le> n \<and> n \<le> 57 then n - 48
     else if 97 \<le> n \<and> n \<le> 122 then n - 87
     else if 65 \<le> n \<and> n \<le> 90 then n - 55
     else 99)"

fun digits_val :: "nat \<Rightarrow> nat \<Rightarrow> string \<Rightarrow> nat" where
  "digits_val b acc [] = acc"
| "digits_val b acc (c # cs) =
     (if digit_val c < b then digits_val b (b * acc + digit_val c) cs else acc)"

text \<open>The number after the sign, with base 0: \<open>0x\<close> is hexadecimal, a leading \<open>0\<close> octal.\<close>

fun auto_base_val :: "string \<Rightarrow> nat" where
  "auto_base_val (z # x # d # cs) =
     (if z = CHR ''0'' \<and> (x = CHR ''x'' \<or> x = CHR ''X'') \<and> digit_val d < 16
      then digits_val 16 0 (d # cs)
      else if z = CHR ''0'' then digits_val 8 0 (z # x # d # cs)
      else digits_val 10 0 (z # x # d # cs))"
| "auto_base_val (c # cs) =
     (if c = CHR ''0'' then digits_val 8 0 (c # cs) else digits_val 10 0 (c # cs))"
| "auto_base_val [] = 0"

definition sign_split :: "string \<Rightarrow> bool \<times> string" where
  "sign_split s = (case dropWhile is_space s of
       [] \<Rightarrow> (False, [])
     | c # cs \<Rightarrow> if c = CHR ''-'' then (True, cs) else if c = CHR ''+'' then (False, cs)
         else (False, c # cs))"

text \<open>
  \<open>strtol(s, NULL, 0)\<close> saturates at the ends of \<open>long\<close>; \<open>strtoul\<close> at \<open>ULONG_MAX\<close>, and negates
  a number with a minus sign modulo \<open>2 ^ 64\<close>. The callers store the first in an \<open>int\<close> and the
  second in an \<open>unsigned int\<close>, which keep the low 32 bits.
\<close>

definition strtol0 :: "string \<Rightarrow> int" where
  "strtol0 s = (case sign_split s of (neg, cs) \<Rightarrow>
     let v = int (auto_base_val cs) in
     if neg then max (- (2 ^ 63)) (- v) else min (2 ^ 63 - 1) v)"

definition strtoul0 :: "string \<Rightarrow> u64" where
  "strtoul0 s = (case sign_split s of (neg, cs) \<Rightarrow>
     let v = auto_base_val cs in
     if v \<ge> 2 ^ 64 then - 1 else if neg then - of_nat v else of_nat v)"

definition int_of_long :: "int \<Rightarrow> int" where
  "int_of_long v = sint (word_of_int v :: u32)"

section \<open>Environment variables\<close>

type_synonym env = "string \<Rightarrow> string option"

text \<open>
  \<open>get_env_util\<close>: a copy of the variable, NULL when it is unset or empty. Its callers pass the
  address of a local variable and a string literal, so its two NULL checks never fire, and the
  copy is not empty, so \<open>CHECK_ASPRINTF_RET\<close> does not fire either; it returns 0.
\<close>

definition get_env_util :: "env \<Rightarrow> string \<Rightarrow> string option" where
  "get_env_util e name = (case e name of None \<Rightarrow> None | Some v \<Rightarrow> if v = [] then None else Some v)"

definition get_error_envvar :: "env \<Rightarrow> int" where
  "get_error_envvar e =
     (if e ''CLARMOR_EXIT_ON_OVERFLOW'' = None then 0
      else (let ret_val = (case get_env_util e ''CLARMOR_EXIT_ON_OVERFLOW'' of
                Some v \<Rightarrow> int_of_long (strtol0 v)
              | None \<Rightarrow> -1)
            in if ret_val > 1 then 1 else ret_val))"

definition get_exitcode_envvar :: "env \<Rightarrow> int" where
  "get_exitcode_envvar e =
     (if e ''CLARMOR_ERROR_EXITCODE'' \<noteq> None
      then (case get_env_util e ''CLARMOR_ERROR_EXITCODE'' of
          Some v \<Rightarrow> int_of_long (strtol0 v)
        | None \<Rightarrow> 0)
      else 0)"

text \<open>The strategies: \<open>GPU_MODE_DEFAULT\<close> and \<open>GPU_MODE_MULTI_SVMPTR\<close> are both 0.\<close>

definition GPU_MODE_DEFAULT :: int where "GPU_MODE_DEFAULT = 0"
definition GPU_MODE_MULTI_SVMPTR :: int where "GPU_MODE_MULTI_SVMPTR = 0"
definition GPU_MODE_MULTI_BUFFER :: int where "GPU_MODE_MULTI_BUFFER = 1"
definition GPU_MODE_SINGLE_BUFFER :: int where "GPU_MODE_SINGLE_BUFFER = 2"

definition get_gpu_strat_envvar :: "env \<Rightarrow> int" where
  "get_gpu_strat_envvar e =
     (if e ''CLARMOR_ALTERNATE_GPU_DETECTION'' = None then GPU_MODE_DEFAULT
      else (case get_env_util e ''CLARMOR_ALTERNATE_GPU_DETECTION'' of
          Some v \<Rightarrow> int_of_long (strtol0 v)
        | None \<Rightarrow> GPU_MODE_DEFAULT))"

text \<open>An \<open>unsigned int\<close> returned as an \<open>int\<close>.\<close>

definition get_disable_api_check_envvar :: "env \<Rightarrow> int" where
  "get_disable_api_check_envvar e =
     (if e ''CLARMOR_DISABLE_API_CHECK'' = None then 0
      else (case get_env_util e ''CLARMOR_DISABLE_API_CHECK'' of
          Some v \<Rightarrow> sint (ucast (strtoul0 v) :: u32)
        | None \<Rightarrow> 0))"

definition get_tool_perf_envvar :: "env \<Rightarrow> int" where
  "get_tool_perf_envvar e =
     (if e ''CLARMOR_PERFSTAT_MODE'' = None then 0
      else (case get_env_util e ''CLARMOR_PERFSTAT_MODE'' of
          Some v \<Rightarrow> int_of_long (strtol0 v)
        | None \<Rightarrow> 0))"

definition get_tool_perf_outfile_envvar :: "env \<Rightarrow> string option" where
  "get_tool_perf_outfile_envvar e =
     (if e ''CLARMOR_PERFSTAT_OUTFILE'' = None then None
      else get_env_util e ''CLARMOR_PERFSTAT_OUTFILE'')"

definition get_logging_envvar :: "env \<Rightarrow> string option" where
  "get_logging_envvar e =
     (if e ''CLARMOR_LOG_LOCATION'' \<noteq> None then get_env_util e ''CLARMOR_LOG_LOCATION'' else None)"

definition get_log_prefix_envvar :: "env \<Rightarrow> string option" where
  "get_log_prefix_envvar e =
     (if e ''CLARMOR_LOG_PREFIX'' \<noteq> None then get_env_util e ''CLARMOR_LOG_PREFIX'' else None)"

definition DEFAULT_DEVICE_CHECK :: u32 where "DEFAULT_DEVICE_CHECK = 0"
definition DEVICE_GPU :: u32 where "DEVICE_GPU = 1"
definition DEVICE_CPU :: u32 where "DEVICE_CPU = 2"

definition get_check_on_device_envvar :: "env \<Rightarrow> u32" where
  "get_check_on_device_envvar e =
     (if e ''CLARMOR_DEVICE_SELECT'' = None then DEFAULT_DEVICE_CHECK
      else (case get_env_util e ''CLARMOR_DEVICE_SELECT'' of
          Some v \<Rightarrow> ucast (strtoul0 v)
        | None \<Rightarrow> DEFAULT_DEVICE_CHECK))"

definition get_print_backtrace_envvar :: "env \<Rightarrow> int" where
  "get_print_backtrace_envvar e =
     (if e ''CLARMOR_PRINT_BACKTRACE'' = None then 0
      else (case get_env_util e ''CLARMOR_PRINT_BACKTRACE'' of
          Some v \<Rightarrow> sint (ucast (strtoul0 v) :: u32)
        | None \<Rightarrow> 0))"

definition opencl_broken_images :: "env \<Rightarrow> int" where
  "opencl_broken_images e =
     (if e ''CLARMOR_ROCM_HAWAII'' = None then 0
      else (case get_env_util e ''CLARMOR_ROCM_HAWAII'' of
          Some v \<Rightarrow> sint (ucast (strtoul0 v) :: u32)
        | None \<Rightarrow> 0))"

lemma get_env_util_nonempty: "get_env_util e name = Some v \<Longrightarrow> v \<noteq> []"
  by (auto simp: get_env_util_def split: option.splits if_splits)

section \<open>Time stamps\<close>

text \<open>\<open>struct timeval\<close> as seconds and microseconds; NULL gives 0. The result is a \<open>uint64_t\<close>.\<close>

definition timeval_diff_us :: "(int \<times> int) option \<Rightarrow> (int \<times> int) option \<Rightarrow> u64" where
  "timeval_diff_us stop start = (case (stop, start) of
       (Some (s1, u1), Some (s0, u0)) \<Rightarrow> word_of_int ((s1 - s0) * 1000000 + u1 - u0)
     | _ \<Rightarrow> 0)"

section \<open>The size of an image element\<close>

primrec byteChannel :: "cl_channel_type \<Rightarrow> u32" where
  "byteChannel CL_SNORM_INT8 = 1"
| "byteChannel CL_UNORM_INT8 = 1"
| "byteChannel CL_SIGNED_INT8 = 1"
| "byteChannel CL_UNSIGNED_INT8 = 1"
| "byteChannel CL_SNORM_INT16 = 2"
| "byteChannel CL_UNORM_INT16 = 2"
| "byteChannel CL_SIGNED_INT16 = 2"
| "byteChannel CL_HALF_FLOAT = 2"
| "byteChannel CL_UNSIGNED_INT16 = 2"
| "byteChannel CL_UNORM_SHORT_565 = 2"
| "byteChannel CL_UNORM_SHORT_555 = 2"
| "byteChannel CL_UNORM_INT24 = 3"
| "byteChannel CL_SIGNED_INT32 = 4"
| "byteChannel CL_UNSIGNED_INT32 = 4"
| "byteChannel CL_FLOAT = 4"
| "byteChannel CL_UNORM_INT_101010 = 4"
| "byteChannel (Other_channel_type _) = 0"

primrec numChannels :: "cl_channel_order \<Rightarrow> u32" where
  "numChannels CL_R = 1"
| "numChannels CL_Rx = 1"
| "numChannels CL_A = 1"
| "numChannels CL_INTENSITY = 1"
| "numChannels CL_LUMINANCE = 1"
| "numChannels CL_DEPTH = 1"
| "numChannels CL_RG = 2"
| "numChannels CL_RGx = 2"
| "numChannels CL_RA = 2"
| "numChannels CL_RGB = 1"
| "numChannels CL_RGBx = 1"
| "numChannels CL_RGBA = 4"
| "numChannels CL_sRGB = 4"
| "numChannels CL_sRGBx = 4"
| "numChannels CL_sRGBA = 4"
| "numChannels CL_sBGRA = 4"
| "numChannels CL_ARGB = 4"
| "numChannels CL_BGRA = 4"
| "numChannels CL_ABGR = 4"
| "numChannels CL_DEPTH_STENCIL = 1"
| "numChannels (Other_channel_order _) = 0"

definition getImageDataSize :: "cl_image_format \<Rightarrow> u32" where
  "getImageDataSize fmt =
     byteChannel (image_channel_data_type fmt) * numChannels (image_channel_order fmt)"

lemma byteChannel_range: "byteChannel t \<in> {0, 1, 2, 3, 4}"
  by (cases t) simp_all

lemma numChannels_range: "numChannels r \<in> {0, 1, 2, 4}"
  by (cases r) simp_all

text \<open>
  \<open>len = 16\<close> in \<open>poisonFillImageCanaries\<close> (check_utils.c) is indeed "largest size for a color".
\<close>

lemma getImageDataSize_values: "getImageDataSize f \<in> {0, 1, 2, 3, 4, 6, 8, 12, 16}"
  using byteChannel_range [of "image_channel_data_type f"]
    numChannels_range [of "image_channel_order f"]
  by (auto simp: getImageDataSize_def)

lemma getImageDataSize_le: "unat (getImageDataSize f) \<le> 16"
  using getImageDataSize_values [of f] by auto

section \<open>Names of the status codes\<close>

primrec cluErrorString :: "cl_int \<Rightarrow> string" where
  "cluErrorString CL_SUCCESS = ''CL_SUCCESS''"
| "cluErrorString CL_DEVICE_NOT_FOUND = ''CL_DEVICE_NOT_FOUND''"
| "cluErrorString CL_DEVICE_NOT_AVAILABLE = ''CL_DEVICE_NOT_AVAILABLE''"
| "cluErrorString CL_COMPILER_NOT_AVAILABLE = ''CL_COMPILER_NOT_AVAILABLE''"
| "cluErrorString CL_MEM_OBJECT_ALLOCATION_FAILURE = ''CL_MEM_OBJECT_ALLOCATION_FAILURE''"
| "cluErrorString CL_OUT_OF_RESOURCES = ''CL_OUT_OF_RESOURCES''"
| "cluErrorString CL_OUT_OF_HOST_MEMORY = ''CL_OUT_OF_HOST_MEMORY''"
| "cluErrorString CL_PROFILING_INFO_NOT_AVAILABLE = ''CL_PROFILING_INFO_NOT_AVAILABLE''"
| "cluErrorString CL_MEM_COPY_OVERLAP = ''CL_MEM_COPY_OVERLAP''"
| "cluErrorString CL_IMAGE_FORMAT_MISMATCH = ''CL_IMAGE_FORMAT_MISMATCH''"
| "cluErrorString CL_IMAGE_FORMAT_NOT_SUPPORTED = ''CL_IMAGE_FORMAT_NOT_SUPPORTED''"
| "cluErrorString CL_BUILD_PROGRAM_FAILURE = ''CL_BUILD_PROGRAM_FAILURE''"
| "cluErrorString CL_MAP_FAILURE = ''CL_MAP_FAILURE''"
| "cluErrorString CL_MISALIGNED_SUB_BUFFER_OFFSET = ''CL_MISALIGNED_SUB_BUFFER_OFFSET''"
| "cluErrorString CL_EXEC_STATUS_ERROR_FOR_EVENTS_IN_WAIT_LIST =
     ''CL_EXEC_STATUS_ERROR_FOR_EVENTS_IN_WAIT_LIST''"
| "cluErrorString CL_COMPILE_PROGRAM_FAILURE = ''CL_COMPILE_PROGRAM_FAILURE''"
| "cluErrorString CL_LINKER_NOT_AVAILABLE = ''CL_LINKER_NOT_AVAILABLE''"
| "cluErrorString CL_LINK_PROGRAM_FAILURE = ''CL_LINK_PROGRAM_FAILURE''"
| "cluErrorString CL_DEVICE_PARTITION_FAILED = ''CL_DEVICE_PARTITION_FAILED''"
| "cluErrorString CL_KERNEL_ARG_INFO_NOT_AVAILABLE = ''CL_KERNEL_ARG_INFO_NOT_AVAILABLE''"
| "cluErrorString CL_INVALID_VALUE = ''CL_INVALID_VALUE''"
| "cluErrorString CL_INVALID_DEVICE_TYPE = ''CL_INVALID_DEVICE_TYPE''"
| "cluErrorString CL_INVALID_PLATFORM = ''CL_INVALID_PLATFORM''"
| "cluErrorString CL_INVALID_DEVICE = ''CL_INVALID_DEVICE''"
| "cluErrorString CL_INVALID_CONTEXT = ''CL_INVALID_CONTEXT''"
| "cluErrorString CL_INVALID_QUEUE_PROPERTIES = ''CL_INVALID_QUEUE_PROPERTIES''"
| "cluErrorString CL_INVALID_COMMAND_QUEUE = ''CL_INVALID_COMMAND_QUEUE''"
| "cluErrorString CL_INVALID_HOST_PTR = ''CL_INVALID_HOST_PTR''"
| "cluErrorString CL_INVALID_MEM_OBJECT = ''CL_INVALID_MEM_OBJECT''"
| "cluErrorString CL_INVALID_IMAGE_FORMAT_DESCRIPTOR = ''CL_INVALID_IMAGE_FORMAT_DESCRIPTOR''"
| "cluErrorString CL_INVALID_IMAGE_SIZE = ''CL_INVALID_IMAGE_SIZE''"
| "cluErrorString CL_INVALID_SAMPLER = ''CL_INVALID_SAMPLER''"
| "cluErrorString CL_INVALID_BINARY = ''CL_INVALID_BINARY''"
| "cluErrorString CL_INVALID_BUILD_OPTIONS = ''CL_INVALID_BUILD_OPTIONS''"
| "cluErrorString CL_INVALID_PROGRAM = ''CL_INVALID_PROGRAM''"
| "cluErrorString CL_INVALID_PROGRAM_EXECUTABLE = ''CL_INVALID_PROGRAM_EXECUTABLE''"
| "cluErrorString CL_INVALID_KERNEL_NAME = ''CL_INVALID_KERNEL_NAME''"
| "cluErrorString CL_INVALID_KERNEL_DEFINITION = ''CL_INVALID_KERNEL_DEFINITION''"
| "cluErrorString CL_INVALID_KERNEL = ''CL_INVALID_KERNEL''"
| "cluErrorString CL_INVALID_ARG_INDEX = ''CL_INVALID_ARG_INDEX''"
| "cluErrorString CL_INVALID_ARG_VALUE = ''CL_INVALID_ARG_VALUE''"
| "cluErrorString CL_INVALID_ARG_SIZE = ''CL_INVALID_ARG_SIZE''"
| "cluErrorString CL_INVALID_KERNEL_ARGS = ''CL_INVALID_KERNEL_ARGS''"
| "cluErrorString CL_INVALID_WORK_DIMENSION = ''CL_INVALID_WORK_DIMENSION''"
| "cluErrorString CL_INVALID_WORK_GROUP_SIZE = ''CL_INVALID_WORK_GROUP_SIZE''"
| "cluErrorString CL_INVALID_WORK_ITEM_SIZE = ''CL_INVALID_WORK_ITEM_SIZE''"
| "cluErrorString CL_INVALID_GLOBAL_OFFSET = ''CL_INVALID_GLOBAL_OFFSET''"
| "cluErrorString CL_INVALID_EVENT_WAIT_LIST = ''CL_INVALID_EVENT_WAIT_LIST''"
| "cluErrorString CL_INVALID_EVENT = ''CL_INVALID_EVENT''"
| "cluErrorString CL_INVALID_OPERATION = ''CL_INVALID_OPERATION''"
| "cluErrorString CL_INVALID_GL_OBJECT = ''CL_INVALID_GL_OBJECT''"
| "cluErrorString CL_INVALID_BUFFER_SIZE = ''CL_INVALID_BUFFER_SIZE''"
| "cluErrorString CL_INVALID_MIP_LEVEL = ''CL_INVALID_MIP_LEVEL''"
| "cluErrorString CL_INVALID_GLOBAL_WORK_SIZE = ''CL_INVALID_GLOBAL_WORK_SIZE''"
| "cluErrorString CL_INVALID_PROPERTY = ''CL_INVALID_PROPERTY''"
| "cluErrorString CL_INVALID_IMAGE_DESCRIPTOR = ''CL_INVALID_IMAGE_DESCRIPTOR''"
| "cluErrorString CL_INVALID_COMPILER_OPTIONS = ''CL_INVALID_COMPILER_OPTIONS''"
| "cluErrorString CL_INVALID_LINKER_OPTIONS = ''CL_INVALID_LINKER_OPTIONS''"
| "cluErrorString CL_INVALID_DEVICE_PARTITION_COUNT = ''CL_INVALID_DEVICE_PARTITION_COUNT''"
| "cluErrorString CL_INVALID_PIPE_SIZE = ''CL_INVALID_PIPE_SIZE''"
| "cluErrorString CL_INVALID_DEVICE_QUEUE = ''CL_INVALID_DEVICE_QUEUE''"
| "cluErrorString (Other_status _) = ''UNKNOWN CL ERROR CODE''"

end
