(* ===== verification/Runtime.thy ===== *)
theory Runtime
  imports Util_Functions
begin

text \<open>
  The OpenCL runtime the tool wraps, which is not part of the repository, as a parameter: the
  record \<open>ocl\<close> holds one function for each entry point the code calls, over an opaque runtime
  state \<open>'w\<close>. The fields \<open>rt_X\<close> are the function pointers of \<open>cl_interceptor.c\<close> (types in
  \<open>cl_interceptor_internal.h\<close>), resolved with \<open>dlsym\<close> when the library is loaded; \<open>loaded\<close> tells
  which ones were found. The fields \<open>q_X\<close> are the queries the code makes without intercepting
  them. A value the runtime stores through an output pointer is a component of the result; a
  command's bytes read are part of the result of the command, and the code looks at them only after
  waiting. What else the process asks of its environment (allocation, opening the log, stack
  traces) is in the record too.
\<close>

section \<open>Arguments of the entry points\<close>

type_synonym evts = "cl_event list"
type_synonym vec3 = "u64 \<times> u64 \<times> u64"

text \<open>A host pointer of the application, or a temporary array the tool has filled.\<close>

datatype hostdata = Host_ptr ptr | Host_bytes "u8 list"

datatype cl_device_info =
    CL_DEVICE_IMAGE_SUPPORT | CL_DEVICE_IMAGE2D_MAX_WIDTH | CL_DEVICE_IMAGE2D_MAX_HEIGHT
  | CL_DEVICE_IMAGE3D_MAX_WIDTH | CL_DEVICE_IMAGE3D_MAX_HEIGHT | CL_DEVICE_IMAGE3D_MAX_DEPTH
  | CL_DEVICE_IMAGE_MAX_BUFFER_SIZE | CL_DEVICE_MAX_MEM_ALLOC_SIZE
  | CL_DEVICE_MAX_WORK_ITEM_DIMENSIONS | CL_DEVICE_MAX_WORK_ITEM_SIZES
  | CL_DEVICE_MAX_WORK_GROUP_SIZE | CL_DEVICE_TYPE | Other_device_info nat

datatype cl_mem_info =
    CL_MEM_SIZE | CL_MEM_FLAGS | CL_MEM_CONTEXT | CL_IMAGE_WIDTH | CL_IMAGE_HEIGHT | CL_IMAGE_DEPTH | CL_IMAGE_ARRAY_SIZE
  | Other_mem_info nat

datatype buffer_create_type = CL_BUFFER_CREATE_TYPE_REGION | Other_create_type nat

datatype queue_property = CL_QUEUE_PROFILING_ENABLE | Other_queue_property nat

datatype map_flag = CL_MAP_READ | CL_MAP_WRITE | CL_MAP_WRITE_INVALIDATE_REGION | Other_map_flag nat

text \<open>\<open>launchOclKernelStruct\<close> of \<open>cl_interceptor.h\<close>; \<open>la_event\<close>: the caller wants an event.\<close>

record launchOclKernelStruct =
  la_command_queue :: cl_command_queue
  la_kernel :: cl_kernel
  la_work_dim :: u32
  la_global_work_offset :: "u64 list option"
  la_global_work_size :: "u64 list option"
  la_local_work_size :: "u64 list option"
  la_event_wait_list :: evts
  la_event :: bool

text \<open>The four sources of checker kernels in \<open>gpu_check_kernels.cpp\<close>.\<close>

datatype checker_source =
  Buffer_copy_canary_src | Image_copy_canary_src | Single_buffer_src | Buffer_and_ptr_copy_src

text \<open>\<open>cl_buffer_region\<close>.\<close>

record cl_buffer_region =
  br_origin :: u64
  br_size :: u64

section \<open>The runtime\<close>

record 'w ocl =
  loaded :: "string \<Rightarrow> bool"
  calloc_ok :: "u64 \<Rightarrow> bool"
  fopen_ok :: "string \<Rightarrow> bool"
  malloc :: "u64 \<Rightarrow> 'w \<Rightarrow> ptr \<times> 'w"
  backtrace :: "nat \<Rightarrow> string option"
  sdk_version :: nat \<comment> \<open>2 for the AMD APP SDK 2.9, 3 for 3.0, 0 otherwise\<close>
  \<comment> \<open>constants of \<open>CL/cl.h\<close> that are compared with words of a property list\<close>
  c_QUEUE_PROPERTIES :: u64
  c_PROFILING_ENABLE :: u64
  c_QUEUE_ON_DEVICE :: u64
  c_DEVICE_TYPE_CPU :: u64
  mem_flags_of :: "u64 \<Rightarrow> cl_mem_flags" \<comment> \<open>the flags a \<open>cl_mem_flags\<close> word stands for\<close>
  \<comment> \<open>queries\<close>
  q_queue_context :: "cl_command_queue \<Rightarrow> 'w \<Rightarrow> cl_int \<times> cl_context"
  q_queue_device :: "cl_command_queue \<Rightarrow> 'w \<Rightarrow> cl_int \<times> cl_device_id"
  q_queue_size :: "cl_command_queue \<Rightarrow> 'w \<Rightarrow> cl_int"
  q_context_devices :: "cl_context \<Rightarrow> 'w \<Rightarrow> cl_int \<times> cl_device_id list"
  q_device_platform :: "cl_device_id \<Rightarrow> 'w \<Rightarrow> cl_int \<times> ptr"
  q_platform_name :: "ptr \<Rightarrow> 'w \<Rightarrow> cl_int \<times> string"
  q_kernel_num_args :: "cl_kernel \<Rightarrow> 'w \<Rightarrow> cl_int \<times> u32"
  q_kernel_context :: "cl_kernel \<Rightarrow> 'w \<Rightarrow> cl_int \<times> cl_context"
  q_kernel_program :: "cl_kernel \<Rightarrow> 'w \<Rightarrow> cl_int \<times> ptr"
  q_kernel_name :: "cl_kernel \<Rightarrow> 'w \<Rightarrow> cl_int \<times> string"
  q_kernel_arg_name :: "cl_kernel \<Rightarrow> u32 \<Rightarrow> 'w \<Rightarrow> cl_int \<times> string"
  q_kernel_work_group_size :: "cl_kernel \<Rightarrow> cl_device_id \<Rightarrow> 'w \<Rightarrow> u64 list"
  q_program_build_log :: "ptr \<Rightarrow> cl_device_id \<Rightarrow> 'w \<Rightarrow> cl_int \<times> string"
  q_event_context :: "cl_event \<Rightarrow> 'w \<Rightarrow> cl_context"
  \<comment> \<open>devices and queues\<close>
  rt_GetDeviceInfo :: "cl_device_id \<Rightarrow> cl_device_info \<Rightarrow> 'w \<Rightarrow> cl_int \<times> u64 list"
  rt_CreateCommandQueue ::
    "cl_context \<Rightarrow> cl_device_id \<Rightarrow> queue_property set \<Rightarrow> 'w \<Rightarrow> (cl_command_queue \<times> cl_int) \<times> 'w"
  rt_CreateCommandQueueWithProperties ::
    "cl_context \<Rightarrow> cl_device_id \<Rightarrow> u64 list option \<Rightarrow> 'w \<Rightarrow> (cl_command_queue \<times> cl_int) \<times> 'w"
  rt_RetainCommandQueue :: "cl_command_queue \<Rightarrow> 'w \<Rightarrow> cl_int \<times> 'w"
  rt_Finish :: "cl_command_queue \<Rightarrow> 'w \<Rightarrow> cl_int \<times> 'w"
  \<comment> \<open>memory objects\<close>
  rt_GetMemObjectInfo :: "cl_mem \<Rightarrow> cl_mem_info \<Rightarrow> 'w \<Rightarrow> cl_int \<times> u64 list"
  rt_CreateBuffer ::
    "cl_context \<Rightarrow> cl_mem_flags \<Rightarrow> u64 \<Rightarrow> hostdata \<Rightarrow> 'w \<Rightarrow> (cl_mem \<times> cl_int) \<times> 'w"
  rt_CreateSubBuffer ::
    "cl_mem \<Rightarrow> cl_mem_flags \<Rightarrow> buffer_create_type \<Rightarrow> cl_buffer_region \<Rightarrow> 'w \<Rightarrow> (cl_mem \<times> cl_int) \<times> 'w"
  rt_GetImageInfo :: "cl_mem \<Rightarrow> cl_mem_info \<Rightarrow> 'w \<Rightarrow> cl_int \<times> u64 list"
  rt_CreateImage ::
    "cl_context \<Rightarrow> cl_mem_flags \<Rightarrow> cl_image_format \<Rightarrow> cl_image_desc \<Rightarrow> hostdata \<Rightarrow> 'w \<Rightarrow>
      (cl_mem \<times> cl_int) \<times> 'w"
  rt_CreateImage2D ::
    "cl_context \<Rightarrow> cl_mem_flags \<Rightarrow> cl_image_format \<Rightarrow> u64 \<Rightarrow> u64 \<Rightarrow> u64 \<Rightarrow> hostdata \<Rightarrow> 'w \<Rightarrow>
      (cl_mem \<times> cl_int) \<times> 'w"
  rt_CreateImage3D ::
    "cl_context \<Rightarrow> cl_mem_flags \<Rightarrow> cl_image_format \<Rightarrow> u64 \<Rightarrow> u64 \<Rightarrow> u64 \<Rightarrow> u64 \<Rightarrow> u64 \<Rightarrow> hostdata \<Rightarrow>
      'w \<Rightarrow> (cl_mem \<times> cl_int) \<times> 'w"
  rt_RetainMemObject :: "cl_mem \<Rightarrow> 'w \<Rightarrow> cl_int \<times> 'w"
  rt_ReleaseMemObject :: "cl_mem \<Rightarrow> 'w \<Rightarrow> cl_int \<times> 'w"
  rt_EnqueueMapBuffer ::
    "cl_command_queue \<Rightarrow> cl_mem \<Rightarrow> bool \<Rightarrow> map_flag set \<Rightarrow> u64 \<Rightarrow> u64 \<Rightarrow> evts \<Rightarrow> 'w \<Rightarrow>
      (ptr \<times> cl_event \<times> cl_int) \<times> 'w"
  rt_EnqueueUnmapMemObject ::
    "cl_command_queue \<Rightarrow> cl_mem \<Rightarrow> ptr \<Rightarrow> evts \<Rightarrow> 'w \<Rightarrow> (cl_int \<times> cl_event) \<times> 'w"
  \<comment> \<open>shared virtual memory\<close>
  rt_SVMAlloc :: "cl_context \<Rightarrow> cl_mem_flags \<Rightarrow> u64 \<Rightarrow> u32 \<Rightarrow> 'w \<Rightarrow> ptr \<times> 'w"
  rt_SVMFree :: "cl_context \<Rightarrow> ptr \<Rightarrow> 'w \<Rightarrow> 'w"
  rt_EnqueueSVMFree ::
    "cl_command_queue \<Rightarrow> ptr list \<Rightarrow> ptr \<Rightarrow> ptr \<Rightarrow> evts \<Rightarrow> 'w \<Rightarrow> (cl_int \<times> cl_event) \<times> 'w"
  rt_EnqueueSVMMap ::
    "cl_command_queue \<Rightarrow> bool \<Rightarrow> map_flag set \<Rightarrow> ptr \<Rightarrow> u64 \<Rightarrow> evts \<Rightarrow> 'w \<Rightarrow> (cl_int \<times> cl_event) \<times> 'w"
  rt_EnqueueSVMMemcpy ::
    "cl_command_queue \<Rightarrow> bool \<Rightarrow> ptr \<Rightarrow> ptr \<Rightarrow> u64 \<Rightarrow> evts \<Rightarrow> 'w \<Rightarrow> (cl_int \<times> cl_event) \<times> 'w"
  rt_EnqueueSVMMemFill ::
    "cl_command_queue \<Rightarrow> ptr \<Rightarrow> u8 list \<Rightarrow> u64 \<Rightarrow> evts \<Rightarrow> 'w \<Rightarrow> (cl_int \<times> cl_event) \<times> 'w"
  rt_EnqueueSVMUnmap ::
    "cl_command_queue \<Rightarrow> ptr \<Rightarrow> evts \<Rightarrow> 'w \<Rightarrow> (cl_int \<times> cl_event) \<times> 'w"
  rt_svm_bytes :: "ptr \<Rightarrow> u64 \<Rightarrow> 'w \<Rightarrow> u8 list" \<comment> \<open>host reads of mapped shared memory\<close>
  rt_svm_memset :: "ptr \<Rightarrow> u8 \<Rightarrow> u64 \<Rightarrow> 'w \<Rightarrow> 'w"
  \<comment> \<open>kernels\<close>
  rt_CreateProgramWithSource :: "cl_context \<Rightarrow> checker_source \<Rightarrow> 'w \<Rightarrow> (ptr \<times> cl_int) \<times> 'w"
  rt_BuildProgram :: "ptr \<Rightarrow> string \<Rightarrow> 'w \<Rightarrow> cl_int \<times> 'w"
  rt_ReleaseProgram :: "ptr \<Rightarrow> 'w \<Rightarrow> cl_int \<times> 'w"
  rt_CreateKernel :: "ptr \<Rightarrow> string \<Rightarrow> 'w \<Rightarrow> (cl_kernel \<times> cl_int) \<times> 'w"
  rt_RetainKernel :: "cl_kernel \<Rightarrow> 'w \<Rightarrow> cl_int \<times> 'w"
  rt_SetKernelArg :: "cl_kernel \<Rightarrow> u32 \<Rightarrow> u64 \<Rightarrow> u8 list option \<Rightarrow> 'w \<Rightarrow> cl_int \<times> 'w"
  rt_SetKernelArgSVMPointer :: "cl_kernel \<Rightarrow> u32 \<Rightarrow> ptr \<Rightarrow> 'w \<Rightarrow> cl_int \<times> 'w"
  rt_EnqueueNDRangeKernel :: "launchOclKernelStruct \<Rightarrow> 'w \<Rightarrow> (cl_int \<times> cl_event) \<times> 'w"
  rt_EnqueueTask :: "cl_command_queue \<Rightarrow> cl_kernel \<Rightarrow> evts \<Rightarrow> 'w \<Rightarrow> (cl_int \<times> cl_event) \<times> 'w"
  rt_EnqueueNativeKernel ::
    "cl_command_queue \<Rightarrow> ptr \<Rightarrow> u8 list \<Rightarrow> cl_mem list \<Rightarrow> ptr list \<Rightarrow> evts \<Rightarrow> 'w \<Rightarrow>
      (cl_int \<times> cl_event) \<times> 'w"
  \<comment> \<open>events\<close>
  rt_GetEventProfilingInfo :: "cl_event \<Rightarrow> nat \<Rightarrow> 'w \<Rightarrow> cl_int \<times> u64"
  rt_RetainEvent :: "cl_event \<Rightarrow> 'w \<Rightarrow> cl_int \<times> 'w"
  rt_ReleaseEvent :: "cl_event \<Rightarrow> 'w \<Rightarrow> cl_int \<times> 'w"
  rt_CreateUserEvent :: "cl_context \<Rightarrow> 'w \<Rightarrow> (cl_event \<times> cl_int) \<times> 'w"
  rt_SetUserEventComplete :: "cl_event \<Rightarrow> 'w \<Rightarrow> cl_int \<times> 'w"
  rt_CompleteWhen :: "cl_event \<Rightarrow> cl_event \<Rightarrow> 'w \<Rightarrow> cl_int \<times> 'w"
  rt_SetEventCallback :: "cl_event \<Rightarrow> 'w \<Rightarrow> cl_int \<times> 'w"
  rt_WaitForEvents :: "evts \<Rightarrow> 'w \<Rightarrow> cl_int \<times> 'w"
  rt_EnqueueMarkerWithWaitList ::
    "cl_command_queue \<Rightarrow> evts \<Rightarrow> 'w \<Rightarrow> (cl_int \<times> cl_event) \<times> 'w"
  \<comment> \<open>transfers\<close>
  rt_EnqueueReadBuffer ::
    "cl_command_queue \<Rightarrow> cl_mem \<Rightarrow> bool \<Rightarrow> u64 \<Rightarrow> u64 \<Rightarrow> evts \<Rightarrow> 'w \<Rightarrow>
      (cl_int \<times> u8 list \<times> cl_event) \<times> 'w"
  rt_EnqueueReadBufferRect ::
    "cl_command_queue \<Rightarrow> cl_mem \<Rightarrow> bool \<Rightarrow> vec3 \<Rightarrow> vec3 \<Rightarrow> vec3 \<Rightarrow> u64 \<Rightarrow> u64 \<Rightarrow> u64 \<Rightarrow> u64 \<Rightarrow> evts \<Rightarrow>
      'w \<Rightarrow> (cl_int \<times> u8 list \<times> cl_event) \<times> 'w"
  rt_EnqueueWriteBuffer ::
    "cl_command_queue \<Rightarrow> cl_mem \<Rightarrow> bool \<Rightarrow> u64 \<Rightarrow> u64 \<Rightarrow> hostdata \<Rightarrow> evts \<Rightarrow> 'w \<Rightarrow>
      (cl_int \<times> cl_event) \<times> 'w"
  rt_EnqueueWriteBufferRect ::
    "cl_command_queue \<Rightarrow> cl_mem \<Rightarrow> bool \<Rightarrow> vec3 \<Rightarrow> vec3 \<Rightarrow> vec3 \<Rightarrow> u64 \<Rightarrow> u64 \<Rightarrow> u64 \<Rightarrow> u64 \<Rightarrow> hostdata \<Rightarrow>
      evts \<Rightarrow> 'w \<Rightarrow> (cl_int \<times> cl_event) \<times> 'w"
  rt_EnqueueFillBuffer ::
    "cl_command_queue \<Rightarrow> cl_mem \<Rightarrow> u8 list \<Rightarrow> u64 \<Rightarrow> u64 \<Rightarrow> evts \<Rightarrow> 'w \<Rightarrow> (cl_int \<times> cl_event) \<times> 'w"
  rt_EnqueueCopyBuffer ::
    "cl_command_queue \<Rightarrow> cl_mem \<Rightarrow> cl_mem \<Rightarrow> u64 \<Rightarrow> u64 \<Rightarrow> u64 \<Rightarrow> evts \<Rightarrow> 'w \<Rightarrow>
      (cl_int \<times> cl_event) \<times> 'w"
  rt_EnqueueCopyBufferRect ::
    "cl_command_queue \<Rightarrow> cl_mem \<Rightarrow> cl_mem \<Rightarrow> vec3 \<Rightarrow> vec3 \<Rightarrow> vec3 \<Rightarrow> u64 \<Rightarrow> u64 \<Rightarrow> u64 \<Rightarrow> u64 \<Rightarrow> evts \<Rightarrow>
      'w \<Rightarrow> (cl_int \<times> cl_event) \<times> 'w"
  rt_EnqueueReadImage ::
    "cl_command_queue \<Rightarrow> cl_mem \<Rightarrow> bool \<Rightarrow> vec3 \<Rightarrow> vec3 \<Rightarrow> u64 \<Rightarrow> u64 \<Rightarrow> evts \<Rightarrow> 'w \<Rightarrow>
      (cl_int \<times> u8 list \<times> cl_event) \<times> 'w"
  rt_EnqueueWriteImage ::
    "cl_command_queue \<Rightarrow> cl_mem \<Rightarrow> bool \<Rightarrow> vec3 \<Rightarrow> vec3 \<Rightarrow> u64 \<Rightarrow> u64 \<Rightarrow> hostdata \<Rightarrow> evts \<Rightarrow> 'w \<Rightarrow>
      (cl_int \<times> cl_event) \<times> 'w"
  rt_EnqueueFillImage ::
    "cl_command_queue \<Rightarrow> cl_mem \<Rightarrow> u8 list \<Rightarrow> vec3 \<Rightarrow> vec3 \<Rightarrow> evts \<Rightarrow> 'w \<Rightarrow> (cl_int \<times> cl_event) \<times> 'w"
  rt_EnqueueCopyImage ::
    "cl_command_queue \<Rightarrow> cl_mem \<Rightarrow> cl_mem \<Rightarrow> vec3 \<Rightarrow> vec3 \<Rightarrow> vec3 \<Rightarrow> evts \<Rightarrow> 'w \<Rightarrow>
      (cl_int \<times> cl_event) \<times> 'w"
  rt_EnqueueCopyImageToBuffer ::
    "cl_command_queue \<Rightarrow> cl_mem \<Rightarrow> cl_mem \<Rightarrow> vec3 \<Rightarrow> vec3 \<Rightarrow> u64 \<Rightarrow> evts \<Rightarrow> 'w \<Rightarrow>
      (cl_int \<times> cl_event) \<times> 'w"
  rt_EnqueueCopyBufferToImage ::
    "cl_command_queue \<Rightarrow> cl_mem \<Rightarrow> cl_mem \<Rightarrow> u64 \<Rightarrow> vec3 \<Rightarrow> vec3 \<Rightarrow> evts \<Rightarrow> 'w \<Rightarrow>
      (cl_int \<times> cl_event) \<times> 'w"

end
