(* ===== verification/Generic_Lists.thy ===== *)
theory Generic_Lists
  imports Cl_Types
begin

text \<open>
  The container templates of \<open>src/meta_data_lists/generic_lists.ipp\<close>: the sorted singly linked
  list (\<open>insert\<close>, \<open>remove\<close>, \<open>find\<close>), the wrappers of \<open>std::unordered_map\<close>, of \<open>std::map\<close> (with
  \<open>map_next\<close>) and of \<open>std::set\<close>. A linked list is the list of its nodes, an unordered map a
  partial function, a \<open>std::map\<close> the list of its pairs in key order. The templates take a
  \<open>void*\<close> to a global container, which is never NULL in this program, and a mutex, which
  serialises calls: the model is the sequence of the calls. What the three keep in common is the
  locale \<open>handle_table\<close>.
\<close>

section \<open>The sorted linked list\<close>

fun ll_insert :: "('i \<Rightarrow> 'h::linorder) \<Rightarrow> 'i list \<Rightarrow> 'i \<Rightarrow> 'i list" where
  "ll_insert h [] item = [item]"
| "ll_insert h (lp # rest) item =
     (if h item < h lp then item # lp # rest else lp # ll_insert h rest item)"

fun ll_remove :: "('i \<Rightarrow> 'h::linorder) \<Rightarrow> 'i list \<Rightarrow> 'h \<Rightarrow> 'i option \<times> 'i list" where
  "ll_remove h [] k = (None, [])"
| "ll_remove h (lp # rest) k =
     (if h lp = k then (Some lp, rest)
      else if k < h lp then (None, lp # rest)
      else (fst (ll_remove h rest k), lp # snd (ll_remove h rest k)))"

fun ll_find :: "('i \<Rightarrow> 'h::linorder) \<Rightarrow> 'i list \<Rightarrow> 'h \<Rightarrow> 'i option" where
  "ll_find h [] k = None"
| "ll_find h (lp # rest) k =
     (if h lp = k then Some lp else if k < h lp then None else ll_find h rest k)"

text \<open>The nodes are in strictly increasing handle order.\<close>

definition ll_ok :: "('i \<Rightarrow> 'h::linorder) \<Rightarrow> 'i list \<Rightarrow> bool" where
  "ll_ok h xs \<longleftrightarrow> sorted_wrt (<) (map h xs)"

lemma ll_ok_simps [simp]:
  "ll_ok h []"
  "ll_ok h (x # xs) \<longleftrightarrow> (\<forall>y \<in> set xs. h x < h y) \<and> ll_ok h xs"
  by (auto simp: ll_ok_def)

lemma set_ll_insert [simp]: "set (ll_insert h xs v) = insert v (set xs)"
  by (induction xs) auto

lemma ll_find_None: "ll_ok h xs \<Longrightarrow> ll_find h xs k = None \<longleftrightarrow> (\<forall>x \<in> set xs. h x \<noteq> k)"
  by (induction xs) force+

lemma ll_find_Some: "ll_ok h xs \<Longrightarrow> ll_find h xs k = Some x \<longleftrightarrow> x \<in> set xs \<and> h x = k"
  by (induction xs) force+

lemma ll_ok_insert: "ll_ok h xs \<Longrightarrow> ll_find h xs (h v) = None \<Longrightarrow> ll_ok h (ll_insert h xs v)"
  by (induction xs) (auto simp: ll_find_None split: if_splits)

lemma ll_find_insert:
  "ll_ok h xs \<Longrightarrow> ll_find h xs (h v) = None \<Longrightarrow>
    ll_find h (ll_insert h xs v) k = (if k = h v then Some v else ll_find h xs k)"
  by (induction xs) (auto simp: ll_find_None split: if_splits)

lemma ll_remove_fst: "fst (ll_remove h xs k) = ll_find h xs k"
  by (induction xs) auto

lemma set_ll_remove: "ll_ok h xs \<Longrightarrow> set (snd (ll_remove h xs k)) = {x \<in> set xs. h x \<noteq> k}"
  by (induction xs) force+

lemma ll_ok_remove: "ll_ok h xs \<Longrightarrow> ll_ok h (snd (ll_remove h xs k))"
  by (induction xs) (auto simp: set_ll_remove)

lemma ll_find_remove:
  assumes "ll_ok h xs"
  shows "ll_find h (snd (ll_remove h xs k)) j = (if j = k then None else ll_find h xs j)"
proof (rule option.expand)
  let ?r = "snd (ll_remove h xs k)"
  show "(ll_find h ?r j = None) = ((if j = k then None else ll_find h xs j) = None)"
    using assms by (auto simp: ll_find_None ll_ok_remove set_ll_remove)
  assume "ll_find h ?r j \<noteq> None" and ne: "(if j = k then None else ll_find h xs j) \<noteq> None"
  then obtain x where x: "ll_find h ?r j = Some x" by auto
  with assms have "x \<in> set xs" and "h x = j" "h x \<noteq> k"
    by (auto simp: ll_find_Some ll_ok_remove set_ll_remove)
  with assms have "ll_find h xs j = Some x" by (simp add: ll_find_Some)
  with x ne show "the (ll_find h ?r j) = the (if j = k then None else ll_find h xs j)"
    by (auto split: if_splits)
qed

section \<open>The unordered map\<close>

text \<open>
  \<open>map->insert\<close> leaves an element that is already there; \<open>map->clear()\<close> on an empty map changes
  nothing.
\<close>

definition unomap_insert :: "('v \<Rightarrow> 'k) \<Rightarrow> ('k \<rightharpoonup> 'v) \<Rightarrow> 'v \<Rightarrow> ('k \<rightharpoonup> 'v)" where
  "unomap_insert h m item = (case m (h item) of None \<Rightarrow> m(h item \<mapsto> item) | Some _ \<Rightarrow> m)"

definition unomap_remove :: "('k \<rightharpoonup> 'v) \<Rightarrow> 'k \<Rightarrow> 'v option \<times> ('k \<rightharpoonup> 'v)" where
  "unomap_remove m k = (case m k of None \<Rightarrow> (None, m) | Some v \<Rightarrow> (Some v, m(k := None)))"

definition unomap_find :: "('k \<rightharpoonup> 'v) \<Rightarrow> 'k \<Rightarrow> 'v option" where
  "unomap_find m k = m k"

section \<open>The ordered map\<close>

fun map_insert :: "('v \<Rightarrow> 'k::linorder) \<Rightarrow> ('k \<times> 'v) list \<Rightarrow> 'v \<Rightarrow> ('k \<times> 'v) list" where
  "map_insert h [] item = [(h item, item)]"
| "map_insert h ((k, v) # m) item =
     (if h item < k then (h item, item) # (k, v) # m
      else if h item = k then (k, v) # m
      else (k, v) # map_insert h m item)"

fun map_remove :: "('k::linorder \<times> 'v) list \<Rightarrow> 'k \<Rightarrow> 'v option \<times> ('k \<times> 'v) list" where
  "map_remove [] k = (None, [])"
| "map_remove ((j, v) # m) k =
     (if j = k then (Some v, m) else (fst (map_remove m k), (j, v) # snd (map_remove m k)))"

fun map_find :: "('k::linorder \<times> 'v) list \<Rightarrow> 'k \<Rightarrow> 'v option" where
  "map_find [] k = None"
| "map_find ((j, v) # m) k = (if j = k then Some v else map_find m k)"

text \<open>\<open>upper_bound\<close>: the first element with a greater key.\<close>

fun map_next :: "('k::linorder \<times> 'v) list \<Rightarrow> 'k \<Rightarrow> 'v option" where
  "map_next [] k = None"
| "map_next ((j, v) # m) k = (if k < j then Some v else map_next m k)"

text \<open>The element before \<open>upper_bound(k)\<close>: the last one whose key is not greater than \<open>k\<close>.\<close>

fun map_before_upper :: "('k::linorder \<times> 'v) list \<Rightarrow> 'k \<Rightarrow> 'v option" where
  "map_before_upper [] k = None"
| "map_before_upper ((j, v) # m) k =
     (if k < j then None
      else (case map_before_upper m k of None \<Rightarrow> Some v | Some w \<Rightarrow> Some w))"

definition map_ok :: "('k::linorder \<times> 'v) list \<Rightarrow> bool" where
  "map_ok m \<longleftrightarrow> sorted_wrt (<) (map fst m)"

lemma map_ok_simps [simp]:
  "map_ok []"
  "map_ok ((k, v) # m) \<longleftrightarrow> (\<forall>p \<in> set m. k < fst p) \<and> map_ok m"
  by (auto simp: map_ok_def)

lemma map_find_None: "map_find m k = None \<longleftrightarrow> k \<notin> fst ` set m"
  by (induction m k rule: map_find.induct) auto

lemma map_find_less: "\<forall>p \<in> set m. j < fst p \<Longrightarrow> k \<le> j \<Longrightarrow> map_find m k = None"
  by (fastforce simp: map_find_None)

lemma map_find_Some: "map_ok m \<Longrightarrow> map_find m k = Some v \<longleftrightarrow> (k, v) \<in> set m"
  by (induction m k rule: map_find.induct) force+

lemma keys_map_insert [simp]: "fst ` set (map_insert h m v) = insert (h v) (fst ` set m)"
  by (induction h m v rule: map_insert.induct) auto

lemma set_map_insert_subset: "set (map_insert h m v) \<subseteq> insert (h v, v) (set m)"
  by (induction h m v rule: map_insert.induct) auto

lemma map_ok_insert: "map_ok m \<Longrightarrow> map_ok (map_insert h m v)"
proof (induction h m v rule: map_insert.induct)
  case (2 h k w m item)
  then show ?case
    using set_map_insert_subset [of h m item] by (fastforce simp: not_less)
qed simp

lemma map_find_insert:
  "map_ok m \<Longrightarrow> map_find (map_insert h m v) k =
    (if k = h v \<and> map_find m (h v) = None then Some v else map_find m k)"
proof (induction h m v rule: map_insert.induct)
  case (2 h k0 w m item)
  show ?case
  proof (cases "h item < k0")
    case True
    with 2 have "map_find m (h item) = None" by (intro map_find_less [of m k0]) auto
    with True show ?thesis by auto
  next
    case False
    with 2 show ?thesis by auto
  qed
qed simp

lemma map_remove_fst: "fst (map_remove m k) = map_find m k"
  by (induction m k rule: map_remove.induct) auto

lemma set_map_remove: "map_ok m \<Longrightarrow> set (snd (map_remove m k)) = {p \<in> set m. fst p \<noteq> k}"
  by (induction m k rule: map_remove.induct) force+

lemma map_ok_remove: "map_ok m \<Longrightarrow> map_ok (snd (map_remove m k))"
  by (induction m k rule: map_remove.induct) (auto simp: set_map_remove)

lemma map_find_remove:
  "map_ok m \<Longrightarrow> map_find (snd (map_remove m k)) j = (if j = k then None else map_find m j)"
  by (induction m k rule: map_remove.induct) (force simp: map_find_None)+

text \<open>\<open>map_next\<close> walks the map in key order, from NULL to the end, as the callers' loops do.\<close>

lemma map_next_None: "map_ok m \<Longrightarrow> map_next m k = None \<longleftrightarrow> (\<forall>p \<in> set m. fst p \<le> k)"
  by (induction m k rule: map_next.induct) (auto simp: not_less intro: less_imp_le)

lemma map_next_Some:
  "map_ok m \<Longrightarrow> map_next m k = Some v \<Longrightarrow>
    \<exists>j. (j, v) \<in> set m \<and> k < j \<and> (\<forall>p \<in> set m. k < fst p \<longrightarrow> j \<le> fst p)"
proof (induction m k rule: map_next.induct)
  case (2 j w m k)
  show ?case
  proof (cases "k < j")
    case True
    with 2 show ?thesis by (force intro: less_imp_le)
  next
    case False
    with 2 show ?thesis by auto
  qed
qed simp

lemma map_before_upper_None:
  "map_ok m \<Longrightarrow> map_before_upper m k = None \<longleftrightarrow> (\<forall>p \<in> set m. k < fst p)"
  by (induction m k rule: map_before_upper.induct) (auto split: option.splits)

lemma map_before_upper_Some:
  "map_ok m \<Longrightarrow> map_before_upper m k = Some v \<Longrightarrow>
    \<exists>j. (j, v) \<in> set m \<and> j \<le> k \<and> (\<forall>p \<in> set m. fst p \<le> k \<longrightarrow> fst p \<le> j)"
proof (induction m k rule: map_before_upper.induct)
  case (2 j w m k)
  then have le: "\<not> k < j" and ok: "map_ok m" by (auto split: if_splits)
  show ?case
  proof (cases "map_before_upper m k")
    case None
    with ok have "\<forall>p \<in> set m. k < fst p" using map_before_upper_None [of m k] by blast
    with 2 None le show ?thesis by (intro exI [of _ j]) (auto simp: not_less)
  next
    case (Some u)
    with 2 le have "u = v" by simp
    with 2 ok le Some obtain i where i: "(i, v) \<in> set m" "i \<le> k"
      "\<forall>p \<in> set m. fst p \<le> k \<longrightarrow> fst p \<le> i" by auto
    with 2 show ?thesis by (intro exI [of _ i]) (auto intro: less_imp_le)
  qed
qed simp

section \<open>The set with a comparator\<close>

text \<open>
  \<open>std::set<ITEM, CMP>\<close>: two elements that neither precedes are the same element; the elements
  are kept in the comparator's order.
\<close>

definition set_same :: "('a \<Rightarrow> 'a \<Rightarrow> bool) \<Rightarrow> 'a \<Rightarrow> 'a \<Rightarrow> bool" where
  "set_same lt x y \<longleftrightarrow> \<not> lt x y \<and> \<not> lt y x"

fun set_insert :: "('a \<Rightarrow> 'a \<Rightarrow> bool) \<Rightarrow> 'a list \<Rightarrow> 'a \<Rightarrow> 'a list" where
  "set_insert lt [] x = [x]"
| "set_insert lt (y # ys) x =
     (if lt x y then x # y # ys else if set_same lt x y then y # ys else y # set_insert lt ys x)"

fun set_find :: "('a \<Rightarrow> 'a \<Rightarrow> bool) \<Rightarrow> 'a list \<Rightarrow> 'a \<Rightarrow> 'a option" where
  "set_find lt [] x = None"
| "set_find lt (y # ys) x = (if set_same lt x y then Some y else set_find lt ys x)"

fun set_remove :: "('a \<Rightarrow> 'a \<Rightarrow> bool) \<Rightarrow> 'a list \<Rightarrow> 'a \<Rightarrow> 'a option \<times> 'a list" where
  "set_remove lt [] x = (None, [])"
| "set_remove lt (y # ys) x =
     (if set_same lt x y then (Some y, ys)
      else (fst (set_remove lt ys x), y # snd (set_remove lt ys x)))"

section \<open>What the tables have in common\<close>

text \<open>
  A table of items under their handles: what a look-up returns after an insertion of a fresh
  handle and after a removal, and the invariant the operations keep.
\<close>

locale handle_table =
  fixes key :: "'v \<Rightarrow> 'k"
    and ins :: "'m \<Rightarrow> 'v \<Rightarrow> 'm"
    and rem :: "'m \<Rightarrow> 'k \<Rightarrow> 'v option \<times> 'm"
    and look :: "'m \<Rightarrow> 'k \<Rightarrow> 'v option"
    and ok :: "'m \<Rightarrow> bool"
  assumes ins_ok: "ok m \<Longrightarrow> look m (key v) = None \<Longrightarrow> ok (ins m v)"
    and look_ins: "ok m \<Longrightarrow> look m (key v) = None \<Longrightarrow>
      look (ins m v) k = (if k = key v then Some v else look m k)"
    and rem_ok: "ok m \<Longrightarrow> ok (snd (rem m k))"
    and rem_fst: "ok m \<Longrightarrow> fst (rem m k) = look m k"
    and look_rem: "ok m \<Longrightarrow> look (snd (rem m k)) j = (if j = k then None else look m j)"
begin

lemma look_ins_same: "ok m \<Longrightarrow> look m (key v) = None \<Longrightarrow> look (ins m v) (key v) = Some v"
  by (simp add: look_ins)

lemma rem_ins_roundtrip:
  assumes "ok m" and "look m (key v) = None"
  shows "fst (rem (ins m v) (key v)) = Some v \<and> look (snd (rem (ins m v) (key v))) = look m"
  using assms by (auto simp: rem_fst look_rem look_ins ins_ok fun_eq_iff)

text \<open>The way an entry is replaced: removed, then inserted again.\<close>

lemma replace_ok: "ok m \<Longrightarrow> ok (ins (snd (rem m (key v))) v)"
  by (simp add: ins_ok rem_ok look_rem)

lemma look_replace:
  "ok m \<Longrightarrow> look (ins (snd (rem m (key v))) v) k = (if k = key v then Some v else look m k)"
  by (simp add: look_ins rem_ok look_rem)

end

text \<open>The maps, moreover, keep what is already there.\<close>

locale keeping_table = handle_table +
  assumes ins_present: "ok m \<Longrightarrow> look m (key v) = Some w \<Longrightarrow> ins m v = m"
begin

lemma ins_ok_any: "ok m \<Longrightarrow> ok (ins m v)"
  by (cases "look m (key v)") (simp_all add: ins_ok ins_present)

lemma look_ins_any:
  "ok m \<Longrightarrow> look (ins m v) k =
    (if k = key v then Some (case look m (key v) of None \<Rightarrow> v | Some w \<Rightarrow> w) else look m k)"
  by (cases "look m (key v)") (simp_all add: look_ins ins_present)

lemma ins_idem: "ok m \<Longrightarrow> ins (ins m v) v = ins m v"
  by (cases "look m (key v)") (simp_all add: ins_present ins_ok look_ins)

end

interpretation ll: handle_table h "ll_insert h" "ll_remove h" "ll_find h" "ll_ok h"
  for h :: "'i \<Rightarrow> 'h::linorder"
  by unfold_locales
    (simp_all add: ll_ok_insert ll_find_insert ll_ok_remove ll_remove_fst ll_find_remove)

interpretation uno: keeping_table h "unomap_insert h" unomap_remove unomap_find "\<lambda>_. True"
  for h :: "'v \<Rightarrow> 'k"
  by unfold_locales
    (auto simp: unomap_insert_def unomap_remove_def unomap_find_def split: option.splits)

lemma map_insert_present: "map_ok m \<Longrightarrow> map_find m (h v) = Some w \<Longrightarrow> map_insert h m v = m"
  by (induction h m v rule: map_insert.induct) (auto simp: map_find_Some split: if_splits)

interpretation om: keeping_table h "map_insert h" map_remove map_find map_ok
  for h :: "'v \<Rightarrow> 'k::linorder"
  by unfold_locales
    (simp_all add: map_ok_insert map_find_insert map_ok_remove map_remove_fst map_find_remove
      map_insert_present)

end
