(* ===== verification/Detector_State.thy ===== *)
theory Detector_State
  imports Runtime Generic_Lists
begin

text \<open>
  The state of the tool: the metadata of \<open>src/include/meta_data_lists/\<close> (records with the fields
  of the C structs), the global lists of \<open>src/meta_data_lists/\<close>, the counters and flags of
  \<open>cl_interceptor.c\<close>, \<open>wrapper_utils.c\<close> and \<open>overflow_error.c\<close>, and what was printed. The
  \<open>cl_memobj\<close> and \<open>cl_svm_memobj\<close> structs, to which kernel arguments keep pointers, live in a heap
  of addresses; the other structs are only reached through the lists and are stored in them.
\<close>

section \<open>Metadata\<close>

record cl_memobj =
  m_handle :: cl_mem
  m_main_buff :: cl_mem
  m_context :: cl_context
  m_flags :: cl_mem_flags
  m_size :: u64
  m_host_ptr :: ptr
  m_ref_count :: u32
  m_is_image :: bool
  m_image_format :: cl_image_format
  m_image_desc :: cl_image_desc
  m_is_sub :: bool
  m_origin :: u64
  m_has_canary :: bool
  m_internal :: bool

text \<open>\<open>calloc(sizeof(cl_memobj), 1)\<close>.\<close>

definition zero_memobj :: cl_memobj where
  "zero_memobj =
     \<lparr>m_handle = 0, m_main_buff = 0, m_context = 0, m_flags = {}, m_size = 0, m_host_ptr = 0,
      m_ref_count = 0, m_is_image = False, m_image_format = zero_image_format,
      m_image_desc = zero_image_desc, m_is_sub = False, m_origin = 0, m_has_canary = False,
      m_internal = False\<rparr>"

record cl_svm_memobj =
  sv_handle :: ptr
  sv_main_buff :: ptr
  sv_context :: cl_context
  sv_flags :: cl_mem_flags
  sv_size :: u64
  sv_alignment :: u32
  sv_internal :: bool

text \<open>A kernel argument; \<open>ka_buffer\<close> and \<open>ka_svm_buffer\<close> are addresses in the heap.\<close>

record kernel_arg =
  ka_handle :: u32
  ka_size :: u64
  ka_value :: "u8 list option"
  ka_buffer :: "nat option"
  ka_svm_buffer :: "nat option"

record kernel_info =
  ki_handle :: cl_kernel
  ki_ref_count :: u32
  ki_arg_list :: "kernel_arg list"

record cl_evt_info =
  ev_handle :: cl_event
  ev_ref_count :: u32
  ev_internal_event :: cl_event

record commandQueueCache =
  qc_handle :: cl_context
  qc_cached_queue :: cl_command_queue
  qc_ref_count :: u32

record fg_svm_region =
  fg_base :: ptr
  fg_flags :: cl_mem_flags
  fg_size :: u64
  fg_alignment :: u32

text \<open>
  What a device check leaves for the time its results have been read (\<open>verif_info\<close> of
  \<open>gpu_check_utils.h\<close>): the arrays of results are on a heap, because two callbacks share them.
  \<open>Format_result\<close> is \<open>format_result_buff\<close> of \<open>single_buffer_cl_buffer.c\<close> with its \<open>clbk_cmpct_data\<close>.
\<close>

record verif_info =
  vi_kern_info :: cl_kernel
  vi_first_change :: nat
  vi_argMap :: "ptr list"
  vi_cmd_queue :: cl_command_queue
  vi_used_svm :: ptr
  vi_used_svm_is_clmem :: bool
  vi_dupe :: "u32 list"
  vi_backtrace_str :: "string option"

datatype checker_callback =
    Verify_callback cl_event verif_info
  | Format_result cl_event nat u32 cl_event

section \<open>What is printed\<close>

text \<open>
  One constructor for each message of the code, with the values it prints; the text around them
  is fixed.
\<close>

datatype msg =
    Header_error | Header_warning | Footer | Overflow_detected
  | Cl_wrapper_not_found string
  | Opencl_error cl_int
  | Log_begin | Log_complete | Log_total u64
  | Log_not_opened string
  | Kernel_info_missing
  | Memobj_missing ptr
  | Image_type_unknown
  | Svm_pointer_unknown
  | Cache_insert_failed
  | Device_from_queue_failed string | Image_support_failed string
  | Func_buffer string ptr | Func_svm string ptr
  | First_dimension int int int | Second_dimension int int | Third_dimension int
  | Api_overflow u32
  | Kernel_buffer string string | Kernel_svm string ptr
  | Write_overflow u32 | Write_underflow u32
  | Backtrace_line string
  | Duplicate_intro | Duplicate_arg u32 u32
  | Exit_because_of_overflow
  | Calloc_failed
  | Regions_missing bool bool
  | Memobj_not_found | Svm_memobj_not_found | Svm_alloc_failed
  | Build_error | Build_log string | No_build_log
  | Profiling_failed nat cl_int

section \<open>The state\<close>

record 'w det =
  world :: 'w
  environ :: env
  host_mem :: "ptr \<Rightarrow> u8"
  \<comment> \<open>heap of the metadata structs\<close>
  mobjs :: "nat \<Rightarrow> cl_memobj option"
  svobjs :: "nat \<Rightarrow> cl_svm_memobj option"
  next_obj :: nat
  \<comment> \<open>global lists\<close>
  cl_mem_alloc :: "cl_mem \<rightharpoonup> nat"
  cl_svm_alloc :: "(ptr \<times> nat) list"
  kern_list :: "(cl_kernel \<times> kernel_info) list"
  evt_list :: "cl_event \<rightharpoonup> cl_evt_info"
  cmd_queue_cache :: "cl_context \<rightharpoonup> commandQueueCache"
  allocated_fg_svms :: "cl_context \<rightharpoonup> (ptr \<rightharpoonup> fg_svm_region)"
  free_fg_svms :: "cl_context \<rightharpoonup> fg_svm_region list"
  \<comment> \<open>checker kernels, and checks whose results are still being read\<close>
  check_canary_kern :: cl_kernel
  check_canary_kern_no_svm :: cl_kernel
  check_img_canary_kern :: cl_kernel
  change_arrays :: "nat \<rightharpoonup> u32 list"
  check_callbacks :: "checker_callback list"
  \<comment> \<open>configuration and counters\<close>
  stats_flags :: u32
  internal_create :: bool
  canaryAccess :: bool
  total_user_mem :: u64
  total_overhead_mem :: u64
  high_user_mem :: u64
  high_overhead_mem :: u64
  current_user_mem :: u64
  current_overhead_mem :: u64
  \<comment> \<open>output\<close>
  err_out :: "msg list"
  log_out :: "msg list option"
  overflows_observed :: u64

text \<open>\<open>STATS_KERN_ENQ_TIME\<close>, \<open>STATS_CHECKER_TIME\<close> and \<open>STATS_MEM_OVERHEAD\<close>.\<close>

definition stats_mem :: "'w det \<Rightarrow> bool" where
  "stats_mem s \<longleftrightarrow> bit (stats_flags s) 2"

definition stats_checker :: "'w det \<Rightarrow> bool" where
  "stats_checker s \<longleftrightarrow> bit (stats_flags s) 1"

section \<open>Basic steps\<close>

text \<open>A call into the runtime, and a query of it.\<close>

definition call :: "('w \<Rightarrow> 'a \<times> 'w) \<Rightarrow> ('w det, 'a) prog" where
  "call f s = (case f (world s) of (r, w) \<Rightarrow> Inr (r, s\<lparr>world := w\<rparr>))"

text \<open>A call of an entry point without a test that it was found: a call through NULL otherwise.\<close>

definition real :: "'w ocl \<Rightarrow> string \<Rightarrow> ('w \<Rightarrow> 'a \<times> 'w) \<Rightarrow> ('w det, 'a) prog" where
  "real cl name f = (if loaded cl name then call f else fail Null_deref)"

definition query :: "('w \<Rightarrow> 'a) \<Rightarrow> ('w det, 'a) prog" where
  "query f s = Inr (f (world s), s)"

definition put_err :: "msg \<Rightarrow> ('w det, unit) prog" where
  "put_err m = modify (\<lambda>s. s\<lparr>err_out := err_out s @ [m]\<rparr>)"

text \<open>\<open>check_cl_error\<close>: anything but \<open>CL_SUCCESS\<close> ends the process with status -1.\<close>

definition check_cl_error :: "cl_int \<Rightarrow> ('w det, unit) prog" where
  "check_cl_error cl_err =
     (if cl_err \<noteq> CL_SUCCESS
      then andThen (put_err (Opencl_error cl_err)) (\<lambda>_. fail (Exit (-1)))
      else ret ())"

text \<open>\<open>CL_MSG("NOT FOUND!")\<close>: the entry point was not found when the library was loaded.\<close>

definition cl_msg_not_found :: "string \<Rightarrow> ('w det, unit) prog" where
  "cl_msg_not_found name = put_err (Cl_wrapper_not_found name)"

lemma call_run [simp]: "call f s = Inr (fst (f (world s)), s\<lparr>world := snd (f (world s))\<rparr>)"
  by (simp add: call_def split: prod.split)

lemma query_run [simp]: "query f s = Inr (f (world s), s)"
  by (simp add: query_def)

lemma andThen_call [simp]:
  "andThen (call f) g s = g (fst (f (world s))) (s\<lparr>world := snd (f (world s))\<rparr>)"
  by (simp add: andThen_def)

lemma andThen_query [simp]: "andThen (query f) g s = g (f (world s)) s"
  by (simp add: andThen_def)

lemma check_cl_error_ok [simp]: "check_cl_error CL_SUCCESS = ret ()"
  by (simp add: check_cl_error_def)

lemma check_cl_error_fails:
  "e \<noteq> CL_SUCCESS \<Longrightarrow>
    check_cl_error e s = Inl (Exit (-1), s\<lparr>err_out := err_out s @ [Opencl_error e]\<rparr>)"
  by (simp add: check_cl_error_def put_err_def)

section \<open>The list of \<open>cl_mem\<close> objects\<close>

definition mobj_handle :: "'w det \<Rightarrow> nat \<Rightarrow> cl_mem" where
  "mobj_handle s a = (case mobjs s a of None \<Rightarrow> 0 | Some m \<Rightarrow> m_handle m)"

text \<open>Reading and writing through a \<open>cl_memobj*\<close>; \<open>new_mobj\<close> is \<open>calloc\<close> and the assignments.\<close>

definition get_mobj :: "nat \<Rightarrow> ('w det, cl_memobj) prog" where
  "get_mobj a s = (case mobjs s a of None \<Rightarrow> Inl (Use_after_free, s) | Some m \<Rightarrow> Inr (m, s))"

definition set_mobj :: "nat \<Rightarrow> (cl_memobj \<Rightarrow> cl_memobj) \<Rightarrow> ('w det, unit) prog" where
  "set_mobj a f = modify (\<lambda>s. s\<lparr>mobjs := (mobjs s)(a := map_option f (mobjs s a))\<rparr>)"

definition new_mobj :: "cl_memobj \<Rightarrow> ('w det, nat) prog" where
  "new_mobj m s = Inr (next_obj s, s\<lparr>mobjs := (mobjs s)(next_obj s \<mapsto> m), next_obj := Suc (next_obj s)\<rparr>)"

definition cl_mem_insert :: "nat \<Rightarrow> ('w det, unit) prog" where
  "cl_mem_insert a =
     modify (\<lambda>s. s\<lparr>cl_mem_alloc := unomap_insert (mobj_handle s) (cl_mem_alloc s) a\<rparr>)"

definition cl_mem_remove :: "cl_mem \<Rightarrow> ('w det, nat option) prog" where
  "cl_mem_remove h s = (case unomap_remove (cl_mem_alloc s) h of
     (r, t) \<Rightarrow> Inr (r, s\<lparr>cl_mem_alloc := t\<rparr>))"

definition cl_mem_find :: "cl_mem \<Rightarrow> ('w det, nat option) prog" where
  "cl_mem_find h = gets (\<lambda>s. unomap_find (cl_mem_alloc s) h)"

definition cl_mem_delete :: "nat \<Rightarrow> ('w det, unit) prog" where
  "cl_mem_delete a = modify (\<lambda>s. s\<lparr>mobjs := (mobjs s)(a := None)\<rparr>)"

text \<open>\<open>cl_mem_find\<close> followed by a read of the object found, when one is found.\<close>

definition lookup_mobj :: "cl_mem \<Rightarrow> ('w det, (nat \<times> cl_memobj) option) prog" where
  "lookup_mobj h = andThen (cl_mem_find h) (\<lambda>r. case r of
       None \<Rightarrow> ret None
     | Some a \<Rightarrow> andThen (get_mobj a) (\<lambda>m. ret (Some (a, m))))"

section \<open>The list of SVM regions\<close>

definition svobj_handle :: "'w det \<Rightarrow> nat \<Rightarrow> ptr" where
  "svobj_handle s a = (case svobjs s a of None \<Rightarrow> 0 | Some m \<Rightarrow> sv_handle m)"

definition get_svobj :: "nat \<Rightarrow> ('w det, cl_svm_memobj) prog" where
  "get_svobj a s = (case svobjs s a of None \<Rightarrow> Inl (Use_after_free, s) | Some m \<Rightarrow> Inr (m, s))"

definition set_svobj :: "nat \<Rightarrow> (cl_svm_memobj \<Rightarrow> cl_svm_memobj) \<Rightarrow> ('w det, unit) prog" where
  "set_svobj a f = modify (\<lambda>s. s\<lparr>svobjs := (svobjs s)(a := map_option f (svobjs s a))\<rparr>)"

definition new_svobj :: "cl_svm_memobj \<Rightarrow> ('w det, nat) prog" where
  "new_svobj m s =
     Inr (next_obj s, s\<lparr>svobjs := (svobjs s)(next_obj s \<mapsto> m), next_obj := Suc (next_obj s)\<rparr>)"

definition cl_svm_mem_insert :: "nat \<Rightarrow> ('w det, unit) prog" where
  "cl_svm_mem_insert a =
     modify (\<lambda>s. s\<lparr>cl_svm_alloc := map_insert (svobj_handle s) (cl_svm_alloc s) a\<rparr>)"

definition cl_svm_mem_remove :: "ptr \<Rightarrow> ('w det, nat option) prog" where
  "cl_svm_mem_remove h s = (case map_remove (cl_svm_alloc s) h of
     (r, t) \<Rightarrow> Inr (r, s\<lparr>cl_svm_alloc := t\<rparr>))"

text \<open>
  \<open>cl_svm_mem_find\<close>: the region that starts last among those not after the pointer, if the
  pointer is not further from its start than its size. The comparison is \<open>ret->size < difference\<close>,
  so the address one past the end still belongs to the region.
\<close>

definition svm_find :: "(nat \<Rightarrow> cl_svm_memobj option) \<Rightarrow> (ptr \<times> nat) list \<Rightarrow> ptr \<Rightarrow> nat option" where
  "svm_find objs tbl p = (case map_before_upper tbl p of
       None \<Rightarrow> None
     | Some a \<Rightarrow> (case objs a of
           None \<Rightarrow> None
         | Some m \<Rightarrow>
             if p < sv_handle m then None
             else if sv_size m < p - sv_handle m then None
             else Some a))"

definition cl_svm_mem_find :: "ptr \<Rightarrow> ('w det, nat option) prog" where
  "cl_svm_mem_find p s = (case map_before_upper (cl_svm_alloc s) p of
       None \<Rightarrow> Inr (None, s)
     | Some a \<Rightarrow> (case svobjs s a of
           None \<Rightarrow> Inl (Use_after_free, s)
         | Some _ \<Rightarrow> Inr (svm_find (svobjs s) (cl_svm_alloc s) p, s)))"

definition cl_svm_mem_next :: "ptr \<Rightarrow> ('w det, nat option) prog" where
  "cl_svm_mem_next p = gets (\<lambda>s. map_next (cl_svm_alloc s) p)"

definition cl_svm_mem_delete :: "nat \<Rightarrow> ('w det, unit) prog" where
  "cl_svm_mem_delete a = modify (\<lambda>s. s\<lparr>svobjs := (svobjs s)(a := None)\<rparr>)"

section \<open>The lists of kernels, arguments, events and queues\<close>

definition karg_insert :: "kernel_arg list \<Rightarrow> kernel_arg \<Rightarrow> kernel_arg list" where
  "karg_insert = ll_insert ka_handle"

definition karg_remove :: "kernel_arg list \<Rightarrow> u32 \<Rightarrow> kernel_arg option \<times> kernel_arg list" where
  "karg_remove = ll_remove ka_handle"

definition karg_find :: "kernel_arg list \<Rightarrow> u32 \<Rightarrow> kernel_arg option" where
  "karg_find = ll_find ka_handle"

definition kinfo_insert :: "kernel_info \<Rightarrow> ('w det, unit) prog" where
  "kinfo_insert ki = modify (\<lambda>s. s\<lparr>kern_list := map_insert ki_handle (kern_list s) ki\<rparr>)"

definition kinfo_remove :: "cl_kernel \<Rightarrow> ('w det, kernel_info option) prog" where
  "kinfo_remove h s = (case map_remove (kern_list s) h of
     (r, t) \<Rightarrow> Inr (r, s\<lparr>kern_list := t\<rparr>))"

definition kinfo_find :: "cl_kernel \<Rightarrow> ('w det, kernel_info option) prog" where
  "kinfo_find h = gets (\<lambda>s. map_find (kern_list s) h)"

text \<open>An assignment through the pointer \<open>kinfo_find\<close> returned.\<close>

fun map_assign :: "('k \<times> 'v) list \<Rightarrow> 'k \<Rightarrow> 'v \<Rightarrow> ('k \<times> 'v) list" where
  "map_assign [] k v = []"
| "map_assign ((j, w) # m) k v = (if j = k then (j, v) # m else (j, w) # map_assign m k v)"

definition kinfo_assign :: "cl_kernel \<Rightarrow> kernel_info \<Rightarrow> ('w det, unit) prog" where
  "kinfo_assign h ki = modify (\<lambda>s. s\<lparr>kern_list := map_assign (kern_list s) h ki\<rparr>)"

definition cl_event_insert :: "cl_evt_info \<Rightarrow> ('w det, unit) prog" where
  "cl_event_insert i = modify (\<lambda>s. s\<lparr>evt_list := unomap_insert ev_handle (evt_list s) i\<rparr>)"

definition cl_event_remove :: "cl_event \<Rightarrow> ('w det, cl_evt_info option) prog" where
  "cl_event_remove h s = (case unomap_remove (evt_list s) h of
     (r, t) \<Rightarrow> Inr (r, s\<lparr>evt_list := t\<rparr>))"

definition cl_event_find :: "cl_event \<Rightarrow> ('w det, cl_evt_info option) prog" where
  "cl_event_find h = gets (\<lambda>s. unomap_find (evt_list s) h)"

definition cl_event_assign :: "cl_event \<Rightarrow> cl_evt_info \<Rightarrow> ('w det, unit) prog" where
  "cl_event_assign h i = modify (\<lambda>s. s\<lparr>evt_list := (evt_list s)(h \<mapsto> i)\<rparr>)"

definition commandQueueCache_insert :: "commandQueueCache \<Rightarrow> ('w det, unit) prog" where
  "commandQueueCache_insert q =
     modify (\<lambda>s. s\<lparr>cmd_queue_cache := unomap_insert qc_handle (cmd_queue_cache s) q\<rparr>)"

definition commandQueueCache_find :: "cl_context \<Rightarrow> ('w det, commandQueueCache option) prog" where
  "commandQueueCache_find h = gets (\<lambda>s. unomap_find (cmd_queue_cache s) h)"

definition commandQueueCache_assign :: "cl_context \<Rightarrow> commandQueueCache \<Rightarrow> ('w det, unit) prog" where
  "commandQueueCache_assign h q =
     modify (\<lambda>s. s\<lparr>cmd_queue_cache := (cmd_queue_cache s)(h \<mapsto> q)\<rparr>)"

lemma map_find_assign:
  "map_find (map_assign m k v) j = (if j = k \<and> map_find m k \<noteq> None then Some v else map_find m j)"
  by (induction m k v rule: map_assign.induct) auto

lemma fst_map_assign [simp]: "map fst (map_assign m k v) = map fst m"
  by (induction m k v rule: map_assign.induct) auto

lemma map_ok_assign [simp]: "map_ok (map_assign m k v) = map_ok m"
  by (simp add: map_ok_def)

text \<open>How each basic step acts, for the proofs that run a wrapper.\<close>

named_theorems runs

lemma unomap_remove_eq: "unomap_remove m k = (m k, m(k := None))"
  by (auto simp: unomap_remove_def fun_upd_idem split: option.splits)

lemma list_step_runs [runs]:
  "lookup_mobj h s = (case cl_mem_alloc s h of None \<Rightarrow> Inr (None, s)
     | Some a \<Rightarrow> (case mobjs s a of None \<Rightarrow> Inl (Use_after_free, s) | Some m \<Rightarrow> Inr (Some (a, m), s)))"
  "cl_mem_find h s = Inr (cl_mem_alloc s h, s)"
  "cl_mem_remove h s = Inr (cl_mem_alloc s h, s\<lparr>cl_mem_alloc := (cl_mem_alloc s)(h := None)\<rparr>)"
  "new_mobj m s =
     Inr (next_obj s, s\<lparr>mobjs := (mobjs s)(next_obj s \<mapsto> m), next_obj := Suc (next_obj s)\<rparr>)"
  "kinfo_find k s = Inr (map_find (kern_list s) k, s)"
  "cl_event_find v s = Inr (evt_list s v, s)"
  "commandQueueCache_find c s = Inr (cmd_queue_cache s c, s)"
  by (auto simp: lookup_mobj_def cl_mem_find_def unomap_find_def get_mobj_def andThen_def
      cl_mem_remove_def unomap_remove_eq new_mobj_def kinfo_find_def cl_event_find_def
      commandQueueCache_find_def split: option.splits)

lemma list_step_assigns [runs]:
  "set_mobj a f s = Inr ((), s\<lparr>mobjs := (mobjs s)(a := map_option f (mobjs s a))\<rparr>)"
  "cl_mem_insert a s = Inr ((), s\<lparr>cl_mem_alloc := unomap_insert (mobj_handle s) (cl_mem_alloc s) a\<rparr>)"
  "cl_mem_delete a s = Inr ((), s\<lparr>mobjs := (mobjs s)(a := None)\<rparr>)"
  "put_err m s = Inr ((), s\<lparr>err_out := err_out s @ [m]\<rparr>)"
  "kinfo_insert ki s = Inr ((), s\<lparr>kern_list := map_insert ki_handle (kern_list s) ki\<rparr>)"
  "kinfo_assign k ki s = Inr ((), s\<lparr>kern_list := map_assign (kern_list s) k ki\<rparr>)"
  "cl_event_insert i s = Inr ((), s\<lparr>evt_list := unomap_insert ev_handle (evt_list s) i\<rparr>)"
  "cl_event_assign v i s = Inr ((), s\<lparr>evt_list := (evt_list s)(v \<mapsto> i)\<rparr>)"
  by (simp_all add: set_mobj_def cl_mem_insert_def cl_mem_delete_def put_err_def kinfo_insert_def
      kinfo_assign_def cl_event_insert_def cl_event_assign_def)

end
