(* ===== verification/Image_Geometry.thy ===== *)
theory Image_Geometry
  imports Util_Functions
begin

text \<open>
  The geometry of image canaries: \<open>get_image_dimensions\<close> and \<open>get_image_canary_size\<close> of
  \<open>src/utils/cl_utils.c\<close>, \<open>expandLastDimForFill\<close> of \<open>wrapper_utils.c\<close>, the regions the checkers
  read and the offsets at which they store them (\<open>cpu_check_cl_image.c\<close>, and the same in
  \<open>copy_image_canaries\<close> of \<open>gpu_check_utils.c\<close>), and \<open>getImageCanaryXYZ\<close> of \<open>overflow_error.c\<close>,
  which maps an offset back to a place in the image. The lemmas show that the reads tile the
  flattened array exactly, and that the last function inverts the layout.
\<close>

section \<open>Dimensions\<close>

text \<open>The image as it sits on the device (\<open>lim\<close>), and without its canaries (\<open>dat\<close>).\<close>

record image_dims =
  i_lim :: u32
  j_lim :: u32
  k_lim :: u32
  i_dat :: u32
  j_dat :: u32
  k_dat :: u32

definition get_image_dimensions :: "cl_image_desc \<Rightarrow> image_dims" where
  "get_image_dimensions desc =
     (let il = (ucast (image_width desc) :: u32);
          jl = (if image_type desc = CL_MEM_OBJECT_IMAGE1D_ARRAY
                then ucast (image_array_size desc) else ucast (image_height desc));
          kl = (if image_type desc = CL_MEM_OBJECT_IMAGE2D_ARRAY
                then ucast (image_array_size desc) else ucast (image_depth desc))
      in \<lparr>i_lim = il, j_lim = jl, k_lim = kl,
          i_dat = (if il = 1 then 1 else il - IMAGE_POISON_WIDTH),
          j_dat = (if jl = 1 then 1 else jl - IMAGE_POISON_HEIGHT),
          k_dat = (if kl = 1 then 1 else kl - IMAGE_POISON_DEPTH)\<rparr>)"

text \<open>
  The bytes of the flattened canary array; \<open>None\<close> is the \<open>exit(-1)\<close> of an unknown image type.
  The cases of the \<open>switch\<close> fall through. The sums added to the 64-bit length are computed in 32
  bits.
\<close>

definition get_image_canary_size ::
  "cl_mem_object_type \<Rightarrow> u64 \<Rightarrow> u32 \<Rightarrow> u32 \<Rightarrow> u32 \<Rightarrow> u32 \<Rightarrow> u64 option" where
  "get_image_canary_size ty data_size il jl jd kd =
     (let transfer_len = (ucast kd :: u64) * ucast jd * IMAGE_POISON_WIDTH;
          third = (ucast (IMAGE_POISON_DEPTH * jl * il :: u32) :: u64);
          second = (ucast (kd * IMAGE_POISON_HEIGHT * il :: u32) :: u64)
      in case ty of
          CL_MEM_OBJECT_IMAGE2D_ARRAY \<Rightarrow> Some ((transfer_len + third + second) * data_size)
        | CL_MEM_OBJECT_IMAGE3D \<Rightarrow> Some ((transfer_len + third + second) * data_size)
        | CL_MEM_OBJECT_IMAGE1D_ARRAY \<Rightarrow> Some ((transfer_len + second) * data_size)
        | CL_MEM_OBJECT_IMAGE2D \<Rightarrow> Some ((transfer_len + second) * data_size)
        | CL_MEM_OBJECT_IMAGE1D \<Rightarrow> Some (transfer_len * data_size)
        | CL_MEM_OBJECT_IMAGE1D_BUFFER \<Rightarrow> Some (transfer_len * data_size)
        | Other_mem_object _ \<Rightarrow> None)"

text \<open>Room for the canaries in each dimension of the image; \<open>None\<close>: the unknown type exits.\<close>

definition expandLastDimForFill :: "cl_image_desc \<Rightarrow> cl_image_desc option" where
  "expandLastDimForFill d = (case image_type d of
       CL_MEM_OBJECT_IMAGE1D \<Rightarrow> Some (d\<lparr>image_width := image_width d + IMAGE_POISON_WIDTH\<rparr>)
     | CL_MEM_OBJECT_IMAGE1D_BUFFER \<Rightarrow>
         Some (d\<lparr>image_width := image_width d + IMAGE_POISON_WIDTH\<rparr>)
     | CL_MEM_OBJECT_IMAGE1D_ARRAY \<Rightarrow>
         Some (d\<lparr>image_width := image_width d + IMAGE_POISON_WIDTH,
                 image_array_size := image_array_size d + IMAGE_POISON_HEIGHT\<rparr>)
     | CL_MEM_OBJECT_IMAGE2D \<Rightarrow>
         Some (d\<lparr>image_width := image_width d + IMAGE_POISON_WIDTH,
                 image_height := image_height d + IMAGE_POISON_HEIGHT\<rparr>)
     | CL_MEM_OBJECT_IMAGE2D_ARRAY \<Rightarrow>
         Some (d\<lparr>image_width := image_width d + IMAGE_POISON_WIDTH,
                 image_height := image_height d + IMAGE_POISON_HEIGHT,
                 image_array_size := image_array_size d + IMAGE_POISON_DEPTH\<rparr>)
     | CL_MEM_OBJECT_IMAGE3D \<Rightarrow>
         Some (d\<lparr>image_width := image_width d + IMAGE_POISON_WIDTH,
                 image_height := image_height d + IMAGE_POISON_HEIGHT,
                 image_depth := image_depth d + IMAGE_POISON_DEPTH\<rparr>)
     | Other_mem_object _ \<Rightarrow> None)"

section \<open>What is read, and where it is stored\<close>

text \<open>
  A read: the origin and region in the image, and the byte offset in the flattened array. The
  inner products are 32-bit, the product with the element size is 64-bit.
\<close>

type_synonym canary_read = "(u64 \<times> u64 \<times> u64) \<times> (u64 \<times> u64 \<times> u64) \<times> u64"

definition end_of_row :: "image_dims \<Rightarrow> u64 \<Rightarrow> u32 \<Rightarrow> u32 \<Rightarrow> canary_read" where
  "end_of_row d data_size j k =
     ((ucast (i_dat d), ucast j, ucast k), (IMAGE_POISON_WIDTH, 1, 1),
      ucast (k * (j_dat d * IMAGE_POISON_WIDTH + IMAGE_POISON_HEIGHT * i_lim d)
        + j * IMAGE_POISON_WIDTH :: u32) * data_size)"

definition end_of_slice :: "image_dims \<Rightarrow> u64 \<Rightarrow> u32 \<Rightarrow> canary_read" where
  "end_of_slice d data_size k =
     ((0, ucast (j_dat d), ucast k), (ucast (i_lim d), IMAGE_POISON_HEIGHT, 1),
      ucast (k * IMAGE_POISON_HEIGHT * i_lim d
        + (k + 1) * (j_dat d * IMAGE_POISON_WIDTH) :: u32) * data_size)"

definition canary_slice :: "image_dims \<Rightarrow> u64 \<Rightarrow> canary_read" where
  "canary_slice d data_size =
     ((0, 0, ucast (k_dat d)), (ucast (i_lim d), ucast (j_lim d), IMAGE_POISON_DEPTH),
      ucast (k_dat d * IMAGE_POISON_HEIGHT * i_lim d
        + k_dat d * j_dat d * IMAGE_POISON_WIDTH :: u32) * data_size)"

text \<open>The counters of \<open>for(uint32_t k = 0; k < n; k++)\<close>.\<close>

definition upto32 :: "u32 \<Rightarrow> u32 list" where
  "upto32 n = map of_nat [0..<unat n]"

text \<open>The reads, in the order of the loops.\<close>

definition canary_reads :: "image_dims \<Rightarrow> u64 \<Rightarrow> canary_read list" where
  "canary_reads d data_size =
     concat (map (\<lambda>k.
         (if 1 < i_lim d then map (\<lambda>j. end_of_row d data_size j k) (upto32 (j_dat d)) else [])
         @ (if 1 < j_lim d then [end_of_slice d data_size k] else []))
       (upto32 (k_dat d)))
     @ (if 1 < k_lim d then [canary_slice d data_size] else [])"

definition read_bytes :: "u64 \<Rightarrow> canary_read \<Rightarrow> nat" where
  "read_bytes data_size r = (case r of (_, (w, h, dp), _) \<Rightarrow>
     unat w * unat h * unat dp * unat data_size)"

definition read_offset :: "canary_read \<Rightarrow> nat" where
  "read_offset r = (case r of (_, _, off) \<Rightarrow> unat off)"

text \<open>The number of reads, as \<open>number_of_image_reads\<close> of \<open>cpu_check_cl_image.c\<close> computes it.\<close>

definition number_of_image_reads :: "u32 \<Rightarrow> u32 \<Rightarrow> u32" where
  "number_of_image_reads jd kd = kd * jd + kd + 1"

section \<open>The layout over natural numbers\<close>

text \<open>\<open>tiles a ps b\<close>: the intervals \<open>ps\<close> (offset, length) follow one another from \<open>a\<close> to \<open>b\<close>.\<close>

fun tiles :: "nat \<Rightarrow> (nat \<times> nat) list \<Rightarrow> nat \<Rightarrow> bool" where
  "tiles a [] b \<longleftrightarrow> a = b"
| "tiles a ((off, n) # ps) b \<longleftrightarrow> off = a \<and> tiles (a + n) ps b"

lemma tiles_append: "tiles a ps b \<Longrightarrow> tiles b qs c \<Longrightarrow> tiles a (ps @ qs) c"
  by (induction a ps b rule: tiles.induct) auto

lemma tiles_rows:
  "tiles a (map (\<lambda>j. (a + j * n, n)) [0..<m]) (a + m * n)"
proof (induction m)
  case (Suc m)
  have "tiles (a + m * n) [(a + m * n, n)] (a + Suc m * n)" by simp
  from tiles_append [OF Suc this] show ?case by simp
qed simp

lemma tiles_blocks:
  assumes "\<And>k. k < m \<Longrightarrow> tiles (k * n) (f k) (Suc k * n)"
  shows "tiles 0 (concat (map f [0..<m])) (m * n)"
  using assms
proof (induction m)
  case (Suc m)
  then have "tiles 0 (concat (map f [0..<m])) (m * n)" by simp
  moreover from Suc have "tiles (m * n) (f m) (Suc m * n)" by simp
  ultimately show ?case by (auto dest: tiles_append)
qed simp

text \<open>A tiling covers every byte exactly once.\<close>

lemma tiles_cover:
  "tiles a ps b \<Longrightarrow> a \<le> x \<Longrightarrow> x < b \<Longrightarrow> \<exists>p \<in> set ps. fst p \<le> x \<and> x < fst p + snd p"
  by (induction a ps b rule: tiles.induct) (fastforce simp: not_less)+

lemma tiles_bounds: "tiles a ps b \<Longrightarrow> p \<in> set ps \<Longrightarrow> a \<le> fst p \<and> fst p + snd p \<le> b"
proof (induction a ps b rule: tiles.induct)
  case (2 a off n ps b)
  then have t: "tiles (a + n) ps b" and "off = a" by auto
  have le: "a + n \<le> b"
    using t by (induction "a + n" ps b arbitrary: a n rule: tiles.induct) fastforce+
  from 2 le show ?case by force
qed simp

lemma tiles_disjoint:
  "tiles a ps b \<Longrightarrow> i < length ps \<Longrightarrow> j < length ps \<Longrightarrow> i < j \<Longrightarrow>
    fst (ps ! i) + snd (ps ! i) \<le> fst (ps ! j)"
proof (induction a ps b arbitrary: i j rule: tiles.induct)
  case (2 a off n ps b)
  then have t: "tiles (a + n) ps b" and off: "off = a" by auto
  from 2 obtain j' where j: "j = Suc j'" by (cases j) auto
  show ?case
  proof (cases i)
    case 0
    from 2 j have "ps ! j' \<in> set ps" by simp
    from tiles_bounds [OF t this] 0 j off show ?thesis by simp
  next
    case (Suc i')
    with 2 j t show ?thesis by simp
  qed
qed simp

text \<open>
  The dimensions the wrappers make: a width with its canary, a height and a depth with theirs or
  equal to 1, and a canary array whose element count fits 32 bits.
\<close>

definition canary_elems :: "image_dims \<Rightarrow> nat" where
  "canary_elems d =
     unat (k_dat d) * (unat (j_dat d) * 16 + (if 1 < j_lim d then 16 * unat (i_lim d) else 0))
     + (if 1 < k_lim d then 16 * unat (j_lim d) * unat (i_lim d) else 0)"

definition dims_ok :: "image_dims \<Rightarrow> bool" where
  "dims_ok d \<longleftrightarrow> 1 < i_lim d
     \<and> (j_lim d = 1 \<and> j_dat d = 1 \<and> k_lim d = 1 \<or> 1 < j_lim d)
     \<and> (k_lim d = 1 \<and> k_dat d = 1 \<or> 1 < k_lim d)
     \<and> canary_elems d < 2 ^ 32"

lemma unat_scaled:
  assumes "x = of_nat n" and "n < 2 ^ 32" and "unat ds \<le> 16"
  shows "unat (ucast (x :: u32) * (ds :: u64)) = n * unat ds"
proof -
  from assms have x: "unat (ucast x :: u64) = n"
    by (simp add: unat_ucast_wider unat_of_nat_eq)
  have "n * unat ds \<le> n * 16"
    using assms(3) by (rule mult_le_mono2)
  also have "n * 16 < 2 ^ 64" using assms(2) by simp
  finally have "n * unat ds < 2 ^ 64" .
  then show ?thesis using x by (subst unat_mult_fits) simp_all
qed

lemma map_upto32: "map f (upto32 n) = map (\<lambda>k. f (of_nat k)) [0..<unat n]"
  by (simp add: upto32_def)

lemma row_offset:
  assumes "unat ds \<le> 16"
    and "k * (unat (j_dat d) * 16 + 16 * unat (i_lim d)) + j * 16 < 2 ^ 32"
  shows "read_offset (end_of_row d ds (of_nat j) (of_nat k)) =
           (k * (unat (j_dat d) * 16 + 16 * unat (i_lim d)) + j * 16) * unat ds"
  unfolding end_of_row_def read_offset_def poison_defs prod.case
  by (rule unat_scaled [OF _ assms(2, 1)]) simp

lemma slice_offset:
  assumes "unat ds \<le> 16"
    and "k * 16 * unat (i_lim d) + (k + 1) * (unat (j_dat d) * 16) < 2 ^ 32"
  shows "read_offset (end_of_slice d ds (of_nat k)) =
           (k * 16 * unat (i_lim d) + (k + 1) * (unat (j_dat d) * 16)) * unat ds"
  unfolding end_of_slice_def read_offset_def poison_defs prod.case
  by (rule unat_scaled [OF _ assms(2, 1)]) (simp add: algebra_simps)

lemma depth_offset:
  assumes "unat ds \<le> 16"
    and "unat (k_dat d) * 16 * unat (i_lim d) + unat (k_dat d) * unat (j_dat d) * 16 < 2 ^ 32"
  shows "read_offset (canary_slice d ds) =
           (unat (k_dat d) * 16 * unat (i_lim d) + unat (k_dat d) * unat (j_dat d) * 16) * unat ds"
  unfolding canary_slice_def read_offset_def poison_defs prod.case
  by (rule unat_scaled [OF _ assms(2, 1)]) simp

lemma read_bytes_simps:
  "read_bytes ds (end_of_row d ds j k) = 16 * unat ds"
  "read_bytes ds (end_of_slice d ds k) = 16 * unat (i_lim d) * unat ds"
  "read_bytes ds (canary_slice d ds) = 16 * unat (j_lim d) * unat (i_lim d) * unat ds"
  by (simp_all add: read_bytes_def end_of_row_def end_of_slice_def canary_slice_def poison_defs
      unat_ucast_wider)

text \<open>The interval of a read in the flattened array, in bytes.\<close>

definition read_interval :: "u64 \<Rightarrow> canary_read \<Rightarrow> nat \<times> nat" where
  "read_interval ds r = (read_offset r, read_bytes ds r)"

text \<open>One slice of a 2- or 3-dimensional image: its rows, then the end of the slice.\<close>

lemma slice_tiles:
  assumes "unat ds \<le> 16" and "1 < i_lim d" and "1 < j_lim d"
    and "Suc k * (unat (j_dat d) * 16 + 16 * unat (i_lim d)) < 2 ^ 32"
  defines "n \<equiv> (unat (j_dat d) * 16 + 16 * unat (i_lim d)) * unat ds"
  shows "tiles (k * n) (map (read_interval ds)
    ((if 1 < i_lim d then map (\<lambda>j. end_of_row d ds j (of_nat k)) (upto32 (j_dat d)) else [])
     @ (if 1 < j_lim d then [end_of_slice d ds (of_nat k)] else []))) (Suc k * n)"
proof -
  have rows: "map (\<lambda>j. read_interval ds (end_of_row d ds j (of_nat k))) (upto32 (j_dat d)) =
      map (\<lambda>j. (k * n + j * (16 * unat ds), 16 * unat ds)) [0..<unat (j_dat d)]"
    unfolding map_upto32
  proof (rule map_cong [OF refl])
    fix j
    assume "j \<in> set [0..<unat (j_dat d)]"
    then have j: "j < unat (j_dat d)" by simp
    have "k * (unat (j_dat d) * 16 + 16 * unat (i_lim d)) + j * 16
        \<le> Suc k * (unat (j_dat d) * 16 + 16 * unat (i_lim d))"
      using j by simp
    with assms(4) have "k * (unat (j_dat d) * 16 + 16 * unat (i_lim d)) + j * 16 < 2 ^ 32"
      by linarith
    from row_offset [OF assms(1) this]
    show "read_interval ds (end_of_row d ds (of_nat j) (of_nat k)) =
        (k * n + j * (16 * unat ds), 16 * unat ds)"
      by (simp add: read_interval_def read_bytes_simps n_def algebra_simps)
  qed
  have "k * 16 * unat (i_lim d) + (k + 1) * (unat (j_dat d) * 16)
      \<le> Suc k * (unat (j_dat d) * 16 + 16 * unat (i_lim d))"
    by (simp add: algebra_simps)
  with assms(4) have fits: "k * 16 * unat (i_lim d) + (k + 1) * (unat (j_dat d) * 16) < 2 ^ 32"
    by linarith
  have last: "read_interval ds (end_of_slice d ds (of_nat k)) =
      (k * n + unat (j_dat d) * (16 * unat ds), 16 * unat (i_lim d) * unat ds)"
    using slice_offset [OF assms(1) fits]
    by (simp add: read_interval_def read_bytes_simps n_def algebra_simps)
  have "tiles (k * n + unat (j_dat d) * (16 * unat ds))
      [(k * n + unat (j_dat d) * (16 * unat ds), 16 * unat (i_lim d) * unat ds)] (Suc k * n)"
    by (simp add: n_def algebra_simps)
  from tiles_append [OF tiles_rows [of "k * n" "16 * unat ds" "unat (j_dat d)"] this]
  show ?thesis using assms(2, 3) by (simp add: rows last comp_def)
qed

lemma small_dims:
  assumes "unat ds \<le> 16" and "1 < i_lim d" and "j_lim d = 1" and "j_dat d = 1" and "k_lim d = 1" and "k_dat d = 1"
  shows "map (read_interval ds) (canary_reads d ds) = [(0, 16 * unat ds)]"
proof -
  have "read_interval ds (end_of_row d ds (of_nat 0) (of_nat 0)) = (0, 16 * unat ds)"
    using row_offset [OF assms(1), of 0 d 0] by (simp add: read_interval_def read_bytes_simps)
  then show ?thesis using assms by (simp add: canary_reads_def upto32_def)
qed

lemma canary_reads_tiles:
  assumes ok: "dims_ok d" and ds: "unat ds \<le> 16"
  shows "tiles 0 (map (read_interval ds) (canary_reads d ds)) (canary_elems d * unat ds)"
proof (cases "1 < j_lim d")
  case False
  with ok have one: "j_lim d = 1" "j_dat d = 1" "k_lim d = 1" "1 < i_lim d" "k_dat d = 1"
    by (auto simp: dims_ok_def)
  with ds show ?thesis by (simp add: small_dims canary_elems_def)
next
  case True
  define n where "n = unat (j_dat d) * 16 + 16 * unat (i_lim d)"
  define f where "f k = (if 1 < i_lim d then map (\<lambda>j. end_of_row d ds j k) (upto32 (j_dat d)) else [])
     @ (if 1 < j_lim d then [end_of_slice d ds k] else [])" for k
  from ok True have fits: "unat (k_dat d) * n + (if 1 < k_lim d then 16 * unat (j_lim d) * unat (i_lim d) else 0) < 2 ^ 32"
    by (simp add: dims_ok_def canary_elems_def n_def)
  have "tiles (k * (n * unat ds)) (map (read_interval ds) (f (of_nat k))) (Suc k * (n * unat ds))"
    if "k < unat (k_dat d)" for k
  proof -
    from that have "Suc k * n \<le> unat (k_dat d) * n" by (intro mult_le_mono1) simp
    with fits have "Suc k * n < 2 ^ 32" by linarith
    with slice_tiles [OF ds _ True, of k] ok show ?thesis
      by (simp add: n_def f_def dims_ok_def)
  qed
  from tiles_blocks [OF this]
  have slices: "tiles 0 (map (read_interval ds) (concat (map f (upto32 (k_dat d)))))
      (unat (k_dat d) * (n * unat ds))"
    by (simp add: map_upto32 map_concat comp_def)
  have reads: "canary_reads d ds = concat (map f (upto32 (k_dat d)))
      @ (if 1 < k_lim d then [canary_slice d ds] else [])"
    by (simp add: canary_reads_def f_def [abs_def])
  show ?thesis
  proof (cases "1 < k_lim d")
    case True
    have "unat (k_dat d) * 16 * unat (i_lim d) + unat (k_dat d) * unat (j_dat d) * 16 = unat (k_dat d) * n"
      by (simp add: n_def algebra_simps)
    with fits depth_offset [OF ds, of d]
    have "read_interval ds (canary_slice d ds) =
        (unat (k_dat d) * (n * unat ds), 16 * unat (j_lim d) * unat (i_lim d) * unat ds)"
      by (simp add: read_interval_def read_bytes_simps)
    then have "tiles (unat (k_dat d) * (n * unat ds)) (map (read_interval ds) [canary_slice d ds])
        (canary_elems d * unat ds)"
      using True \<open>1 < j_lim d\<close> by (simp add: canary_elems_def n_def algebra_simps)
    from tiles_append [OF slices this] True show ?thesis by (simp add: reads)
  next
    case False
    with slices \<open>1 < j_lim d\<close> show ?thesis
      by (simp add: reads canary_elems_def n_def algebra_simps)
  qed
qed

section \<open>Descriptors the wrappers store\<close>

text \<open>
  What \<open>clCreateImage\<close> stores before the canaries are added: the dimensions the image type does
  not use are 1, the others hold a size the 32-bit arithmetic can represent.
\<close>

definition normalised :: "cl_image_desc \<Rightarrow> bool" where
  "normalised d \<longleftrightarrow>
     (let used = (case image_type d of
            CL_MEM_OBJECT_IMAGE1D \<Rightarrow> (False, False, False)
          | CL_MEM_OBJECT_IMAGE1D_BUFFER \<Rightarrow> (False, False, False)
          | CL_MEM_OBJECT_IMAGE1D_ARRAY \<Rightarrow> (False, False, True)
          | CL_MEM_OBJECT_IMAGE2D \<Rightarrow> (True, False, False)
          | CL_MEM_OBJECT_IMAGE2D_ARRAY \<Rightarrow> (True, False, True)
          | CL_MEM_OBJECT_IMAGE3D \<Rightarrow> (True, True, False)
          | Other_mem_object _ \<Rightarrow> (False, False, False));
          size_ok = (\<lambda>u n. if u then 1 \<le> n \<and> n < 2 ^ 30 else n = 1)
      in (\<forall>n. image_type d \<noteq> Other_mem_object n)
         \<and> size_ok True (image_width d) \<and> size_ok (fst used) (image_height d)
         \<and> size_ok (fst (snd used)) (image_depth d) \<and> size_ok (snd (snd used)) (image_array_size d))"

lemma ucast_poison: 
  assumes "1 \<le> n" and "n < (2 ^ 30 :: u64)"
  shows "1 < (ucast (n + 16) :: u32)" and "(ucast (n + 16) :: u32) \<noteq> 1" and "unat (ucast (n + 16) :: u32) = unat n + 16"
proof -
  from assms have n: "1 \<le> unat n" "unat n < 2 ^ 30" by (simp_all add: word_le_nat_alt word_less_nat_alt)
  then have "unat (n + 16) = unat n + 16" by (subst unat_add_fits) simp_all
  with n show u: "unat (ucast (n + 16) :: u32) = unat n + 16"
    by (simp add: unsigned_ucast_eq take_bit_nat_eq_self)
  with n show "1 < (ucast (n + 16) :: u32)" "(ucast (n + 16) :: u32) \<noteq> 1"
    by (auto simp: word_less_nat_alt)
qed

lemma expanded_dims:
  assumes n: "normalised d0" and e: "expandLastDimForFill d0 = Some d"
    and small: "canary_elems (get_image_dimensions d) < 2 ^ 32"
  shows "dims_ok (get_image_dimensions d)"
  using n e small
  by (cases "image_type d0")
    (auto simp: normalised_def Let_def expandLastDimForFill_def dims_ok_def get_image_dimensions_def
      poison_defs ucast_poison)

lemma prod32:
  "unat a * unat b * 16 < 2 ^ 32 \<Longrightarrow>
    unat (ucast (a :: u32) * ucast (b :: u32) * 16 :: u64) = unat a * unat b * 16"
  "16 * unat a * unat b < 2 ^ 32 \<Longrightarrow>
    unat (ucast (16 * a * b :: u32) :: u64) = 16 * unat a * unat b"
  "unat a * 16 * unat b < 2 ^ 32 \<Longrightarrow>
    unat (ucast (a * 16 * b :: u32) :: u64) = unat a * 16 * unat b"
proof -
  assume l: "unat a * unat b * 16 < 2 ^ 32"
  then have "unat (ucast a * ucast b :: u64) = unat a * unat b"
    by (subst unat_mult_fits) (simp_all add: unat_ucast_wider)
  with l show "unat (ucast a * ucast b * 16 :: u64) = unat a * unat b * 16"
    by (subst unat_mult_fits) simp_all
next
  assume l: "16 * unat a * unat b < 2 ^ 32"
  have "16 * a * b = of_nat (16 * unat a * unat b)" by simp
  then show "unat (ucast (16 * a * b) :: u64) = 16 * unat a * unat b"
    using l by (simp add: unat_ucast_wider unat_of_nat_eq del: of_nat_mult of_nat_unat)
next
  assume l: "unat a * 16 * unat b < 2 ^ 32"
  have "a * 16 * b = of_nat (unat a * 16 * unat b)" by simp
  then show "unat (ucast (a * 16 * b) :: u64) = unat a * 16 * unat b"
    using l by (simp add: unat_ucast_wider unat_of_nat_eq del: of_nat_mult of_nat_unat)
qed

lemma sum_scaled:
  assumes "unat x + unat y + unat z < 2 ^ 32" and "unat (ds :: u64) \<le> 16"
  shows "unat ((x + y + z) * ds) = (unat x + unat y + unat z) * unat ds"
proof -
  have xy: "unat (x + y) = unat x + unat y" using assms(1) by (subst unat_add_fits) simp_all
  then have xyz: "unat (x + y + z) = unat x + unat y + unat z"
    using assms(1) by (subst unat_add_fits) simp_all
  have "(unat x + unat y + unat z) * unat ds \<le> (unat x + unat y + unat z) * 16"
    using assms(2) by (rule mult_le_mono2)
  also have "\<dots> < 2 ^ 64" using assms(1) by simp
  finally show ?thesis using xyz by (subst unat_mult_fits) simp_all
qed

text \<open>For each kind of image, the length computed is the number of canary elements.\<close>

lemma canary_size_3d:
  assumes "ty = CL_MEM_OBJECT_IMAGE2D_ARRAY \<or> ty = CL_MEM_OBJECT_IMAGE3D"
    and "1 < j_lim d" and "1 < k_lim d" and "canary_elems d < 2 ^ 32" and "unat ds \<le> 16"
  shows "map_option unat (get_image_canary_size ty ds (i_lim d) (j_lim d) (j_dat d) (k_dat d)) =
    Some (canary_elems d * unat ds)"
proof -
  let ?t = "ucast (k_dat d) * ucast (j_dat d) * 16 :: u64"
  let ?h = "ucast (16 * j_lim d * i_lim d :: u32) :: u64"
  let ?s = "ucast (k_dat d * 16 * i_lim d :: u32) :: u64"
  have sum: "unat (k_dat d) * unat (j_dat d) * 16 + 16 * unat (j_lim d) * unat (i_lim d)
      + unat (k_dat d) * 16 * unat (i_lim d) = canary_elems d"
    using assms(2, 3) by (simp add: canary_elems_def algebra_simps)
  with assms(4) have "unat (k_dat d) * unat (j_dat d) * 16 < 2 ^ 32"
      "16 * unat (j_lim d) * unat (i_lim d) < 2 ^ 32" "unat (k_dat d) * 16 * unat (i_lim d) < 2 ^ 32"
    by linarith+
  then have "unat ?t + unat ?h + unat ?s = canary_elems d" by (simp only: prod32 sum)
  with sum_scaled [OF _ assms(5), of ?t ?h ?s] assms(4)
  have "unat ((?t + ?h + ?s) * ds) = canary_elems d * unat ds" by simp
  with assms(1) show ?thesis by (auto simp: get_image_canary_size_def poison_defs)
qed

lemma canary_size_2d:
  assumes "ty = CL_MEM_OBJECT_IMAGE1D_ARRAY \<or> ty = CL_MEM_OBJECT_IMAGE2D"
    and "1 < j_lim d" and "k_lim d = 1" and "canary_elems d < 2 ^ 32" and "unat ds \<le> 16"
  shows "map_option unat (get_image_canary_size ty ds (i_lim d) (j_lim d) (j_dat d) (k_dat d)) =
    Some (canary_elems d * unat ds)"
proof -
  let ?t = "ucast (k_dat d) * ucast (j_dat d) * 16 :: u64"
  let ?s = "ucast (k_dat d * 16 * i_lim d :: u32) :: u64"
  have sum: "unat (k_dat d) * unat (j_dat d) * 16 + unat (k_dat d) * 16 * unat (i_lim d)
      = canary_elems d"
    using assms(2, 3) by (simp add: canary_elems_def algebra_simps)
  with assms(4) have "unat (k_dat d) * unat (j_dat d) * 16 < 2 ^ 32"
      "unat (k_dat d) * 16 * unat (i_lim d) < 2 ^ 32"
    by linarith+
  then have "unat ?t + unat ?s = canary_elems d" by (simp only: prod32 sum)
  with sum_scaled [OF _ assms(5), of ?t ?s 0] assms(4)
  have "unat ((?t + ?s) * ds) = canary_elems d * unat ds" by simp
  with assms(1) show ?thesis by (auto simp: get_image_canary_size_def poison_defs)
qed

lemma canary_size_1d:
  assumes "ty = CL_MEM_OBJECT_IMAGE1D \<or> ty = CL_MEM_OBJECT_IMAGE1D_BUFFER"
    and "j_lim d = 1" and "k_lim d = 1" and "canary_elems d < 2 ^ 32" and "unat ds \<le> 16"
  shows "map_option unat (get_image_canary_size ty ds (i_lim d) (j_lim d) (j_dat d) (k_dat d)) =
    Some (canary_elems d * unat ds)"
proof -
  let ?t = "ucast (k_dat d) * ucast (j_dat d) * 16 :: u64"
  have sum: "unat (k_dat d) * unat (j_dat d) * 16 = canary_elems d"
    using assms(2, 3) by (simp add: canary_elems_def)
  with assms(4) have "unat (k_dat d) * unat (j_dat d) * 16 < 2 ^ 32" by linarith
  then have "unat ?t = canary_elems d" by (simp only: prod32 sum)
  with sum_scaled [OF _ assms(5), of ?t 0 0] assms(4)
  have "unat (?t * ds) = canary_elems d * unat ds" by simp
  with assms(1) show ?thesis by (auto simp: get_image_canary_size_def poison_defs)
qed

lemma expanded_kind:
  assumes n: "normalised d0" and e: "expandLastDimForFill d0 = Some d"
    and dims: "dm = get_image_dimensions d"
  shows "image_type d \<in> {CL_MEM_OBJECT_IMAGE1D, CL_MEM_OBJECT_IMAGE1D_BUFFER}
        \<and> j_lim dm = 1 \<and> k_lim dm = 1
    \<or> image_type d \<in> {CL_MEM_OBJECT_IMAGE1D_ARRAY, CL_MEM_OBJECT_IMAGE2D}
        \<and> 1 < j_lim dm \<and> k_lim dm = 1
    \<or> image_type d \<in> {CL_MEM_OBJECT_IMAGE2D_ARRAY, CL_MEM_OBJECT_IMAGE3D}
        \<and> 1 < j_lim dm \<and> 1 < k_lim dm"
  using n e unfolding dims
  by (cases "image_type d0")
    (auto simp: normalised_def Let_def expandLastDimForFill_def get_image_dimensions_def
      poison_defs ucast_poison)

lemma canary_size_elems:
  assumes n: "normalised d0" and e: "expandLastDimForFill d0 = Some d"
    and dims: "dm = get_image_dimensions d"
    and small: "canary_elems dm < 2 ^ 32" and ds: "unat ds \<le> 16"
  shows "map_option unat
      (get_image_canary_size (image_type d) ds (i_lim dm) (j_lim dm) (j_dat dm) (k_dat dm)) =
    Some (canary_elems dm * unat ds)"
  using expanded_kind [OF n e dims] canary_size_1d [of "image_type d" dm ds]
    canary_size_2d [of "image_type d" dm ds] canary_size_3d [of "image_type d" dm ds] small ds
  by blast

section \<open>From an offset back to a place in the image\<close>

text \<open>
  The loops of \<open>getImageCanaryXYZ\<close>. \<open>scan_row\<close> is the loop over \<open>j\<close>: it returns the accumulator
  and, when it breaks, the column and the row. \<open>scan_slices\<close> is the loop over \<open>k\<close>: \<open>Inr\<close> is a
  break with the values of \<open>x\<close>, \<open>y\<close>, \<open>z\<close>; \<open>Inl\<close> is the loop run to its end.
\<close>

fun scan_row :: "u32 \<Rightarrow> u32 list \<Rightarrow> u32 \<Rightarrow> u32 \<times> (u32 \<times> u32) option" where
  "scan_row di [] accume = (accume, None)"
| "scan_row di (j # js) accume =
     (let acc = accume + IMAGE_POISON_WIDTH
      in if di < acc then (acc, Some (di - (acc - IMAGE_POISON_WIDTH), j)) else scan_row di js acc)"

fun scan_slices :: "u32 \<Rightarrow> u32 \<Rightarrow> u32 list \<Rightarrow> u32 list \<Rightarrow> u32 \<Rightarrow> u32 + int \<times> int \<times> int" where
  "scan_slices di il js [] accume = Inl accume"
| "scan_slices di il js (k # ks) accume =
     (case scan_row di js accume of (acc, hit) \<Rightarrow>
        if di < acc
        then Inr (case hit of Some (x, j) \<Rightarrow> (sint x, sint j, sint k) | None \<Rightarrow> (-1, -1, -1))
        else (let acc2 = acc + IMAGE_POISON_HEIGHT * il
              in if di < acc2
                 then Inr (-1, sint ((di - (acc2 - IMAGE_POISON_HEIGHT * il)) div il), sint k)
                 else scan_slices di il js ks acc2))"

text \<open>\<open>None\<close>: the division of the depth case by a zero area.\<close>

definition getImageCanaryXYZ ::
  "cl_image_format \<Rightarrow> cl_image_desc \<Rightarrow> u32 \<Rightarrow> (int \<times> int \<times> int) option" where
  "getImageCanaryXYZ fmt desc bad_byte =
     (let dataSize = (ucast (getImageDataSize fmt) :: u64)
      in if dataSize = 0 then Some (-1, -1, -1)
         else (let dataIndex = (ucast ((ucast bad_byte :: u64) div dataSize) :: u32);
                   il = (ucast (image_width desc) :: u32);
                   jl = (ucast (image_height desc) :: u32);
                   kl = (ucast (image_depth desc) :: u32);
                   jd = (if jl = 1 then 1 else jl - IMAGE_POISON_HEIGHT);
                   kd = (if kl = 1 then 1 else kl - IMAGE_POISON_DEPTH)
               in case scan_slices dataIndex il (upto32 jd) (upto32 kd) 0 of
                    Inr xyz \<Rightarrow> Some xyz
                  | Inl accume \<Rightarrow>
                      if il * jl = 0 then None
                      else Some (-1, -1, sint ((dataIndex - accume) div (il * jl)))))"

lemma of_nat_less32:
  "a < 2 ^ 32 \<Longrightarrow> b < 2 ^ 32 \<Longrightarrow> ((of_nat a :: u32) < of_nat b) = (a < b)"
  by (simp add: word_less_nat_alt unat_of_nat_eq)

lemma of_nat_diff32: "b \<le> a \<Longrightarrow> (of_nat a - of_nat b :: u32) = of_nat (a - b)"
  by (simp add: of_nat_diff)

lemma of_nat_div32:
  "a < 2 ^ 32 \<Longrightarrow> b < 2 ^ 32 \<Longrightarrow> (of_nat a div of_nat b :: u32) = of_nat (a div b)"
  by (simp add: word_arith_nat_div unat_of_nat_eq)

lemma sint_of_nat32: "n < 2 ^ 31 \<Longrightarrow> sint (of_nat n :: u32) = int n"
  by (simp add: sint_uint uint_nat unat_of_nat_eq signed_take_bit_int_eq_self)

lemma scan_row_hit:
  "a \<le> e \<Longrightarrow> e < a + 16 * length js \<Longrightarrow> a + 16 * length js < 2 ^ 32 \<Longrightarrow>
    scan_row (of_nat e) js (of_nat a) =
      (of_nat (a + 16 * Suc ((e - a) div 16)),
       Some (of_nat ((e - a) mod 16), js ! ((e - a) div 16)))"
proof (induction js arbitrary: a)
  case (Cons j js)
  have step: "of_nat a + (16 :: u32) = of_nat (a + 16)" by simp
  show ?case
  proof (cases "e < a + 16")
    case True
    with Cons.prems have "(of_nat e :: u32) < of_nat (a + 16)" by (subst of_nat_less32) auto
    moreover have "(e - a) div 16 = 0" "(e - a) mod 16 = e - a" using True Cons.prems by auto
    moreover have "(of_nat (a + 16) - 16 :: u32) = of_nat a" by simp
    moreover have "(of_nat e - of_nat a :: u32) = of_nat (e - a)" using Cons.prems by (intro of_nat_diff32)
    ultimately show ?thesis by (simp add: poison_defs step Let_def del: of_nat_add)
  next
    case False
    with Cons.prems have "\<not> (of_nat e :: u32) < of_nat (a + 16)" by (subst of_nat_less32) auto
    moreover obtain f where f: "e = a + 16 + f" using False by (auto simp: not_less le_iff_add)
    moreover have "scan_row (of_nat e) js (of_nat (a + 16)) =
      (of_nat (a + 16 + 16 * Suc ((e - (a + 16)) div 16)),
       Some (of_nat ((e - (a + 16)) mod 16), js ! ((e - (a + 16)) div 16)))"
      using False Cons.prems by (intro Cons.IH) simp_all
    moreover have "e - (a + 16) = f" "(e - a) div 16 = Suc (f div 16)" "(e - a) mod 16 = f mod 16"
      using f by simp_all
    moreover have "a + 16 + 16 * Suc (f div 16) = a + 16 * Suc (Suc (f div 16))" by simp
    ultimately show ?thesis
      by (simp only: scan_row.simps poison_defs step Let_def if_False nth_Cons_Suc)
  qed
qed simp

lemma scan_row_miss:
  "a + 16 * length js \<le> e \<Longrightarrow> e < 2 ^ 32 \<Longrightarrow>
    scan_row (of_nat e) js (of_nat a) = (of_nat (a + 16 * length js), None)"
proof (induction js arbitrary: a)
  case (Cons j js)
  have step: "of_nat a + (16 :: u32) = of_nat (a + 16)" by simp
  have "\<not> (of_nat e :: u32) < of_nat (a + 16)" using Cons.prems by (subst of_nat_less32) auto
  with Cons.IH [of "a + 16"] Cons.prems show ?case
    by (simp add: poison_defs step del: of_nat_add) (simp add: algebra_simps)
qed simp

text \<open>What the two loops compute, over natural numbers: the element \<open>e\<close> of the flattened array.\<close>

definition decode_elem :: "nat \<Rightarrow> nat \<Rightarrow> nat \<Rightarrow> int \<times> int \<times> int" where
  "decode_elem J I e =
     (let B = J * 16 + 16 * I; q = e div B; r = e mod B
      in if r < J * 16 then (int (r mod 16), int (r div 16), int q)
         else (-1, int ((r - J * 16) div I), int q))"

lemma decode_elem_row:
  "r < J * 16 \<Longrightarrow>
    decode_elem J I (k * (J * 16 + 16 * I) + r) = (int (r mod 16), int (r div 16), int k)"
  by (simp add: decode_elem_def Let_def div_mult_self3 del: mult_Suc)

lemma decode_elem_slice:
  "J * 16 \<le> r \<Longrightarrow> r < J * 16 + 16 * I \<Longrightarrow>
    decode_elem J I (k * (J * 16 + 16 * I) + r) = (-1, int ((r - J * 16) div I), int k)"
  by (simp add: decode_elem_def Let_def div_mult_self3 del: mult_Suc)

text \<open>
  One turn of the loop over the slices: the elements of slice \<open>k\<close> are those from \<open>k * B\<close> on, \<open>J * 16\<close> of
  them at the ends of the rows and \<open>16 * I\<close> in the rows of the canary.
\<close>

lemma slice_sizes:
  assumes "0 < I" and "K * (J * 16 + 16 * I) < 2 ^ 32" and "k < (K :: nat)"
  shows "k * (J * 16 + 16 * I) + (J * 16 + 16 * I) < 2 ^ 32"
    and "k < 2 ^ 31" and "16 * J < 2 ^ 32" and "I < 2 ^ 32" and "16 * I < 2 ^ 32"
proof -
  let ?B = "J * 16 + 16 * I"
  have "k * ?B + ?B \<le> K * ?B" using mult_le_mono1 [of "Suc k" K ?B] assms(3) by simp
  with assms(2) show B: "k * ?B + ?B < 2 ^ 32" by linarith
  then show "16 * J < 2 ^ 32" "I < 2 ^ 32" "16 * I < 2 ^ 32" by linarith+
  have "k * 16 \<le> k * ?B" using assms(1) by (intro mult_le_mono2) simp
  then have "k * 16 \<le> k * ?B + ?B" by (rule trans_le_add1)
  then have "k * 16 < 2 ^ 32" using B by (rule le_less_trans)
  then show "k < 2 ^ 31" by simp
qed

lemma scan_slices_row:
  fixes J I K
  defines "B \<equiv> J * 16 + 16 * I"
  assumes I: "0 < I" and fits: "K * B < 2 ^ 32" and k: "k < K" and e: "e = k * B + r" "r < J * 16"
  shows "scan_slices (of_nat e) (of_nat I) (map of_nat [0..<J]) (of_nat k # ks) (of_nat (k * B)) = Inr (decode_elem J I e)"
proof -
  note sizes = slice_sizes [OF I fits [unfolded B_def] k, folded B_def]
  have row: "scan_row (of_nat e) (map of_nat [0..<J]) (of_nat (k * B)) =
      (of_nat (k * B + 16 * Suc (r div 16)), Some (of_nat (r mod 16), of_nat (r div 16)))"
    using scan_row_hit [of "k * B" e "map of_nat [0..<J] :: u32 list"] sizes(1) e by (simp add: B_def)
  have "r div 16 < J" using e(2) by (rule less_mult_imp_div_less)
  then have "16 * Suc (r div 16) \<le> J * 16" by (metis Suc_leI mult.commute mult_le_mono2)
  then have "k * B + 16 * Suc (r div 16) < 2 ^ 32" using sizes(1) by (simp add: B_def)
  moreover have "e < k * B + 16 * Suc (r div 16)" using e(1) by simp
  ultimately have "(of_nat e :: u32) < of_nat (k * B + 16 * Suc (r div 16))"
    by (subst of_nat_less32) auto
  moreover have "r div 16 < 2 ^ 31" "r mod 16 < 2 ^ 31"
    using e(2) sizes by (auto simp: less_mult_imp_div_less intro: less_trans)
  ultimately have "scan_slices (of_nat e) (of_nat I) (map of_nat [0..<J]) (of_nat k # ks) (of_nat (k * B)) =
      Inr (int (r mod 16), int (r div 16), int k)"
    using sizes by (simp add: row sint_of_nat32 del: of_nat_add of_nat_mult mult_Suc_right)
  moreover have "decode_elem J I e = (int (r mod 16), int (r div 16), int k)"
    unfolding e(1) B_def using e(2) by (rule decode_elem_row)
  ultimately show ?thesis by simp
qed

lemma scan_slices_below:
  fixes J I K
  defines "B \<equiv> J * 16 + 16 * I"
  assumes I: "0 < I" and fits: "K * B < 2 ^ 32" and k: "k < K" and e: "e = k * B + r" "J * 16 \<le> r" "e < 2 ^ 32"
  shows "scan_slices (of_nat e) (of_nat I) (map of_nat [0..<J]) (of_nat k # ks) (of_nat (k * B)) =
    (if r < B then Inr (decode_elem J I e)
     else scan_slices (of_nat e) (of_nat I) (map of_nat [0..<J]) ks (of_nat (Suc k * B)))"
proof -
  note sizes = slice_sizes [OF I fits [unfolded B_def] k, folded B_def]
  have row: "scan_row (of_nat e) (map of_nat [0..<J]) (of_nat (k * B)) = (of_nat (k * B + J * 16), None)"
    using scan_row_miss [of "k * B" "map of_nat [0..<J] :: u32 list" e] e by (simp add: mult.commute)
  have "k * B + J * 16 < 2 ^ 32" using sizes(1) by (simp add: B_def)
  then have no: "\<not> (of_nat e :: u32) < of_nat (k * B + J * 16)" using e by (subst of_nat_less32) auto
  have acc: "of_nat (k * B + J * 16) + (16 :: u32) * of_nat I = of_nat (Suc k * B)"
    by (simp add: B_def algebra_simps)
  have undo: "of_nat (Suc k * B) - (16 :: u32) * of_nat I = of_nat (k * B + J * 16)"
    by (simp add: B_def algebra_simps)
  have lt: "((of_nat e :: u32) < of_nat (Suc k * B)) = (r < B)"
    using sizes(1) e by (subst of_nat_less32) auto
  show ?thesis
  proof (cases "r < B")
    case True
    have "(of_nat e - of_nat (k * B + J * 16) :: u32) = of_nat (r - J * 16)"
      using e by (subst of_nat_diff32) auto
    moreover have "(of_nat (r - J * 16) div of_nat I :: u32) = of_nat ((r - J * 16) div I)"
      using e sizes by (intro of_nat_div32) auto
    moreover have "(r - J * 16) div I < 16"
      using True e(2) by (intro less_mult_imp_div_less) (auto simp: B_def)
    moreover have "decode_elem J I e = (-1, int ((r - J * 16) div I), int k)"
      unfolding e(1) B_def using True e(2) by (intro decode_elem_slice) (simp_all add: B_def)
    ultimately show ?thesis using sizes True
      by (simp add: row no acc undo lt Let_def poison_defs sint_of_nat32
           del: of_nat_add of_nat_mult mult_Suc mult_Suc_right)
  qed (simp add: row no acc lt Let_def poison_defs del: of_nat_add of_nat_mult mult_Suc mult_Suc_right)
qed

lemma scan_slices_upt:
  fixes J I K
  defines "B \<equiv> J * 16 + 16 * I"
  assumes I: "0 < I" and fits: "K * B < 2 ^ 32" and k: "k \<le> K" and e: "k * B \<le> e" "e < 2 ^ 32"
  shows "scan_slices (of_nat e) (of_nat I) (map of_nat [0..<J]) (map of_nat [k..<K]) (of_nat (k * B)) =
    (if e < K * B then Inr (decode_elem J I e) else Inl (of_nat (K * B)))"
  using k e
proof (induction "K - k" arbitrary: k)
  case (Suc n)
  then have kK: "k < K" by simp
  have B: "k * B + B \<le> K * B" using mult_le_mono1 [of "Suc k" K B] kK by simp
  define r where "r = e - k * B"
  have er: "e = k * B + r" using Suc.prems by (simp add: r_def)
  have upt: "[k..<K] = k # [Suc k..<K]" using kK by (simp add: upt_conv_Cons)
  consider "r < J * 16" | "J * 16 \<le> r" "r < B" | "J * 16 \<le> r" "B \<le> r" by linarith
  then show ?case
  proof cases
    case 1
    with B er have "e < K * B" by (simp add: B_def)
    with scan_slices_row [OF I fits [unfolded B_def] kK er [unfolded B_def] 1] show ?thesis
      by (simp add: upt B_def del: of_nat_add of_nat_mult)
  next
    case 2
    with B er have "e < K * B" by simp
    with scan_slices_below [OF I fits [unfolded B_def] kK er [unfolded B_def] 2(1) Suc.prems(3)] 2(2) show ?thesis
      by (simp add: upt B_def del: of_nat_add of_nat_mult)
  next
    case 3
    have "scan_slices (of_nat e) (of_nat I) (map of_nat [0..<J]) (map of_nat [Suc k..<K]) (of_nat (Suc k * B)) =
        (if e < K * B then Inr (decode_elem J I e) else Inl (of_nat (K * B)))"
      using Suc 3 er kK by (intro Suc.hyps(1)) auto
    with scan_slices_below [OF I fits [unfolded B_def] kK er [unfolded B_def] 3(1) Suc.prems(3)] 3(2) show ?thesis
      by (simp add: upt B_def del: of_nat_add of_nat_mult mult_Suc)
  qed
qed simp

lemma depth_div:
  assumes "\<not> e < b" and "e < b + 16 * L * (I :: nat)"
  shows "(e - b) div (I * L) < 16"
proof (rule less_mult_imp_div_less)
  have "e - b < 16 * L * I" using assms by linarith
  also have "16 * L * I = 16 * (I * L)" by simp
  finally show "e - b < 16 * (I * L)" .
qed

text \<open>The whole function on a 2- or 3-dimensional image: the element's index decides.\<close>

lemma element_of_byte:
  assumes "e * n + b < 2 ^ 32" and "n = unat (sz :: u32)" "0 < n" and "b < n"
  shows "(ucast ((ucast (of_nat (e * n + b) :: u32) :: u64) div ucast sz) :: u32) = of_nat e"
proof -
  have "unat ((ucast (of_nat (e * n + b) :: u32) :: u64) div ucast sz) = (e * n + b) div n"
    using assms by (simp add: unat_div_distrib unat_ucast_wider unat_of_nat_eq del: of_nat_add of_nat_mult)
  also have "\<dots> = e" using assms by simp
  finally show ?thesis by (metis of_nat_unat)
qed

text \<open>The slices behind the array.\<close>

lemma slice_behind:
  assumes e: "m \<le> e" "e < m + 16 * L * I" and fits: "m + 16 * L * I < 2 ^ 32" and "0 < I" "0 < (L :: nat)"
  shows "(of_nat I * of_nat L :: u32) \<noteq> 0"
    and "sint ((of_nat e - of_nat m) div (of_nat I * of_nat L :: u32)) = int ((e - m) div (I * L))"
proof -
  have area: "(of_nat I * of_nat L :: u32) = of_nat (I * L)" by simp
  have "I * L \<le> m + 16 * L * I" by simp
  then have "I * L < 2 ^ 32" using fits by (rule le_less_trans)
  then have LI: "I * L < 2 ^ 32" "0 < I * L" using assms(4, 5) by simp_all
  then show "(of_nat I * of_nat L :: u32) \<noteq> 0"
    unfolding area using unat_of_nat_eq [of "I * L", where ?'a = 32] by (intro notI) (simp del: of_nat_mult)
  have diff: "(of_nat e - of_nat m :: u32) = of_nat (e - m)" using e(1) by (rule of_nat_diff32)
  have "e - m < 2 ^ 32" using e fits by linarith
  then have div: "(of_nat (e - m) div of_nat (I * L) :: u32) = of_nat ((e - m) div (I * L))"
    using LI(1) by (rule of_nat_div32)
  have "(e - m) div (I * L) < 16" by (rule depth_div) (use e in simp_all)
  then show "sint ((of_nat e - of_nat m) div (of_nat I * of_nat L :: u32)) = int ((e - m) div (I * L))"
    unfolding area diff div by (intro sint_of_nat32) simp
qed

lemma getImageCanaryXYZ_elem:
  assumes ty: "image_type desc = CL_MEM_OBJECT_IMAGE2D \<or> image_type desc = CL_MEM_OBJECT_IMAGE3D"
    and dm: "dm = get_image_dimensions desc" and ok: "dims_ok dm" and two: "1 < j_lim dm"
    and ds: "n = unat (getImageDataSize fmt)" "0 < n"
    and e: "e < canary_elems dm" "b < n" and fits: "canary_elems dm * n < 2 ^ 32"
  defines "J \<equiv> unat (j_dat dm)" and "I \<equiv> unat (i_lim dm)" and "K \<equiv> unat (k_dat dm)"
    and "L \<equiv> unat (j_lim dm)"
  shows "getImageCanaryXYZ fmt desc (of_nat (e * n + b)) =
    (if e < K * (J * 16 + 16 * I) then Some (decode_elem J I e)
     else Some (-1, -1, int ((e - K * (J * 16 + 16 * I)) div (I * L))))"
proof -
  have I: "0 < I" using ok by (simp add: dims_ok_def I_def word_less_nat_alt)
  have L: "0 < L" using two by (simp add: L_def word_less_nat_alt)
  have total: "canary_elems dm = K * (J * 16 + 16 * I) + (if 1 < k_lim dm then 16 * L * I else 0)"
    using two by (simp add: canary_elems_def J_def I_def K_def L_def)
  have "e * n + b < Suc e * n" using e by simp
  also have "\<dots> \<le> canary_elems dm * n" using e by (intro mult_le_mono1) simp
  finally have byte: "e * n + b < 2 ^ 32" using fits by linarith
  have "canary_elems dm \<le> canary_elems dm * n" using ds by simp
  with fits have small: "canary_elems dm < 2 ^ 32" by linarith
  have e32: "e < 2 ^ 32" using e small by simp
  have idx: "(ucast ((ucast (of_nat (e * n + b) :: u32) :: u64) div ucast (getImageDataSize fmt)) :: u32) = of_nat e"
    by (rule element_of_byte [OF byte ds e(2)])
  have dims: "(ucast (image_width desc) :: u32) = of_nat I" "(ucast (image_height desc) :: u32) = of_nat L"
    "(if (ucast (image_height desc) :: u32) = 1 then 1 else ucast (image_height desc) - IMAGE_POISON_HEIGHT) = j_dat dm"
    "(if (ucast (image_depth desc) :: u32) = 1 then 1 else ucast (image_depth desc) - IMAGE_POISON_DEPTH) = k_dat dm"
    using ty by (auto simp: dm get_image_dimensions_def Let_def I_def L_def)
  have nz: "((ucast (getImageDataSize fmt) :: u64) = 0) = False"
    using ds unat_ucast_wider [of "getImageDataSize fmt", where ?'b = 64] by auto
  have run: "getImageCanaryXYZ fmt desc (of_nat (e * n + b)) =
      (case scan_slices (of_nat e) (of_nat I) (upto32 (j_dat dm)) (upto32 (k_dat dm)) 0 of
         Inr xyz \<Rightarrow> Some xyz
       | Inl accume \<Rightarrow>
           if of_nat I * of_nat L = (0 :: u32) then None
           else Some (-1, -1, sint ((of_nat e - accume) div (of_nat I * of_nat L))))"
    unfolding getImageCanaryXYZ_def Let_def dims(3) dims(4)
    unfolding dims(1,2) idx nz if_False ..
  have scan: "scan_slices (of_nat e) (of_nat I) (map of_nat [0..<J]) (map of_nat [0..<K]) 0 =
      (if e < K * (J * 16 + 16 * I) then Inr (decode_elem J I e) else Inl (of_nat (K * (J * 16 + 16 * I))))"
  proof -
    have "K * (J * 16 + 16 * I) < 2 ^ 32" using small total by linarith
    then show ?thesis using scan_slices_upt [of I K J 0 e] I e32 by simp
  qed
  show ?thesis
  proof (cases "e < K * (J * 16 + 16 * I)")
    case True
    then show ?thesis
      unfolding run by (simp add: scan upto32_def J_def [symmetric] K_def [symmetric])
  next
    case False
    then have depth: "1 < k_lim dm" using e(1) total by (auto split: if_splits)
    with total have tot: "canary_elems dm = K * (J * 16 + 16 * I) + 16 * L * I" by simp
    have "scan_slices (of_nat e) (of_nat I) (upto32 (j_dat dm)) (upto32 (k_dat dm)) 0 =
        Inl (of_nat (K * (J * 16 + 16 * I)))"
      using scan False by (simp only: upto32_def J_def K_def if_False)
    moreover have "K * (J * 16 + 16 * I) \<le> e" using False by simp
    note slice_behind [OF this e(1) [unfolded tot] small [unfolded tot] I L]
    ultimately show ?thesis using False by (simp only: run sum.case if_False)
  qed
qed

end
