(* ===== verification/Overflow_Error.thy ===== *)
theory Overflow_Error
  imports Detector_State Image_Geometry
begin

text \<open>
  \<open>src/detector/overflow_error.c\<close>: the log file, the messages about a detected overflow, and the
  optional end of the process. Every message goes to \<open>stderr\<close> (\<open>err_out\<close>) and, when the log is
  open, to the log (\<open>log_out\<close>).
\<close>

section \<open>The log\<close>

definition initialize_logging :: "'w ocl \<Rightarrow> ('w det, unit) prog" where
  "initialize_logging cl = andThen (gets log_out) (\<lambda>log_file.
     if log_file \<noteq> None then ret ()
     else andThen (gets (\<lambda>s. get_logging_envvar (environ s))) (\<lambda>log_loc. case log_loc of
         None \<Rightarrow> ret ()
       | Some path \<Rightarrow>
           if fopen_ok cl path then modify (\<lambda>s. s\<lparr>log_out := Some [Log_begin]\<rparr>)
           else put_err (Log_not_opened path)))"

definition finalize_detector :: "('w det, unit) prog" where
  "finalize_detector = modify (\<lambda>s. case log_out s of
       None \<Rightarrow> s
     | Some l \<Rightarrow> s\<lparr>log_out := Some (l @ [Log_complete, Log_total (overflows_observed s)])\<rparr>)"

definition print_err_header :: "('w det, unit) prog" where
  "print_err_header = put_err Header_error"

definition print_warn_header :: "('w det, unit) prog" where
  "print_warn_header = put_err Header_warning"

definition print_err_footer :: "('w det, unit) prog" where
  "print_err_footer = put_err Footer"

definition print_and_log_err :: "msg \<Rightarrow> ('w det, unit) prog" where
  "print_and_log_err m =
     modify (\<lambda>s. s\<lparr>err_out := err_out s @ [m], log_out := map_option (\<lambda>l. l @ [m]) (log_out s)\<rparr>)"

definition count_overflow :: "('w det, unit) prog" where
  "count_overflow = modify (\<lambda>s. s\<lparr>overflows_observed := overflows_observed s + 1\<rparr>)"

section \<open>Overflows seen by the API checks\<close>

text \<open>The stack trace is asked for when \<open>CLARMOR_PRINT_BACKTRACE\<close> is set; it may be missing.\<close>

definition print_backtrace :: "'w ocl \<Rightarrow> ('w det, unit) prog" where
  "print_backtrace cl = andThen (gets (\<lambda>s. get_print_backtrace_envvar (environ s))) (\<lambda>wanted.
     case (if wanted \<noteq> 0 then backtrace cl 3 else None) of
       None \<Rightarrow> ret ()
     | Some b \<Rightarrow> print_and_log_err (Backtrace_line b))"

text \<open>\<open>x + 1\<close>, \<open>y + 1\<close> and \<open>z + 1\<close> are printed.\<close>

definition print_dimension :: "int \<Rightarrow> int \<Rightarrow> int \<Rightarrow> ('w det, unit) prog" where
  "print_dimension x y z =
     (if x \<ge> 0 then print_and_log_err (First_dimension y z (x + 1))
      else if y \<ge> 0 then print_and_log_err (Second_dimension z (y + 1))
      else print_and_log_err (Third_dimension (z + 1)))"

definition apiImageOverflowError ::
  "'w ocl \<Rightarrow> string \<Rightarrow> ptr \<Rightarrow> int \<Rightarrow> int \<Rightarrow> int \<Rightarrow> ('w det, unit) prog" where
  "apiImageOverflowError cl func buffer x y z =
     andThen print_err_header (\<lambda>_.
     andThen (print_and_log_err Overflow_detected) (\<lambda>_.
     andThen count_overflow (\<lambda>_.
     andThen (print_and_log_err (Func_buffer func buffer)) (\<lambda>_.
     andThen (print_dimension x y z) (\<lambda>_.
     andThen (print_backtrace cl) (\<lambda>_.
     print_err_footer))))))"

definition apiOverflowError :: "'w ocl \<Rightarrow> string \<Rightarrow> ptr \<Rightarrow> u32 \<Rightarrow> ('w det, unit) prog" where
  "apiOverflowError cl func buffer bad_byte =
     andThen print_err_header (\<lambda>_.
     andThen (print_and_log_err Overflow_detected) (\<lambda>_.
     andThen count_overflow (\<lambda>_.
     andThen (cl_mem_find buffer) (\<lambda>m1.
     andThen (print_and_log_err
       (if m1 \<noteq> None then Func_buffer func buffer else Func_svm func buffer)) (\<lambda>_.
     andThen (print_and_log_err (Api_overflow (bad_byte + 1))) (\<lambda>_.
     andThen (print_backtrace cl) (\<lambda>_.
     print_err_footer)))))))"

section \<open>Overflows seen by the checkers\<close>

text \<open>
  \<open>getBufferIndex\<close>: the handle of the first argument whose buffer or SVM region has the given
  handle, as an \<open>int\<close>, or -1. An argument with a buffer is not looked at as an SVM pointer.
\<close>

fun getBufferIndex :: "kernel_arg list \<Rightarrow> ptr \<Rightarrow> ('w det, int) prog" where
  "getBufferIndex [] buffer = ret (-1)"
| "getBufferIndex (temp # rest) buffer =
     (case ka_buffer temp of
        Some a \<Rightarrow> andThen (get_mobj a) (\<lambda>m.
          if m_handle m = buffer then ret (sint (ka_handle temp)) else getBufferIndex rest buffer)
      | None \<Rightarrow> (case ka_svm_buffer temp of
          Some a \<Rightarrow> andThen (get_svobj a) (\<lambda>m.
            if sv_handle m = buffer then ret (sint (ka_handle temp))
            else getBufferIndex rest buffer)
        | None \<Rightarrow> getBufferIndex rest buffer))"

text \<open>Decimal digits, for \<open>asprintf(\&s, "Argument %d", i)\<close>.\<close>

function dec_string :: "nat \<Rightarrow> string" where
  "dec_string n = (if n < 10 then [char_of (48 + n)] else dec_string (n div 10) @ [char_of (48 + n mod 10)])"
  by auto
termination by (relation "measure id") auto

declare dec_string.simps [simp del]

definition argument_name :: "int \<Rightarrow> string" where
  "argument_name i = ''Argument '' @ dec_string (nat i)"

text \<open>
  A string the runtime returns after a first call for its size: \<open>calloc\<close> failing ends the process.
\<close>

definition alloc_string :: "'w ocl \<Rightarrow> string \<Rightarrow> ('w det, unit) prog" where
  "alloc_string cl str =
     (if calloc_ok cl (of_nat (Suc (length str))) then ret ()
      else andThen (put_err Calloc_failed) (\<lambda>_. fail (Exit (-1))))"

text \<open>
  The name of a kernel argument. The test after the allocation looks at \<open>kernelName\<close>, which is
  never NULL there, so a failed allocation of \<open>bufferName\<close> is not noticed, and \<open>%s\<close> prints a
  null pointer.
\<close>

definition buffer_name :: "'w ocl \<Rightarrow> cl_kernel \<Rightarrow> int \<Rightarrow> ('w det, string) prog" where
  "buffer_name cl kern argIndex =
     andThen (query (q_kernel_arg_name cl kern (word_of_int argIndex))) (\<lambda>(cl_err, name).
       if cl_err \<noteq> CL_KERNEL_ARG_INFO_NOT_AVAILABLE
       then andThen (check_cl_error cl_err) (\<lambda>_.
         ret (if calloc_ok cl (of_nat (Suc (length name))) then name else ''(null)''))
       else ret (argument_name argIndex))"

text \<open>\<open>bad_byte - POISON_FILL_LENGTH\<close>, as an \<open>int\<close>: before or after the buffer.\<close>

definition print_position :: "u32 \<Rightarrow> ('w det, unit) prog" where
  "print_position bad_byte =
     (let overflow_pos = bad_byte - POISON_FILL_LENGTH
      in if 0 \<le> sint overflow_pos then print_and_log_err (Write_overflow (overflow_pos + 1))
         else print_and_log_err (Write_underflow (- overflow_pos)))"

definition overflowError ::
  "'w ocl \<Rightarrow> kernel_info \<Rightarrow> ptr \<Rightarrow> u32 \<Rightarrow> string option \<Rightarrow> ('w det, unit) prog" where
  "overflowError cl kernInfo buffer bad_byte backtrace_str =
     andThen print_err_header (\<lambda>_.
     andThen (print_and_log_err Overflow_detected) (\<lambda>_.
     andThen count_overflow (\<lambda>_.
     andThen (query (q_kernel_name cl (ki_handle kernInfo))) (\<lambda>(cl_err, kernelName).
     andThen (check_cl_error cl_err) (\<lambda>_.
     andThen (alloc_string cl kernelName) (\<lambda>_.
     andThen (getBufferIndex (ki_arg_list kernInfo) buffer) (\<lambda>argIndex.
     andThen
       (if argIndex \<ge> 0
        then andThen (buffer_name cl (ki_handle kernInfo) argIndex) (\<lambda>bufferName.
             andThen (lookup_mobj buffer) (\<lambda>m1. case m1 of
                 Some (_, m) \<Rightarrow>
                   if m_is_image m
                   then (case getImageCanaryXYZ (m_image_format m) (m_image_desc m) bad_byte of
                       None \<Rightarrow> fail Div_by_zero
                     | Some (x, y, z) \<Rightarrow>
                         andThen (print_and_log_err (Kernel_buffer kernelName bufferName)) (\<lambda>_.
                         print_dimension x y z))
                   else andThen (print_and_log_err (Kernel_buffer kernelName bufferName)) (\<lambda>_.
                        print_position bad_byte)
               | None \<Rightarrow> andThen (print_and_log_err (Kernel_buffer kernelName bufferName)) (\<lambda>_.
                        print_position bad_byte)))
        else andThen (print_and_log_err (Kernel_svm kernelName buffer)) (\<lambda>_.
             print_position bad_byte)) (\<lambda>_.
     andThen (case backtrace_str of
         None \<Rightarrow> ret ()
       | Some b \<Rightarrow> print_and_log_err (Backtrace_line b)) (\<lambda>_.
     print_err_footer)))))))))"

text \<open>
  \<open>printDupeWarning\<close>: \<open>dupe\<close> gives for each argument the index of the first one with the same
  buffer. The names are the runtime's, checked like above; only the indices are kept in the message. The
  empty line it prints to the standard output at the end is left out.
\<close>

definition printDupeWarning :: "'w ocl \<Rightarrow> cl_kernel \<Rightarrow> u32 list \<Rightarrow> ('w det, unit) prog" where
  "printDupeWarning cl kern dupe =
     andThen (query (q_kernel_num_args cl kern)) (\<lambda>(cl_err, nargs).
     andThen (check_cl_error cl_err) (\<lambda>_.
       if \<forall>i \<in> set (upto32 nargs). dupe ! unat i = i then ret ()
       else andThen print_warn_header (\<lambda>_.
            andThen (print_and_log_err Duplicate_intro) (\<lambda>_.
            forM (upto32 nargs) (\<lambda>i.
              if dupe ! unat i = i then ret ()
              else andThen (query (q_kernel_arg_name cl kern (dupe ! unat i))) (\<lambda>(err1, origName).
                   andThen
                     (if err1 \<noteq> CL_KERNEL_ARG_INFO_NOT_AVAILABLE
                      then andThen (check_cl_error err1) (\<lambda>_.
                           andThen (alloc_string cl origName) (\<lambda>_.
                           andThen (query (q_kernel_arg_name cl kern i)) (\<lambda>(err2, cloneName).
                           andThen (check_cl_error err2) (\<lambda>_.
                           alloc_string cl cloneName))))
                      else ret ()) (\<lambda>_.
                   print_and_log_err (Duplicate_arg i (dupe ! unat i)))))))))"

text \<open>
  \<open>optionalKillOnOverflow\<close>. When a device check calls it, it also sends \<open>SIGHUP\<close> to the thread of the
  launch before it exits; what the application does with that signal is not modelled.
\<close>

definition optionalKillOnOverflow :: "int \<Rightarrow> ('w det, unit) prog" where
  "optionalKillOnOverflow err_ret_val = andThen (gets (\<lambda>s. get_error_envvar (environ s))) (\<lambda>kill.
     if kill \<noteq> 0
     then andThen (put_err Exit_because_of_overflow) (\<lambda>_. fail (Exit err_ret_val))
     else ret ())"

section \<open>What the API checks print\<close>

definition backtrace_msgs :: "'w ocl \<Rightarrow> env \<Rightarrow> msg list" where
  "backtrace_msgs cl e =
     (if get_print_backtrace_envvar e \<noteq> 0
      then (case backtrace cl 3 of None \<Rightarrow> [] | Some b \<Rightarrow> [Backtrace_line b]) else [])"

definition reported :: "msg list \<Rightarrow> 'w ocl \<Rightarrow> 'w det \<Rightarrow> 'w det" where
  "reported ms cl s =
     s\<lparr>err_out := err_out s @ [Header_error, Overflow_detected] @ ms @ backtrace_msgs cl (environ s)
         @ [Footer],
       log_out := map_option (\<lambda>l. l @ [Overflow_detected] @ ms @ backtrace_msgs cl (environ s)) (log_out s),
       overflows_observed := overflows_observed s + 1\<rparr>"

lemmas report_defs = print_err_header_def print_err_footer_def print_and_log_err_def
  count_overflow_def put_err_def print_backtrace_def print_dimension_def reported_def backtrace_msgs_def

lemma option_map_comp: "map_option f (map_option g x) = map_option (\<lambda>y. f (g y)) x"
  by (cases x) simp_all

lemma apiOverflowError_run [runs]:
  "apiOverflowError cl func buffer b s =
     Inr ((), reported [if cl_mem_alloc s buffer \<noteq> None then Func_buffer func buffer
                        else Func_svm func buffer, Api_overflow (b + 1)] cl s)"
  by (auto simp: apiOverflowError_def report_defs cl_mem_find_def unomap_find_def option_map_comp
      split: option.split)

lemma apiImageOverflowError_run [runs]:
  "apiImageOverflowError cl func buffer x y z s =
     Inr ((), reported [Func_buffer func buffer,
       if x \<ge> 0 then First_dimension y z (x + 1)
       else if y \<ge> 0 then Second_dimension z (y + 1) else Third_dimension (z + 1)] cl s)"
  by (auto simp: apiImageOverflowError_def report_defs option_map_comp split: option.split)

lemma optionalKillOnOverflow_run [runs]:
  "optionalKillOnOverflow code s =
     (if get_error_envvar (environ s) \<noteq> 0
      then Inl (Exit code, s\<lparr>err_out := err_out s @ [Exit_because_of_overflow]\<rparr>) else Inr ((), s))"
  by (simp add: optionalKillOnOverflow_def put_err_def)

section \<open>Opening the log\<close>

text \<open>The state after \<open>initialize_logging\<close>, which most wrappers call first.\<close>

definition logged :: "'w ocl \<Rightarrow> 'w det \<Rightarrow> 'w det" where
  "logged cl s = (if log_out s \<noteq> None then s else case get_logging_envvar (environ s) of
       None \<Rightarrow> s
     | Some path \<Rightarrow> if fopen_ok cl path then s\<lparr>log_out := Some [Log_begin]\<rparr>
         else s\<lparr>err_out := err_out s @ [Log_not_opened path]\<rparr>)"

lemma initialize_logging_run [runs]: "initialize_logging cl s = Inr ((), logged cl s)"
  by (simp add: initialize_logging_def logged_def put_err_def split: option.split)

lemma logged_frame [simp]:
  "world (logged cl s) = world s" "environ (logged cl s) = environ s"
  "host_mem (logged cl s) = host_mem s" "mobjs (logged cl s) = mobjs s"
  "svobjs (logged cl s) = svobjs s" "next_obj (logged cl s) = next_obj s"
  "cl_mem_alloc (logged cl s) = cl_mem_alloc s" "cl_svm_alloc (logged cl s) = cl_svm_alloc s"
  "kern_list (logged cl s) = kern_list s" "evt_list (logged cl s) = evt_list s"
  "cmd_queue_cache (logged cl s) = cmd_queue_cache s"
  "allocated_fg_svms (logged cl s) = allocated_fg_svms s"
  "free_fg_svms (logged cl s) = free_fg_svms s"
  "stats_flags (logged cl s) = stats_flags s" "internal_create (logged cl s) = internal_create s"
  "canaryAccess (logged cl s) = canaryAccess s"
  "current_user_mem (logged cl s) = current_user_mem s"
  "current_overhead_mem (logged cl s) = current_overhead_mem s"
  "total_user_mem (logged cl s) = total_user_mem s"
  "total_overhead_mem (logged cl s) = total_overhead_mem s"
  "high_user_mem (logged cl s) = high_user_mem s"
  "high_overhead_mem (logged cl s) = high_overhead_mem s"
  "overflows_observed (logged cl s) = overflows_observed s"
  by (auto simp: logged_def split: option.split)

end
