(* ===== verification/Interceptor_Queues.thy ===== *)
theory Interceptor_Queues
  imports Overflow_Error
begin

text \<open>
  Devices and command queues: \<open>clGetDeviceInfo\<close> and the queue functions of \<open>cl_interceptor.c\<close>,
  with \<open>add_profiling\<close> and \<open>getCommandQueueForContext\<close> of \<open>wrapper_utils.c\<close> and
  \<open>is_nvidia_platform\<close> of \<open>util_functions.c\<close>, which they and the other wrappers call.
\<close>

unbundle bit_operations_syntax

section \<open>Results through pointers\<close>

text \<open>
  \<open>errcode_ret\<close>: \<open>None\<close> is NULL, \<open>Some e\<close> a variable that holds \<open>e\<close>. \<open>param_value\<close>: NULL, or an
  array of words; a query that writes nothing leaves it as it was.
\<close>

type_synonym err_ptr = "cl_int option"
type_synonym val_ptr = "u64 list option"

definition set_err :: "err_ptr \<Rightarrow> cl_int \<Rightarrow> err_ptr" where
  "set_err p e = map_option (\<lambda>_. e) p"

definition store_values :: "val_ptr \<Rightarrow> u64 list \<Rightarrow> val_ptr" where
  "store_values p vals = map_option (\<lambda>old. if vals = [] then old else vals) p"

text \<open>A local variable that starts at \<open>init\<close>, after a query has written it.\<close>

definition first_val :: "u64 \<Rightarrow> u64 list \<Rightarrow> u64" where
  "first_val init vals = (case vals of [] \<Rightarrow> init | v # _ \<Rightarrow> v)"

text \<open>\<open>*p_val\<close> read and assigned.\<close>

definition read_val :: "val_ptr \<Rightarrow> ('s, u64) prog" where
  "read_val p = (case p of None \<Rightarrow> fail Null_deref | Some [] \<Rightarrow> fail Out_of_bounds | Some (v # _) \<Rightarrow> ret v)"

definition write_val :: "val_ptr \<Rightarrow> u64 \<Rightarrow> val_ptr" where
  "write_val p v = map_option (\<lambda>xs. v # tl xs) p"

definition update_val :: "val_ptr \<Rightarrow> (u64 \<Rightarrow> u64) \<Rightarrow> ('s, val_ptr) prog" where
  "update_val p f = andThen (read_val p) (\<lambda>v. ret (write_val p (f v)))"

section \<open>\<open>clGetDeviceInfo\<close>\<close>

text \<open>
  The limits are lowered by the canaries. For the largest allocation the number of slices that
  fit is lowered by the canary slices.
\<close>

definition max_alloc_without_canaries :: "u64 \<Rightarrow> u64 \<Rightarrow> u64 \<Rightarrow> u64" where
  "max_alloc_without_canaries p_val width height =
     (let depth = p_val div (width * height)
      in (width - IMAGE_POISON_WIDTH) * (height - IMAGE_POISON_HEIGHT) * (depth - IMAGE_POISON_DEPTH))"

definition lower_device_info ::
  "'w ocl \<Rightarrow> cl_device_id \<Rightarrow> cl_device_info \<Rightarrow> val_ptr \<Rightarrow> ('w det, val_ptr) prog" where
  "lower_device_info cl device param_name p_val = (case param_name of
       CL_DEVICE_IMAGE2D_MAX_WIDTH \<Rightarrow> update_val p_val (\<lambda>v. v - IMAGE_POISON_WIDTH)
     | CL_DEVICE_IMAGE2D_MAX_HEIGHT \<Rightarrow> update_val p_val (\<lambda>v. v - IMAGE_POISON_HEIGHT)
     | CL_DEVICE_IMAGE3D_MAX_WIDTH \<Rightarrow> update_val p_val (\<lambda>v. v - IMAGE_POISON_WIDTH)
     | CL_DEVICE_IMAGE3D_MAX_HEIGHT \<Rightarrow> update_val p_val (\<lambda>v. v - IMAGE_POISON_HEIGHT)
     | CL_DEVICE_IMAGE3D_MAX_DEPTH \<Rightarrow> update_val p_val (\<lambda>v. v - IMAGE_POISON_DEPTH)
     | CL_DEVICE_IMAGE_MAX_BUFFER_SIZE \<Rightarrow> update_val p_val (\<lambda>v. v - IMAGE_POISON_WIDTH)
     | CL_DEVICE_MAX_MEM_ALLOC_SIZE \<Rightarrow>
         andThen (query (rt_GetDeviceInfo cl device CL_DEVICE_IMAGE3D_MAX_WIDTH)) (\<lambda>(err1, w).
         andThen (check_cl_error err1) (\<lambda>_.
         andThen (query (rt_GetDeviceInfo cl device CL_DEVICE_IMAGE3D_MAX_HEIGHT)) (\<lambda>(err2, h).
         andThen (check_cl_error err2) (\<lambda>_.
         andThen (read_val p_val) (\<lambda>v.
           if first_val 0 w * first_val 0 h = 0 then fail Div_by_zero
           else ret (write_val p_val (max_alloc_without_canaries v (first_val 0 w) (first_val 0 h))))))))
     | _ \<Rightarrow> ret p_val)"

definition clGetDeviceInfo ::
  "'w ocl \<Rightarrow> cl_device_id \<Rightarrow> cl_device_info \<Rightarrow> val_ptr \<Rightarrow> ('w det, cl_int \<times> val_ptr) prog" where
  "clGetDeviceInfo cl device param_name param_value =
     (if loaded cl ''clGetDeviceInfo''
      then andThen (query (rt_GetDeviceInfo cl device param_name)) (\<lambda>(ret_val, vals).
           andThen (ret (store_values param_value vals)) (\<lambda>p_val.
           andThen (query (rt_GetDeviceInfo cl device CL_DEVICE_IMAGE_SUPPORT)) (\<lambda>(cl_err, support).
           andThen (check_cl_error cl_err) (\<lambda>_.
             if first_val 0 support = 1
             then andThen (lower_device_info cl device param_name p_val) (\<lambda>q. ret (ret_val, q))
             else ret (ret_val, p_val)))))
      else andThen (cl_msg_not_found ''clGetDeviceInfo'') (\<lambda>_. ret (CL_SUCCESS, param_value)))"

section \<open>Command queues\<close>

text \<open>\<open>commandQueueCache_insert\<close> on the new structure; it does not replace an entry.\<close>

definition cache_queue :: "cl_context \<Rightarrow> cl_command_queue \<Rightarrow> ('w det, unit) prog" where
  "cache_queue context q =
     commandQueueCache_insert \<lparr>qc_handle = context, qc_cached_queue = q, qc_ref_count = 1\<rparr>"

definition clCreateCommandQueue ::
  "'w ocl \<Rightarrow> cl_context \<Rightarrow> cl_device_id \<Rightarrow> queue_property set \<Rightarrow> err_ptr \<Rightarrow>
    ('w det, cl_command_queue \<times> err_ptr) prog" where
  "clCreateCommandQueue cl context device properties errcode_ret =
     (if loaded cl ''clCreateCommandQueue''
      then andThen (gets stats_checker) (\<lambda>timing.
           andThen (call (rt_CreateCommandQueue cl context device
             (if timing then insert CL_QUEUE_PROFILING_ENABLE properties else properties))) (\<lambda>(q, err).
           andThen (cache_queue context q) (\<lambda>_.
           ret (q, set_err errcode_ret err))))
      else andThen (cl_msg_not_found ''clCreateCommandQueue'') (\<lambda>_. ret (0, errcode_ret)))"

text \<open>
  \<open>add_profiling\<close>. The list alternates names and values and ends with a name 0. The first loop,
  as a recursion over the rest of the list with the index reached; \<open>None\<close>: the list has no end.
\<close>

fun scan_properties ::
  "u64 \<Rightarrow> u64 \<Rightarrow> u64 list \<Rightarrow> nat \<Rightarrow> bool \<Rightarrow> nat option \<Rightarrow> (bool \<times> nat option \<times> nat) option" where
  "scan_properties key prof (k # v # rest) i found here =
     (if k = 0 then Some (found, here, i)
      else scan_properties key prof rest (i + 2) (found \<or> k = key)
        (if k = key \<and> v AND prof = 0 then Some (i + 1) else here))"
| "scan_properties key prof [k] i found here = (if k = 0 then Some (found, here, i) else None)"
| "scan_properties key prof [] i found here = None"

definition add_profiling :: "u64 \<Rightarrow> u64 \<Rightarrow> u64 list option \<Rightarrow> u64 list option" where
  "add_profiling key prof properties = (case properties of
       None \<Rightarrow> Some [key, prof, 0]
     | Some props \<Rightarrow> (case scan_properties key prof props 0 False None of
           None \<Rightarrow> None
         | Some (found, add_profiling_here, i) \<Rightarrow>
             let fake_prop = take i props
             in if \<not> found then Some (fake_prop @ [key, prof, 0])
                else Some ((case add_profiling_here of
                    None \<Rightarrow> fake_prop
                  | Some h \<Rightarrow> fake_prop[h := props ! h OR prof]) @ [0])))"

text \<open>An element of the property list; a read past its end is not defined.\<close>

definition read_at :: "u64 list \<Rightarrow> nat \<Rightarrow> ('s, u64) prog" where
  "read_at xs i = (if i < length xs then ret (xs ! i) else fail Out_of_bounds)"

text \<open>The search for the queue flags, which looks at the first two properties only.\<close>

definition queue_flags :: "u64 \<Rightarrow> u64 list option \<Rightarrow> ('s, u32) prog" where
  "queue_flags key updated_prop = (case updated_prop of
       None \<Rightarrow> ret 0
     | Some props \<Rightarrow>
         andThen (read_at props 0) (\<lambda>p0.
           if p0 = key then andThen (read_at props 1) (\<lambda>v. ret (ucast v))
           else andThen (read_at props 2) (\<lambda>p2.
             if p2 = key then andThen (read_at props 3) (\<lambda>v. ret (ucast v)) else ret 0)))"

definition clCreateCommandQueueWithProperties ::
  "'w ocl \<Rightarrow> cl_context \<Rightarrow> cl_device_id \<Rightarrow> u64 list option \<Rightarrow> err_ptr \<Rightarrow>
    ('w det, cl_command_queue \<times> err_ptr) prog" where
  "clCreateCommandQueueWithProperties cl context device properties errcode_ret =
     (if loaded cl ''clCreateCommandQueueWithProperties''
      then andThen (gets stats_checker) (\<lambda>timing.
           andThen (if timing
             then (case add_profiling (c_QUEUE_PROPERTIES cl) (c_PROFILING_ENABLE cl) properties of
                 None \<Rightarrow> fail Out_of_bounds | Some p \<Rightarrow> ret (Some p))
             else ret properties) (\<lambda>updated_prop.
           andThen (call (rt_CreateCommandQueueWithProperties cl context device updated_prop)) (\<lambda>(q, err).
           andThen (queue_flags (c_QUEUE_PROPERTIES cl) updated_prop) (\<lambda>flags.
           andThen (if errcode_ret \<noteq> None \<and> flags AND ucast (c_QUEUE_ON_DEVICE cl) \<noteq> 0
             then andThen (query (q_queue_size cl q)) (\<lambda>cl_err.
               ret (set_err errcode_ret
                 (if cl_err \<noteq> CL_INVALID_COMMAND_QUEUE then CL_SUCCESS else CL_INVALID_COMMAND_QUEUE)))
             else ret (set_err errcode_ret err)) (\<lambda>errcode.
           andThen (cache_queue context q) (\<lambda>_.
           ret (q, errcode)))))))
      else andThen (cl_msg_not_found ''clCreateCommandQueueWithProperties'') (\<lambda>_.
           ret (0, errcode_ret)))"

definition clRetainCommandQueue :: "'w ocl \<Rightarrow> cl_command_queue \<Rightarrow> ('w det, cl_int) prog" where
  "clRetainCommandQueue cl command_queue =
     (if loaded cl ''clRetainCommandQueue''
      then andThen (call (rt_RetainCommandQueue cl command_queue)) (\<lambda>err.
           andThen (query (q_queue_context cl command_queue)) (\<lambda>(cl_err, context).
           andThen (check_cl_error cl_err) (\<lambda>_.
           andThen (commandQueueCache_find context) (\<lambda>findme. case findme of
               None \<Rightarrow> ret err
             | Some q \<Rightarrow>
                 andThen (commandQueueCache_assign context (q\<lparr>qc_ref_count := qc_ref_count q + 1\<rparr>))
                   (\<lambda>_. ret err)))))
      else andThen (cl_msg_not_found ''clRetainCommandQueue'') (\<lambda>_. ret minus_100_status))"

text \<open>The queue is never released: the code under \<open>#if 0\<close> is not compiled.\<close>

definition clReleaseCommandQueue :: "'w ocl \<Rightarrow> cl_command_queue \<Rightarrow> ('w det, cl_int) prog" where
  "clReleaseCommandQueue cl command_queue =
     (if loaded cl ''clReleaseCommandQueue''
      then ret (if command_queue \<noteq> 0 then CL_SUCCESS else CL_INVALID_COMMAND_QUEUE)
      else andThen (cl_msg_not_found ''clReleaseCommandQueue'') (\<lambda>_. ret minus_100_status))"

text \<open>Returns whether the queue came from the cache, and the queue.\<close>

definition getCommandQueueForContext ::
  "'w ocl \<Rightarrow> cl_context \<Rightarrow> ('w det, bool \<times> cl_command_queue) prog" where
  "getCommandQueueForContext cl context =
     andThen (commandQueueCache_find context) (\<lambda>findme. case findme of
         Some q \<Rightarrow> ret (True, qc_cached_queue q)
       | None \<Rightarrow>
           andThen (query (q_context_devices cl context)) (\<lambda>(cl_err, devices).
           andThen (check_cl_error cl_err) (\<lambda>_.
             case devices of
               [] \<Rightarrow> fail Out_of_bounds
             | device # _ \<Rightarrow>
                 andThen (clCreateCommandQueue cl context device {} (Some cl_err)) (\<lambda>(q, err).
                 andThen (check_cl_error (the err)) (\<lambda>_. ret (False, q))))))"

fun has_prefix :: "string \<Rightarrow> string \<Rightarrow> bool" where
  "has_prefix [] s = True"
| "has_prefix (c # cs) [] = False"
| "has_prefix (c # cs) (d # ds) = (c = d \<and> has_prefix cs ds)"

fun strstr :: "string \<Rightarrow> string \<Rightarrow> bool" where
  "strstr [] needle = has_prefix needle []"
| "strstr (c # cs) needle = (has_prefix needle (c # cs) \<or> strstr cs needle)"

definition is_nvidia_platform :: "'w ocl \<Rightarrow> cl_context \<Rightarrow> ('w det, bool) prog" where
  "is_nvidia_platform cl context =
     andThen (query (q_context_devices cl context)) (\<lambda>(err1, devices).
     andThen (check_cl_error err1) (\<lambda>_.
       case devices of
         [] \<Rightarrow> fail Out_of_bounds
       | device # _ \<Rightarrow>
           andThen (query (q_device_platform cl device)) (\<lambda>(err2, platform).
           andThen (check_cl_error err2) (\<lambda>_.
           andThen (query (q_platform_name cl platform)) (\<lambda>(err3, name).
           andThen (check_cl_error err3) (\<lambda>_.
           ret (strstr name ''NVIDIA'')))))))"

text \<open>
  The test each image wrapper makes before anything else: \<open>Some e\<close> is the early return. The name
  is the wrapper's, for the message.
\<close>

definition image_support_check ::
  "'w ocl \<Rightarrow> string \<Rightarrow> cl_command_queue \<Rightarrow> ('w det, cl_int option) prog" where
  "image_support_check cl name command_queue =
     andThen (query (q_queue_device cl command_queue)) (\<lambda>(temp_err, device).
       if temp_err \<noteq> CL_SUCCESS
       then andThen (put_err (Device_from_queue_failed name)) (\<lambda>_. ret (Some CL_INVALID_COMMAND_QUEUE))
       else andThen (clGetDeviceInfo cl device CL_DEVICE_IMAGE_SUPPORT (Some [0])) (\<lambda>(err2, vals).
         if err2 \<noteq> CL_SUCCESS
         then andThen (put_err (Image_support_failed name)) (\<lambda>_. ret (Some CL_INVALID_DEVICE))
         else andThen (read_val vals) (\<lambda>image_support.
           if image_support = 0 then ret (Some CL_INVALID_OPERATION) else ret None)))"

end
