(* ===== verification/Wrapper_Utils.thy ===== *)
theory Wrapper_Utils
  imports Interceptor_Queues
begin

text \<open>
  The rest of \<open>src/cl_wrapper/wrapper_utils.c\<close>: the flag that lets the tool reach the canaries of
  an image, the checks of the API calls against the sizes of buffers and images, and the host copy
  of an image with its canaries. Sums and differences are 64-bit and wrap.
\<close>

section \<open>Access to the canaries\<close>

definition allowCanaryAccess :: "('w det, unit) prog" where
  "allowCanaryAccess = modify (\<lambda>s. s\<lparr>canaryAccess := True\<rparr>)"

definition disallowCanaryAccess :: "('w det, unit) prog" where
  "disallowCanaryAccess = modify (\<lambda>s. s\<lparr>canaryAccess := False\<rparr>)"

definition canaryAccessAllowed :: "('w det, bool) prog" where
  "canaryAccessAllowed = gets canaryAccess"

section \<open>The checks\<close>

text \<open>
  How far past the end an access starts (0 when it starts inside); a 64-bit number that is passed on
  as an \<open>unsigned\<close> or an \<open>int\<close>.
\<close>

definition start_past_end :: "u64 \<Rightarrow> u64 \<Rightarrow> u64" where
  "start_past_end start limit = (if start > limit then start - limit else 0)"

text \<open>\<open>optionalKillOnOverflow(get_exitcode_envvar(), 0)\<close>, then the check reports an overflow.\<close>

definition kill_or_report :: "('w det, bool) prog" where
  "kill_or_report = andThen (gets (\<lambda>s. get_exitcode_envvar (environ s))) (\<lambda>code.
     andThen (optionalKillOnOverflow code) (\<lambda>_. ret True))"

definition api_check_disabled :: "'w det \<Rightarrow> bool" where
  "api_check_disabled s \<longleftrightarrow> get_disable_api_check_envvar (environ s) \<noteq> 0"

definition apiBufferOverflowCheck ::
  "'w ocl \<Rightarrow> string \<Rightarrow> cl_mem \<Rightarrow> u64 \<Rightarrow> u64 \<Rightarrow> ('w det, bool) prog" where
  "apiBufferOverflowCheck cl func buffer offset sz =
     andThen (gets api_check_disabled) (\<lambda>disabled.
       if disabled then ret False
       else andThen (lookup_mobj buffer) (\<lambda>r. case r of
           None \<Rightarrow> ret False
         | Some (_, m1) \<Rightarrow>
             if offset + sz > m_size m1
             then andThen (apiOverflowError cl func buffer (ucast (start_past_end offset (m_size m1))))
               (\<lambda>_. kill_or_report)
             else ret False))"

text \<open>The first byte and the end of a rectangle, as the check computes them.\<close>

definition rect_bounds :: "vec3 \<Rightarrow> vec3 \<Rightarrow> u64 \<Rightarrow> u64 \<Rightarrow> u64 \<times> u64" where
  "rect_bounds off region row_pitch slice_pitch =
     (case off of (o0, o1, o2) \<Rightarrow> case region of (r0, r1, r2) \<Rightarrow>
        let row = (if row_pitch = 0 then r0 else row_pitch);
            slice = (if slice_pitch = 0 then row * r1 else slice_pitch);
            b_off = o0 + o1 * row + o2 * slice
        in (b_off, r0 * r1 * r2 + b_off))"

definition apiBufferRectOverflowCheck ::
  "'w ocl \<Rightarrow> string \<Rightarrow> cl_mem \<Rightarrow> vec3 \<Rightarrow> vec3 \<Rightarrow> u64 \<Rightarrow> u64 \<Rightarrow> ('w det, bool) prog" where
  "apiBufferRectOverflowCheck cl func buffer buffer_offset region row_pitch slice_pitch =
     andThen (gets api_check_disabled) (\<lambda>disabled.
       if disabled then ret False
       else andThen (lookup_mobj buffer) (\<lambda>r. case r of
           None \<Rightarrow> ret False
         | Some (_, m1) \<Rightarrow>
             (case rect_bounds buffer_offset region row_pitch slice_pitch of (b_off, b_end) \<Rightarrow>
                if b_end > m_size m1
                then andThen (apiOverflowError cl func buffer (ucast (start_past_end b_off (m_size m1))))
                  (\<lambda>_. kill_or_report)
                else ret False)))"

text \<open>
  The limits of an image in each dimension, less the canaries unless the tool itself is at work;
  then the first dimension, from the last, that the access leaves: the arguments \<open>x\<close>, \<open>y\<close>, \<open>z\<close> of
  the message.
\<close>

definition image_limits :: "cl_memobj \<Rightarrow> bool \<Rightarrow> vec3" where
  "image_limits m canary_access =
     (let d = m_image_desc m;
          h = (if image_type d = CL_MEM_OBJECT_IMAGE1D_ARRAY then image_array_size d else image_height d);
          dp = (if image_type d = CL_MEM_OBJECT_IMAGE2D_ARRAY then image_array_size d else image_depth d)
      in if \<not> m_has_canary m \<or> canary_access then (image_width d, h, dp)
         else (image_width d - IMAGE_POISON_WIDTH, h - IMAGE_POISON_HEIGHT, dp - IMAGE_POISON_DEPTH))"

definition int_of_u64 :: "u64 \<Rightarrow> int" where
  "int_of_u64 w = sint (ucast w :: u32)"

definition image_overflow :: "vec3 \<Rightarrow> vec3 \<Rightarrow> vec3 \<Rightarrow> (int \<times> int \<times> int) option" where
  "image_overflow limits origin region =
     (case limits of (w, h, d) \<Rightarrow> case origin of (o0, o1, o2) \<Rightarrow> case region of (r0, r1, r2) \<Rightarrow>
        if o2 + r2 > d then Some (-1, -1, int_of_u64 (start_past_end o2 d))
        else if o1 + r1 > h then Some (-1, int_of_u64 (start_past_end o1 h), int_of_u64 o2)
        else if o0 + r0 > w then Some (int_of_u64 (start_past_end o0 w), int_of_u64 o1, int_of_u64 o2)
        else None)"

definition apiImageOverflowCheck ::
  "'w ocl \<Rightarrow> string \<Rightarrow> cl_mem \<Rightarrow> vec3 \<Rightarrow> vec3 \<Rightarrow> ('w det, bool) prog" where
  "apiImageOverflowCheck cl func img origin region =
     andThen (gets api_check_disabled) (\<lambda>disabled.
       if disabled then ret False
       else andThen (lookup_mobj img) (\<lambda>r. case r of
           None \<Rightarrow> ret False
         | Some (_, m1) \<Rightarrow>
             if \<not> m_is_image m1 then ret False
             else andThen canaryAccessAllowed (\<lambda>access.
               case image_overflow (image_limits m1 access) origin region of
                 None \<Rightarrow> ret False
               | Some (x, y, z) \<Rightarrow>
                   andThen (apiImageOverflowError cl func img x y z) (\<lambda>_. kill_or_report))))"

section \<open>The host copy of an image\<close>

text \<open>Stores into an array; a store that leaves it is not defined (\<open>None\<close>).\<close>

definition blit :: "nat \<Rightarrow> 'a list \<Rightarrow> 'a list \<Rightarrow> 'a list option" where
  "blit off bytes arr =
     (if off + length bytes \<le> length arr
      then Some (take off arr @ bytes @ drop (off + length bytes) arr) else None)"

fun fold_opt :: "('a \<Rightarrow> 'b \<Rightarrow> 'b option) \<Rightarrow> 'a list \<Rightarrow> 'b \<Rightarrow> 'b option" where
  "fold_opt f [] b = Some b"
| "fold_opt f (x # xs) b = (case f x b of None \<Rightarrow> None | Some c \<Rightarrow> fold_opt f xs c)"

text \<open>
  \<open>allocFlatImageCopy\<close>. All the indices are 32-bit. The pitch of a row defaults to the width in
  elements, taken before the width is multiplied by the size of an element; a slice starts at the
  product of the two pitches.
\<close>

record flat_dims =
  fl_i_lim :: u32 \<comment> \<open>bytes\<close>
  fl_j_lim :: u32
  fl_k_lim :: u32
  fl_i_len :: u32 \<comment> \<open>bytes\<close>
  fl_j_len :: u32
  fl_k_len :: u32
  fl_i_pitch :: u32
  fl_j_pitch :: u32
  fl_size :: u64 \<comment> \<open>bytes of an element\<close>

definition flat_image_dims :: "cl_memobj \<Rightarrow> flat_dims" where
  "flat_image_dims img =
     (let d = get_image_dimensions (m_image_desc img);
          rp = image_row_pitch (m_image_desc img);
          sp = image_slice_pitch (m_image_desc img);
          dataSize = getImageDataSize (m_image_format img)
      in \<lparr>fl_i_lim = i_lim d * dataSize, fl_j_lim = j_lim d, fl_k_lim = k_lim d,
          fl_i_len = i_dat d * dataSize, fl_j_len = j_dat d, fl_k_len = k_dat d,
          fl_i_pitch = (if rp \<noteq> 0 then ucast rp else i_dat d),
          fl_j_pitch = (if sp \<noteq> 0 then ucast sp else j_dat d),
          fl_size = ucast dataSize\<rparr>)"

text \<open>\<open>memcpy\<close> of \<open>n\<close> bytes of host memory from a pointer.\<close>

definition host_bytes :: "(ptr \<Rightarrow> u8) \<Rightarrow> ptr \<Rightarrow> nat \<Rightarrow> u8 list" where
  "host_bytes mem p n = map (\<lambda>i. mem (p + of_nat i)) [0..<n]"

definition flat_row :: "flat_dims \<Rightarrow> bool \<Rightarrow> (ptr \<Rightarrow> u8) \<Rightarrow> ptr \<Rightarrow> u32 \<Rightarrow> u32 \<Rightarrow> u8 list \<Rightarrow> u8 list option" where
  "flat_row d copy_host mem host_ptr k j arr =
     (let start = k * fl_j_lim d * fl_i_lim d + j * fl_i_lim d;
          from_host = host_ptr + ucast (k * fl_j_pitch d * fl_i_pitch d + j * fl_i_pitch d)
      in case (if copy_host
               then blit (unat start) (host_bytes mem from_host (unat (fl_i_len d))) arr else Some arr) of
           None \<Rightarrow> None
         | Some arr2 \<Rightarrow>
             blit (unat (start + fl_i_len d)) (poison_bytes (unat (IMAGE_POISON_WIDTH * fl_size d))) arr2)"

definition flat_slice :: "flat_dims \<Rightarrow> bool \<Rightarrow> (ptr \<Rightarrow> u8) \<Rightarrow> ptr \<Rightarrow> u32 \<Rightarrow> u8 list \<Rightarrow> u8 list option" where
  "flat_slice d copy_host mem host_ptr k arr =
     (case fold_opt (flat_row d copy_host mem host_ptr k) (upto32 (fl_j_len d)) arr of
        None \<Rightarrow> None
      | Some arr2 \<Rightarrow>
          if 1 < fl_j_lim d
          then blit (unat (k * fl_j_lim d * fl_i_lim d + fl_j_len d * fl_i_lim d))
            (poison_bytes (unat (IMAGE_POISON_HEIGHT * fl_i_lim d))) arr2
          else Some arr2)"

definition allocFlatImageCopy :: "(ptr \<Rightarrow> u8) \<Rightarrow> ptr \<Rightarrow> cl_memobj \<Rightarrow> u8 list option" where
  "allocFlatImageCopy mem host_ptr img =
     (let d = flat_image_dims img
      in case fold_opt (flat_slice d (CL_MEM_COPY_HOST_PTR \<in> m_flags img) mem host_ptr)
             (upto32 (fl_k_len d)) (replicate (unat (m_size img)) 0) of
           None \<Rightarrow> None
         | Some arr \<Rightarrow>
             if 1 < fl_k_lim d
             then blit (unat (fl_k_len d * fl_j_lim d * fl_i_lim d))
               (poison_bytes (unat (IMAGE_POISON_DEPTH * fl_j_lim d * fl_i_lim d))) arr
             else Some arr)"

section \<open>What the checks do\<close>

definition overflow_found :: "(msg list \<times> bool) \<Rightarrow> 'w ocl \<Rightarrow> 'w det \<Rightarrow> (abort \<times> 'w det) + (bool \<times> 'w det)" where
  "overflow_found r cl s = (case r of (ms, found) \<Rightarrow>
     if \<not> found then Inr (False, s)
     else if get_error_envvar (environ s) \<noteq> 0
       then Inl (Exit (get_exitcode_envvar (environ s)),
         (reported ms cl s)\<lparr>err_out := err_out (reported ms cl s) @ [Exit_because_of_overflow]\<rparr>)
     else Inr (True, reported ms cl s))"

lemma reported_environ [simp]: "environ (reported ms cl s) = environ s"
  by (simp add: reported_def)

lemma kill_or_report_run [runs]:
  "kill_or_report s = (if get_error_envvar (environ s) \<noteq> 0
     then Inl (Exit (get_exitcode_envvar (environ s)), s\<lparr>err_out := err_out s @ [Exit_because_of_overflow]\<rparr>)
     else Inr (True, s))"
  by (simp add: kill_or_report_def optionalKillOnOverflow_def put_err_def andThen_def)

text \<open>The buffer check: silent when the object is not known or the access ends inside.\<close>

lemma apiBufferOverflowCheck_run:
  assumes "cl_mem_alloc s buffer = Some a" and "mobjs s a = Some m"
  shows "apiBufferOverflowCheck cl func buffer offset sz s =
    overflow_found ([Func_buffer func buffer, Api_overflow (ucast (start_past_end offset (m_size m)) + 1)],
      \<not> api_check_disabled s \<and> offset + sz > m_size m) cl s"
  using assms
  by (simp add: apiBufferOverflowCheck_def andThen_def runs overflow_found_def)

lemma apiBufferRectOverflowCheck_run:
  assumes "cl_mem_alloc s buffer = Some a" and "mobjs s a = Some m"
    and "rect_bounds off region rp sp = (b_off, b_end)"
  shows "apiBufferRectOverflowCheck cl func buffer off region rp sp s =
    overflow_found ([Func_buffer func buffer, Api_overflow (ucast (start_past_end b_off (m_size m)) + 1)],
      \<not> api_check_disabled s \<and> b_end > m_size m) cl s"
  using assms
  by (simp add: apiBufferRectOverflowCheck_def andThen_def runs overflow_found_def)

definition dimension_msg :: "int \<times> int \<times> int \<Rightarrow> msg" where
  "dimension_msg r = (case r of (x, y, z) \<Rightarrow>
     if x \<ge> 0 then First_dimension y z (x + 1)
     else if y \<ge> 0 then Second_dimension z (y + 1) else Third_dimension (z + 1))"

lemma apiImageOverflowCheck_run:
  assumes "cl_mem_alloc s img = Some a" and "mobjs s a = Some m" and "m_is_image m"
  shows "apiImageOverflowCheck cl func img origin region s =
    (case image_overflow (image_limits m (canaryAccess s)) origin region of
       None \<Rightarrow> Inr (False, s)
     | Some r \<Rightarrow> overflow_found ([Func_buffer func img, dimension_msg r], \<not> api_check_disabled s) cl s)"
  using assms
  by (auto simp: apiImageOverflowCheck_def andThen_def runs overflow_found_def canaryAccessAllowed_def
      dimension_msg_def split: option.split)

lemma check_unknown:
  assumes "cl_mem_alloc s buffer = None"
  shows "apiBufferOverflowCheck cl func buffer offset sz s = Inr (False, s)"
    and "apiBufferRectOverflowCheck cl func buffer off region rp sp s = Inr (False, s)"
    and "apiImageOverflowCheck cl func buffer origin reg s = Inr (False, s)"
  using assms
  by (simp_all add: apiBufferOverflowCheck_def apiBufferRectOverflowCheck_def
      apiImageOverflowCheck_def andThen_def runs)

end
