(* ===== verification/Interceptor_Enqueue.thy ===== *)
theory Interceptor_Enqueue
  imports Wrapper_Utils
begin

text \<open>
  The transfer commands of \<open>cl_interceptor.c\<close>, from \<open>clEnqueueReadBuffer\<close> to
  \<open>clEnqueueCopyBufferToImage\<close>: each checks the ranges it is given against the tool's tables and
  calls the runtime only if they fit. A command that is stopped returns \<open>CL_SUCCESS\<close> and leaves
  \<open>*event\<close> unwritten (\<open>None\<close>).
\<close>

section \<open>Buffers\<close>

type_synonym 'w enqueue = "('w det, cl_int \<times> cl_event option) prog"
type_synonym 'w enqueue_read = "('w det, cl_int \<times> (u8 list \<times> cl_event) option) prog"

definition clEnqueueReadBuffer ::
  "'w ocl \<Rightarrow> cl_command_queue \<Rightarrow> cl_mem \<Rightarrow> bool \<Rightarrow> u64 \<Rightarrow> u64 \<Rightarrow> evts \<Rightarrow> 'w enqueue_read" where
  "clEnqueueReadBuffer cl q buffer blocking_read offset sz event_list =
     (if loaded cl ''clEnqueueReadBuffer''
      then andThen (apiBufferOverflowCheck cl ''clEnqueueReadBuffer'' buffer offset sz) (\<lambda>bad.
        if \<not> bad
        then andThen (call (rt_EnqueueReadBuffer cl q buffer blocking_read offset sz event_list))
               (\<lambda>(err, bytes, ev). ret (err, Some (bytes, ev)))
        else ret (CL_SUCCESS, None))
      else andThen (cl_msg_not_found ''clEnqueueReadBuffer'') (\<lambda>_. ret (CL_SUCCESS, None)))"

definition clEnqueueReadBufferRect ::
  "'w ocl \<Rightarrow> cl_command_queue \<Rightarrow> cl_mem \<Rightarrow> bool \<Rightarrow> vec3 \<Rightarrow> vec3 \<Rightarrow> vec3 \<Rightarrow> u64 \<Rightarrow> u64 \<Rightarrow> u64 \<Rightarrow> u64 \<Rightarrow>
    evts \<Rightarrow> 'w enqueue_read" where
  "clEnqueueReadBufferRect cl q buffer blocking_read buffer_offset host_offset region
     buffer_row_pitch buffer_slice_pitch host_row_pitch host_slice_pitch event_list =
     (if loaded cl ''clEnqueueReadBufferRect''
      then andThen (apiBufferRectOverflowCheck cl ''clEnqueueReadBufferRect'' buffer buffer_offset region
             buffer_row_pitch buffer_slice_pitch) (\<lambda>bad.
        if \<not> bad
        then andThen (call (rt_EnqueueReadBufferRect cl q buffer blocking_read buffer_offset host_offset
               region buffer_row_pitch buffer_slice_pitch host_row_pitch host_slice_pitch event_list))
               (\<lambda>(err, bytes, ev). ret (err, Some (bytes, ev)))
        else ret (CL_SUCCESS, None))
      else andThen (cl_msg_not_found ''clEnqueueReadBufferRect'') (\<lambda>_. ret (CL_SUCCESS, None)))"

definition clEnqueueWriteBuffer ::
  "'w ocl \<Rightarrow> cl_command_queue \<Rightarrow> cl_mem \<Rightarrow> bool \<Rightarrow> u64 \<Rightarrow> u64 \<Rightarrow> hostdata \<Rightarrow> evts \<Rightarrow> 'w enqueue" where
  "clEnqueueWriteBuffer cl q buffer blocking_write offset sz p event_list =
     (if loaded cl ''clEnqueueWriteBuffer''
      then andThen (apiBufferOverflowCheck cl ''clEnqueueWriteBuffer'' buffer offset sz) (\<lambda>bad.
        if \<not> bad
        then andThen (call (rt_EnqueueWriteBuffer cl q buffer blocking_write offset sz p event_list))
               (\<lambda>(err, ev). ret (err, Some ev))
        else ret (CL_SUCCESS, None))
      else andThen (cl_msg_not_found ''clEnqueueWriteBuffer'') (\<lambda>_. ret (CL_SUCCESS, None)))"

definition clEnqueueWriteBufferRect ::
  "'w ocl \<Rightarrow> cl_command_queue \<Rightarrow> cl_mem \<Rightarrow> bool \<Rightarrow> vec3 \<Rightarrow> vec3 \<Rightarrow> vec3 \<Rightarrow> u64 \<Rightarrow> u64 \<Rightarrow> u64 \<Rightarrow> u64 \<Rightarrow>
    hostdata \<Rightarrow> evts \<Rightarrow> 'w enqueue" where
  "clEnqueueWriteBufferRect cl q buffer blocking_write buffer_offset host_offset region
     buffer_row_pitch buffer_slice_pitch host_row_pitch host_slice_pitch p event_list =
     (if loaded cl ''clEnqueueWriteBufferRect''
      then andThen (apiBufferRectOverflowCheck cl ''clEnqueueWriteBufferRect'' buffer buffer_offset region
             buffer_row_pitch buffer_slice_pitch) (\<lambda>bad.
        if \<not> bad
        then andThen (call (rt_EnqueueWriteBufferRect cl q buffer blocking_write buffer_offset host_offset
               region buffer_row_pitch buffer_slice_pitch host_row_pitch host_slice_pitch p event_list))
               (\<lambda>(err, ev). ret (err, Some ev))
        else ret (CL_SUCCESS, None))
      else andThen (cl_msg_not_found ''clEnqueueWriteBufferRect'') (\<lambda>_. ret (CL_SUCCESS, None)))"

definition clEnqueueFillBuffer ::
  "'w ocl \<Rightarrow> cl_command_queue \<Rightarrow> cl_mem \<Rightarrow> u8 list \<Rightarrow> u64 \<Rightarrow> u64 \<Rightarrow> evts \<Rightarrow> 'w enqueue" where
  "clEnqueueFillBuffer cl q buffer pattern offset sz event_list =
     (if loaded cl ''clEnqueueFillBuffer''
      then andThen (apiBufferOverflowCheck cl ''clEnqueueFillBuffer'' buffer offset sz) (\<lambda>bad.
        if \<not> bad
        then andThen (call (rt_EnqueueFillBuffer cl q buffer pattern offset sz event_list))
               (\<lambda>(err, ev). ret (err, Some ev))
        else ret (CL_SUCCESS, None))
      else andThen (cl_msg_not_found ''clEnqueueFillBuffer'') (\<lambda>_. ret (CL_SUCCESS, None)))"

text \<open>\<open>\&\&\<close>: the destination is checked only when the source fits.\<close>

definition both_fit :: "('w det, bool) prog \<Rightarrow> ('w det, bool) prog \<Rightarrow> ('w det, bool) prog" where
  "both_fit check1 check2 =
     andThen check1 (\<lambda>bad1. if bad1 then ret False else andThen check2 (\<lambda>bad2. ret (\<not> bad2)))"

definition clEnqueueCopyBuffer ::
  "'w ocl \<Rightarrow> cl_command_queue \<Rightarrow> cl_mem \<Rightarrow> cl_mem \<Rightarrow> u64 \<Rightarrow> u64 \<Rightarrow> u64 \<Rightarrow> evts \<Rightarrow> 'w enqueue" where
  "clEnqueueCopyBuffer cl q src_buffer dst_buffer src_offset dst_offset sz event_list =
     (if loaded cl ''clEnqueueCopyBuffer''
      then andThen (both_fit
             (apiBufferOverflowCheck cl ''clEnqueueCopyBuffer'' src_buffer src_offset sz)
             (apiBufferOverflowCheck cl ''clEnqueueCopyBuffer'' dst_buffer dst_offset sz)) (\<lambda>ok.
        if ok
        then andThen (call (rt_EnqueueCopyBuffer cl q src_buffer dst_buffer src_offset dst_offset sz
               event_list)) (\<lambda>(err, ev). ret (err, Some ev))
        else ret (CL_SUCCESS, None))
      else andThen (cl_msg_not_found ''clEnqueueCopyBuffer'') (\<lambda>_. ret (CL_SUCCESS, None)))"

definition clEnqueueCopyBufferRect ::
  "'w ocl \<Rightarrow> cl_command_queue \<Rightarrow> cl_mem \<Rightarrow> cl_mem \<Rightarrow> vec3 \<Rightarrow> vec3 \<Rightarrow> vec3 \<Rightarrow> u64 \<Rightarrow> u64 \<Rightarrow> u64 \<Rightarrow> u64 \<Rightarrow>
    evts \<Rightarrow> 'w enqueue" where
  "clEnqueueCopyBufferRect cl q src_buffer dst_buffer src_origin dst_origin region
     src_row_pitch src_slice_pitch dst_row_pitch dst_slice_pitch event_list =
     (if loaded cl ''clEnqueueCopyBufferRect''
      then andThen (both_fit
             (apiBufferRectOverflowCheck cl ''clEnqueueCopyBufferRect'' src_buffer src_origin region
               src_row_pitch src_slice_pitch)
             (apiBufferRectOverflowCheck cl ''clEnqueueCopyBufferRect'' dst_buffer dst_origin region
               dst_row_pitch dst_slice_pitch)) (\<lambda>ok.
        if ok
        then andThen (call (rt_EnqueueCopyBufferRect cl q src_buffer dst_buffer src_origin dst_origin
               region src_row_pitch src_slice_pitch dst_row_pitch dst_slice_pitch event_list))
               (\<lambda>(err, ev). ret (err, Some ev))
        else ret (CL_SUCCESS, None))
      else andThen (cl_msg_not_found ''clEnqueueCopyBufferRect'') (\<lambda>_. ret (CL_SUCCESS, None)))"

section \<open>Images\<close>

text \<open>Each wrapper first asks whether the queue's device supports images.\<close>

definition clEnqueueReadImage ::
  "'w ocl \<Rightarrow> cl_command_queue \<Rightarrow> cl_mem \<Rightarrow> bool \<Rightarrow> vec3 \<Rightarrow> vec3 \<Rightarrow> u64 \<Rightarrow> u64 \<Rightarrow> evts \<Rightarrow> 'w enqueue_read" where
  "clEnqueueReadImage cl q img blocking_read origin region row_pitch slice_pitch event_list =
     (if loaded cl ''clEnqueueReadImage''
      then andThen (image_support_check cl ''clEnqueueReadImage'' q) (\<lambda>early. case early of
          Some e \<Rightarrow> ret (e, None)
        | None \<Rightarrow>
            andThen (apiImageOverflowCheck cl ''clEnqueueReadImage'' img origin region) (\<lambda>bad.
              if \<not> bad
              then andThen (call (rt_EnqueueReadImage cl q img blocking_read origin region row_pitch
                     slice_pitch event_list)) (\<lambda>(err, bytes, ev). ret (err, Some (bytes, ev)))
              else ret (CL_SUCCESS, None)))
      else andThen (cl_msg_not_found ''clEnqueueReadImage'') (\<lambda>_. ret (CL_SUCCESS, None)))"

definition clEnqueueWriteImage ::
  "'w ocl \<Rightarrow> cl_command_queue \<Rightarrow> cl_mem \<Rightarrow> bool \<Rightarrow> vec3 \<Rightarrow> vec3 \<Rightarrow> u64 \<Rightarrow> u64 \<Rightarrow> hostdata \<Rightarrow> evts \<Rightarrow>
    'w enqueue" where
  "clEnqueueWriteImage cl q img blocking_write origin region row_pitch slice_pitch p event_list =
     (if loaded cl ''clEnqueueWriteImage''
      then andThen (image_support_check cl ''clEnqueueWriteImage'' q) (\<lambda>early. case early of
          Some e \<Rightarrow> ret (e, None)
        | None \<Rightarrow>
            andThen (apiImageOverflowCheck cl ''clEnqueueWriteImage'' img origin region) (\<lambda>bad.
              if \<not> bad
              then andThen (call (rt_EnqueueWriteImage cl q img blocking_write origin region row_pitch
                     slice_pitch p event_list)) (\<lambda>(err, ev). ret (err, Some ev))
              else ret (CL_SUCCESS, None)))
      else andThen (cl_msg_not_found ''clEnqueueWriteImage'') (\<lambda>_. ret (CL_SUCCESS, None)))"

definition clEnqueueFillImage ::
  "'w ocl \<Rightarrow> cl_command_queue \<Rightarrow> cl_mem \<Rightarrow> u8 list \<Rightarrow> vec3 \<Rightarrow> vec3 \<Rightarrow> evts \<Rightarrow> 'w enqueue" where
  "clEnqueueFillImage cl q img fill_color origin region event_list =
     (if loaded cl ''clEnqueueFillImage''
      then andThen (image_support_check cl ''clEnqueueFillImage'' q) (\<lambda>early. case early of
          Some e \<Rightarrow> ret (e, None)
        | None \<Rightarrow>
            andThen (apiImageOverflowCheck cl ''clEnqueueFillImage'' img origin region) (\<lambda>bad.
              if \<not> bad
              then andThen (call (rt_EnqueueFillImage cl q img fill_color origin region event_list))
                     (\<lambda>(err, ev). ret (err, Some ev))
              else ret (CL_SUCCESS, None)))
      else andThen (cl_msg_not_found ''clEnqueueFillImage'') (\<lambda>_. ret (CL_SUCCESS, None)))"

definition clEnqueueCopyImage ::
  "'w ocl \<Rightarrow> cl_command_queue \<Rightarrow> cl_mem \<Rightarrow> cl_mem \<Rightarrow> vec3 \<Rightarrow> vec3 \<Rightarrow> vec3 \<Rightarrow> evts \<Rightarrow> 'w enqueue" where
  "clEnqueueCopyImage cl q src_image dst_image src_origin dst_origin region event_list =
     (if loaded cl ''clEnqueueCopyImage''
      then andThen (image_support_check cl ''clEnqueueCopyImage'' q) (\<lambda>early. case early of
          Some e \<Rightarrow> ret (e, None)
        | None \<Rightarrow>
            andThen (both_fit
              (apiImageOverflowCheck cl ''clEnqueueCopyImage'' src_image src_origin region)
              (apiImageOverflowCheck cl ''clEnqueueCopyImage'' dst_image dst_origin region)) (\<lambda>ok.
              if ok
              then andThen (call (rt_EnqueueCopyImage cl q src_image dst_image src_origin dst_origin
                     region event_list)) (\<lambda>(err, ev). ret (err, Some ev))
              else ret (CL_SUCCESS, None)))
      else andThen (cl_msg_not_found ''clEnqueueCopyImage'') (\<lambda>_. ret (CL_SUCCESS, None)))"

text \<open>
  Between an image and a buffer, the buffer is checked as a rectangle: the pitches are in bytes, the
  region is the image's, in elements. An object that is not in the table is not checked, and neither
  is the buffer then.
\<close>

definition image_buffer_pitches :: "cl_memobj \<Rightarrow> vec3 \<Rightarrow> u64 \<times> u64" where
  "image_buffer_pitches m region = (case region of (r0, r1, r2) \<Rightarrow>
     let row_pitch = r0 * ucast (getImageDataSize (m_image_format m)) in (row_pitch, r1 * row_pitch))"

definition clEnqueueCopyImageToBuffer ::
  "'w ocl \<Rightarrow> cl_command_queue \<Rightarrow> cl_mem \<Rightarrow> cl_mem \<Rightarrow> vec3 \<Rightarrow> vec3 \<Rightarrow> u64 \<Rightarrow> evts \<Rightarrow> 'w enqueue" where
  "clEnqueueCopyImageToBuffer cl q src_image dst_buffer src_origin region dst_offset event_list =
     (if loaded cl ''clEnqueueCopyImageToBuffer''
      then andThen (image_support_check cl ''clEnqueueCopyImageToBuffer'' q) (\<lambda>early. case early of
          Some e \<Rightarrow> ret (e, None)
        | None \<Rightarrow>
            andThen (lookup_mobj src_image) (\<lambda>m1.
            andThen (case m1 of
                None \<Rightarrow> ret True
              | Some (_, m) \<Rightarrow> (case image_buffer_pitches m region of (row_pitch, slice_pitch) \<Rightarrow>
                  both_fit
                    (apiImageOverflowCheck cl ''clEnqueueCopyImageToBuffer'' src_image src_origin region)
                    (apiBufferRectOverflowCheck cl ''clEnqueueCopyImageToBuffer'' dst_buffer
                      (dst_offset, 0, 0) region row_pitch slice_pitch))) (\<lambda>run_real_call.
              if run_real_call
              then andThen (call (rt_EnqueueCopyImageToBuffer cl q src_image dst_buffer src_origin
                     region dst_offset event_list)) (\<lambda>(err, ev). ret (err, Some ev))
              else ret (CL_SUCCESS, None))))
      else andThen (cl_msg_not_found ''clEnqueueCopyImageToBuffer'') (\<lambda>_. ret (CL_SUCCESS, None)))"

definition clEnqueueCopyBufferToImage ::
  "'w ocl \<Rightarrow> cl_command_queue \<Rightarrow> cl_mem \<Rightarrow> cl_mem \<Rightarrow> u64 \<Rightarrow> vec3 \<Rightarrow> vec3 \<Rightarrow> evts \<Rightarrow> 'w enqueue" where
  "clEnqueueCopyBufferToImage cl q src_buffer dst_image src_offset dst_origin region event_list =
     (if loaded cl ''clEnqueueCopyBufferToImage''
      then andThen (image_support_check cl ''clEnqueueCopyBufferToImage'' q) (\<lambda>early. case early of
          Some e \<Rightarrow> ret (e, None)
        | None \<Rightarrow>
            andThen (lookup_mobj dst_image) (\<lambda>m1.
            andThen (case m1 of
                None \<Rightarrow> ret True
              | Some (_, m) \<Rightarrow> (case image_buffer_pitches m region of (row_pitch, slice_pitch) \<Rightarrow>
                  both_fit
                    (apiBufferRectOverflowCheck cl ''clEnqueueCopyBufferToImage'' src_buffer
                      (src_offset, 0, 0) region row_pitch slice_pitch)
                    (apiImageOverflowCheck cl ''clEnqueueCopyBufferToImage'' dst_image dst_origin
                      region))) (\<lambda>run_real_call.
              if run_real_call
              then andThen (call (rt_EnqueueCopyBufferToImage cl q src_buffer dst_image src_offset
                     dst_origin region event_list)) (\<lambda>(err, ev). ret (err, Some ev))
              else ret (CL_SUCCESS, None))))
      else andThen (cl_msg_not_found ''clEnqueueCopyBufferToImage'') (\<lambda>_. ret (CL_SUCCESS, None)))"

end
