(* ===== verification/Interceptor_Memory.thy ===== *)
theory Interceptor_Memory
  imports Wrapper_Utils
begin

text \<open>
  Buffers and images: the memory object functions of \<open>cl_interceptor.c\<close>, from
  \<open>clGetMemObjectInfo\<close> to \<open>clEnqueueUnmapMemObject\<close>. A buffer is created between two poisoned
  regions and the application is given the sub-buffer in the middle; an image is created larger
  than asked in each of its dimensions, the rest poisoned.
\<close>

section \<open>Counting memory\<close>

text \<open>The totals are kept only when \<open>STATS_MEM_OVERHEAD\<close> is set.\<close>

definition count_object :: "u64 \<Rightarrow> ('w det, unit) prog" where
  "count_object n = modify (\<lambda>s.
     if \<not> stats_mem s then s
     else if internal_create s
       then s\<lparr>total_overhead_mem := total_overhead_mem s + n,
              current_overhead_mem := current_overhead_mem s + n\<rparr>
       else s\<lparr>total_user_mem := total_user_mem s + n,
              current_user_mem := current_user_mem s + n\<rparr>)"

definition count_canary :: "u64 \<Rightarrow> ('w det, unit) prog" where
  "count_canary n = modify (\<lambda>s.
     if \<not> stats_mem s then s
     else s\<lparr>total_overhead_mem := total_overhead_mem s + n,
            current_overhead_mem := current_overhead_mem s + n\<rparr>)"

definition update_high :: "('w det, unit) prog" where
  "update_high = modify (\<lambda>s.
     if \<not> stats_mem s then s
     else s\<lparr>high_user_mem := max (high_user_mem s) (current_user_mem s),
            high_overhead_mem := max (high_overhead_mem s) (current_overhead_mem s)\<rparr>)"

text \<open>The dimensions the application asked for, from those the image has.\<close>

definition user_dims :: "cl_image_desc \<Rightarrow> u64 \<times> u64 \<times> u64 \<times> u64" where
  "user_dims dsc =
     (let w = image_width dsc; h = image_height dsc; d = image_depth dsc; a = image_array_size dsc
      in (if w > 1 then w - IMAGE_POISON_WIDTH else w,
          if h > 1 then h - IMAGE_POISON_HEIGHT else h,
          if d > 1 then d - IMAGE_POISON_DEPTH else d,
          if a > 1 then (if h > 1 then a - IMAGE_POISON_DEPTH else a - IMAGE_POISON_HEIGHT) else a))"

definition user_image_size :: "cl_memobj \<Rightarrow> u64" where
  "user_image_size m = (case user_dims (m_image_desc m) of (w, h, d, a) \<Rightarrow>
     w * h * d * a * ucast (getImageDataSize (m_image_format m)))"

section \<open>Queries\<close>

definition assign_val :: "val_ptr \<Rightarrow> u64 \<Rightarrow> ('s, val_ptr) prog" where
  "assign_val p v = (case p of None \<Rightarrow> fail Null_deref | Some [] \<Rightarrow> fail Out_of_bounds
     | Some (_ # xs) \<Rightarrow> ret (Some (v # xs)))"

definition clGetMemObjectInfo ::
  "'w ocl \<Rightarrow> cl_mem \<Rightarrow> cl_mem_info \<Rightarrow> val_ptr \<Rightarrow> ('w det, cl_int \<times> val_ptr) prog" where
  "clGetMemObjectInfo cl memobj param_name param_value =
     (if loaded cl ''clGetMemObjectInfo''
      then andThen (query (rt_GetMemObjectInfo cl memobj param_name)) (\<lambda>(ret_val, vals).
           andThen (ret (store_values param_value vals)) (\<lambda>p_val.
             if param_name = CL_MEM_SIZE
             then andThen (lookup_mobj memobj) (\<lambda>r. case r of
                 None \<Rightarrow> ret (ret_val, p_val)
               | Some (_, m1) \<Rightarrow>
                   if m_has_canary m1
                   then andThen (assign_val p_val (if m_is_image m1 then user_image_size m1 else m_size m1))
                     (\<lambda>q. ret (ret_val, q))
                   else ret (ret_val, p_val))
             else ret (ret_val, p_val)))
      else andThen (cl_msg_not_found ''clGetMemObjectInfo'') (\<lambda>_. ret (CL_SUCCESS, param_value)))"

text \<open>
  \<open>clGetImageInfo\<close>. The dimensions are lowered for every image in the table, also for one that was
  created without canaries: \<open>has_canary\<close> is not tested here.
\<close>

definition clGetImageInfo ::
  "'w ocl \<Rightarrow> cl_mem \<Rightarrow> cl_mem_info \<Rightarrow> val_ptr \<Rightarrow> ('w det, cl_int \<times> val_ptr) prog" where
  "clGetImageInfo cl img param_name param_value =
     (if loaded cl ''clGetImageInfo''
      then andThen (query (rt_GetImageInfo cl img param_name)) (\<lambda>(ret_val, vals).
           andThen (ret (store_values param_value vals)) (\<lambda>p_val.
             if param_name \<in> {CL_IMAGE_WIDTH, CL_IMAGE_HEIGHT, CL_IMAGE_DEPTH, CL_IMAGE_ARRAY_SIZE}
             then andThen (read_val p_val) (\<lambda>v.
               if v = 0 then ret (ret_val, p_val)
               else andThen (lookup_mobj img) (\<lambda>r. case r of
                   None \<Rightarrow> ret (ret_val, p_val)
                 | Some (_, m1) \<Rightarrow>
                     if \<not> m_is_image m1 then ret (ret_val, p_val)
                     else (case user_dims (m_image_desc m1) of (w, h, d, a) \<Rightarrow>
                       andThen (assign_val p_val
                         (if param_name = CL_IMAGE_WIDTH then w
                          else if param_name = CL_IMAGE_HEIGHT then h
                          else if param_name = CL_IMAGE_DEPTH then d else a))
                       (\<lambda>q. ret (ret_val, q)))))
             else ret (ret_val, p_val)))
      else andThen (cl_msg_not_found ''clGetImageInfo'') (\<lambda>_. ret (CL_SUCCESS, param_value)))"

section \<open>Creating a buffer\<close>

text \<open>The kernels that check the buffer read and write it, so the access limits are dropped.\<close>

definition buffer_flags :: "cl_mem_flags \<Rightarrow> cl_mem_flags" where
  "buffer_flags flags = insert CL_MEM_READ_WRITE
     (flags - {CL_MEM_WRITE_ONLY, CL_MEM_READ_ONLY, CL_MEM_HOST_WRITE_ONLY, CL_MEM_HOST_READ_ONLY,
       CL_MEM_HOST_NO_ACCESS})"

text \<open>
  The contents: poison, the data (the host's or zeros), poison. The offset of the second region is a
  32-bit number.
\<close>

definition buffer_fill :: "(ptr \<Rightarrow> u8) \<Rightarrow> bool \<Rightarrow> ptr \<Rightarrow> u64 \<Rightarrow> u8 list option" where
  "buffer_fill mem copy_host host_ptr sz =
     (case blit 0 (poison_bytes (unat (POISON_FILL_LENGTH :: u64)))
         (replicate (unat (sz + POISON_REGIONS * POISON_FILL_LENGTH)) 0) of
        None \<Rightarrow> None
      | Some a1 \<Rightarrow>
          (case (if copy_host
              then blit (unat (POISON_FILL_LENGTH :: u32)) (host_bytes mem host_ptr (unat sz)) a1
              else Some a1) of
             None \<Rightarrow> None
           | Some a2 \<Rightarrow>
               blit (unat (POISON_FILL_LENGTH + ucast sz :: u32))
                 (poison_bytes (unat (POISON_FILL_LENGTH :: u64))) a2))"

text \<open>The data to create the buffer with, the flags, and the size with the canaries.\<close>

definition prepare_buffer ::
  "'w ocl \<Rightarrow> cl_mem_flags \<Rightarrow> u64 \<Rightarrow> ptr \<Rightarrow> ('w det, hostdata \<times> cl_mem_flags \<times> u64) prog" where
  "prepare_buffer cl flags sz host_ptr =
     (if CL_MEM_USE_HOST_PTR \<in> flags then ret (Host_ptr host_ptr, flags, sz)
      else if \<not> calloc_ok cl (sz + POISON_REGIONS * POISON_FILL_LENGTH)
        then ret (Host_ptr 0, flags, sz)
      else andThen (gets host_mem) (\<lambda>mem.
        case buffer_fill mem (CL_MEM_COPY_HOST_PTR \<in> flags) host_ptr sz of
          None \<Rightarrow> fail Out_of_bounds
        | Some bytes \<Rightarrow>
            andThen (count_canary (POISON_REGIONS * POISON_FILL_LENGTH)) (\<lambda>_.
            ret (Host_bytes bytes, insert CL_MEM_COPY_HOST_PTR flags,
              sz + POISON_REGIONS * POISON_FILL_LENGTH))))"

text \<open>
  The sub-buffer between the canaries. On the NVIDIA platform the whole buffer is read once, so that
  it is placed in one piece; the data read is thrown away.
\<close>

definition split_buffer ::
  "'w ocl \<Rightarrow> cl_context \<Rightarrow> cl_mem \<Rightarrow> cl_mem_flags \<Rightarrow> u64 \<Rightarrow> u64 \<Rightarrow> ('w det, cl_mem \<times> cl_int) prog" where
  "split_buffer cl context main_buff flags sz size_aug =
     andThen (real cl ''clCreateSubBuffer'' (rt_CreateSubBuffer cl main_buff
         (flags - {CL_MEM_USE_HOST_PTR, CL_MEM_ALLOC_HOST_PTR, CL_MEM_COPY_HOST_PTR})
         CL_BUFFER_CREATE_TYPE_REGION \<lparr>br_origin = POISON_FILL_LENGTH, br_size = sz\<rparr>)) (\<lambda>(r, err).
     andThen (check_cl_error err) (\<lambda>_.
     andThen (is_nvidia_platform cl context) (\<lambda>nvidia.
       if nvidia
       then andThen (getCommandQueueForContext cl context) (\<lambda>(found, q).
            andThen (if found then andThen (clRetainCommandQueue cl q) (\<lambda>_. ret ()) else ret ()) (\<lambda>_.
            andThen (real cl ''clEnqueueReadBuffer''
              (rt_EnqueueReadBuffer cl q main_buff True 0 size_aug [])) (\<lambda>_.
            andThen (clReleaseCommandQueue cl q) (\<lambda>_.
            ret (r, err)))))
       else ret (r, err))))"

definition clCreateBuffer ::
  "'w ocl \<Rightarrow> cl_context \<Rightarrow> cl_mem_flags \<Rightarrow> u64 \<Rightarrow> ptr \<Rightarrow> err_ptr \<Rightarrow> ('w det, cl_mem \<times> err_ptr) prog" where
  "clCreateBuffer cl context flags0 sz host_ptr errcode_ret =
     (if loaded cl ''clCreateBuffer''
      then andThen (initialize_logging cl) (\<lambda>_.
        if sz = 0
        then (case errcode_ret of
            None \<Rightarrow> fail Null_deref
          | Some _ \<Rightarrow> ret (0, Some CL_INVALID_BUFFER_SIZE))
        else
          andThen (count_object sz) (\<lambda>_.
          andThen (prepare_buffer cl (buffer_flags flags0) sz host_ptr) (\<lambda>(fill_ptr, flags, size_aug).
          andThen update_high (\<lambda>_.
          andThen (call (rt_CreateBuffer cl context flags size_aug fill_ptr)) (\<lambda>(main_buff, err1).
          andThen (if main_buff \<noteq> 0 \<and> CL_MEM_USE_HOST_PTR \<notin> flags
            then split_buffer cl context main_buff flags sz size_aug
            else ret (main_buff, err1)) (\<lambda>(r, internal_err).
          andThen (if r \<noteq> 0
            then andThen (new_mobj (zero_memobj
                \<lparr>m_handle := r, m_context := context, m_flags := flags, m_size := sz,
                 m_host_ptr := (if CL_MEM_USE_HOST_PTR \<in> flags then host_ptr else 0),
                 m_main_buff := (if CL_MEM_USE_HOST_PTR \<in> flags then 0 else main_buff),
                 m_has_canary := (CL_MEM_USE_HOST_PTR \<notin> flags), m_ref_count := 1\<rparr>)) cl_mem_insert
            else ret ()) (\<lambda>_.
          ret (r, set_err errcode_ret internal_err))))))))
      else andThen (cl_msg_not_found ''clCreateBuffer'') (\<lambda>_. ret (0, errcode_ret)))"

text \<open>A sub-buffer of a buffer with canaries is made of its main buffer, after the first canary.\<close>

definition clCreateSubBuffer ::
  "'w ocl \<Rightarrow> cl_mem \<Rightarrow> cl_mem_flags \<Rightarrow> buffer_create_type \<Rightarrow> cl_buffer_region \<Rightarrow> err_ptr \<Rightarrow>
    ('w det, cl_mem \<times> err_ptr) prog" where
  "clCreateSubBuffer cl buffer flags create_type info errcode_ret =
     (if loaded cl ''clCreateSubBuffer''
      then andThen (initialize_logging cl) (\<lambda>_.
           andThen (lookup_mobj buffer) (\<lambda>super. case super of
               None \<Rightarrow> fail Null_deref
             | Some (_, superBuff) \<Rightarrow>
                 let whole = (if m_has_canary superBuff then m_main_buff superBuff else buffer);
                     region = (if m_has_canary superBuff
                       then info\<lparr>br_origin := br_origin info + POISON_FILL_LENGTH\<rparr> else info)
                 in andThen (call (rt_CreateSubBuffer cl whole flags create_type region)) (\<lambda>(r, err).
                    andThen (if r \<noteq> 0
                      then andThen (new_mobj (zero_memobj
                          \<lparr>m_handle := r, m_is_sub := True, m_context := m_context superBuff,
                           m_flags := flags, m_size := br_size region, m_origin := br_origin region,
                           m_host_ptr := (if m_host_ptr superBuff \<noteq> 0
                             then m_host_ptr superBuff + br_origin region else 0),
                           m_ref_count := 1\<rparr>)) cl_mem_insert
                      else ret ()) (\<lambda>_.
                    ret (r, set_err errcode_ret err)))))
      else andThen (cl_msg_not_found ''clCreateSubBuffer'') (\<lambda>_. ret (0, errcode_ret)))"

section \<open>References\<close>

definition clRetainMemObject :: "'w ocl \<Rightarrow> cl_mem \<Rightarrow> ('w det, cl_int) prog" where
  "clRetainMemObject cl memobj =
     (if loaded cl ''clRetainMemObject''
      then andThen (initialize_logging cl) (\<lambda>_.
           andThen (lookup_mobj memobj) (\<lambda>findme.
           andThen (case findme of
               None \<Rightarrow> ret ()
             | Some (a, _) \<Rightarrow> set_mobj a (m_ref_count_update (\<lambda>n. n + 1))) (\<lambda>_.
           andThen (call (rt_RetainMemObject cl memobj)) (\<lambda>err.
             case findme of
               None \<Rightarrow> ret err
             | Some (_, m) \<Rightarrow>
                 if m_main_buff m \<noteq> 0 then call (rt_RetainMemObject cl (m_main_buff m)) else ret err))))
      else andThen (cl_msg_not_found ''clRetainMemObject'') (\<lambda>_. ret INT_MIN_status))"

text \<open>What the last release of an object gives back.\<close>

definition uncount_object :: "cl_memobj \<Rightarrow> ('w det, unit) prog" where
  "uncount_object m = modify (\<lambda>s.
     let canaries = POISON_REGIONS * POISON_FILL_LENGTH; img_size = user_image_size m
     in if \<not> stats_mem s then s
        else if internal_create s
          then s\<lparr>current_overhead_mem := current_overhead_mem s - m_size m
                   - (if m_is_image m then 0 else canaries)\<rparr>
        else if \<not> m_has_canary m
          then s\<lparr>current_user_mem := current_user_mem s - m_size m\<rparr>
        else if m_is_image m
          then s\<lparr>current_user_mem := current_user_mem s - img_size,
                 current_overhead_mem := current_overhead_mem s - (m_size m - img_size)\<rparr>
        else s\<lparr>current_user_mem := current_user_mem s - m_size m,
               current_overhead_mem := current_overhead_mem s - canaries\<rparr>)"

definition drop_memobj :: "cl_mem \<Rightarrow> ('w det, unit) prog" where
  "drop_memobj memobj = andThen (cl_mem_remove memobj) (\<lambda>r. case r of
       None \<Rightarrow> ret () | Some a \<Rightarrow> cl_mem_delete a)"

definition clReleaseMemObject :: "'w ocl \<Rightarrow> cl_mem \<Rightarrow> ('w det, cl_int) prog" where
  "clReleaseMemObject cl memobj =
     (if loaded cl ''clReleaseMemObject''
      then andThen (initialize_logging cl) (\<lambda>_.
           andThen (lookup_mobj memobj) (\<lambda>findme.
           andThen (case findme of
               None \<Rightarrow> ret 0
             | Some (a, m) \<Rightarrow>
                 andThen (set_mobj a (m_ref_count_update (\<lambda>n. n - 1))) (\<lambda>_.
                 andThen (if m_ref_count m - 1 = 0
                   then andThen (uncount_object m) (\<lambda>_. drop_memobj memobj)
                   else ret ()) (\<lambda>_.
                 ret (m_main_buff m)))) (\<lambda>main_buff.
           andThen (call (rt_ReleaseMemObject cl memobj)) (\<lambda>err.
             if main_buff \<noteq> 0 then call (rt_ReleaseMemObject cl main_buff) else ret err))))
      else andThen (cl_msg_not_found ''clReleaseMemObject'') (\<lambda>_. ret INT_MIN_status))"

definition releaseInternalMemObject :: "'w ocl \<Rightarrow> cl_mem \<Rightarrow> ('w det, unit) prog" where
  "releaseInternalMemObject cl memobj =
     andThen (gets internal_create) (\<lambda>backup.
     andThen (modify (\<lambda>s. s\<lparr>internal_create := True\<rparr>)) (\<lambda>_.
     andThen (clReleaseMemObject cl memobj) (\<lambda>_.
     modify (\<lambda>s. s\<lparr>internal_create := backup\<rparr>))))"

section \<open>Mapping\<close>

definition clEnqueueMapBuffer ::
  "'w ocl \<Rightarrow> cl_command_queue \<Rightarrow> cl_mem \<Rightarrow> bool \<Rightarrow> map_flag set \<Rightarrow> u64 \<Rightarrow> u64 \<Rightarrow> evts \<Rightarrow> err_ptr \<Rightarrow>
    ('w det, ptr \<times> cl_event option \<times> err_ptr) prog" where
  "clEnqueueMapBuffer cl q buffer blocking_map map_flags offset sz event_wait_list errcode_ret =
     (if loaded cl ''clEnqueueMapBuffer''
      then andThen (lookup_mobj buffer) (\<lambda>m1.
           andThen (ret (case m1 of
               None \<Rightarrow> (buffer, offset)
             | Some (_, m) \<Rightarrow>
                 if m_main_buff m \<noteq> 0 then (m_main_buff m, offset + POISON_FILL_LENGTH)
                 else (buffer, offset))) (\<lambda>(main_buffer, offset_aug).
           andThen (call (rt_EnqueueMapBuffer cl q main_buffer blocking_map map_flags offset_aug sz
             event_wait_list)) (\<lambda>(p, ev, err).
           ret (p, Some ev, set_err errcode_ret err))))
      else andThen (cl_msg_not_found ''clEnqueueMapBuffer'') (\<lambda>_. ret (0, None, errcode_ret)))"

definition clEnqueueUnmapMemObject ::
  "'w ocl \<Rightarrow> cl_command_queue \<Rightarrow> cl_mem \<Rightarrow> ptr \<Rightarrow> evts \<Rightarrow> ('w det, cl_int \<times> cl_event option) prog" where
  "clEnqueueUnmapMemObject cl q memobj mapped_ptr event_wait_list =
     (if loaded cl ''clEnqueueUnmapMemObject''
      then andThen (lookup_mobj memobj) (\<lambda>m1.
           andThen (ret (case m1 of
               None \<Rightarrow> memobj
             | Some (_, m) \<Rightarrow> if m_main_buff m \<noteq> 0 then m_main_buff m else memobj)) (\<lambda>main_buffer.
           andThen (call (rt_EnqueueUnmapMemObject cl q main_buffer mapped_ptr event_wait_list))
             (\<lambda>(err, ev). ret (err, Some ev))))
      else andThen (cl_msg_not_found ''clEnqueueUnmapMemObject'') (\<lambda>_. ret (INT_MIN_status, None)))"

end
