(* ===== verification/Workaround_Lists.thy ===== *)
theory Workaround_Lists
  imports Detector_State
begin

text \<open>
  The cache of fine-grained SVM regions of \<open>src/meta_data_lists/cl_workaround_lists.cpp\<close>: for each
  context, the regions in use by their address (\<open>allocated_fg_svms\<close>), and those given back, in
  order of size (\<open>free_fg_svms\<close>, a multimap: a list sorted by size, equal sizes in the order of
  insertion).
\<close>

definition ctx_allocated :: "'w det \<Rightarrow> cl_context \<Rightarrow> (ptr \<rightharpoonup> fg_svm_region)" where
  "ctx_allocated s ctx = (case allocated_fg_svms s ctx of None \<Rightarrow> Map.empty | Some m \<Rightarrow> m)"

definition ctx_free :: "'w det \<Rightarrow> cl_context \<Rightarrow> fg_svm_region list" where
  "ctx_free s ctx = (case free_fg_svms s ctx of None \<Rightarrow> [] | Some l \<Rightarrow> l)"

text \<open>\<open>std::map::insert\<close> does not replace; \<open>operator[]\<close> creates the context's map.\<close>

definition insert_allocated :: "cl_context \<Rightarrow> fg_svm_region \<Rightarrow> 'w det \<Rightarrow> 'w det" where
  "insert_allocated ctx r s = s\<lparr>allocated_fg_svms := (allocated_fg_svms s)(ctx \<mapsto>
     (if ctx_allocated s ctx (fg_base r) = None
      then (ctx_allocated s ctx)(fg_base r \<mapsto> r) else ctx_allocated s ctx))\<rparr>"

text \<open>\<open>std::multimap::insert\<close>: after the entries with the same key.\<close>

fun insert_free :: "fg_svm_region list \<Rightarrow> fg_svm_region \<Rightarrow> fg_svm_region list" where
  "insert_free [] r = [r]"
| "insert_free (q # qs) r = (if fg_size r < fg_size q then r # q # qs else q # insert_free qs r)"

definition cl_svm_fg_alloc ::
  "cl_context \<Rightarrow> ptr \<Rightarrow> cl_mem_flags \<Rightarrow> u64 \<Rightarrow> u32 \<Rightarrow> ('w det, unit) prog" where
  "cl_svm_fg_alloc ctx base flags sz alignment = modify (insert_allocated ctx
     \<lparr>fg_base = base, fg_flags = flags, fg_size = sz, fg_alignment = alignment\<rparr>)"

text \<open>Returns whether the region is not one of the cache (the C result 1).\<close>

definition cl_svm_fg_free :: "cl_context \<Rightarrow> ptr \<Rightarrow> ('w det, bool) prog" where
  "cl_svm_fg_free ctx base s =
     (case allocated_fg_svms s ctx of
        None \<Rightarrow> Inr (True, s)
      | Some m \<Rightarrow> (case m base of
          None \<Rightarrow> Inr (True, s)
        | Some r \<Rightarrow> Inr (False,
            s\<lparr>allocated_fg_svms := (allocated_fg_svms s)(ctx \<mapsto> m(base := None)),
              free_fg_svms := (free_fg_svms s)(ctx \<mapsto> insert_free (ctx_free s ctx) r)\<rparr>)))"

text \<open>
  From the first free region that is large enough, the first with the alignment asked for; it is
  returned with the list that is left.
\<close>

fun take_free :: "fg_svm_region list \<Rightarrow> u64 \<Rightarrow> u32 \<Rightarrow> (fg_svm_region \<times> fg_svm_region list) option" where
  "take_free [] sz alignment = None"
| "take_free (q # qs) sz alignment =
     (if fg_size q < sz \<or> fg_alignment q \<noteq> alignment
      then (case take_free qs sz alignment of None \<Rightarrow> None | Some (r, rest) \<Rightarrow> Some (r, q # rest))
      else Some (q, qs))"

definition find_free_svm :: "cl_context \<Rightarrow> u64 \<Rightarrow> u32 \<Rightarrow> ('w det, ptr) prog" where
  "find_free_svm ctx sz alignment s =
     (case free_fg_svms s ctx of
        None \<Rightarrow> Inr (0, s)
      | Some l \<Rightarrow> (case take_free l sz alignment of
          None \<Rightarrow> Inr (0, s)
        | Some (r, rest) \<Rightarrow> Inr (fg_base r,
            insert_allocated ctx r (s\<lparr>free_fg_svms := (free_fg_svms s)(ctx \<mapsto> rest)\<rparr>))))"

section \<open>Facts\<close>

definition size_sorted :: "fg_svm_region list \<Rightarrow> bool" where
  "size_sorted l \<longleftrightarrow> sorted (map fg_size l)"

lemma set_insert_free [simp]: "set (insert_free l r) = insert r (set l)"
  by (induction l r rule: insert_free.induct) auto

lemma mset_insert_free: "count_list (insert_free l r) x = count_list (r # l) x"
  by (induction l r rule: insert_free.induct) auto

lemma size_sorted_insert_free: "size_sorted l \<Longrightarrow> size_sorted (insert_free l r)"
  by (induction l r rule: insert_free.induct) (auto simp: size_sorted_def not_less)

lemma take_free_Some:
  "take_free l sz al = Some (r, rest) \<Longrightarrow>
    sz \<le> fg_size r \<and> fg_alignment r = al \<and> (\<exists>xs ys. l = xs @ r # ys \<and> rest = xs @ ys
      \<and> (\<forall>q \<in> set xs. fg_size q < sz \<or> fg_alignment q \<noteq> al))"
proof (induction l sz al arbitrary: rest rule: take_free.induct)
  case (2 q qs sz al)
  show ?case
  proof (cases "fg_size q < sz \<or> fg_alignment q \<noteq> al")
    case True
    with 2 obtain rest' where t: "take_free qs sz al = Some (r, rest')" and rest: "rest = q # rest'"
      by (auto split: option.splits prod.splits)
    from "2.IH" [OF True t] obtain xs ys where
      *: "sz \<le> fg_size r" "fg_alignment r = al" "qs = xs @ r # ys" "rest' = xs @ ys"
        "\<forall>q \<in> set xs. fg_size q < sz \<or> fg_alignment q \<noteq> al"
      by blast
    have "q # qs = (q # xs) @ r # ys" "rest = (q # xs) @ ys" using * rest by simp_all
    with * True show ?thesis by (metis set_ConsD)
  next
    case False
    with "2.prems" have "r = q" "rest = qs" by auto
    with False show ?thesis by (auto intro: exI [of _ "[]"])
  qed
qed simp

lemma take_free_None:
  "take_free l sz al = None \<longleftrightarrow> (\<forall>q \<in> set l. fg_size q < sz \<or> fg_alignment q \<noteq> al)"
  by (induction l sz al rule: take_free.induct) (auto split: option.splits prod.splits)

text \<open>On a sorted list, the region taken is one of the smallest that fit.\<close>

lemma take_free_least:
  assumes "size_sorted l" and "take_free l sz al = Some (r, rest)"
    and "q \<in> set l" and "sz \<le> fg_size q" and "fg_alignment q = al"
  shows "fg_size r \<le> fg_size q"
proof -
  from take_free_Some [OF assms(2)] obtain xs ys where l: "l = xs @ r # ys"
    and xs: "\<forall>q \<in> set xs. fg_size q < sz \<or> fg_alignment q \<noteq> al" by blast
  from assms(3-5) l xs have "q = r \<or> q \<in> set ys" by auto
  moreover have "\<forall>p \<in> set ys. fg_size r \<le> fg_size p"
    using assms(1) l by (auto simp: size_sorted_def sorted_append)
  ultimately show ?thesis by auto
qed

end
