(* ===== verification/Interceptor_SVM.thy ===== *)
theory Interceptor_SVM
  imports Interceptor_Memory Workaround_Lists
begin

text \<open>
  Shared virtual memory: \<open>internalSVMAlloc\<close> to \<open>clEnqueueSVMUnmap\<close> of \<open>cl_interceptor.c\<close>. A region
  is allocated with a poisoned part before and after the part the application is given.
\<close>

section \<open>Allocation\<close>

text \<open>Fine-grained regions are taken from the cache when one fits; atomics are refused (NULL).\<close>

definition internalSVMAlloc ::
  "'w ocl \<Rightarrow> cl_context \<Rightarrow> cl_mem_flags \<Rightarrow> u64 \<Rightarrow> u32 \<Rightarrow> ('w det, ptr) prog" where
  "internalSVMAlloc cl context flags0 sz alignment =
     (if CL_MEM_SVM_ATOMICS \<in> flags0 then ret 0
      else let fine = (CL_MEM_SVM_FINE_GRAIN_BUFFER \<in> flags0);
               flags = (if fine then {CL_MEM_READ_WRITE, CL_MEM_SVM_FINE_GRAIN_BUFFER} else flags0)
           in andThen (if fine then find_free_svm context sz alignment else ret 0) (\<lambda>cached.
                if cached \<noteq> 0 then ret cached
                else andThen (real cl ''clSVMAlloc'' (rt_SVMAlloc cl context flags sz alignment)) (\<lambda>p.
                     andThen (if p \<noteq> 0 \<and> fine then cl_svm_fg_alloc context p flags sz alignment
                       else ret ()) (\<lambda>_.
                     ret p))))"

definition svm_canaries :: u64 where
  "svm_canaries = POISON_REGIONS * POISON_FILL_LENGTH"

definition count_svm :: "u64 \<Rightarrow> ('w det, unit) prog" where
  "count_svm sz = andThen (gets internal_create) (\<lambda>internal.
     andThen (if internal then count_object (sz + svm_canaries)
       else andThen (count_object sz) (\<lambda>_. count_canary svm_canaries)) (\<lambda>_.
     update_high))"

text \<open>The poison is written by two commands; the offset of the second is a 32-bit number.\<close>

definition fill_svm_canaries ::
  "'w ocl \<Rightarrow> cl_command_queue \<Rightarrow> ptr \<Rightarrow> u64 \<Rightarrow> ('w det, evts) prog" where
  "fill_svm_canaries cl q base sz =
     andThen (call (rt_EnqueueSVMMemFill cl q base [POISON_FILL] POISON_FILL_LENGTH [])) (\<lambda>(err1, ev1).
     andThen (check_cl_error err1) (\<lambda>_.
     andThen (call (rt_EnqueueSVMMemFill cl q (base + ucast (ucast sz + POISON_FILL_LENGTH :: u32))
       [POISON_FILL] POISON_FILL_LENGTH [])) (\<lambda>(err0, ev0).
     andThen (check_cl_error err0) (\<lambda>_.
     ret [ev0, ev1]))))"

definition clSVMAlloc ::
  "'w ocl \<Rightarrow> cl_context \<Rightarrow> cl_mem_flags \<Rightarrow> u64 \<Rightarrow> u32 \<Rightarrow> ('w det, ptr) prog" where
  "clSVMAlloc cl context flags sz alignment =
     (if loaded cl ''clSVMAlloc''
      then andThen (initialize_logging cl) (\<lambda>_.
           andThen (count_svm sz) (\<lambda>_.
           andThen (internalSVMAlloc cl context flags (sz + svm_canaries) alignment) (\<lambda>base.
             if base = 0 then ret 0
             else
               andThen (ret (base + POISON_FILL_LENGTH)) (\<lambda>user_ptr.
               andThen (getCommandQueueForContext cl context) (\<lambda>(found, q).
               andThen (if found then andThen (clRetainCommandQueue cl q) (\<lambda>_. ret ()) else ret ()) (\<lambda>_.
               andThen (fill_svm_canaries cl q base sz) (\<lambda>finish.
               andThen (new_svobj
                 \<lparr>sv_handle = user_ptr, sv_main_buff = base, sv_context = context, sv_flags = flags,
                  sv_size = sz, sv_alignment = alignment, sv_internal = False\<rparr>) (\<lambda>a.
               andThen (cl_svm_mem_insert a) (\<lambda>_.
               andThen (call (rt_WaitForEvents cl finish)) (\<lambda>_.
               andThen (clReleaseCommandQueue cl q) (\<lambda>_.
               ret user_ptr)))))))))))
      else andThen (cl_msg_not_found ''clSVMAlloc'') (\<lambda>_. ret 0))"

section \<open>Freeing\<close>

definition uncount_svm :: "u64 \<Rightarrow> ('w det, unit) prog" where
  "uncount_svm sz = modify (\<lambda>s.
     if \<not> stats_mem s then s
     else if internal_create s
       then s\<lparr>current_overhead_mem := current_overhead_mem s - (sz + svm_canaries)\<rparr>
     else s\<lparr>current_user_mem := current_user_mem s - sz,
            current_overhead_mem := current_overhead_mem s - svm_canaries\<rparr>)"

text \<open>The region is taken out of the table; its base goes back to the cache or to the runtime.\<close>

definition clSVMFree :: "'w ocl \<Rightarrow> cl_context \<Rightarrow> ptr \<Rightarrow> ('w det, unit) prog" where
  "clSVMFree cl context svm_pointer =
     (if loaded cl ''clSVMFree''
      then andThen (initialize_logging cl) (\<lambda>_.
        if svm_pointer = 0 then ret ()
        else
          andThen (cl_svm_mem_remove svm_pointer) (\<lambda>temp. case temp of
              None \<Rightarrow> ret ()
            | Some a \<Rightarrow>
                andThen (get_svobj a) (\<lambda>m.
                andThen (uncount_svm (sv_size m)) (\<lambda>_.
                andThen (cl_svm_mem_delete a) (\<lambda>_.
                  if sv_main_buff m = 0 then ret ()
                  else andThen (cl_svm_fg_free context (sv_main_buff m)) (\<lambda>not_cached.
                    if not_cached
                    then andThen (call (\<lambda>w. ((), rt_SVMFree cl context (sv_main_buff m) w))) ret
                    else ret ()))))))
      else cl_msg_not_found ''clSVMFree'')"

text \<open>
  The pointers the application passes are used as they are, for the cache and for the runtime; the
  memory counted for the regions is not given back.
\<close>

definition forget_svm :: "cl_context \<Rightarrow> ptr \<Rightarrow> ('w det, unit) prog" where
  "forget_svm context p =
     andThen (cl_svm_mem_remove p) (\<lambda>temp.
     andThen (case temp of None \<Rightarrow> ret () | Some a \<Rightarrow> cl_svm_mem_delete a) (\<lambda>_.
     andThen (cl_svm_fg_free context p) (\<lambda>_. ret ())))"

definition clEnqueueSVMFree ::
  "'w ocl \<Rightarrow> cl_command_queue \<Rightarrow> ptr list \<Rightarrow> ptr \<Rightarrow> ptr \<Rightarrow> evts \<Rightarrow> ('w det, cl_int \<times> cl_event option) prog"
where
  "clEnqueueSVMFree cl q svm_pointers pfn_free_func user_data event_list =
     (if loaded cl ''clEnqueueSVMFree''
      then andThen (initialize_logging cl) (\<lambda>_.
           andThen (call (rt_Finish cl q)) (\<lambda>_.
           andThen (query (q_queue_context cl q)) (\<lambda>(cl_err, context).
           andThen (check_cl_error cl_err) (\<lambda>_.
           andThen (forM svm_pointers (forget_svm context)) (\<lambda>_.
           andThen (call (rt_EnqueueSVMFree cl q svm_pointers pfn_free_func user_data event_list))
             (\<lambda>(err, ev). ret (err, Some ev)))))))
      else andThen (cl_msg_not_found ''clEnqueueSVMFree'') (\<lambda>_. ret (INT_MIN_status, None)))"

section \<open>Mapping\<close>

text \<open>
  A pointer into a known region is replaced by the region's base, and the size is lengthened by one
  canary. With \<open>CL_MAP_WRITE_INVALIDATE_REGION\<close> the first \<open>POISON_FILL_LENGTH\<close> bytes from the
  mapped pointer are poisoned, whether the region is known or not.
\<close>

definition clEnqueueSVMMap ::
  "'w ocl \<Rightarrow> cl_command_queue \<Rightarrow> bool \<Rightarrow> map_flag set \<Rightarrow> ptr \<Rightarrow> u64 \<Rightarrow> evts \<Rightarrow>
    ('w det, cl_int \<times> cl_event option) prog" where
  "clEnqueueSVMMap cl q blocking_map map_flags svm_ptr sz event_wait_list =
     (if loaded cl ''clEnqueueSVMMap''
      then andThen (cl_svm_mem_find svm_ptr) (\<lambda>m1.
           andThen (case m1 of
               None \<Rightarrow> ret (svm_ptr, sz)
             | Some a \<Rightarrow> andThen (get_svobj a) (\<lambda>m. ret (sv_main_buff m, sz + POISON_FILL_LENGTH)))
             (\<lambda>(main_svm, size_aug).
           andThen (call (rt_EnqueueSVMMap cl q blocking_map map_flags main_svm size_aug event_wait_list))
             (\<lambda>(err, ev).
           andThen (if CL_MAP_WRITE_INVALIDATE_REGION \<in> map_flags
             then call (\<lambda>w. ((), rt_svm_memset cl main_svm POISON_FILL POISON_FILL_LENGTH w))
             else ret ()) (\<lambda>_.
           ret (err, Some ev)))))
      else andThen (cl_msg_not_found ''clEnqueueSVMMap'') (\<lambda>_. ret (INT_MIN_status, None)))"

definition clEnqueueSVMUnmap ::
  "'w ocl \<Rightarrow> cl_command_queue \<Rightarrow> ptr \<Rightarrow> evts \<Rightarrow> ('w det, cl_int \<times> cl_event option) prog" where
  "clEnqueueSVMUnmap cl q svm_ptr event_wait_list =
     (if loaded cl ''clEnqueueSVMUnmap''
      then andThen (cl_svm_mem_find svm_ptr) (\<lambda>m1.
           andThen (case m1 of
               None \<Rightarrow> ret svm_ptr
             | Some a \<Rightarrow> andThen (get_svobj a) (\<lambda>m. ret (sv_main_buff m))) (\<lambda>main_svm.
           andThen (call (rt_EnqueueSVMUnmap cl q main_svm event_wait_list)) (\<lambda>(err, ev).
           ret (err, Some ev))))
      else andThen (cl_msg_not_found ''clEnqueueSVMUnmap'') (\<lambda>_. ret (INT_MIN_status, None)))"

end
