(* ===== verification/Check_Utils.thy ===== *)
theory Check_Utils
  imports Interceptor_Enqueue Interceptor_SVM
begin

text \<open>
  Restoring the canaries: \<open>src/detector/check_utils.c\<close>, with \<open>universal_event.c\<close> and
  \<open>create_complete_user_event\<close> of \<open>cl_utils.c\<close>. The \<open>clEnqueue\<close> calls made here go through the
  tool's own wrappers.
\<close>

section \<open>Events of another context\<close>

definition create_complete_user_event :: "'w ocl \<Rightarrow> cl_context \<Rightarrow> ('w det, cl_event) prog" where
  "create_complete_user_event cl ctx =
     andThen (call (rt_CreateUserEvent cl ctx)) (\<lambda>(user_evt, err1).
     andThen (check_cl_error err1) (\<lambda>_.
     andThen (call (rt_SetUserEventComplete cl user_evt)) (\<lambda>err2.
     andThen (check_cl_error err2) (\<lambda>_.
     ret user_evt))))"

text \<open>
  An event of another context is replaced by a user event of this one that a callback completes
  (\<open>rt_CompleteWhen\<close>).
\<close>

definition convertEvent :: "'w ocl \<Rightarrow> cl_context \<Rightarrow> cl_event \<Rightarrow> ('w det, cl_event) prog" where
  "convertEvent cl ctx evt =
     andThen (query (q_event_context cl evt)) (\<lambda>evtCtx.
       if ctx = evtCtx then ret evt
       else
         andThen (call (rt_CreateUserEvent cl ctx)) (\<lambda>(newEvent, _).
         andThen (call (rt_CompleteWhen cl evt newEvent)) (\<lambda>cl_err.
         andThen (check_cl_error cl_err) (\<lambda>_.
         ret newEvent))))"

definition convertEvents :: "'w ocl \<Rightarrow> cl_context \<Rightarrow> evts \<Rightarrow> ('w det, evts) prog" where
  "convertEvents cl ctx evtList = mapM (convertEvent cl ctx) evtList"

section \<open>Images\<close>

text \<open>
  The writes of \<open>poisonFillImageCanaries\<close>: origin, region, and the poison, of which there is enough
  for the largest element (16 bytes). The lengths are computed in 32 bits.
\<close>

type_synonym canary_write = "(u64 \<times> u64 \<times> u64) \<times> (u64 \<times> u64 \<times> u64) \<times> u8 list"

definition canary_writes :: "image_dims \<Rightarrow> canary_write list" where
  "canary_writes d =
     concat (map (\<lambda>k.
         (if 1 < i_lim d
          then map (\<lambda>j. ((ucast (i_dat d), ucast j, ucast k), (IMAGE_POISON_WIDTH, 1, 1),
              poison_bytes (unat (16 * IMAGE_POISON_WIDTH :: u32)))) (upto32 (j_dat d))
          else [])
         @ (if 1 < j_lim d \<and> 0 < i_lim d
            then [((0, ucast (j_dat d), ucast k), (ucast (i_lim d), IMAGE_POISON_HEIGHT, 1),
              poison_bytes (unat (16 * i_lim d * IMAGE_POISON_HEIGHT)))]
            else []))
       (upto32 (k_dat d)))
     @ (if 1 < k_lim d \<and> 0 < j_lim d \<and> 0 < i_lim d
        then [((0, 0, ucast (k_dat d)), (ucast (i_lim d), ucast (j_lim d), IMAGE_POISON_DEPTH),
          poison_bytes (unat (16 * i_lim d * j_lim d * IMAGE_POISON_DEPTH)))]
        else [])"

text \<open>Returns the event of the marker (0 when the element size is not known).\<close>

definition poisonFillImageCanaries ::
  "'w ocl \<Rightarrow> cl_command_queue \<Rightarrow> cl_memobj \<Rightarrow> evts \<Rightarrow> ('w det, cl_event) prog" where
  "poisonFillImageCanaries cl q img evt =
     (if getImageDataSize (m_image_format img) = 0 then ret 0
      else
        andThen (forM (canary_writes (get_image_dimensions (m_image_desc img))) (\<lambda>(origin, region, poison).
          andThen (clEnqueueWriteImage cl q (m_handle img) False origin region 0 0 (Host_bytes poison) evt)
            (\<lambda>(err, _). check_cl_error err))) (\<lambda>_.
        andThen (call (rt_EnqueueMarkerWithWaitList cl q [])) (\<lambda>(err1, finishWrites).
        andThen (check_cl_error err1) (\<lambda>_.
        andThen (call (rt_SetEventCallback cl finishWrites)) (\<lambda>err2.
        andThen (check_cl_error err2) (\<lambda>_.
        ret finishWrites))))))"

section \<open>\<open>mendCanaryRegion\<close>\<close>

text \<open>An event a command was to return: a command that was stopped has not written it.\<close>

definition written_event :: "cl_event option \<Rightarrow> ('w det, cl_event) prog" where
  "written_event ev = (case ev of None \<Rightarrow> fail Out_of_bounds | Some e \<Rightarrow> ret e)"

text \<open>The offset of the second canary, in a 32-bit variable.\<close>

definition canary_offset :: "u64 \<Rightarrow> u64" where
  "canary_offset sz = ucast (ucast sz + POISON_FILL_LENGTH :: u32)"

definition mend_buffer :: "'w ocl \<Rightarrow> cl_command_queue \<Rightarrow> cl_memobj \<Rightarrow> evts \<Rightarrow> ('w det, cl_event) prog" where
  "mend_buffer cl fillQueue m1 waits =
     andThen (clEnqueueFillBuffer cl fillQueue (m_main_buff m1) [POISON_FILL]
       (canary_offset (m_size m1)) POISON_FILL_LENGTH waits) (\<lambda>(err0, ev0).
     andThen (check_cl_error err0) (\<lambda>_.
     andThen (clEnqueueFillBuffer cl fillQueue (m_main_buff m1) [POISON_FILL] 0 POISON_FILL_LENGTH waits)
       (\<lambda>(err1, ev1).
     andThen (check_cl_error err1) (\<lambda>_.
     andThen (written_event ev0) (\<lambda>e0.
     andThen (written_event ev1) (\<lambda>e1.
     andThen (call (rt_EnqueueMarkerWithWaitList cl fillQueue [e0, e1])) (\<lambda>(_, finish).
     ret finish)))))))"

definition mend_svm :: "'w ocl \<Rightarrow> cl_command_queue \<Rightarrow> cl_svm_memobj \<Rightarrow> evts \<Rightarrow> ('w det, cl_event) prog" where
  "mend_svm cl fillQueue m2 waits =
     andThen (call (rt_EnqueueSVMMemFill cl fillQueue (sv_main_buff m2 + canary_offset (sv_size m2))
       [POISON_FILL] POISON_FILL_LENGTH waits)) (\<lambda>(err0, ev0).
     andThen (check_cl_error err0) (\<lambda>_.
     andThen (call (rt_EnqueueSVMMemFill cl fillQueue (sv_main_buff m2) [POISON_FILL] POISON_FILL_LENGTH
       waits)) (\<lambda>(err1, ev1).
     andThen (check_cl_error err1) (\<lambda>_.
     andThen (call (rt_EnqueueMarkerWithWaitList cl fillQueue [ev0, ev1])) (\<lambda>(_, finish).
     ret finish)))))"

text \<open>
  The event that ends the fill; 0 when the address is not known. With \<open>want_evt\<close> (\<open>retEvt\<close> is not
  NULL) it is converted to the context of \<open>cmdQueue\<close>.
\<close>

definition mendCanaryRegion ::
  "'w ocl \<Rightarrow> cl_command_queue \<Rightarrow> ptr \<Rightarrow> bool \<Rightarrow> evts \<Rightarrow> bool \<Rightarrow> ('w det, cl_event option) prog" where
  "mendCanaryRegion cl cmdQueue buffer blocking evt want_evt =
     andThen (lookup_mobj buffer) (\<lambda>m1.
     andThen (case m1 of
         Some (_, m) \<Rightarrow>
           andThen (getCommandQueueForContext cl (m_context m)) (\<lambda>(_, fillQueue).
           andThen (convertEvents cl (m_context m) evt) (\<lambda>waits.
             if m_is_image m then poisonFillImageCanaries cl fillQueue m waits
             else mend_buffer cl fillQueue m waits))
       | None \<Rightarrow>
           andThen (cl_svm_mem_find buffer) (\<lambda>m2. case m2 of
               None \<Rightarrow> ret 0
             | Some a \<Rightarrow>
                 andThen (get_svobj a) (\<lambda>m.
                 andThen (getCommandQueueForContext cl (sv_context m)) (\<lambda>(_, fillQueue).
                 andThen (convertEvents cl (sv_context m) evt) (\<lambda>waits.
                 mend_svm cl fillQueue m waits))))) (\<lambda>finish.
     andThen (if blocking \<and> finish \<noteq> 0
       then andThen (call (rt_WaitForEvents cl [finish])) (\<lambda>_. ret ()) else ret ()) (\<lambda>_.
       if want_evt
       then andThen (query (q_queue_context cl cmdQueue)) (\<lambda>(_, ctx).
            andThen (convertEvent cl ctx finish) (\<lambda>e. ret (Some e)))
       else ret None)))"

section \<open>The writes cover what the checkers read\<close>

lemma canary_writes_eq_reads:
  assumes "1 < i_lim d" and "0 < j_lim d"
  shows "map (\<lambda>(origin, region, _). (origin, region)) (canary_writes d) =
    map (\<lambda>(origin, region, _). (origin, region)) (canary_reads d ds)"
proof -
  have pos: "0 < i_lim d" using assms(1) by (rule less_trans [rotated]) simp
  show ?thesis
    using assms pos
    by (simp add: canary_writes_def canary_reads_def end_of_row_def end_of_slice_def canary_slice_def
        map_concat comp_def if_distrib [where f = "map _"] cong: if_cong)
qed

end
