(* ===== verification/Image_Props.thy ===== *)
theory Image_Props
  imports Check_Utils
begin

text \<open>
  Images: the reads of the canaries fill the flattened array exactly, the offset of a bad byte leads
  back to the place it was read from, and mending writes the regions that are checked.
\<close>

text \<open>
  C22: The reads of an image's canaries tile the flattened array. For a descriptor as the wrappers
  normalise and enlarge it, whose canaries have fewer than 2^32 elements, \<open>get_image_canary_size\<close>
  gives a length, and the byte intervals the reads store to follow one another from 0 to that length:
  every byte of the array is written exactly once.
\<close>

theorem canary_reads_tile_array:
  assumes "normalised d0" and "expandLastDimForFill d0 = Some d"
    and "canary_elems (get_image_dimensions d) < 2 ^ 32"
  shows "\<exists>len. get_image_canary_size (image_type d) (ucast (getImageDataSize fmt))
        (i_lim (get_image_dimensions d)) (j_lim (get_image_dimensions d))
        (j_dat (get_image_dimensions d)) (k_dat (get_image_dimensions d)) = Some len
      \<and> tiles 0 (map (read_interval (ucast (getImageDataSize fmt)))
          (canary_reads (get_image_dimensions d) (ucast (getImageDataSize fmt)))) (unat len)"
proof -
  let ?ds = "ucast (getImageDataSize fmt) :: u64"
  have ds: "unat ?ds \<le> 16" using getImageDataSize_le [of fmt] by (simp add: unat_ucast_wider)
  from canary_size_elems [OF assms(1, 2) refl assms(3) ds] obtain len where
    "get_image_canary_size (image_type d) ?ds (i_lim (get_image_dimensions d))
      (j_lim (get_image_dimensions d)) (j_dat (get_image_dimensions d)) (k_dat (get_image_dimensions d)) = Some len"
    "unat len = canary_elems (get_image_dimensions d) * unat ?ds" by auto
  with canary_reads_tiles [OF expanded_dims [OF assms] ds] show ?thesis by auto
qed

definition example_2d :: cl_image_desc where
  "example_2d = zero_image_desc\<lparr>image_type := CL_MEM_OBJECT_IMAGE2D, image_width := 5, image_height := 3,
     image_depth := 1, image_array_size := 1\<rparr>"

definition example_2d_canaries :: cl_image_desc where
  "example_2d_canaries = example_2d\<lparr>image_width := 21, image_height := 19\<rparr>"

lemma example_2d_facts:
  "normalised example_2d" "expandLastDimForFill example_2d = Some example_2d_canaries"
  "get_image_dimensions example_2d_canaries =
    \<lparr>i_lim = 21, j_lim = 19, k_lim = 1, i_dat = 5, j_dat = 3, k_dat = 1\<rparr>"
  "canary_elems (get_image_dimensions example_2d_canaries) = 384"
  by (simp_all add: example_2d_def example_2d_canaries_def normalised_def zero_image_desc_def
      expandLastDimForFill_def get_image_dimensions_def poison_defs canary_elems_def)

theorem canary_reads_tile_array_witness:
  "tiles 0 (map (read_interval 16)
      (canary_reads \<lparr>i_lim = 21, j_lim = 19, k_lim = 1, i_dat = 5, j_dat = 3, k_dat = 1\<rparr> 16)) 6144"
proof -
  let ?fmt = "\<lparr>image_channel_order = CL_RGBA, image_channel_data_type = CL_FLOAT\<rparr>"
  have ds: "ucast (getImageDataSize ?fmt) = (16 :: u64)" by (simp add: getImageDataSize_def)
  have ty: "image_type example_2d_canaries = CL_MEM_OBJECT_IMAGE2D"
    by (simp add: example_2d_canaries_def example_2d_def)
  have "get_image_canary_size CL_MEM_OBJECT_IMAGE2D 16 21 19 3 1 = Some 6144"
    by (simp add: get_image_canary_size_def poison_defs)
  then show ?thesis
    using canary_reads_tile_array [OF example_2d_facts(1, 2), of ?fmt] example_2d_facts(4)
    unfolding ds ty example_2d_facts(3) by simp
qed

lemma block_less: "k < K \<Longrightarrow> x < B \<Longrightarrow> k * B + x < K * (B :: nat)"
  using mult_le_mono1 [of "Suc k" K B] by simp

lemma image_places:
  assumes "image_type desc = CL_MEM_OBJECT_IMAGE2D \<or> image_type desc = CL_MEM_OBJECT_IMAGE3D"
    and "dm = get_image_dimensions desc" and "dims_ok dm" and "1 < j_lim dm"
    and "n = unat (getImageDataSize fmt)" and "b < n" and "canary_elems dm * n < 2 ^ 32"
    and "B = unat (j_dat dm) * 16 + 16 * unat (i_lim dm)"
  shows "(k < unat (k_dat dm) \<longrightarrow> j < unat (j_dat dm) \<longrightarrow> c < 16 \<longrightarrow>
        getImageCanaryXYZ fmt desc (of_nat ((k * B + j * 16 + c) * n + b)) = Some (int c, int j, int k))
    \<and> (k < unat (k_dat dm) \<longrightarrow> r < 16 \<longrightarrow> i < unat (i_lim dm) \<longrightarrow>
        getImageCanaryXYZ fmt desc (of_nat ((k * B + unat (j_dat dm) * 16 + r * unat (i_lim dm) + i) * n + b))
          = Some (-1, int r, int k))
    \<and> (1 < k_lim dm \<longrightarrow> z < 16 \<longrightarrow> p < unat (i_lim dm) * unat (j_lim dm) \<longrightarrow>
        getImageCanaryXYZ fmt desc
          (of_nat ((unat (k_dat dm) * B + z * (unat (i_lim dm) * unat (j_lim dm)) + p) * n + b))
          = Some (-1, -1, int z))"
proof -
  let ?J = "unat (j_dat dm)" and ?I = "unat (i_lim dm)" and ?K = "unat (k_dat dm)"
    and ?L = "unat (j_lim dm)"
  have n: "0 < n" using assms(6) by simp
  note xyz = getImageCanaryXYZ_elem [OF assms(1-5) n _ assms(6, 7)]
  have total: "canary_elems dm = ?K * B + (if 1 < k_lim dm then 16 * ?L * ?I else 0)"
    using assms(4, 8) by (simp add: canary_elems_def)
  have rows: "getImageCanaryXYZ fmt desc (of_nat ((k * B + j * 16 + c) * n + b)) = Some (int c, int j, int k)"
    if "k < ?K" "j < ?J" "c < 16"
  proof -
    have x: "j * 16 + c < ?J * 16" using that(2, 3) by linarith
    then have "k * B + (j * 16 + c) < ?K * B" using that(1) assms(8) by (intro block_less) auto
    with total xyz [of "k * B + j * 16 + c"] decode_elem_row [OF x, of ?I k] that(3) assms(8)
    show ?thesis by (simp add: add.assoc)
  qed
  have slices: "getImageCanaryXYZ fmt desc (of_nat ((k * B + ?J * 16 + r * ?I + i) * n + b)) = Some (-1, int r, int k)"
    if "k < ?K" "r < 16" "i < ?I"
  proof -
    have x: "?J * 16 + (r * ?I + i) < ?J * 16 + 16 * ?I" using block_less [OF that(2, 3)] by simp
    then have "k * B + (?J * 16 + (r * ?I + i)) < ?K * B" using that(1) assms(8) by (intro block_less) auto
    with total xyz [of "k * B + ?J * 16 + r * ?I + i"] decode_elem_slice [OF _ x, of k] that(3) assms(8)
    show ?thesis by (simp add: add.assoc)
  qed
  have depth: "getImageCanaryXYZ fmt desc (of_nat ((?K * B + z * (?I * ?L) + p) * n + b)) = Some (-1, -1, int z)"
    if "1 < k_lim dm" "z < 16" "p < ?I * ?L"
  proof -
    have "z * (?I * ?L) + p < 16 * ?L * ?I" using block_less [OF that(2, 3)] by (simp add: ac_simps)
    moreover have "(z * A + p) div A = z" if "p < A" for A using that by simp
    note this [OF that(3)]
    ultimately show ?thesis
      using total xyz [of "?K * B + z * (?I * ?L) + p"] that(1) assms(8) by (simp add: add.assoc)
  qed
  from rows slices depth show ?thesis by blast
qed

section \<open>Arrays of images\<close>

text \<open>
  \<open>getImageCanaryXYZ\<close> does not look at the type of the image or at \<open>image_array_size\<close>: it takes an array
  for a single image of the same width and height. Behind the canaries of that image it finds no row.
\<close>

lemma single_image_scan:
  assumes width: "I = unat (ucast (image_width desc) :: u32)" "0 < I"
    and height: "L = unat (ucast (image_height desc) :: u32)" "0 < L" and "image_depth desc = 1"
    and J: "(if L = 1 then 1 else L - 16) = J" "L = 1 \<or> 16 \<le> L"
    and n: "n = unat (getImageDataSize fmt)" "b < n" and e: "J * 16 \<le> e" "e * n + b < 2 ^ 32"
    and fits: "J * 16 + 16 * I < 2 ^ 32" "I * L < 2 ^ 32"
  shows "\<exists>y z. getImageCanaryXYZ fmt desc (of_nat (e * n + b)) = Some (-1, y, z)"
proof -
  have pos: "0 < n" using n(2) by simp
  have "e \<le> e * n" using pos by simp
  then have e32: "e < 2 ^ 32" using e(2) by linarith
  have idx: "(ucast ((ucast (of_nat (e * n + b) :: u32) :: u64) div ucast (getImageDataSize fmt)) :: u32) = of_nat e"
    by (rule element_of_byte [OF e(2) n(1) pos n(2)])
  have nz: "((ucast (getImageDataSize fmt) :: u64) = 0) = False"
    using n pos unat_ucast_wider [of "getImageDataSize fmt", where ?'b = 64] by auto
  have dims: "(ucast (image_width desc) :: u32) = of_nat I" "(ucast (image_height desc) :: u32) = of_nat L"
    "(ucast (image_depth desc) :: u32) = 1" using width(1) height(1) assms(5) by simp_all
  have L: "L < 2 ^ 32" using height(1) unsigned_less [of "ucast (image_height desc) :: u32", where ?'a = nat] by simp
  have rows: "upto32 (if (of_nat L :: u32) = 1 then 1 else of_nat L - IMAGE_POISON_HEIGHT) = map of_nat [0..<J]"
  proof (cases "L = 1")
    case False
    then have "(of_nat L :: u32) \<noteq> 1" using height(1) by (metis dims(2) unat_1)
    moreover have "(of_nat L - 16 :: u32) = of_nat (L - 16)" using J(2) False by (simp add: of_nat_diff)
    then have "unat (of_nat L - 16 :: u32) = L - 16" using L by (simp only:) (rule unat_of_nat_eq, simp)
    ultimately show ?thesis using J(1) False by (simp add: upto32_def poison_defs)
  next
    case True
    then have "J = 1" using J(1) by simp
    with True show ?thesis by (simp add: upto32_def)
  qed
  have area: "(of_nat I * of_nat L :: u32) \<noteq> 0"
  proof -
    have "unat (of_nat (I * L) :: u32) = I * L" by (rule unat_of_nat_eq) (use fits(2) in simp)
    then show ?thesis using width(2) height(2) by (metis mult_pos_pos nat_less_le of_nat_mult unat_0)
  qed
  have "scan_slices (of_nat e) (of_nat I) (map of_nat [0..<J]) (map of_nat [0..<1]) 0 =
      (if e < J * 16 + 16 * I then Inr (decode_elem J I e) else Inl (of_nat (J * 16 + 16 * I)))"
    using scan_slices_upt [of I 1 J 0 e] width(2) fits(1) e32 by simp
  moreover have "\<exists>y z. decode_elem J I e = (-1, y, z)" if "e < J * 16 + 16 * I"
    using that e(1) by (simp add: decode_elem_def Let_def)
  moreover have "upto32 1 = map of_nat [0..<1]" by (simp add: upto32_def)
  ultimately show ?thesis
    unfolding getImageCanaryXYZ_def Let_def dims rows idx nz if_False using area by (simp split: if_splits)
qed

text \<open>So the bytes of the row canaries of all layers but the first are not found in a row.\<close>

lemma array_rows_misread:
  assumes dm: "dm = get_image_dimensions desc" and ok: "dims_ok dm" "canary_elems dm * n < 2 ^ 32"
    and n: "n = unat (getImageDataSize fmt)" "b < n" and B: "B = unat (j_dat dm) * 16 + 16 * unat (i_lim dm)"
    and kind: "image_type desc = CL_MEM_OBJECT_IMAGE2D_ARRAY \<and> image_depth desc = 1 \<and> 16 \<le> unat (j_lim dm) \<and> 0 < k
      \<or> image_type desc = CL_MEM_OBJECT_IMAGE1D_ARRAY \<and> image_height desc = 1 \<and> image_depth desc = 1 \<and> 1 < j_lim dm \<and> 0 < j"
    and place: "k < unat (k_dat dm)" "j < unat (j_dat dm)" "c < 16"
  shows "\<exists>y z. getImageCanaryXYZ fmt desc (of_nat ((k * B + j * 16 + c) * n + b)) = Some (-1, y, z)"
proof -
  let ?J = "unat (j_dat dm)" and ?I = "unat (i_lim dm)" and ?K = "unat (k_dat dm)" and ?L = "unat (j_lim dm)"
  let ?e = "k * B + j * 16 + c"
  have two: "1 < j_lim dm" using kind by (auto simp: word_less_nat_alt)
  have total: "canary_elems dm = ?K * B + (if 1 < k_lim dm then 16 * ?L * ?I else 0)"
    using two B by (simp add: canary_elems_def)
  have "j * 16 + c < ?J * 16" using place(2, 3) by linarith
  then have "k * B + (j * 16 + c) < ?K * B" using place(1) B by (intro block_less) auto
  then have e: "?e < canary_elems dm" using total by simp
  have "?e * n + b < Suc ?e * n" using n by simp
  also have "\<dots> \<le> canary_elems dm * n" using e by (intro mult_le_mono1) simp
  finally have byte: "?e * n + b < 2 ^ 32" using ok(2) by linarith
  have small: "canary_elems dm < 2 ^ 32" using ok(1) by (simp add: dims_ok_def)
  have BK: "B \<le> ?K * B" using place(1) by (cases ?K) auto
  have I: "0 < ?I" using ok(1) by (simp add: dims_ok_def word_less_nat_alt)
  have width: "?I = unat (ucast (image_width desc) :: u32)" by (simp add: dm get_image_dimensions_def Let_def)
  from kind show ?thesis
  proof
    assume layers: "image_type desc = CL_MEM_OBJECT_IMAGE2D_ARRAY \<and> image_depth desc = 1 \<and> 16 \<le> ?L \<and> 0 < k"
    have height: "?L = unat (ucast (image_height desc) :: u32)" using layers by (simp add: dm get_image_dimensions_def Let_def)
    have "j_dat dm = j_lim dm - 16"
      using layers by (auto simp: dm get_image_dimensions_def Let_def poison_defs)
    then have J: "(if ?L = 1 then 1 else ?L - 16) = ?J" using layers by (simp add: unat_sub word_le_nat_alt)
    have "B \<le> k * B" using layers by simp
    moreover have "?J * 16 \<le> B" using B by simp
    ultimately have "?J * 16 \<le> ?e" by linarith
    moreover have "?J * 16 + 16 * ?I < 2 ^ 32" using B BK small total by linarith
    moreover have "?I * ?L < 2 ^ 32"
    proof -
      have "k_lim dm \<noteq> 1" using ok(1) place(1) layers by (auto simp: dims_ok_def)
      then have "1 < k_lim dm" using ok(1) by (auto simp: dims_ok_def)
      then show ?thesis using total small by (simp add: mult.commute)
    qed
    ultimately show ?thesis
      by (intro single_image_scan [OF width I height _ _ J _ n _ byte]) (use layers in simp_all)
  next
    assume rows: "image_type desc = CL_MEM_OBJECT_IMAGE1D_ARRAY \<and> image_height desc = 1 \<and> image_depth desc = 1
      \<and> 1 < j_lim dm \<and> 0 < j"
    have "16 + 16 * ?I < 2 ^ 32"
    proof -
      have "16 + 16 * ?I \<le> B" using B place(2) by simp
      then show ?thesis using BK small total by linarith
    qed
    moreover have "1 * 16 \<le> ?e" using rows by simp
    ultimately show ?thesis
      by (intro single_image_scan [OF width I _ _ _ _ _ n _ byte, of 1 1]) (use rows in simp_all)
  qed
qed

text \<open>
  C30: \<open>getImageCanaryXYZ\<close> inverts the layout of a 2- or 3-dimensional image: a byte of the element in
  column \<open>c\<close> of the canary of row \<open>j\<close>, slice \<open>k\<close> gives \<open>(c, j, k)\<close>; a byte of row \<open>r\<close> of the canary
  rows of slice \<open>k\<close> gives \<open>(-1, r, k)\<close>; a byte of canary slice \<open>z\<close> gives \<open>(-1, -1, z)\<close>. For arrays of images
  it does not: no byte of the row canaries of a layer but the first is found in a row.
\<close>

theorem getImageCanaryXYZ_inverts:
  assumes "dm = get_image_dimensions desc" and "dims_ok dm" and "1 < j_lim dm"
    and "n = unat (getImageDataSize fmt)" and "b < n" and "canary_elems dm * n < 2 ^ 32"
    and "B = unat (j_dat dm) * 16 + 16 * unat (i_lim dm)"
  shows "(image_type desc = CL_MEM_OBJECT_IMAGE2D \<or> image_type desc = CL_MEM_OBJECT_IMAGE3D \<longrightarrow>
      (k < unat (k_dat dm) \<longrightarrow> j < unat (j_dat dm) \<longrightarrow> c < 16 \<longrightarrow>
        getImageCanaryXYZ fmt desc (of_nat ((k * B + j * 16 + c) * n + b)) = Some (int c, int j, int k))
      \<and> (k < unat (k_dat dm) \<longrightarrow> r < 16 \<longrightarrow> i < unat (i_lim dm) \<longrightarrow>
        getImageCanaryXYZ fmt desc (of_nat ((k * B + unat (j_dat dm) * 16 + r * unat (i_lim dm) + i) * n + b))
          = Some (-1, int r, int k))
      \<and> (1 < k_lim dm \<longrightarrow> z < 16 \<longrightarrow> p < unat (i_lim dm) * unat (j_lim dm) \<longrightarrow>
        getImageCanaryXYZ fmt desc
          (of_nat ((unat (k_dat dm) * B + z * (unat (i_lim dm) * unat (j_lim dm)) + p) * n + b))
          = Some (-1, -1, int z)))
    \<and> (image_type desc = CL_MEM_OBJECT_IMAGE2D_ARRAY \<and> image_depth desc = 1 \<and> 16 \<le> unat (j_lim dm) \<and> 0 < k
      \<or> image_type desc = CL_MEM_OBJECT_IMAGE1D_ARRAY \<and> image_height desc = 1 \<and> image_depth desc = 1 \<and> 0 < j \<longrightarrow>
      k < unat (k_dat dm) \<longrightarrow> j < unat (j_dat dm) \<longrightarrow> c < 16 \<longrightarrow>
        (\<exists>y z. getImageCanaryXYZ fmt desc (of_nat ((k * B + j * 16 + c) * n + b)) = Some (-1, y, z)))"
  using image_places [OF _ assms] array_rows_misread [OF assms(1, 2, 6, 4, 5, 7)] assms(3) by blast

text \<open>A 2-dimensional image of 5 by 3 elements, and an array of two such images.\<close>

definition example_array :: cl_image_desc where
  "example_array = zero_image_desc\<lparr>image_type := CL_MEM_OBJECT_IMAGE2D_ARRAY, image_width := 21, image_height := 19,
     image_depth := 1, image_array_size := 18\<rparr>"

theorem getImageCanaryXYZ_inverts_witness:
  "getImageCanaryXYZ \<lparr>image_channel_order = CL_R, image_channel_data_type = CL_FLOAT\<rparr> example_2d_canaries
     (of_nat ((0 * 384 + 2 * 16 + 7) * 4 + 3)) = Some (7, 2, 0)
    \<and> (\<exists>y z. getImageCanaryXYZ \<lparr>image_channel_order = CL_R, image_channel_data_type = CL_FLOAT\<rparr> example_array
     (of_nat ((1 * 384 + 2 * 16 + 7) * 4 + 3)) = Some (-1, y, z))"
proof -
  let ?fmt = "\<lparr>image_channel_order = CL_R, image_channel_data_type = CL_FLOAT\<rparr>"
  have dims: "get_image_dimensions example_array =
      \<lparr>i_lim = 21, j_lim = 19, k_lim = 18, i_dat = 5, j_dat = 3, k_dat = 2\<rparr>"
    by (simp add: get_image_dimensions_def example_array_def zero_image_desc_def poison_defs)
  have ok: "dims_ok (get_image_dimensions example_2d_canaries)" "dims_ok (get_image_dimensions example_array)"
    using example_2d_facts(4) by (simp_all add: dims_ok_def dims canary_elems_def) (simp add: example_2d_facts(3))
  have types: "image_type example_2d_canaries = CL_MEM_OBJECT_IMAGE2D" "image_type example_array = CL_MEM_OBJECT_IMAGE2D_ARRAY"
    "image_depth example_array = 1"
    by (simp_all add: example_2d_canaries_def example_2d_def example_array_def)
  have "getImageCanaryXYZ ?fmt example_2d_canaries (of_nat ((0 * 384 + 2 * 16 + 7) * 4 + 3)) =
        Some (int 7, int 2, int 0)"
    by (rule getImageCanaryXYZ_inverts [OF refl ok(1) _ _ _ _ _, of 4 ?fmt 3 384, THEN conjunct1, rule_format, THEN conjunct1, rule_format])
      (simp_all add: example_2d_facts(3) getImageDataSize_def canary_elems_def types)
  moreover have "\<exists>y z. getImageCanaryXYZ ?fmt example_array (of_nat ((1 * 384 + 2 * 16 + 7) * 4 + 3)) = Some (-1, y, z)"
    by (rule getImageCanaryXYZ_inverts [OF refl ok(2) _ _ _ _ _, of 4 ?fmt 3 384, THEN conjunct2, rule_format])
      (simp_all add: dims getImageDataSize_def canary_elems_def types)
  ultimately show ?thesis by simp
qed

end
