(* ===== verification/Interceptor_Kernels.thy ===== *)
theory Interceptor_Kernels
  imports Interceptor_Queues Wrapper_Utils
begin

text \<open>
  Kernels and events: \<open>clRetainKernel\<close> to \<open>clSetKernelArgSVMPointer\<close>, and the event functions of
  \<open>cl_interceptor.c\<close>. The arguments set on a kernel are recorded in its \<open>kernel_info\<close>, with the
  memory object or SVM region they refer to.
\<close>

section \<open>Kernels\<close>

definition new_kinfo :: "cl_kernel \<Rightarrow> u32 \<Rightarrow> kernel_info" where
  "new_kinfo kern n = \<lparr>ki_handle = kern, ki_ref_count = n, ki_arg_list = []\<rparr>"

definition clRetainKernel :: "'w ocl \<Rightarrow> cl_kernel \<Rightarrow> ('w det, cl_int) prog" where
  "clRetainKernel cl kern =
     (if loaded cl ''clRetainKernel''
      then andThen (initialize_logging cl) (\<lambda>_.
           andThen (kinfo_find kern) (\<lambda>temp.
           andThen (case temp of
               Some ki \<Rightarrow> kinfo_assign kern (ki\<lparr>ki_ref_count := ki_ref_count ki + 1\<rparr>)
             | None \<Rightarrow> kinfo_insert (new_kinfo kern 2)) (\<lambda>_.
           call (rt_RetainKernel cl kern))))
      else andThen (cl_msg_not_found ''clRetainKernel'') (\<lambda>_. ret INT_MIN_status))"

text \<open>The kernel itself is never released.\<close>

definition clReleaseKernel :: "'w ocl \<Rightarrow> cl_kernel \<Rightarrow> ('w det, cl_int) prog" where
  "clReleaseKernel cl kern =
     (if loaded cl ''clReleaseKernel''
      then andThen (initialize_logging cl) (\<lambda>_.
           andThen (kinfo_find kern) (\<lambda>temp.
           andThen (case temp of
               None \<Rightarrow> ret ()
             | Some ki \<Rightarrow>
                 if ki_ref_count ki - 1 = 0 then andThen (kinfo_remove kern) (\<lambda>_. ret ())
                 else kinfo_assign kern (ki\<lparr>ki_ref_count := ki_ref_count ki - 1\<rparr>)) (\<lambda>_.
           ret (if kern \<noteq> 0 then CL_SUCCESS else CL_INVALID_KERNEL))))
      else andThen (cl_msg_not_found ''clReleaseKernel'') (\<lambda>_. ret INT_MIN_status))"

text \<open>The record of a kernel, made when the kernel is seen for the first time.\<close>

definition kinfo_or_new :: "cl_kernel \<Rightarrow> ('w det, kernel_info) prog" where
  "kinfo_or_new kern = andThen (kinfo_find kern) (\<lambda>temp. case temp of
       Some ki \<Rightarrow> ret ki
     | None \<Rightarrow> andThen (kinfo_insert (new_kinfo kern 1)) (\<lambda>_. ret (new_kinfo kern 1)))"

text \<open>
  The old argument with this index is taken out of the list and the new one put in: the structure is
  reused by \<open>clSetKernelArg\<close> and made anew by \<open>clSetKernelArgSVMPointer\<close>, with the same fields,
  except that the second leaves the size at 0.
\<close>

definition replace_arg :: "kernel_info \<Rightarrow> kernel_arg \<Rightarrow> kernel_info" where
  "replace_arg ki arg =
     ki\<lparr>ki_arg_list := karg_insert (snd (karg_remove (ki_arg_list ki) (ka_handle arg))) arg\<rparr>"

definition clSetKernelArg ::
  "'w ocl \<Rightarrow> cl_kernel \<Rightarrow> u32 \<Rightarrow> u64 \<Rightarrow> u8 list option \<Rightarrow> ('w det, cl_int) prog" where
  "clSetKernelArg cl kern arg_index arg_size arg_value =
     (if loaded cl ''clSetKernelArg''
      then andThen (initialize_logging cl) (\<lambda>_.
           andThen (call (rt_SetKernelArg cl kern arg_index arg_size arg_value)) (\<lambda>err.
             if err \<noteq> CL_SUCCESS then ret err
             else
               andThen (kinfo_or_new kern) (\<lambda>ki.
               andThen (case arg_value of
                   Some v \<Rightarrow> if arg_size = 8 then cl_mem_find (u64_of_bytes v) else ret None
                 | None \<Rightarrow> ret None) (\<lambda>m1.
               andThen (kinfo_assign kern (replace_arg ki
                 \<lparr>ka_handle = arg_index, ka_size = arg_size,
                  ka_value = map_option (take (unat arg_size)) arg_value,
                  ka_buffer = m1, ka_svm_buffer = None\<rparr>)) (\<lambda>_.
               ret err)))))
      else andThen (cl_msg_not_found ''clSetKernelArg'') (\<lambda>_. ret INT_MIN_status))"

definition clSetKernelArgSVMPointer ::
  "'w ocl \<Rightarrow> cl_kernel \<Rightarrow> u32 \<Rightarrow> ptr \<Rightarrow> ('w det, cl_int) prog" where
  "clSetKernelArgSVMPointer cl kern arg_index arg_value =
     (if loaded cl ''clSetKernelArgSVMPointer''
      then andThen (initialize_logging cl) (\<lambda>_.
        if arg_value = 0 then ret CL_INVALID_ARG_VALUE
        else
          andThen (call (rt_SetKernelArgSVMPointer cl kern arg_index arg_value)) (\<lambda>err.
            if err \<noteq> CL_SUCCESS then ret err
            else
              andThen (kinfo_or_new kern) (\<lambda>ki.
              andThen (cl_svm_mem_find arg_value) (\<lambda>m1.
              andThen canaryAccessAllowed (\<lambda>access.
              andThen (if m1 = None \<and> \<not> access then put_err Svm_pointer_unknown else ret ()) (\<lambda>_.
              andThen (kinfo_assign kern (replace_arg ki
                \<lparr>ka_handle = arg_index, ka_size = 0, ka_value = Some (bytes_of_u64 arg_value),
                 ka_buffer = None, ka_svm_buffer = m1\<rparr>)) (\<lambda>_.
              ret err)))))))
      else andThen (cl_msg_not_found ''clSetKernelArgSVMPointer'') (\<lambda>_. ret INT_MIN_status))"

section \<open>Events\<close>

text \<open>
  Profiling information is asked of the event of the application's own command, which the tool keeps
  beside the event it returned.
\<close>

definition clGetEventProfilingInfo :: "'w ocl \<Rightarrow> cl_event \<Rightarrow> nat \<Rightarrow> ('w det, cl_int \<times> u64 option) prog" where
  "clGetEventProfilingInfo cl event param_name =
     (if loaded cl ''clGetEventProfilingInfo''
      then andThen (initialize_logging cl) (\<lambda>_.
           andThen (cl_event_find event) (\<lambda>evt_info.
           andThen (ret (case evt_info of
               None \<Rightarrow> event
             | Some i \<Rightarrow> if ev_internal_event i \<noteq> 0 then ev_internal_event i else event)) (\<lambda>ev.
           andThen (query (rt_GetEventProfilingInfo cl ev param_name)) (\<lambda>(err, v). ret (err, Some v)))))
      else andThen (cl_msg_not_found ''clGetEventProfilingInfo'') (\<lambda>_. ret (INT_MIN_status, None)))"

definition clRetainEvent :: "'w ocl \<Rightarrow> cl_event \<Rightarrow> ('w det, cl_int) prog" where
  "clRetainEvent cl event =
     (if loaded cl ''clRetainEvent''
      then andThen (initialize_logging cl) (\<lambda>_.
           andThen (cl_event_find event) (\<lambda>found.
           andThen (case found of
               Some i \<Rightarrow> ret i
             | None \<Rightarrow>
                 andThen (cl_event_insert \<lparr>ev_handle = event, ev_ref_count = 1, ev_internal_event = 0\<rparr>)
                   (\<lambda>_. ret \<lparr>ev_handle = event, ev_ref_count = 1, ev_internal_event = 0\<rparr>)) (\<lambda>i.
           andThen (cl_event_assign event (i\<lparr>ev_ref_count := ev_ref_count i + 1\<rparr>)) (\<lambda>_.
           call (rt_RetainEvent cl event)))))
      else andThen (cl_msg_not_found ''clRetainEvent'') (\<lambda>_. ret INT_MIN_status))"

definition clReleaseEvent :: "'w ocl \<Rightarrow> cl_event \<Rightarrow> ('w det, cl_int) prog" where
  "clReleaseEvent cl event =
     (if loaded cl ''clReleaseEvent''
      then andThen (initialize_logging cl) (\<lambda>_.
           andThen (cl_event_find event) (\<lambda>evt_info.
           andThen (case evt_info of
               None \<Rightarrow> ret ()
             | Some i \<Rightarrow>
                 andThen (cl_event_assign event (i\<lparr>ev_ref_count := ev_ref_count i - 1\<rparr>)) (\<lambda>_.
                 andThen (if ev_ref_count i - 1 = 0 \<and> ev_internal_event i \<noteq> 0
                   then andThen (call (rt_ReleaseEvent cl (ev_internal_event i))) check_cl_error
                   else ret ()) (\<lambda>_.
                 if ev_ref_count i - 1 = 0 then andThen (cl_event_remove event) (\<lambda>_. ret ())
                 else ret ()))) (\<lambda>_.
           call (rt_ReleaseEvent cl event))))
      else andThen (cl_msg_not_found ''clReleaseEvent'') (\<lambda>_. ret INT_MIN_status))"

text \<open>Commands that are passed on as they are.\<close>

definition clEnqueueTask ::
  "'w ocl \<Rightarrow> cl_command_queue \<Rightarrow> cl_kernel \<Rightarrow> evts \<Rightarrow> ('w det, cl_int \<times> cl_event option) prog" where
  "clEnqueueTask cl q kern event_list =
     (if loaded cl ''clEnqueueTask''
      then andThen (initialize_logging cl) (\<lambda>_.
           andThen (call (rt_EnqueueTask cl q kern event_list)) (\<lambda>(err, ev). ret (err, Some ev)))
      else andThen (cl_msg_not_found ''clEnqueueTask'') (\<lambda>_. ret (INT_MIN_status, None)))"

definition clEnqueueNativeKernel ::
  "'w ocl \<Rightarrow> cl_command_queue \<Rightarrow> ptr \<Rightarrow> u8 list \<Rightarrow> cl_mem list \<Rightarrow> ptr list \<Rightarrow> evts \<Rightarrow>
    ('w det, cl_int \<times> cl_event option) prog" where
  "clEnqueueNativeKernel cl q user_func args mem_list args_mem_loc event_list =
     (if loaded cl ''clEnqueueNativeKernel''
      then andThen (initialize_logging cl) (\<lambda>_.
           andThen (call (rt_EnqueueNativeKernel cl q user_func args mem_list args_mem_loc event_list))
             (\<lambda>(err, ev). ret (err, Some ev)))
      else andThen (cl_msg_not_found ''clEnqueueNativeKernel'') (\<lambda>_. ret (INT_MIN_status, None)))"

end
