(* ===== verification/Cpu_Check.thy ===== *)
theory Cpu_Check
  imports Check_Utils Interceptor_Kernels
begin

text \<open>
  The check of the canaries on the host: \<open>src/cpu_check/\<close>. \<open>cpu_parse_canary\<close> looks for the first
  byte that is not poison in what was read back; the functions for buffers, images and SVM regions
  read the canaries, wait, and parse them one object at a time.
\<close>

section \<open>\<open>cpu_parse_canary\<close>\<close>

definition divide_ceiling :: "u32 \<Rightarrow> u32 \<Rightarrow> u32" where
  "divide_ceiling a b = (let q = a div b in if a mod b \<noteq> 0 then q + 1 else q)"

text \<open>The \<open>p\<close>-th 32-bit word of the array, and a byte of it.\<close>

definition word_at :: "u8 list \<Rightarrow> u32 \<Rightarrow> u32" where
  "word_at bytes p = u32_of_bytes (drop (4 * unat p) bytes)"

definition byte_index :: "u32 \<Rightarrow> u64 \<Rightarrow> u64" where
  "byte_index p q = 4 * ucast p + q"

text \<open>
  The two loops: the first word that is not poison, then the first of its bytes that is not and lies
  within the length; after that word nothing is looked at.
\<close>

definition find_bad_byte :: "u32 \<Rightarrow> u8 list \<Rightarrow> u32 option" where
  "find_bad_byte check_len bytes =
     (case find (\<lambda>p. word_at bytes p \<noteq> POISON_FILL_32B) (upto32 (divide_ceiling check_len 4)) of
        None \<Rightarrow> None
      | Some p \<Rightarrow>
          map_option (\<lambda>q. ucast (byte_index p q))
            (find (\<lambda>q. bytes ! unat (byte_index p q) \<noteq> POISON_FILL \<and> byte_index p q < ucast check_len)
              [0, 1, 2, 3]))"

definition cpu_parse_canary ::
  "'w ocl \<Rightarrow> cl_command_queue \<Rightarrow> u32 \<Rightarrow> u8 list \<Rightarrow> kernel_info \<Rightarrow> ptr \<Rightarrow> u32 list \<Rightarrow> ('w det, unit) prog" where
  "cpu_parse_canary cl q check_len bytes kern_info buffer dupe =
     (case find_bad_byte check_len bytes of
        None \<Rightarrow> ret ()
      | Some bad_byte \<Rightarrow>
          andThen (gets (\<lambda>s. get_print_backtrace_envvar (environ s))) (\<lambda>wanted.
          andThen (overflowError cl kern_info buffer bad_byte (if wanted \<noteq> 0 then backtrace cl 5 else None))
            (\<lambda>_.
          andThen (printDupeWarning cl (ki_handle kern_info) dupe) (\<lambda>_.
          andThen (gets (\<lambda>s. get_exitcode_envvar (environ s))) (\<lambda>code.
          andThen (optionalKillOnOverflow code) (\<lambda>_.
          andThen (mendCanaryRegion cl q buffer True [] False) (\<lambda>_.
          ret ())))))))"

section \<open>Buffers\<close>

text \<open>The bytes and the event a read was to return.\<close>

definition written_read :: "(u8 list \<times> cl_event) option \<Rightarrow> ('w det, u8 list \<times> cl_event) prog" where
  "written_read r = (case r of None \<Rightarrow> fail Out_of_bounds | Some x \<Rightarrow> ret x)"

definition read_cl_mem_canary ::
  "'w ocl \<Rightarrow> cl_command_queue \<Rightarrow> cl_event \<Rightarrow> ptr \<Rightarrow> ('w det, cl_mem \<times> u8 list \<times> evts) prog" where
  "read_cl_mem_canary cl q input_event buffer_ptr =
     andThen (lookup_mobj buffer_ptr) (\<lambda>r. case r of
         None \<Rightarrow> andThen (put_err (Memobj_missing buffer_ptr)) (\<lambda>_. fail (Exit (-1)))
       | Some (_, m1) \<Rightarrow>
           andThen (clEnqueueReadBuffer cl q (m_main_buff m1) False 0 POISON_FILL_LENGTH [input_event])
             (\<lambda>(err0, r0).
           andThen (check_cl_error err0) (\<lambda>_.
           andThen (clEnqueueReadBuffer cl q (m_main_buff m1) False (canary_offset (m_size m1))
             POISON_FILL_LENGTH [input_event]) (\<lambda>(err1, r1).
           andThen (check_cl_error err1) (\<lambda>_.
           andThen (written_read r0) (\<lambda>(bytes0, ev0).
           andThen (written_read r1) (\<lambda>(bytes1, ev1).
           ret (m_handle m1, bytes0 @ bytes1, [ev0, ev1]))))))))"

definition read_cl_mem_canaries ::
  "'w ocl \<Rightarrow> cl_command_queue \<Rightarrow> ptr list \<Rightarrow> cl_event \<Rightarrow> ('w det, (cl_mem \<times> u8 list \<times> evts) list) prog" where
  "read_cl_mem_canaries cl q buffer_ptrs input_event =
     mapM (read_cl_mem_canary cl q input_event) buffer_ptrs"

definition release_events :: "'w ocl \<Rightarrow> evts \<Rightarrow> ('w det, unit) prog" where
  "release_events cl evs = forM evs (\<lambda>e. andThen (clReleaseEvent cl e) (\<lambda>_. ret ()))"

definition verify_cl_mem ::
  "'w ocl \<Rightarrow> kernel_info \<Rightarrow> ptr list \<Rightarrow> u32 list \<Rightarrow> cl_event \<Rightarrow> ('w det, unit) prog" where
  "verify_cl_mem cl kern_info buffer_ptrs dupe evt =
     (if buffer_ptrs = [] then ret ()
      else
        andThen (query (q_kernel_context cl (ki_handle kern_info))) (\<lambda>(err, kern_ctx).
        andThen (check_cl_error err) (\<lambda>_.
        andThen (getCommandQueueForContext cl kern_ctx) (\<lambda>(_, cmd_queue).
        andThen (read_cl_mem_canaries cl cmd_queue buffer_ptrs evt) (\<lambda>canaries.
        andThen (call (rt_WaitForEvents cl (concat (map (\<lambda>(_, _, evs). evs) canaries)))) (\<lambda>err2.
        andThen (check_cl_error err2) (\<lambda>_.
        andThen (forM canaries (\<lambda>(buffer, bytes, _).
          cpu_parse_canary cl cmd_queue (POISON_REGIONS * POISON_FILL_LENGTH) bytes kern_info buffer dupe))
          (\<lambda>_.
        release_events cl (concat (map (\<lambda>(_, _, evs). evs) canaries))))))))))"

section \<open>Images\<close>

text \<open>
  One read of an image's canaries: where in the array it stores which bytes, and its event. A command
  that was stopped stores nothing and leaves the event 0 of the cleared array. A dimension without
  canaries has a completed user event instead.
\<close>

definition image_read ::
  "'w ocl \<Rightarrow> cl_command_queue \<Rightarrow> cl_memobj \<Rightarrow> cl_event \<Rightarrow> canary_read \<Rightarrow>
    ('w det, (nat \<times> u8 list) option \<times> cl_event) prog" where
  "image_read cl q img in_evt r = (case r of (origin, region, off) \<Rightarrow>
     andThen (clEnqueueReadImage cl q (m_handle img) False origin region 0 0 [in_evt]) (\<lambda>(err, res).
     andThen (check_cl_error err) (\<lambda>_.
       case res of
         None \<Rightarrow> ret (None, 0)
       | Some (bytes, ev) \<Rightarrow> ret (Some (unat off, bytes), ev))))"

definition no_read :: "'w ocl \<Rightarrow> cl_context \<Rightarrow> ('w det, (nat \<times> u8 list) option \<times> cl_event) prog" where
  "no_read cl kern_ctx = andThen (create_complete_user_event cl kern_ctx) (\<lambda>ev. ret (None, ev))"

definition copy_end_of_row ::
  "'w ocl \<Rightarrow> cl_context \<Rightarrow> cl_command_queue \<Rightarrow> cl_memobj \<Rightarrow> image_dims \<Rightarrow> u64 \<Rightarrow> cl_event \<Rightarrow> u32 \<Rightarrow> u32 \<Rightarrow>
    ('w det, (nat \<times> u8 list) option \<times> cl_event) prog" where
  "copy_end_of_row cl kern_ctx q img d data_size in_evt k j =
     (if 1 < i_lim d then image_read cl q img in_evt (end_of_row d data_size j k) else no_read cl kern_ctx)"

definition copy_end_of_slice ::
  "'w ocl \<Rightarrow> cl_context \<Rightarrow> cl_command_queue \<Rightarrow> cl_memobj \<Rightarrow> image_dims \<Rightarrow> u64 \<Rightarrow> cl_event \<Rightarrow> u32 \<Rightarrow>
    ('w det, (nat \<times> u8 list) option \<times> cl_event) prog" where
  "copy_end_of_slice cl kern_ctx q img d data_size in_evt k =
     (if 1 < j_lim d then image_read cl q img in_evt (end_of_slice d data_size k) else no_read cl kern_ctx)"

definition copy_canary_slice ::
  "'w ocl \<Rightarrow> cl_context \<Rightarrow> cl_command_queue \<Rightarrow> cl_memobj \<Rightarrow> image_dims \<Rightarrow> u64 \<Rightarrow> cl_event \<Rightarrow>
    ('w det, (nat \<times> u8 list) option \<times> cl_event) prog" where
  "copy_canary_slice cl kern_ctx q img d data_size in_evt =
     (if 1 < k_lim d then image_read cl q img in_evt (canary_slice d data_size) else no_read cl kern_ctx)"

text \<open>The array the parts were stored in, from \<open>malloc\<close>; \<open>None\<close> marks a byte nobody wrote.\<close>

definition gather :: "nat \<Rightarrow> (nat \<times> u8 list) option list \<Rightarrow> u8 option list option" where
  "gather len parts =
     fold_opt (\<lambda>part arr. case part of None \<Rightarrow> Some arr | Some (off, bytes) \<Rightarrow> blit off (map Some bytes) arr)
       parts (replicate len None)"

text \<open>The length, the array and the events of an image.\<close>

definition read_image_canaries ::
  "'w ocl \<Rightarrow> cl_context \<Rightarrow> cl_command_queue \<Rightarrow> cl_memobj \<Rightarrow> cl_event \<Rightarrow>
    ('w det, u32 \<times> u8 option list \<times> evts) prog" where
  "read_image_canaries cl kern_ctx q img in_evt =
     (let d = get_image_dimensions (m_image_desc img);
          data_size = ucast (getImageDataSize (m_image_format img))
      in case get_image_canary_size (image_type (m_image_desc img)) data_size (i_lim d) (j_lim d)
             (j_dat d) (k_dat d) of
           None \<Rightarrow> fail (Exit (-1))
         | Some transfer_len \<Rightarrow>
             andThen (mapM (\<lambda>k.
               andThen (mapM (copy_end_of_row cl kern_ctx q img d data_size in_evt k) (upto32 (j_dat d)))
                 (\<lambda>rows.
               andThen (copy_end_of_slice cl kern_ctx q img d data_size in_evt k) (\<lambda>slice.
               ret (rows @ [slice])))) (upto32 (k_dat d))) (\<lambda>slices.
             andThen (copy_canary_slice cl kern_ctx q img d data_size in_evt) (\<lambda>last.
               let parts = concat slices @ [last]
               in case gather (unat transfer_len) (map fst parts) of
                    None \<Rightarrow> fail Out_of_bounds
                  | Some arr \<Rightarrow> ret (ucast transfer_len, arr, map snd parts))))"

text \<open>Parsing looks at every byte up to the first that is not poison; one that was not written is an error.\<close>

definition parse_image ::
  "'w ocl \<Rightarrow> cl_command_queue \<Rightarrow> u32 \<Rightarrow> u8 option list \<Rightarrow> kernel_info \<Rightarrow> ptr \<Rightarrow> u32 list \<Rightarrow> ('w det, unit) prog" where
  "parse_image cl q len arr kern_info buffer dupe = (case those arr of
       None \<Rightarrow> fail Out_of_bounds
     | Some bytes \<Rightarrow> cpu_parse_canary cl q len bytes kern_info buffer dupe)"

definition find_image :: "ptr \<Rightarrow> ('w det, cl_memobj) prog" where
  "find_image p = andThen (lookup_mobj p) (\<lambda>r. case r of
       None \<Rightarrow> andThen (put_err (Memobj_missing p)) (\<lambda>_. fail (Exit (-1)))
     | Some (_, m1) \<Rightarrow> ret m1)"

text \<open>How to wait for the reads depends on the SDK the tool was built with.\<close>

definition wait_for_reads :: "'w ocl \<Rightarrow> cl_command_queue \<Rightarrow> evts \<Rightarrow> ('w det, unit) prog" where
  "wait_for_reads cl q evs =
     andThen (if sdk_version cl = 2 then call (rt_Finish cl q)
       else if sdk_version cl = 3
         then andThen (call (rt_EnqueueMarkerWithWaitList cl q evs)) (\<lambda>(err, temp_evt).
              andThen (check_cl_error err) (\<lambda>_.
              call (rt_WaitForEvents cl [temp_evt])))
       else call (rt_WaitForEvents cl evs)) check_cl_error"

definition verify_images ::
  "'w ocl \<Rightarrow> kernel_info \<Rightarrow> ptr list \<Rightarrow> u32 list \<Rightarrow> cl_event option \<Rightarrow> ('w det, unit) prog" where
  "verify_images cl kern_info image_ptrs dupe evt =
     (if image_ptrs = [] then ret ()
      else
        andThen (query (q_kernel_context cl (ki_handle kern_info))) (\<lambda>(err, kern_ctx).
        andThen (check_cl_error err) (\<lambda>_.
        andThen (getCommandQueueForContext cl kern_ctx) (\<lambda>(_, cmd_queue).
        andThen (case evt of Some e \<Rightarrow> ret e | None \<Rightarrow> create_complete_user_event cl kern_ctx) (\<lambda>wait_evt.
        andThen (mapM find_image image_ptrs) (\<lambda>images.
        andThen (mapM (\<lambda>m. read_image_canaries cl kern_ctx cmd_queue m wait_evt) images) (\<lambda>canaries.
        andThen (wait_for_reads cl cmd_queue (concat (map (\<lambda>(_, _, evs). evs) canaries))) (\<lambda>_.
        andThen (forM (zip images canaries) (\<lambda>(m, len, arr, _).
          parse_image cl cmd_queue len arr kern_info (m_handle m) dupe)) (\<lambda>_.
        release_events cl (concat (map (\<lambda>(_, _, evs). evs) canaries)))))))))))"

section \<open>SVM regions\<close>

text \<open>
  A region of the kernel's context gets a small region of its own to copy the canaries to; the others
  are skipped (\<open>None\<close>).
\<close>

definition set_up_svm_canary_copy ::
  "'w ocl \<Rightarrow> cl_context \<Rightarrow> ptr \<Rightarrow> ('w det, (ptr \<times> ptr \<times> ptr) option) prog" where
  "set_up_svm_canary_copy cl kern_ctx svm_ptr =
     andThen (cl_svm_mem_find svm_ptr) (\<lambda>r. case r of
         None \<Rightarrow> andThen (put_err (Memobj_missing svm_ptr)) (\<lambda>_. fail (Exit (-1)))
       | Some a \<Rightarrow>
           andThen (get_svobj a) (\<lambda>m1.
             if sv_context m1 \<noteq> kern_ctx then ret None
             else andThen (clSVMAlloc cl kern_ctx {CL_MEM_READ_WRITE} (POISON_REGIONS * POISON_FILL_LENGTH) 0)
               (\<lambda>map_ptr.
               ret (Some (sv_main_buff m1, sv_main_buff m1 + canary_offset (sv_size m1), map_ptr)))))"

text \<open>The copy and map commands of one region: the copy events and the map event.\<close>

definition copy_and_map_svm_canaries ::
  "'w ocl \<Rightarrow> cl_context \<Rightarrow> cl_command_queue \<Rightarrow> cl_event \<Rightarrow> (ptr \<times> ptr \<times> ptr) option \<Rightarrow>
    ('w det, evts \<times> cl_event) prog" where
  "copy_and_map_svm_canaries cl kern_ctx q incoming_evt r = (case r of
       None \<Rightarrow>
         andThen (call (rt_CreateUserEvent cl kern_ctx)) (\<lambda>(ev, err).
         andThen (check_cl_error err) (\<lambda>_.
         andThen (create_complete_user_event cl kern_ctx) (\<lambda>mev. ret ([ev], mev))))
     | Some (canary0, canary1, map_ptr) \<Rightarrow>
         andThen (call (rt_EnqueueSVMMemcpy cl q False map_ptr canary0 POISON_FILL_LENGTH [incoming_evt]))
           (\<lambda>(err0, ev0).
         andThen (check_cl_error err0) (\<lambda>_.
         andThen (call (rt_EnqueueSVMMemcpy cl q False (map_ptr + POISON_FILL_LENGTH) canary1
           POISON_FILL_LENGTH [incoming_evt])) (\<lambda>(err1, ev1).
         andThen (check_cl_error err1) (\<lambda>_.
         andThen (clEnqueueSVMMap cl q False {CL_MAP_READ} map_ptr (POISON_REGIONS * POISON_FILL_LENGTH)
           [ev0, ev1]) (\<lambda>(err2, mev).
         andThen (check_cl_error err2) (\<lambda>_.
         andThen (written_event mev) (\<lambda>e. ret ([ev0, ev1], e)))))))))"

definition check_svm_buffers ::
  "'w ocl \<Rightarrow> cl_command_queue \<Rightarrow> kernel_info \<Rightarrow> u32 list \<Rightarrow> ptr \<times> (ptr \<times> ptr \<times> ptr) option \<Rightarrow>
    ('w det, unit) prog" where
  "check_svm_buffers cl q kern_info dupe r = (case r of
       (svm_ptr, None) \<Rightarrow> ret ()
     | (svm_ptr, Some (_, _, map_ptr)) \<Rightarrow>
         andThen (query (rt_svm_bytes cl map_ptr (POISON_REGIONS * POISON_FILL_LENGTH))) (\<lambda>bytes.
         cpu_parse_canary cl q (POISON_REGIONS * POISON_FILL_LENGTH) bytes kern_info svm_ptr dupe))"

definition unmap_svm_buffers ::
  "'w ocl \<Rightarrow> cl_context \<Rightarrow> cl_command_queue \<Rightarrow> (ptr \<times> ptr \<times> ptr) option \<Rightarrow> ('w det, cl_event) prog" where
  "unmap_svm_buffers cl kern_ctx q r = (case r of
       None \<Rightarrow> create_complete_user_event cl kern_ctx
     | Some (_, _, map_ptr) \<Rightarrow>
         andThen (clEnqueueSVMUnmap cl q map_ptr []) (\<lambda>(err, ev).
         andThen (check_cl_error err) (\<lambda>_. written_event ev)))"

text \<open>
  The copy events of all regions share one array, two for each, but the events are written for a
  skipped region and released for every region at its own index: \<open>copy_events[i]\<close>.
\<close>

definition store_copy_events :: "nat \<Rightarrow> evts \<Rightarrow> cl_event list \<Rightarrow> cl_event list" where
  "store_copy_events i evs arr = (case evs of
       [ev] \<Rightarrow> arr[i := ev]
     | [ev0, ev1] \<Rightarrow> arr[2 * i := ev0, 2 * i + 1 := ev1]
     | _ \<Rightarrow> arr)"

definition copy_events_array :: "evts list \<Rightarrow> cl_event list" where
  "copy_events_array evss =
     fold (\<lambda>(i, evs) arr. store_copy_events i evs arr) (enumerate 0 evss) (replicate (2 * length evss) 0)"

definition release_and_free ::
  "'w ocl \<Rightarrow> cl_context \<Rightarrow> cl_event list \<Rightarrow> nat \<Rightarrow> (ptr \<times> ptr \<times> ptr) option \<Rightarrow> cl_event \<Rightarrow> cl_event \<Rightarrow>
    ('w det, unit) prog" where
  "release_and_free cl kern_ctx copy_events i r map_event unmap_event = (case r of
       None \<Rightarrow> ret ()
     | Some (_, _, map_ptr) \<Rightarrow>
         andThen (clSVMFree cl kern_ctx map_ptr) (\<lambda>_.
         release_events cl [copy_events ! i, map_event, unmap_event]))"

definition verify_svm ::
  "'w ocl \<Rightarrow> kernel_info \<Rightarrow> ptr list \<Rightarrow> u32 list \<Rightarrow> cl_event \<Rightarrow> ('w det, unit) prog" where
  "verify_svm cl kern_info svm_ptrs dupe evt =
     (if svm_ptrs = [] then ret ()
      else
        andThen (query (q_kernel_context cl (ki_handle kern_info))) (\<lambda>(err, kern_ctx).
        andThen (check_cl_error err) (\<lambda>_.
        andThen (getCommandQueueForContext cl kern_ctx) (\<lambda>(_, q).
        andThen (mapM (set_up_svm_canary_copy cl kern_ctx) svm_ptrs) (\<lambda>rs.
        andThen (mapM (copy_and_map_svm_canaries cl kern_ctx q evt) rs) (\<lambda>copies.
        andThen (call (rt_WaitForEvents cl (map snd copies))) (\<lambda>err2.
        andThen (check_cl_error err2) (\<lambda>_.
        andThen (forM (zip svm_ptrs rs) (check_svm_buffers cl q kern_info dupe)) (\<lambda>_.
        andThen (mapM (unmap_svm_buffers cl kern_ctx q) rs) (\<lambda>unmaps.
        andThen (call (rt_WaitForEvents cl unmaps)) (\<lambda>err3.
        andThen (check_cl_error err3) (\<lambda>_.
        forM [0..<length rs] (\<lambda>i. release_and_free cl kern_ctx
          (copy_events_array (map fst copies)) i (rs ! i) (snd (copies ! i)) (unmaps ! i))))))))))))))"

section \<open>\<open>verify_buffer_on_host\<close>\<close>

definition verify_buffer_on_host ::
  "'w ocl \<Rightarrow> ptr list \<Rightarrow> ptr list \<Rightarrow> ptr list \<Rightarrow> kernel_info \<Rightarrow> u32 list \<Rightarrow> cl_event \<Rightarrow> ('w det, unit) prog" where
  "verify_buffer_on_host cl cl_mem_ptrs svm_ptrs image_ptrs kern_info dupe evt =
     andThen (verify_cl_mem cl kern_info cl_mem_ptrs dupe evt) (\<lambda>_.
     andThen (verify_images cl kern_info image_ptrs dupe (Some evt)) (\<lambda>_.
     verify_svm cl kern_info svm_ptrs dupe evt))"

end
