(* ===== verification/Cpu_Check_Props.thy ===== *)
theory Cpu_Check_Props
  imports Cpu_Check
begin

text \<open>
  What the host check finds: \<open>find_bad_byte\<close> is the first byte that is not poison, and
  \<open>cpu_parse_canary\<close> reports exactly when there is one.
\<close>

section \<open>Words and their bytes\<close>

lemma byte_word_step:
  fixes w w' :: u32
  shows "unat w < 2 ^ 24 \<Longrightarrow> unat (ucast (b :: u8) + 256 * w :: u32) = unat b + 256 * unat w"
proof -
  assume w: "unat w < 2 ^ 24"
  have b: "unat (ucast b :: u32) = unat b" by (simp add: unat_ucast_wider)
  have b8: "unat b < 256" using unsigned_less [of b, where ?'a = nat] by simp
  have m: "unat (256 * w) = 256 * unat w" using w by (subst unat_mult_fits) simp_all
  show ?thesis using w b b8 m by (subst unat_add_fits) simp_all
qed

lemma u32_of_4_bytes:
  "unat (u32_of_bytes [a, b, c, d]) = unat a + 256 * (unat b + 256 * (unat c + 256 * unat d))"
proof -
  have bound: "unat (x :: u8) < 256" for x using unsigned_less [of x, where ?'a = nat] by simp
  have d: "unat (ucast d + 256 * (0 :: u32)) = unat d" by (simp add: unat_ucast_wider)
  have c: "unat (ucast c + 256 * (ucast d + 256 * (0 :: u32))) = unat c + 256 * unat d"
    by (subst byte_word_step) (use bound [of d] d in simp_all)
  have b: "unat (ucast b + 256 * (ucast c + 256 * (ucast d + 256 * (0 :: u32)))) =
      unat b + 256 * (unat c + 256 * unat d)"
    by (subst byte_word_step) (use bound [of c] bound [of d] c in simp_all)
  show ?thesis
  proof -
    have "u32_of_bytes [a, b, c, d] = ucast a + 256 * (ucast b + 256 * (ucast c + 256 * (ucast d + 256 * 0)))"
      by (simp add: u32_of_bytes_def)
    moreover have "unat (ucast b + 256 * (ucast c + 256 * (ucast d + 256 * (0 :: u32)))) < 2 ^ 24"
      using b bound [of b] bound [of c] bound [of d] by simp
    ultimately show ?thesis using b by (simp only: byte_word_step)
  qed
qed

lemma digit_split:
  assumes "x < 256" and "y < 256" and "x + 256 * p = y + 256 * (q :: nat)"
  shows "x = y \<and> p = q"
proof -
  have "x = (x + 256 * p) mod 256" "y = (y + 256 * q) mod 256" using assms(1, 2) by simp_all
  with assms(3) have "x = y" by simp
  with assms(3) show ?thesis by simp
qed

lemma u32_of_bytes_inj:
  assumes "u32_of_bytes [a, b, c, d] = u32_of_bytes [e, f, g, h]"
  shows "a = e \<and> b = f \<and> c = g \<and> d = h"
proof -
  have bound: "unat (x :: u8) < 256" for x using unsigned_less [of x, where ?'a = nat] by simp
  from assms have "unat a + 256 * (unat b + 256 * (unat c + 256 * unat d)) =
      unat e + 256 * (unat f + 256 * (unat g + 256 * unat h))"
    by (metis u32_of_4_bytes)
  from digit_split [OF bound bound this] have ae: "unat a = unat e"
    and "unat b + 256 * (unat c + 256 * unat d) = unat f + 256 * (unat g + 256 * unat h)" by auto
  from digit_split [OF bound bound this(2)] have bf: "unat b = unat f"
    and "unat c + 256 * unat d = unat g + 256 * unat h" by auto
  from digit_split [OF bound bound this(2)] have "unat c = unat g" "unat d = unat h" by auto
  with ae bf show ?thesis by (simp add: word_unat_eq_iff)
qed

lemma poison_word: "u32_of_bytes [POISON_FILL, POISON_FILL, POISON_FILL, POISON_FILL] = POISON_FILL_32B"
  by (simp add: u32_of_bytes_def poison_defs)

lemma take_4_drop:
  assumes "n + 4 \<le> length xs"
  shows "take 4 (drop n xs) = [xs ! n, xs ! (n + 1), xs ! (n + 2), xs ! (n + 3)]"
  using assms by (intro nth_equalityI) (auto simp: less_Suc_eq numeral_eq_Suc)

lemma word_at_poison:
  assumes "4 * unat p + 4 \<le> length bytes"
  shows "word_at bytes p = POISON_FILL_32B \<longleftrightarrow> (\<forall>q < 4. bytes ! (4 * unat p + q) = POISON_FILL)"
proof -
  let ?n = "4 * unat p"
  have w: "word_at bytes p =
      u32_of_bytes [bytes ! ?n, bytes ! (?n + 1), bytes ! (?n + 2), bytes ! (?n + 3)]"
    using take_4_drop [OF assms] by (simp add: word_at_def u32_of_bytes_def)
  have "(\<forall>q < 4. bytes ! (?n + q) = POISON_FILL) \<longleftrightarrow>
      bytes ! ?n = POISON_FILL \<and> bytes ! (?n + 1) = POISON_FILL
      \<and> bytes ! (?n + 2) = POISON_FILL \<and> bytes ! (?n + 3) = POISON_FILL"
    by (auto simp: less_Suc_eq numeral_eq_Suc)
  then show ?thesis
    unfolding w using u32_of_bytes_inj poison_word by metis
qed

section \<open>The loops find the first bad byte\<close>

lemma find_Some_least:
  "find P xs = Some x \<longleftrightarrow> (\<exists>i < length xs. xs ! i = x \<and> P x \<and> (\<forall>j < i. \<not> P (xs ! j)))"
  by (auto simp: find_Some_iff)

lemma unat_byte_index:
  "unat q < 4 \<Longrightarrow> unat (byte_index p q) = 4 * unat p + unat q"
proof -
  assume q: "unat q < 4"
  have p: "unat (ucast p :: u64) = unat p" by (simp add: unat_ucast_wider)
  have "unat p < 2 ^ 32" using unsigned_less [of p, where ?'a = nat] by simp
  then have "unat (4 * ucast p :: u64) = 4 * unat p"
    using p by (subst unat_mult_fits) simp_all
  with q \<open>unat p < 2 ^ 32\<close> show ?thesis
    unfolding byte_index_def by (subst unat_add_fits) simp_all
qed

definition words_covering :: "u32 \<Rightarrow> nat" where
  "words_covering n = (unat n + 3) div 4"

lemma unat_divide_ceiling: "unat (divide_ceiling n 4) = words_covering n"
proof -
  have "unat (n div 4) = unat n div 4" "unat (n mod 4) = unat n mod 4"
    by (simp_all add: unat_div_distrib unat_mod_distrib)
  moreover have "unat n < 2 ^ 32" using unsigned_less [of n, where ?'a = nat] by simp
  moreover have "n mod 4 = 0 \<longleftrightarrow> unat n mod 4 = 0"
    by (metis calculation(2) unat_0 word_unat_eq_iff)
  moreover have "unat (n div 4 + 1) = unat n div 4 + 1"
    using calculation(1,3) by (subst unat_add_fits) simp_all
  ultimately show ?thesis
    unfolding divide_ceiling_def Let_def words_covering_def by (auto simp: algebra_simps) presburger+
qed

lemma words_covering_bounds:
  "unat n \<le> 4 * words_covering n" "k < words_covering n \<Longrightarrow> 4 * k < unat n"
  unfolding words_covering_def by presburger+

lemma inner_find:
  fixes len :: u32
  assumes "4 * k + 4 \<le> length bytes" and "k < 2 ^ 30"
  shows "find (\<lambda>q. bytes ! unat (byte_index (of_nat k) q) \<noteq> POISON_FILL
        \<and> byte_index (of_nat k) q < ucast len) [0, 1, 2, 3] =
    map_option of_nat (find (\<lambda>q. bytes ! (4 * k + q) \<noteq> POISON_FILL \<and> 4 * k + q < unat len) [0, 1, 2, 3])"
proof -
  have k: "unat (of_nat k :: u32) = k" using assms(2) by (simp add: unat_of_nat_eq)
  have "unat (byte_index (of_nat k) 0) = 4 * k" "unat (byte_index (of_nat k) 1) = 4 * k + 1"
    "unat (byte_index (of_nat k) 2) = 4 * k + 2" "unat (byte_index (of_nat k) 3) = 4 * k + 3"
    by (simp_all add: unat_byte_index k)
  then show ?thesis by (simp add: word_less_nat_alt unat_ucast_wider)
qed

lemma four: "(\<exists>q \<in> set [0, 1, 2, 3 :: nat]. P q) \<longleftrightarrow> (\<exists>q < 4. P q)"
  by (auto simp: less_Suc_eq numeral_eq_Suc)

lemma find_four:
  "find P [0, 1, 2, 3 :: nat] = None \<longleftrightarrow> (\<forall>q < 4. \<not> P q)"
  "find P [0, 1, 2, 3 :: nat] = Some q \<longleftrightarrow> q < 4 \<and> P q \<and> (\<forall>r < q. \<not> P r)"
  by (auto simp: less_Suc_eq numeral_eq_Suc)

text \<open>The word the outer loop stops at.\<close>

lemma outer_find:
  assumes len: "4 * words_covering n \<le> length bytes"
  shows "(case find (\<lambda>p. word_at bytes p \<noteq> POISON_FILL_32B) (upto32 (divide_ceiling n 4)) of
      None \<Rightarrow> \<forall>i < 4 * words_covering n. bytes ! i = POISON_FILL
    | Some p \<Rightarrow> \<exists>k < words_covering n. p = of_nat k \<and> k < 2 ^ 30
        \<and> (\<forall>i < 4 * k. bytes ! i = POISON_FILL) \<and> (\<exists>q < 4. bytes ! (4 * k + q) \<noteq> POISON_FILL))"
proof -
  have small: "words_covering n \<le> 2 ^ 30"
    using unsigned_less [of n, where ?'a = nat] unfolding words_covering_def by simp
  have word: "word_at bytes (of_nat k) \<noteq> POISON_FILL_32B \<longleftrightarrow> (\<exists>q < 4. bytes ! (4 * k + q) \<noteq> POISON_FILL)"
    if "k < words_covering n" for k
    using word_at_poison [of "of_nat k" bytes] that small len by (simp add: unat_of_nat_eq)
  have before: "\<forall>i < 4 * m. bytes ! i = POISON_FILL"
    if "\<forall>k < m. \<not> (\<exists>q < 4. bytes ! (4 * k + q) \<noteq> POISON_FILL)" for m
  proof (intro allI impI)
    fix i
    assume "i < 4 * m"
    then have "i div 4 < m" "i mod 4 < 4" by auto
    with that have "bytes ! (4 * (i div 4) + i mod 4) = POISON_FILL" by blast
    then show "bytes ! i = POISON_FILL" by simp
  qed
  show ?thesis
  proof (cases "find (\<lambda>p. word_at bytes p \<noteq> POISON_FILL_32B) (upto32 (divide_ceiling n 4))")
    case None
    then have "\<forall>k < words_covering n. \<not> (\<exists>q < 4. bytes ! (4 * k + q) \<noteq> POISON_FILL)"
      using word by (auto simp: find_None_iff upto32_def unat_divide_ceiling)
    with None before show ?thesis by simp
  next
    case (Some p)
    then obtain k where k: "k < words_covering n" "p = of_nat k" "word_at bytes (of_nat k) \<noteq> POISON_FILL_32B"
      "\<forall>j < k. word_at bytes (of_nat j) = POISON_FILL_32B"
      by (auto simp: find_Some_iff upto32_def unat_divide_ceiling)
    then have "\<forall>j < k. \<not> (\<exists>q < 4. bytes ! (4 * j + q) \<noteq> POISON_FILL)" 
      using word by (metis less_trans)
    then have "\<forall>i < 4 * k. bytes ! i = POISON_FILL" by (rule before)
    moreover have "\<exists>q < 4. bytes ! (4 * k + q) \<noteq> POISON_FILL" using word k(1, 3) by blast
    moreover have "k < 2 ^ 30" using k(1) small by simp
    ultimately show ?thesis unfolding Some option.case using k(1, 2) by blast
  qed
qed

lemma from_word_on:
  assumes "\<forall>i < w. P i" and "\<And>q. w + q < n \<Longrightarrow> P (w + q)"
  shows "\<forall>i < (n :: nat). P i"
  using assms by (metis le_add_diff_inverse not_less)

lemma find_bad_byte_cases:
  assumes len: "4 * words_covering n \<le> length bytes"
  shows "case find_bad_byte n bytes of
      None \<Rightarrow> \<forall>i < unat n. bytes ! i = POISON_FILL
    | Some b \<Rightarrow> unat b < unat n \<and> bytes ! unat b \<noteq> POISON_FILL \<and> (\<forall>i < unat b. bytes ! i = POISON_FILL)"
proof (cases "find (\<lambda>p. word_at bytes p \<noteq> POISON_FILL_32B) (upto32 (divide_ceiling n 4))")
  case None
  with outer_find [OF len] words_covering_bounds(1) [of n] show ?thesis
    by (auto simp: find_bad_byte_def)
next
  case (Some p)
  with outer_find [OF len] obtain k where k: "k < words_covering n" "p = of_nat k" "k < 2 ^ 30"
    "\<forall>i < 4 * k. bytes ! i = POISON_FILL" and bad: "\<exists>q < 4. bytes ! (4 * k + q) \<noteq> POISON_FILL"
    by auto
  have in_len: "4 * k + 4 \<le> length bytes" using k(1) len by simp
  let ?f = "find (\<lambda>q. bytes ! (4 * k + q) \<noteq> POISON_FILL \<and> 4 * k + q < unat n) [0, 1, 2, 3]"
  have res: "find_bad_byte n bytes = map_option (\<lambda>q. ucast (byte_index (of_nat k) (of_nat q))) ?f"
    unfolding find_bad_byte_def Some option.case
    unfolding k(2) inner_find [OF in_len k(3)] option.map_comp comp_def ..
  show ?thesis
  proof (cases ?f)
    case None
    then have none: "\<forall>q < 4. bytes ! (4 * k + q) = POISON_FILL \<or> unat n \<le> 4 * k + q"
      by (auto simp only: find_four not_less)
    with bad have short: "unat n < 4 * k + 4" by fastforce
    have "\<forall>i < unat n. bytes ! i = POISON_FILL"
    proof (rule from_word_on [OF k(4)])
      fix q
      assume i: "4 * k + q < unat n"
      with short have "q < 4" by linarith
      with none i show "bytes ! (4 * k + q) = POISON_FILL" by (metis not_less)
    qed
    with res None show ?thesis by simp
  next
    case (Some q)
    then have q: "q < 4" "bytes ! (4 * k + q) \<noteq> POISON_FILL" "4 * k + q < unat n"
      "\<forall>r < q. bytes ! (4 * k + r) = POISON_FILL \<or> unat n \<le> 4 * k + r"
      by (auto simp only: find_four not_less)
    have n32: "unat n < 2 ^ 32" using unsigned_less [of n, where ?'a = nat] by simp
    have "unat (of_nat q :: u64) = q" using q(1) by (simp add: unat_of_nat_eq)
    then have bi: "unat (byte_index (of_nat k) (of_nat q)) = 4 * k + q"
      using q(1) k(3) by (subst unat_byte_index) (simp_all add: unat_of_nat_eq)
    then have b: "unat (ucast (byte_index (of_nat k) (of_nat q)) :: u32) = 4 * k + q"
      using q(3) n32 by (simp add: unsigned_ucast_eq take_bit_nat_eq_self)
    have "\<forall>i < 4 * k + q. bytes ! i = POISON_FILL"
      by (rule from_word_on [OF k(4)]) (use q in auto)
    with res Some b q show ?thesis by simp
  qed
qed

text \<open>
  C11: The host check is exact. On an array that holds the words it looks at, \<open>find_bad_byte\<close> returns
  the position of a byte if and only if that byte lies within the length checked, is not poison, and
  every byte before it is; and it returns none if and only if all the bytes checked are poison.
\<close>

theorem find_bad_byte_exact:
  assumes "4 * words_covering n \<le> length bytes"
  shows "(find_bad_byte n bytes = Some b \<longleftrightarrow>
      unat b < unat n \<and> bytes ! unat b \<noteq> POISON_FILL \<and> (\<forall>i < unat b. bytes ! i = POISON_FILL))
    \<and> (find_bad_byte n bytes = None \<longleftrightarrow> (\<forall>i < unat n. bytes ! i = POISON_FILL))"
proof (cases "find_bad_byte n bytes")
  case None
  with find_bad_byte_cases [OF assms] show ?thesis by auto
next
  case (Some c)
  with find_bad_byte_cases [OF assms] have c: "unat c < unat n" "bytes ! unat c \<noteq> POISON_FILL"
    "\<forall>i < unat c. bytes ! i = POISON_FILL" by auto
  have "b = c" if "bytes ! unat b \<noteq> POISON_FILL" "\<forall>i < unat b. bytes ! i = POISON_FILL"
    using that c by (metis linorder_less_linear word_unat_eq_iff)
  with Some c show ?thesis by auto
qed

theorem find_bad_byte_exact_witness:
  "4 * words_covering 6 \<le> length [POISON_FILL, POISON_FILL, POISON_FILL, POISON_FILL, POISON_FILL, 7, 0, 0]
   \<and> find_bad_byte 6 [POISON_FILL, POISON_FILL, POISON_FILL, POISON_FILL, POISON_FILL, 7, 0, 0] = Some 5"
proof -
  let ?xs = "[POISON_FILL, POISON_FILL, POISON_FILL, POISON_FILL, POISON_FILL, 7, 0, 0]"
  have len: "4 * words_covering 6 \<le> length ?xs"
    by (simp add: words_covering_def)
  have n: "unat (5 :: u32) = 5" "unat (6 :: u32) = 6" by simp_all
  have "?xs ! i = POISON_FILL" if "i < 5" for i
  proof -
    from that have "i = 0 \<or> i = 1 \<or> i = 2 \<or> i = 3 \<or> i = 4" by arith
    then show ?thesis by auto
  qed
  moreover have "?xs ! 5 \<noteq> POISON_FILL" by (simp add: POISON_FILL_def)
  ultimately show ?thesis
    using find_bad_byte_exact [OF len, of 5] len unfolding n by simp
qed

end
