(* ===== verification/Buffer_Props.thy ===== *)
theory Buffer_Props
  imports Cpu_Check_Props
begin

text \<open>
  Buffers from their creation to the check: what \<open>clCreateBuffer\<close> puts into a buffer, where the
  checkers read it back, and when that finds an overflow.
\<close>

section \<open>The contents of a new buffer\<close>

lemma blit_Some: "off + length bytes \<le> length arr \<Longrightarrow>
    blit off bytes arr = Some (take off arr @ bytes @ drop (off + length bytes) arr)"
  by (simp add: blit_def)

lemma blit_nth:
  assumes "off + length bytes \<le> length arr"
  shows "\<exists>new. blit off bytes arr = Some new \<and> length new = length arr \<and> (\<forall>i < length arr. new ! i =
    (if off \<le> i \<and> i < off + length bytes then bytes ! (i - off) else arr ! i))"
  unfolding blit_Some [OF assms] using assms by (auto simp: nth_append)

lemma length_host_bytes [simp]: "length (host_bytes mem p n) = n"
  by (simp add: host_bytes_def)

lemma unat_poison_length:
  "unat (POISON_FILL_LENGTH :: u64) = 4096" "unat (POISON_FILL_LENGTH :: u32) = 4096"
  by (simp_all add: POISON_FILL_LENGTH_def)

lemma unat_augmented:
  "unat sz + 8192 < 2 ^ 64 \<Longrightarrow> unat (sz + POISON_REGIONS * POISON_FILL_LENGTH :: u64) = unat sz + 8192"
  by (subst unat_add_fits) (simp_all add: POISON_REGIONS_def POISON_FILL_LENGTH_def)

lemma unat_narrow: "unat (sz :: u64) < 2 ^ 32 \<Longrightarrow> unat (ucast sz :: u32) = unat sz"
  by (simp add: unsigned_ucast_eq take_bit_nat_eq_self)

lemma unat_second_offset:
  assumes "unat (sz :: u64) + 4096 < 2 ^ 32"
  shows "unat (POISON_FILL_LENGTH + ucast sz :: u32) = 4096 + unat sz"
proof -
  have "unat (ucast sz :: u32) = unat sz" using assms by (intro unat_narrow) simp
  with assms show ?thesis by (subst unat_add_fits) (simp_all add: unat_poison_length)
qed

lemma unat_canary_offset:
  "unat sz + 4096 < 2 ^ 32 \<Longrightarrow> unat (canary_offset sz) = 4096 + unat sz"
  using unat_second_offset [of sz]
  by (simp add: canary_offset_def unat_ucast_wider add.commute)

lemma zeros_split:
  "replicate (8192 + n) x = replicate 4096 x @ replicate n x @ replicate 4096 x"
proof -
  have "replicate (8192 + n) x = replicate (4096 + (n + 4096)) x" by simp
  then show ?thesis by (simp only: replicate_add)
qed

text \<open>What a buffer with the given data looks like: the specification of the layout.\<close>

definition with_canaries :: "u8 list \<Rightarrow> u8 list" where
  "with_canaries bytes = poison_bytes 4096 @ bytes @ poison_bytes 4096"

lemma length_with_canaries [simp]: "length (with_canaries bytes) = length bytes + 8192"
  by (simp add: with_canaries_def)

lemma buffer_fill_eq:
  assumes "unat sz + 4096 < 2 ^ 32"
  shows "buffer_fill mem copy_host host_ptr sz = Some (with_canaries
    (if copy_host then host_bytes mem host_ptr (unat sz) else replicate (unat sz) 0))"
proof -
  have aug: "unat (sz + POISON_REGIONS * POISON_FILL_LENGTH) = 4096 + unat sz + 4096"
    using assms unat_augmented [of sz] by simp
  show ?thesis
    unfolding buffer_fill_def aug unat_poison_length unat_second_offset [OF assms]
    by (simp add: blit_Some with_canaries_def zeros_split)
qed

section \<open>Reading the canaries back\<close>

text \<open>The two regions the check reads, one after the other.\<close>

definition canary_view :: "u64 \<Rightarrow> u8 list \<Rightarrow> u8 list" where
  "canary_view sz arr = take 4096 arr @ take 4096 (drop (unat (canary_offset sz)) arr)"

lemma canary_view_nth:
  assumes "unat sz + 4096 < 2 ^ 32" and "length arr = unat sz + 8192" and "i < 8192"
  shows "canary_view sz arr ! i = arr ! (if i < 4096 then i else unat sz + i)"
  using assms by (auto simp: canary_view_def nth_append unat_canary_offset)

lemma length_canary_view:
  "unat sz + 4096 < 2 ^ 32 \<Longrightarrow> length arr = unat sz + 8192 \<Longrightarrow> length (canary_view sz arr) = 8192"
  by (simp add: canary_view_def unat_canary_offset)

lemma both_canaries_iff:
  assumes "unat sz + 4096 < 2 ^ 32" and "length arr = unat sz + 8192"
  shows "(\<forall>i < 8192. canary_view sz arr ! i = POISON_FILL) \<longleftrightarrow>
    (\<exists>bytes. length bytes = unat sz \<and> arr = with_canaries bytes)"
proof
  assume all: "\<forall>i < 8192. canary_view sz arr ! i = POISON_FILL"
  have first: "take 4096 arr = poison_bytes 4096"
  proof (rule nth_equalityI)
    fix i
    assume "i < length (take 4096 arr)"
    with assms(2) have i: "i < 4096" by simp
    then show "take 4096 arr ! i = poison_bytes 4096 ! i"
      using all canary_view_nth [OF assms, of i] assms(2) by simp
  qed (use assms(2) in simp)
  have last: "drop (4096 + unat sz) arr = poison_bytes 4096"
  proof (rule nth_equalityI)
    fix i
    assume "i < length (drop (4096 + unat sz) arr)"
    with assms(2) have i: "4096 + i < 8192" by simp
    then show "drop (4096 + unat sz) arr ! i = poison_bytes 4096 ! i"
      using all canary_view_nth [OF assms i] assms(2) by (auto simp: ac_simps)
  qed (use assms(2) in simp)
  let ?bytes = "take (unat sz) (drop 4096 arr)"
  have "?bytes @ drop (4096 + unat sz) arr = drop 4096 arr"
    using append_take_drop_id [of "unat sz" "drop 4096 arr"] by (simp add: add.commute)
  then have "arr = take 4096 arr @ ?bytes @ drop (4096 + unat sz) arr"
    by (simp only: append_take_drop_id)
  then have "arr = with_canaries ?bytes" by (simp add: with_canaries_def first last)
  moreover have "length ?bytes = unat sz" using assms(2) by simp
  ultimately show "\<exists>bytes. length bytes = unat sz \<and> arr = with_canaries bytes" by blast
next
  assume "\<exists>bytes. length bytes = unat sz \<and> arr = with_canaries bytes"
  then obtain bytes where bytes: "length bytes = unat sz" "arr = with_canaries bytes" by blast
  have "arr ! (if i < 4096 then i else unat sz + i) = POISON_FILL" if "i < 8192" for i
  proof (cases "i < 4096")
    case False
    then have "\<not> unat sz + i - 4096 < unat sz" by linarith
    with False that bytes show ?thesis by (simp add: with_canaries_def nth_append)
  qed (use bytes in \<open>simp add: with_canaries_def nth_append\<close>)
  then have "canary_view sz arr ! i = POISON_FILL" if "i < 8192" for i
    using that canary_view_nth [OF assms that] by simp
  then show "\<forall>i < 8192. canary_view sz arr ! i = POISON_FILL" by blast
qed

lemma unknown_buffer_reads:
  assumes "cl_mem_alloc s b = None" and "loaded cl ''clEnqueueReadBuffer''"
    and "rt_EnqueueReadBuffer cl q b blocking off sz evs (world s) = ((err, bytes, ev), w)"
  shows "clEnqueueReadBuffer cl q b blocking off sz evs s = Inr ((err, Some (bytes, ev)), s\<lparr>world := w\<rparr>)"
  using assms by (simp add: clEnqueueReadBuffer_def andThen_Inr [OF check_unknown(1)])

lemma canary_read_run:
  assumes "cl_mem_alloc s b = Some a" and "mobjs s a = Some m" and "cl_mem_alloc s (m_main_buff m) = None"
    and "loaded cl ''clEnqueueReadBuffer''"
    and "rt_EnqueueReadBuffer cl q (m_main_buff m) False 0 POISON_FILL_LENGTH [evt] (world s) =
      ((CL_SUCCESS, take 4096 arr, e0), w0)"
    and "rt_EnqueueReadBuffer cl q (m_main_buff m) False (canary_offset (m_size m)) POISON_FILL_LENGTH
      [evt] w0 = ((CL_SUCCESS, take 4096 (drop (unat (canary_offset (m_size m))) arr), e1), w1)"
  shows "read_cl_mem_canary cl q evt b s =
    Inr ((m_handle m, canary_view (m_size m) arr, [e0, e1]), s\<lparr>world := w1\<rparr>)"
proof -
  have r0: "clEnqueueReadBuffer cl q (m_main_buff m) False 0 POISON_FILL_LENGTH [evt] s =
      Inr ((CL_SUCCESS, Some (take 4096 arr, e0)), s\<lparr>world := w0\<rparr>)"
    by (rule unknown_buffer_reads [OF assms(3, 4, 5)])
  have r1: "clEnqueueReadBuffer cl q (m_main_buff m) False (canary_offset (m_size m)) POISON_FILL_LENGTH
        [evt] (s\<lparr>world := w0\<rparr>) =
      Inr ((CL_SUCCESS, Some (take 4096 (drop (unat (canary_offset (m_size m))) arr), e1)), s\<lparr>world := w1\<rparr>)"
    by (subst unknown_buffer_reads) (use assms(3, 4, 6) in simp_all)
  show ?thesis
    using assms(1, 2) r0 r1 by (simp add: read_cl_mem_canary_def andThen_def runs written_read_def canary_view_def)
qed

text \<open>
  C4: The host check of a buffer is exact. Given that the runtime returns the bytes a read asks for,
  \<open>read_cl_mem_canary\<close> delivers the canaries of the main buffer; they pass \<open>find_bad_byte\<close> if and
  only if the contents are some data of the application's size between two intact canaries, and a
  byte that is found is one of a canary that was overwritten, at the position the message reports.
\<close>

theorem buffer_check_exact:
  assumes "cl_mem_alloc s b = Some a" and "mobjs s a = Some m" and "cl_mem_alloc s (m_main_buff m) = None"
    and "loaded cl ''clEnqueueReadBuffer''" and "unat (m_size m) + 4096 < 2 ^ 32"
    and "length arr = unat (m_size m) + 8192"
    and "rt_EnqueueReadBuffer cl q (m_main_buff m) False 0 POISON_FILL_LENGTH [evt] (world s) =
      ((CL_SUCCESS, take 4096 arr, e0), w0)"
    and "rt_EnqueueReadBuffer cl q (m_main_buff m) False (canary_offset (m_size m)) POISON_FILL_LENGTH
      [evt] w0 = ((CL_SUCCESS, take 4096 (drop (unat (canary_offset (m_size m))) arr), e1), w1)"
  shows "\<exists>bytes. read_cl_mem_canary cl q evt b s =
      Inr ((m_handle m, bytes, [e0, e1]), s\<lparr>world := w1\<rparr>)
    \<and> (find_bad_byte (POISON_REGIONS * POISON_FILL_LENGTH) bytes = None \<longleftrightarrow>
        (\<exists>content. length content = unat (m_size m) \<and> arr = with_canaries content))
    \<and> (\<forall>x. find_bad_byte (POISON_REGIONS * POISON_FILL_LENGTH) bytes = Some x \<longrightarrow>
        unat x < 8192 \<and> arr ! (if unat x < 4096 then unat x else unat (m_size m) + unat x) \<noteq> POISON_FILL)"
proof -
  let ?view = "canary_view (m_size m) arr" and ?n = "POISON_REGIONS * POISON_FILL_LENGTH :: u32"
  have n: "unat ?n = 8192" by (simp add: POISON_REGIONS_def POISON_FILL_LENGTH_def)
  have len: "4 * words_covering ?n \<le> length ?view"
    unfolding length_canary_view [OF assms(5, 6)] words_covering_def n by simp
  have "read_cl_mem_canary cl q evt b s = Inr ((m_handle m, ?view, [e0, e1]), s\<lparr>world := w1\<rparr>)"
    by (rule canary_read_run [OF assms(1-4, 7, 8)])
  moreover have "find_bad_byte ?n ?view = None \<longleftrightarrow>
      (\<exists>content. length content = unat (m_size m) \<and> arr = with_canaries content)"
    unfolding both_canaries_iff [OF assms(5, 6), symmetric]
    using find_bad_byte_cases [OF len] unfolding n by (auto split: option.splits)
  moreover have "unat x < 8192 \<and> arr ! (if unat x < 4096 then unat x else unat (m_size m) + unat x) \<noteq> POISON_FILL"
    if "find_bad_byte ?n ?view = Some x" for x
    using find_bad_byte_cases [OF len] canary_view_nth [OF assms(5, 6), of "unat x"]
    unfolding that n by simp
  ultimately show ?thesis by (intro exI [of _ ?view] conjI allI impI) auto
qed

text \<open>A runtime in which every buffer holds the same bytes.\<close>

definition constant_reads :: "u8 list \<Rightarrow> unit ocl \<Rightarrow> unit ocl" where
  "constant_reads arr cl = cl\<lparr>loaded := (\<lambda>_. True),
     rt_EnqueueReadBuffer := (\<lambda>q b blocking off sz evs w.
       ((CL_SUCCESS, take (unat sz) (drop (unat off) arr), 1), w))\<rparr>"

definition one_buffer :: "u64 \<Rightarrow> 'w det \<Rightarrow> 'w det" where
  "one_buffer sz s = s\<lparr>cl_mem_alloc := [5 \<mapsto> 0],
     mobjs := [0 \<mapsto> zero_memobj\<lparr>m_handle := 5, m_main_buff := 6, m_size := sz, m_has_canary := True\<rparr>]\<rparr>"

theorem buffer_check_exact_witness:
  "\<forall>(cl :: unit ocl) (s :: unit det) (q :: u64) (evt :: u64).
   \<exists>bytes t. read_cl_mem_canary (constant_reads (with_canaries [1, 2, 3]) cl) q evt 5 (one_buffer 3 s) =
      Inr ((5, bytes, [1, 1]), t)
    \<and> find_bad_byte (POISON_REGIONS * POISON_FILL_LENGTH) bytes = None"
  (is "\<forall>cl s q evt. ?P cl s q evt")
proof (intro allI)
  fix cl :: "unit ocl" and s :: "unit det" and q :: "u64" and evt :: "u64"
  let ?cl = "constant_reads (with_canaries [1, 2, 3]) cl" and ?s = "one_buffer 3 s"
  let ?m = "zero_memobj\<lparr>m_handle := 5, m_main_buff := 6, m_size := 3, m_has_canary := True\<rparr>"
  have "\<exists>bytes. read_cl_mem_canary ?cl q evt 5 ?s = Inr ((m_handle ?m, bytes, [1, 1]), ?s\<lparr>world := ()\<rparr>)
    \<and> (find_bad_byte (POISON_REGIONS * POISON_FILL_LENGTH) bytes = None \<longleftrightarrow>
        (\<exists>content. length content = unat (m_size ?m) \<and> with_canaries [1, 2, 3] = with_canaries content))
    \<and> (\<forall>x. find_bad_byte (POISON_REGIONS * POISON_FILL_LENGTH) bytes = Some x \<longrightarrow>
        unat x < 8192 \<and> with_canaries [1, 2, 3] ! (if unat x < 4096 then unat x else unat (m_size ?m) + unat x)
          \<noteq> POISON_FILL)"
    by (rule buffer_check_exact [where a = 0 and ?w0.0 = "()"])
      (simp_all add: one_buffer_def constant_reads_def unat_poison_length)
  moreover have "length [1, 2, 3 :: u8] = unat (m_size ?m)" by simp
  ultimately show "?P cl s q evt" by fastforce
qed

section \<open>Large buffers\<close>

text \<open>The second canary is put at, and read from, an offset that was cut to 32 bits.\<close>

lemma large_offset:
  assumes "2 ^ 32 \<le> unat sz + 4096" and "unat sz + 8192 < 2 ^ 64"
  shows "unat (canary_offset sz) + 4096 \<le> 4096 + unat sz"
proof -
  have "unat (canary_offset sz) = (unat sz + 4096) mod 2 ^ 32"
    by (simp add: canary_offset_def unat_ucast_wider unat_word_ariths unat_poison_length unsigned_ucast_eq
        take_bit_eq_mod mod_simps)
  also have "\<dots> = (unat sz + 4096 - 2 ^ 32) mod 2 ^ 32" using assms(1) by (simp add: le_mod_geq)
  also have "\<dots> \<le> unat sz + 4096 - 2 ^ 32" by (rule mod_less_eq_dividend)
  finally show ?thesis using assms(1) by simp
qed

text \<open>What a buffer of this size holds at \<open>i\<close> when it is new, and the bytes the check looks at.\<close>

definition misplaced :: "u64 \<Rightarrow> nat \<Rightarrow> bool" where
  "misplaced sz i \<longleftrightarrow> i < 4096 \<or> unat (canary_offset sz) \<le> i \<and> i < unat (canary_offset sz) + 4096"

lemma large_buffer_fill:
  assumes "2 ^ 32 \<le> unat sz + 4096" and "unat sz + 8192 < 2 ^ 64"
    and data: "bytes = (if copy_host then host_bytes mem host_ptr (unat sz) else replicate (unat sz) 0)"
  shows "\<exists>arr. buffer_fill mem copy_host host_ptr sz = Some arr \<and> length arr = unat sz + 8192
    \<and> (\<forall>i < unat sz + 8192. arr ! i = (if misplaced sz i then POISON_FILL
        else if i < 4096 + unat sz then bytes ! (i - 4096) else 0))"
proof -
  let ?off = "unat (canary_offset sz)" and ?a = "poison_bytes 4096 @ bytes @ replicate 4096 0"
  have len: "length bytes = unat sz" using data by simp
  have aug: "unat (sz + POISON_REGIONS * POISON_FILL_LENGTH) = 4096 + unat sz + 4096"
    using assms unat_augmented [of sz] by simp
  have off: "unat (POISON_FILL_LENGTH + ucast sz :: u32) = ?off"
    by (simp add: canary_offset_def unat_ucast_wider add.commute)
  note room = large_offset [OF assms(1, 2)]
  have "buffer_fill mem copy_host host_ptr sz = blit ?off (poison_bytes 4096) ?a"
    unfolding buffer_fill_def aug unat_poison_length off data by (simp add: blit_Some zeros_split)
  moreover have "?off + length (poison_bytes 4096) \<le> length ?a" using room len by simp
  from blit_nth [OF this] obtain arr where "blit ?off (poison_bytes 4096) ?a = Some arr" "length arr = length ?a"
    and arr: "\<And>i. i < length ?a \<Longrightarrow> arr ! i =
      (if ?off \<le> i \<and> i < ?off + length (poison_bytes 4096) then poison_bytes 4096 ! (i - ?off) else ?a ! i)" by blast
  moreover have "arr ! i = (if misplaced sz i then POISON_FILL
      else if i < 4096 + unat sz then bytes ! (i - 4096) else 0)" if i: "i < unat sz + 8192" for i
  proof -
    have "?a ! i = (if i < 4096 then POISON_FILL else if i < 4096 + unat sz then bytes ! (i - 4096) else 0)"
      using i len by (cases "i < 4096"; cases "i < 4096 + unat sz") (auto simp: nth_append poison_bytes_def)
    moreover have "poison_bytes 4096 ! (i - ?off) = POISON_FILL" if "i < ?off + 4096" "?off \<le> i"
      using that by (simp add: poison_bytes_def)
    ultimately show ?thesis using arr [of i] i len unfolding misplaced_def by (simp del: add_diff_assoc2)
  qed
  ultimately show ?thesis using len by simp
qed

lemma large_buffer_view:
  assumes "2 ^ 32 \<le> unat sz + 4096" and "unat sz + 8192 < 2 ^ 64" and "length arr = unat sz + 8192"
  shows "length (canary_view sz arr) = 8192"
    and "(\<forall>i < 8192. canary_view sz arr ! i = POISON_FILL) \<longleftrightarrow> (\<forall>i. misplaced sz i \<longrightarrow> arr ! i = POISON_FILL)"
proof -
  let ?off = "unat (canary_offset sz)"
  note room = large_offset [OF assms(1, 2)]
  show "length (canary_view sz arr) = 8192" using room assms(3) by (simp add: canary_view_def)
  have nth: "canary_view sz arr ! i = arr ! (if i < 4096 then i else ?off + (i - 4096))" if "i < 8192" for i
    using that room assms(3) by (auto simp: canary_view_def nth_append)
  show "(\<forall>i < 8192. canary_view sz arr ! i = POISON_FILL) \<longleftrightarrow> (\<forall>i. misplaced sz i \<longrightarrow> arr ! i = POISON_FILL)"
  proof (intro iffI allI impI)
    fix i
    assume all: "\<forall>i < 8192. canary_view sz arr ! i = POISON_FILL" and "misplaced sz i"
    then consider "i < 4096" | "?off \<le> i" "i < ?off + 4096" unfolding misplaced_def by blast
    then show "arr ! i = POISON_FILL"
    proof cases
      case 1
      with all nth [of i] show ?thesis by simp
    next
      case 2
      then obtain d where "i = ?off + d" "d < 4096" by (metis add_less_cancel_left le_Suc_ex)
      with all nth [of "4096 + d"] show ?thesis by simp
    qed
  next
    fix i :: nat
    assume poison: "\<forall>i. misplaced sz i \<longrightarrow> arr ! i = POISON_FILL" and i: "i < 8192"
    then have "misplaced sz (if i < 4096 then i else ?off + (i - 4096))" by (auto simp: misplaced_def)
    with poison nth [OF i] show "canary_view sz arr ! i = POISON_FILL" by simp
  qed
qed

text \<open>
  C36: The end of a buffer of 4 GiB less 4096 bytes or more is not guarded. The offset of its second canary is
  cut to 32 bits, so that its poison lies before the end of the data: it overwrites data, unless the offset
  is 0, where it falls on the first canary; the last 4096 bytes stay 0. The check reads it at the same place:
  it looks at no byte behind the data, and takes what the application writes over the poison for an overflow.
\<close>

theorem large_buffers_unguarded:
  assumes "cl_mem_alloc s b = Some a" and "mobjs s a = Some m" and "cl_mem_alloc s (m_main_buff m) = None"
    and "loaded cl ''clEnqueueReadBuffer''" and "2 ^ 32 \<le> unat (m_size m) + 4096" "unat (m_size m) + 8192 < 2 ^ 64"
    and "length arr = unat (m_size m) + 8192"
    and "rt_EnqueueReadBuffer cl q (m_main_buff m) False 0 POISON_FILL_LENGTH [evt] (world s) =
      ((CL_SUCCESS, take 4096 arr, e0), w0)"
    and "rt_EnqueueReadBuffer cl q (m_main_buff m) False (canary_offset (m_size m)) POISON_FILL_LENGTH
      [evt] w0 = ((CL_SUCCESS, take 4096 (drop (unat (canary_offset (m_size m))) arr), e1), w1)"
  shows "(\<exists>new. buffer_fill mem copy_host host_ptr (m_size m) = Some new \<and> length new = unat (m_size m) + 8192
      \<and> (\<forall>i < length new. new ! i = (if misplaced (m_size m) i then POISON_FILL
          else if i < 4096 + unat (m_size m)
          then (if copy_host then host_bytes mem host_ptr (unat (m_size m)) else replicate (unat (m_size m)) 0) ! (i - 4096)
          else 0)))
    \<and> (\<forall>i. misplaced (m_size m) i \<longrightarrow> i < 4096 + unat (m_size m))
    \<and> ((\<exists>i. misplaced (m_size m) i \<and> 4096 \<le> i) \<longleftrightarrow> canary_offset (m_size m) \<noteq> 0)
    \<and> (\<exists>bytes. read_cl_mem_canary cl q evt b s = Inr ((m_handle m, bytes, [e0, e1]), s\<lparr>world := w1\<rparr>)
        \<and> (find_bad_byte (POISON_REGIONS * POISON_FILL_LENGTH) bytes = None \<longleftrightarrow>
            (\<forall>i. misplaced (m_size m) i \<longrightarrow> arr ! i = POISON_FILL)))"
proof (intro conjI)
  let ?sz = "m_size m"
  let ?off = "unat (canary_offset ?sz)" and ?view = "canary_view ?sz arr" and ?n = "POISON_REGIONS * POISON_FILL_LENGTH :: u32"
  note room = large_offset [OF assms(5, 6)]
  show "\<exists>new. buffer_fill mem copy_host host_ptr ?sz = Some new \<and> length new = unat ?sz + 8192
      \<and> (\<forall>i < length new. new ! i = (if misplaced ?sz i then POISON_FILL else if i < 4096 + unat ?sz
          then (if copy_host then host_bytes mem host_ptr (unat ?sz) else replicate (unat ?sz) 0) ! (i - 4096) else 0))"
    using large_buffer_fill [OF assms(5, 6) refl, of mem copy_host host_ptr] by metis
  show "\<forall>i. misplaced ?sz i \<longrightarrow> i < 4096 + unat ?sz" using room assms(5) by (auto simp: misplaced_def)
  have "(\<exists>i. misplaced ?sz i \<and> 4096 \<le> i) \<longleftrightarrow> 0 < ?off"
  proof
    assume "0 < ?off"
    then have "misplaced ?sz (?off + 4095) \<and> 4096 \<le> ?off + 4095" by (simp add: misplaced_def)
    then show "\<exists>i. misplaced ?sz i \<and> 4096 \<le> i" by blast
  qed (auto simp: misplaced_def)
  then show "(\<exists>i. misplaced ?sz i \<and> 4096 \<le> i) \<longleftrightarrow> canary_offset ?sz \<noteq> 0" by (simp add: unat_gt_0)
  have n: "unat ?n = 8192" by (simp add: POISON_REGIONS_def POISON_FILL_LENGTH_def)
  have len: "4 * words_covering ?n \<le> length ?view"
    unfolding large_buffer_view(1) [OF assms(5-7)] words_covering_def n by simp
  have "find_bad_byte ?n ?view = None \<longleftrightarrow> (\<forall>i. misplaced ?sz i \<longrightarrow> arr ! i = POISON_FILL)"
    unfolding large_buffer_view(2) [OF assms(5-7), symmetric]
    using find_bad_byte_cases [OF len] unfolding n by (auto split: option.splits)
  with canary_read_run [OF assms(1-4, 8, 9)]
  show "\<exists>bytes. read_cl_mem_canary cl q evt b s = Inr ((m_handle m, bytes, [e0, e1]), s\<lparr>world := w1\<rparr>)
      \<and> (find_bad_byte ?n bytes = None \<longleftrightarrow> (\<forall>i. misplaced ?sz i \<longrightarrow> arr ! i = POISON_FILL))"
    by (intro exI [of _ ?view] conjI)
qed

text \<open>A buffer of 4 GiB, whose last byte, behind the data, was overwritten: the check finds nothing.\<close>

theorem large_buffers_unguarded_witness:
  "\<forall>(cl :: unit ocl) (s :: unit det) (q :: u64) (evt :: u64).
   \<exists>arr bytes t. length arr = 2 ^ 32 + 8192 \<and> arr ! (2 ^ 32 + 8191) \<noteq> POISON_FILL
    \<and> read_cl_mem_canary (constant_reads arr cl) q evt 5 (one_buffer (2 ^ 32) s) = Inr ((5, bytes, [1, 1]), t)
    \<and> find_bad_byte (POISON_REGIONS * POISON_FILL_LENGTH) bytes = None"
proof (intro allI)
  fix cl :: "unit ocl" and s :: "unit det" and q :: "u64" and evt :: "u64"
  obtain n :: nat where n: "n = 2 ^ 32 + 8191" by blast
  obtain arr where arr: "length arr = Suc n" "\<And>i. i < n \<Longrightarrow> arr ! i = POISON_FILL" "arr ! n \<noteq> POISON_FILL"
  proof
    show "length (replicate n POISON_FILL @ [0]) = Suc n" by simp
    show "(replicate n POISON_FILL @ [0]) ! i = POISON_FILL" if "i < n" for i using that by (simp add: nth_append)
    show "(replicate n POISON_FILL @ [0]) ! n \<noteq> POISON_FILL" by (simp add: nth_append poison_defs)
  qed
  let ?cl = "constant_reads arr cl" and ?s = "one_buffer (2 ^ 32) s"
  let ?m = "zero_memobj\<lparr>m_handle := 5, m_main_buff := 6, m_size := 2 ^ 32, m_has_canary := True\<rparr>"
  have size: "m_size ?m = 2 ^ 32" "m_handle ?m = 5" "unat (2 ^ 32 :: u64) = 2 ^ 32" by simp_all
  have facts: "cl_mem_alloc ?s 5 = Some 0" "mobjs ?s 0 = Some ?m" "cl_mem_alloc ?s (m_main_buff ?m) = None"
    "loaded ?cl ''clEnqueueReadBuffer''" "length arr = unat (m_size ?m) + 8192"
    "rt_EnqueueReadBuffer ?cl q (m_main_buff ?m) False 0 POISON_FILL_LENGTH [evt] (world ?s) = ((CL_SUCCESS, take 4096 arr, 1), ())"
    "rt_EnqueueReadBuffer ?cl q (m_main_buff ?m) False (canary_offset (m_size ?m)) POISON_FILL_LENGTH [evt] () =
      ((CL_SUCCESS, take 4096 (drop (unat (canary_offset (m_size ?m))) arr), 1), ())"
    using arr(1) by (simp_all add: one_buffer_def constant_reads_def unat_poison_length n)
  have big: "2 ^ 32 \<le> unat (m_size ?m) + 4096" "unat (m_size ?m) + 8192 < 2 ^ 64" by simp_all
  note result = large_buffers_unguarded [OF facts(1-4) big facts(5-7)]
  have "i < n" if "misplaced (m_size ?m) i" for i
    using result that unfolding size(1, 3) n by fastforce
  then have "\<forall>i. misplaced (m_size ?m) i \<longrightarrow> arr ! i = POISON_FILL" using arr(2) by blast
  with result obtain bytes where "read_cl_mem_canary ?cl q evt 5 ?s = Inr ((m_handle ?m, bytes, [1, 1]), ?s\<lparr>world := ()\<rparr>)"
    "find_bad_byte (POISON_REGIONS * POISON_FILL_LENGTH) bytes = None" by blast
  moreover have "length arr = 2 ^ 32 + 8192" "arr ! (2 ^ 32 + 8191) \<noteq> POISON_FILL" using arr(1, 3) unfolding n by simp_all
  ultimately show "\<exists>arr bytes t. length arr = 2 ^ 32 + 8192 \<and> arr ! (2 ^ 32 + 8191) \<noteq> POISON_FILL
    \<and> read_cl_mem_canary (constant_reads arr cl) q evt 5 (one_buffer (2 ^ 32) s) = Inr ((5, bytes, [1, 1]), t)
    \<and> find_bad_byte (POISON_REGIONS * POISON_FILL_LENGTH) bytes = None"
    unfolding size(2) by blast
qed

end
