(* ===== verification/Detector.thy ===== *)
theory Detector
  imports Cpu_Check
begin

text \<open>
  The preparation of a kernel launch: \<open>findDuplicates\<close>, \<open>kernelDuplicate\<close> and \<open>delPoisonKernel\<close> of
  \<open>src/detector/bufferOverflowDetect.c\<close>, \<open>fixOclArgs\<close> and \<open>runNDRangeKernel\<close> of
  \<open>cl_interceptor.c\<close>.
\<close>

section \<open>Duplicate arguments\<close>

text \<open>The list is walked one element per argument index; its end is NULL.\<close>

definition arg_at :: "kernel_arg list \<Rightarrow> u32 \<Rightarrow> ('w det, kernel_arg) prog" where
  "arg_at args i = (if unat i < length args then ret (args ! unat i) else fail Null_deref)"

fun same_before :: "kernel_arg list \<Rightarrow> cl_mem \<Rightarrow> u32 list \<Rightarrow> ('w det, u32 option) prog" where
  "same_before args h [] = ret None"
| "same_before args h (j # js) =
     andThen (arg_at args j) (\<lambda>arg. case ka_buffer arg of
         None \<Rightarrow> same_before args h js
       | Some b \<Rightarrow> andThen (get_mobj b) (\<lambda>m.
           if h = m_handle m then ret (Some j) else same_before args h js))"

definition duplicate_of :: "kernel_arg list \<Rightarrow> u32 \<Rightarrow> ('w det, u32) prog" where
  "duplicate_of args i =
     andThen (arg_at args i) (\<lambda>arg. case ka_buffer arg of
         None \<Rightarrow> ret i
       | Some a \<Rightarrow>
           andThen (get_mobj a) (\<lambda>m.
           andThen (same_before args (m_handle m) (upto32 i)) (\<lambda>r.
           ret (case r of None \<Rightarrow> i | Some j \<Rightarrow> j))))"

text \<open>The result is NULL (\<open>None\<close>) when there are no arguments.\<close>

definition findDuplicates :: "u32 \<Rightarrow> kernel_arg list \<Rightarrow> ('w det, u32 list option) prog" where
  "findDuplicates nargs args =
     (if nargs = 0 then ret None
      else andThen (mapM (duplicate_of args) (upto32 nargs)) (\<lambda>dupe. ret (Some dupe)))"

section \<open>Copies of a kernel\<close>

definition kernelDuplicate :: "'w ocl \<Rightarrow> cl_kernel \<Rightarrow> ('w det, cl_kernel) prog" where
  "kernelDuplicate cl kern =
     andThen (query (q_kernel_program cl kern)) (\<lambda>(err1, program).
     andThen (check_cl_error err1) (\<lambda>_.
     andThen (query (q_kernel_name cl kern)) (\<lambda>(err2, name).
     andThen (check_cl_error err2) (\<lambda>_.
     andThen (call (rt_CreateKernel cl program name)) (\<lambda>(new_kernel, err3).
     andThen (check_cl_error err3) (\<lambda>_.
     ret new_kernel))))))"

text \<open>
  The arguments that were not marked as duplicates are taken off the list, and the buffers the tool
  made for them are released; then the kernel. An argument without a buffer is taken off too, and is
  not freed.
\<close>

definition del_poison_arg :: "'w ocl \<Rightarrow> cl_kernel \<Rightarrow> u32 \<Rightarrow> ('w det, unit) prog" where
  "del_poison_arg cl del_kern i =
     andThen (kinfo_find del_kern) (\<lambda>info.
     andThen (deref info) (\<lambda>ki. case karg_remove (ki_arg_list ki) i of (arg, rest) \<Rightarrow>
     andThen (kinfo_assign del_kern (ki\<lparr>ki_arg_list := rest\<rparr>)) (\<lambda>_.
       case arg of
         None \<Rightarrow> ret ()
       | Some ka \<Rightarrow> (case ka_buffer ka of
           None \<Rightarrow> ret ()
         | Some a \<Rightarrow>
             andThen (get_mobj a) (\<lambda>m1.
               if \<not> m_internal m1 then ret ()
               else
                 andThen (set_mobj a (\<lambda>m. m\<lparr>m_host_ptr := 0\<rparr>)) (\<lambda>_.
                 andThen (clReleaseMemObject cl (m_handle m1)) check_cl_error))))))"

definition delPoisonKernel :: "'w ocl \<Rightarrow> cl_kernel \<Rightarrow> u32 list option \<Rightarrow> ('w det, unit) prog" where
  "delPoisonKernel cl del_kern dupe = (case dupe of
       None \<Rightarrow> fail (Exit (-1))
     | Some d \<Rightarrow>
         andThen (query (q_kernel_num_args cl del_kern)) (\<lambda>(err, nargs).
         andThen (check_cl_error err) (\<lambda>_.
         andThen (forM (upto32 nargs) (\<lambda>i.
           if d ! unat i = i then del_poison_arg cl del_kern i else ret ())) (\<lambda>_.
         andThen (clReleaseKernel cl del_kern) (\<lambda>_. ret ())))))"

section \<open>Launch arguments\<close>

definition runNDRangeKernel ::
  "'w ocl \<Rightarrow> launchOclKernelStruct \<Rightarrow> ('w det, cl_int \<times> cl_event option) prog" where
  "runNDRangeKernel cl ocl_args =
     (if loaded cl ''clEnqueueNDRangeKernel''
      then andThen (call (rt_EnqueueNDRangeKernel cl ocl_args)) (\<lambda>(err, ev). ret (err, Some ev))
      else andThen (cl_msg_not_found ''runNDRangeKernel'') (\<lambda>_. ret (CL_SUCCESS, None)))"

text \<open>
  The loop over the dimensions of a work group: \<open>wg_size\<close> is the product so far, modulo \<open>2 ^ 64\<close>.
\<close>

fun work_group_too_big :: "u64 list \<Rightarrow> u64 list \<Rightarrow> u64 \<Rightarrow> u64 \<Rightarrow> bool" where
  "work_group_too_big (l # ls) (m # ms) wg_size max_wg_size =
     (l > m \<or> wg_size * l > max_wg_size \<or> work_group_too_big ls ms (wg_size * l) max_wg_size)"
| "work_group_too_big _ _ _ _ = False"

text \<open>
  \<open>fixOclArgs\<close>: a local size the device cannot run is dropped. The queries are the tool's own
  \<open>clGetDeviceInfo\<close>; the sizes the device does not report stay 1.
\<close>

definition fixOclArgs :: "'w ocl \<Rightarrow> launchOclKernelStruct \<Rightarrow> ('w det, launchOclKernelStruct \<times> u32) prog" where
  "fixOclArgs cl ocl_args = (case la_local_work_size ocl_args of
       None \<Rightarrow> ret (ocl_args, 0)
     | Some local \<Rightarrow>
         andThen (query (q_queue_device cl (la_command_queue ocl_args))) (\<lambda>(err1, device).
         andThen (check_cl_error err1) (\<lambda>_.
         andThen (clGetDeviceInfo cl device CL_DEVICE_MAX_WORK_ITEM_DIMENSIONS (Some [0])) (\<lambda>(err2, dims).
         andThen (check_cl_error err2) (\<lambda>_.
         andThen (read_val dims) (\<lambda>dim.
           if (ucast dim :: u32) = 0 then ret (ocl_args, 0)
           else
             andThen (clGetDeviceInfo cl device CL_DEVICE_MAX_WORK_ITEM_SIZES
               (Some (replicate (unat (ucast dim :: u32)) 1))) (\<lambda>(err3, max_size).
             andThen (check_cl_error err3) (\<lambda>_.
             andThen (clGetDeviceInfo cl device CL_DEVICE_MAX_WORK_GROUP_SIZE (Some [0])) (\<lambda>(err4, max_wg).
             andThen (check_cl_error err4) (\<lambda>_.
             andThen (read_val max_wg) (\<lambda>max_wg_size.
               let n = min (unat (la_work_dim ocl_args)) (unat (ucast dim :: u32))
               in if work_group_too_big (take n local) (the max_size) 1 max_wg_size
                  then ret (ocl_args\<lparr>la_local_work_size := None\<rparr>, 1)
                  else ret (ocl_args, 0))))))))))))"

end
