(* ===== verification/Interceptor_Images.thy ===== *)
theory Interceptor_Images
  imports Interceptor_Memory
begin

text \<open>
  \<open>clCreateImage\<close>, \<open>clCreateImage2D\<close> and \<open>clCreateImage3D\<close> of \<open>cl_interceptor.c\<close>. The three
  functions share their steps: the object with the dimensions asked for, the larger dimensions and
  the host copy with poison, the creation, the write of the copy, the insertion into the table.
\<close>

section \<open>Shared steps\<close>

definition unknown_image_type :: "('w det, 'a) prog" where
  "unknown_image_type = andThen (put_err Image_type_unknown) (\<lambda>_. fail (Exit (-1)))"

text \<open>The dimensions an image type does not use are set to 1.\<close>

definition standard_desc :: "cl_image_desc \<Rightarrow> cl_image_desc option" where
  "standard_desc d = (case image_type d of
       CL_MEM_OBJECT_IMAGE1D \<Rightarrow> Some (d\<lparr>image_height := 1, image_depth := 1, image_array_size := 1\<rparr>)
     | CL_MEM_OBJECT_IMAGE1D_BUFFER \<Rightarrow>
         Some (d\<lparr>image_height := 1, image_depth := 1, image_array_size := 1\<rparr>)
     | CL_MEM_OBJECT_IMAGE1D_ARRAY \<Rightarrow> Some (d\<lparr>image_height := 1, image_depth := 1\<rparr>)
     | CL_MEM_OBJECT_IMAGE2D \<Rightarrow> Some (d\<lparr>image_depth := 1, image_array_size := 1\<rparr>)
     | CL_MEM_OBJECT_IMAGE2D_ARRAY \<Rightarrow> Some (d\<lparr>image_depth := 1\<rparr>)
     | CL_MEM_OBJECT_IMAGE3D \<Rightarrow> Some (d\<lparr>image_array_size := 1\<rparr>)
     | Other_mem_object _ \<Rightarrow> None)"

definition image_bytes :: "cl_image_desc \<Rightarrow> cl_image_format \<Rightarrow> u64" where
  "image_bytes d fmt =
     image_width d * image_height d * image_depth d * image_array_size d * ucast (getImageDataSize fmt)"

definition new_image :: "cl_context \<Rightarrow> cl_mem_flags \<Rightarrow> cl_image_format \<Rightarrow> cl_image_desc \<Rightarrow> u64 \<Rightarrow> cl_memobj" where
  "new_image context flags fmt d sz = zero_memobj
     \<lparr>m_is_image := True, m_context := context, m_flags := flags, m_image_format := fmt,
      m_image_desc := d, m_size := sz\<rparr>"

text \<open>
  Without \<open>keep\<close>, the image grows and its contents are built on the host; \<open>no_pitch\<close>: the pitches
  are forgotten afterwards (in \<open>clCreateImage\<close> only).
\<close>

definition prepare_image ::
  "bool \<Rightarrow> bool \<Rightarrow> cl_memobj \<Rightarrow> ptr \<Rightarrow> ('w det, cl_memobj \<times> hostdata) prog" where
  "prepare_image keep no_pitch temp host_ptr =
     (if keep then ret (temp, Host_ptr host_ptr)
      else (case expandLastDimForFill (m_image_desc temp) of
          None \<Rightarrow> unknown_image_type
        | Some d \<Rightarrow>
            let t1 = temp\<lparr>m_image_desc := d, m_size := image_bytes d (m_image_format temp)\<rparr>
            in andThen (count_canary (m_size t1 - m_size temp)) (\<lambda>_.
               andThen (gets host_mem) (\<lambda>mem. case allocFlatImageCopy mem host_ptr t1 of
                   None \<Rightarrow> fail Out_of_bounds
                 | Some copy \<Rightarrow>
                     ret (t1\<lparr>m_flags := insert CL_MEM_COPY_HOST_PTR (m_flags temp),
                             m_image_desc := (if no_pitch
                               then d\<lparr>image_row_pitch := 0, image_slice_pitch := 0\<rparr> else d),
                             m_has_canary := True\<rparr>, Host_bytes copy)))))"

text \<open>The copy is written with a blocking command; a failure ends the process.\<close>

definition write_image_copy ::
  "'w ocl \<Rightarrow> cl_context \<Rightarrow> cl_mem \<Rightarrow> vec3 \<Rightarrow> hostdata \<Rightarrow> ('w det, unit) prog" where
  "write_image_copy cl context img region fill_ptr =
     andThen (getCommandQueueForContext cl context) (\<lambda>(_, q).
     andThen (real cl ''clEnqueueWriteImage''
       (rt_EnqueueWriteImage cl q img True (0, 0, 0) region 0 0 fill_ptr [])) (\<lambda>(err, _).
     check_cl_error err))"

definition finish_image :: "cl_memobj \<Rightarrow> cl_mem_flags \<Rightarrow> ptr \<Rightarrow> ('w det, unit) prog" where
  "finish_image temp flags host_ptr =
     andThen (new_mobj (temp\<lparr>m_host_ptr := (if CL_MEM_USE_HOST_PTR \<in> flags then host_ptr else 0),
       m_ref_count := 1, m_internal := False\<rparr>)) cl_mem_insert"

definition bad_format :: "cl_int \<Rightarrow> bool" where
  "bad_format e \<longleftrightarrow> e = CL_IMAGE_FORMAT_NOT_SUPPORTED \<or> e = CL_INVALID_IMAGE_FORMAT_DESCRIPTOR"

definition desc_region :: "cl_image_desc \<Rightarrow> vec3" where
  "desc_region d = (image_width d, image_height d, image_depth d)"

section \<open>\<open>clCreateImage\<close>\<close>

text \<open>
  With a copy to write, the runtime stores its status in \<open>*errcode_ret\<close>, which is then overwritten
  with \<open>internal_err\<close>, a variable that still holds \<open>CL_SUCCESS\<close>; the write follows in any case.
  Without one, the new handle is not stored in the object.
\<close>

definition create_image_handle ::
  "'w ocl \<Rightarrow> cl_context \<Rightarrow> cl_image_format \<Rightarrow> cl_memobj \<Rightarrow> hostdata \<Rightarrow> err_ptr \<Rightarrow>
    ('w det, cl_mem \<times> cl_memobj \<times> err_ptr) prog" where
  "create_image_handle cl context fmt temp fill_ptr errcode_ret =
     (if CL_MEM_COPY_HOST_PTR \<in> m_flags temp
      then let t = temp\<lparr>m_flags := m_flags temp - {CL_MEM_COPY_HOST_PTR}\<rparr>
           in andThen (call (rt_CreateImage cl context (m_flags t) fmt (m_image_desc t) (Host_ptr 0)))
                (\<lambda>(r, _).
              andThen (write_image_copy cl context r (desc_region (m_image_desc t)) fill_ptr) (\<lambda>_.
              ret (r, t\<lparr>m_handle := r\<rparr>, set_err errcode_ret CL_SUCCESS)))
      else andThen (call (rt_CreateImage cl context (m_flags temp) fmt (m_image_desc temp) fill_ptr))
             (\<lambda>(r, err). ret (r, temp, set_err errcode_ret err)))"

definition clCreateImage ::
  "'w ocl \<Rightarrow> cl_context \<Rightarrow> cl_mem_flags \<Rightarrow> cl_image_format \<Rightarrow> cl_image_desc \<Rightarrow> ptr \<Rightarrow> err_ptr \<Rightarrow>
    ('w det, cl_mem \<times> err_ptr) prog" where
  "clCreateImage cl context flags fmt desc host_ptr errcode_ret =
     (if loaded cl ''clCreateImage''
      then andThen (gets (\<lambda>s. opencl_broken_images (environ s))) (\<lambda>broken.
        if broken \<noteq> 0
        then andThen (call (rt_CreateImage cl context flags fmt desc (Host_ptr host_ptr)))
               (\<lambda>(r, err). ret (r, set_err errcode_ret err))
        else (case standard_desc desc of
            None \<Rightarrow> unknown_image_type
          | Some d \<Rightarrow>
              andThen (count_object (image_bytes d fmt)) (\<lambda>_.
              andThen (prepare_image (CL_MEM_USE_HOST_PTR \<in> flags \<or> image_buffer desc \<noteq> 0) True
                (new_image context flags fmt d (image_bytes d fmt)) host_ptr) (\<lambda>(temp, fill_ptr).
              andThen update_high (\<lambda>_.
              andThen (create_image_handle cl context fmt temp fill_ptr errcode_ret)
                (\<lambda>(r, t, errcode).
              andThen (finish_image t flags host_ptr) (\<lambda>_.
              ret (r, errcode))))))))
      else andThen (cl_msg_not_found ''clCreateImage'') (\<lambda>_. ret (0, errcode_ret)))"

section \<open>\<open>clCreateImage2D\<close>\<close>

definition desc_2d :: "u64 \<Rightarrow> u64 \<Rightarrow> u64 \<Rightarrow> cl_image_desc" where
  "desc_2d width height row_pitch = zero_image_desc
     \<lparr>image_type := CL_MEM_OBJECT_IMAGE2D, image_width := width, image_height := height,
      image_depth := 1, image_array_size := 1, image_row_pitch := row_pitch\<rparr>"

definition create_image2d_handle ::
  "'w ocl \<Rightarrow> cl_context \<Rightarrow> cl_image_format \<Rightarrow> cl_memobj \<Rightarrow> hostdata \<Rightarrow> err_ptr \<Rightarrow>
    ('w det, cl_mem \<times> cl_memobj \<times> err_ptr) prog" where
  "create_image2d_handle cl context fmt temp fill_ptr errcode_ret =
     (let d = m_image_desc temp
      in if CL_MEM_COPY_HOST_PTR \<in> m_flags temp
      then let t = temp\<lparr>m_flags := m_flags temp - {CL_MEM_COPY_HOST_PTR}\<rparr>
           in andThen (call (rt_CreateImage2D cl context (m_flags t) fmt (image_width d)
                (image_height d) 0 (Host_ptr 0))) (\<lambda>(r, internal_err).
              andThen (if bad_format internal_err then ret ()
                else write_image_copy cl context r (image_width d, image_height d, 1) fill_ptr) (\<lambda>_.
              ret (r, t\<lparr>m_handle := r\<rparr>, set_err errcode_ret internal_err)))
      else andThen (call (rt_CreateImage2D cl context (m_flags temp) fmt (image_width d)
             (image_height d) 0 fill_ptr)) (\<lambda>(r, err). ret (r, temp, set_err errcode_ret err)))"

definition clCreateImage2D ::
  "'w ocl \<Rightarrow> cl_context \<Rightarrow> cl_mem_flags \<Rightarrow> cl_image_format \<Rightarrow> u64 \<Rightarrow> u64 \<Rightarrow> u64 \<Rightarrow> ptr \<Rightarrow> err_ptr \<Rightarrow>
    ('w det, cl_mem \<times> err_ptr) prog" where
  "clCreateImage2D cl context flags fmt width height row_pitch host_ptr errcode_ret =
     (if loaded cl ''clCreateImage2D''
      then andThen (gets (\<lambda>s. opencl_broken_images (environ s))) (\<lambda>broken.
        if broken \<noteq> 0
        then andThen (call (rt_CreateImage2D cl context flags fmt width height row_pitch
               (Host_ptr host_ptr))) (\<lambda>(r, err). ret (r, set_err errcode_ret err))
        else
          let img_size = width * height * ucast (getImageDataSize fmt)
          in andThen (count_object img_size) (\<lambda>_.
             andThen (prepare_image (CL_MEM_USE_HOST_PTR \<in> flags) False
               (new_image context flags fmt (desc_2d width height row_pitch) img_size) host_ptr)
               (\<lambda>(temp, fill_ptr).
             andThen update_high (\<lambda>_.
             andThen (create_image2d_handle cl context fmt temp fill_ptr errcode_ret) (\<lambda>(r, t, errcode).
             andThen (finish_image t flags host_ptr) (\<lambda>_.
             ret (r, errcode)))))))
      else andThen (cl_msg_not_found ''clCreateImage2D'') (\<lambda>_. ret (0, errcode_ret)))"

section \<open>\<open>clCreateImage3D\<close>\<close>

definition desc_3d :: "u64 \<Rightarrow> u64 \<Rightarrow> u64 \<Rightarrow> u64 \<Rightarrow> u64 \<Rightarrow> cl_image_desc" where
  "desc_3d width height depth row_pitch slice_pitch = zero_image_desc
     \<lparr>image_type := CL_MEM_OBJECT_IMAGE3D, image_width := width, image_height := height,
      image_depth := depth, image_array_size := 1, image_row_pitch := row_pitch,
      image_slice_pitch := slice_pitch\<rparr>"

definition create_image3d_handle ::
  "'w ocl \<Rightarrow> cl_context \<Rightarrow> cl_image_format \<Rightarrow> cl_memobj \<Rightarrow> hostdata \<Rightarrow> err_ptr \<Rightarrow>
    ('w det, cl_mem \<times> cl_memobj \<times> err_ptr) prog" where
  "create_image3d_handle cl context fmt temp fill_ptr errcode_ret =
     (let d = m_image_desc temp
      in if CL_MEM_COPY_HOST_PTR \<in> m_flags temp
      then let t = temp\<lparr>m_flags := m_flags temp - {CL_MEM_COPY_HOST_PTR}\<rparr>
           in andThen (call (rt_CreateImage3D cl context (m_flags t) fmt (image_width d)
                (image_height d) (image_depth d) 0 0 (Host_ptr 0))) (\<lambda>(r, internal_err).
              andThen (if bad_format internal_err then ret ()
                else write_image_copy cl context r (desc_region d) fill_ptr) (\<lambda>_.
              ret (r, t\<lparr>m_handle := r\<rparr>, set_err errcode_ret internal_err)))
      else andThen (call (rt_CreateImage3D cl context (m_flags temp) fmt (image_width d)
             (image_height d) (image_depth d) 0 0 fill_ptr))
             (\<lambda>(r, err). ret (r, temp, set_err errcode_ret err)))"

definition clCreateImage3D ::
  "'w ocl \<Rightarrow> cl_context \<Rightarrow> cl_mem_flags \<Rightarrow> cl_image_format \<Rightarrow> u64 \<Rightarrow> u64 \<Rightarrow> u64 \<Rightarrow> u64 \<Rightarrow> u64 \<Rightarrow> ptr \<Rightarrow>
    err_ptr \<Rightarrow> ('w det, cl_mem \<times> err_ptr) prog" where
  "clCreateImage3D cl context flags fmt width height depth row_pitch slice_pitch host_ptr errcode_ret =
     (if loaded cl ''clCreateImage3D''
      then andThen (gets (\<lambda>s. opencl_broken_images (environ s))) (\<lambda>broken.
        if broken \<noteq> 0
        then andThen (call (rt_CreateImage3D cl context flags fmt width height depth row_pitch
               slice_pitch (Host_ptr host_ptr))) (\<lambda>(r, err). ret (r, set_err errcode_ret err))
        else
          let img_size = width * height * depth * ucast (getImageDataSize fmt)
          in andThen (count_object img_size) (\<lambda>_.
             andThen (prepare_image (CL_MEM_USE_HOST_PTR \<in> flags) False
               (new_image context flags fmt (desc_3d width height depth row_pitch slice_pitch) img_size)
               host_ptr) (\<lambda>(temp, fill_ptr).
             andThen update_high (\<lambda>_.
             andThen (create_image3d_handle cl context fmt temp fill_ptr errcode_ret) (\<lambda>(r, t, errcode).
             andThen (finish_image t flags host_ptr) (\<lambda>_.
             ret (r, errcode)))))))
      else andThen (cl_msg_not_found ''clCreateImage3D'') (\<lambda>_. ret (0, errcode_ret)))"

end
