(* ===== verification/Table_Invariant.thy ===== *)
theory Table_Invariant
  imports Detector Interceptor_Images
begin

text \<open>
  The invariant of the tool's tables. Every entry of a table refers to a live object stored under its
  own handle, no address beyond \<open>next_obj\<close> is in use, the ordered tables are ordered, and the
  arguments of each kernel are in increasing order. Each wrapper keeps it and never follows a pointer
  to an object that was freed.
\<close>

section \<open>The invariant\<close>

definition mem_ok :: "'w det \<Rightarrow> bool" where
  "mem_ok s \<longleftrightarrow>
     (\<forall>h a. cl_mem_alloc s h = Some a \<longrightarrow> (\<exists>m. mobjs s a = Some m \<and> m_handle m = h))
     \<and> (\<forall>a. next_obj s \<le> a \<longrightarrow> mobjs s a = None)"

definition svm_ok :: "'w det \<Rightarrow> bool" where
  "svm_ok s \<longleftrightarrow> map_ok (cl_svm_alloc s)
     \<and> (\<forall>p a. (p, a) \<in> set (cl_svm_alloc s) \<longrightarrow> (\<exists>m. svobjs s a = Some m \<and> sv_handle m = p))
     \<and> (\<forall>a. next_obj s \<le> a \<longrightarrow> svobjs s a = None)"

definition kern_ok :: "'w det \<Rightarrow> bool" where
  "kern_ok s \<longleftrightarrow> map_ok (kern_list s)
     \<and> (\<forall>k ki. (k, ki) \<in> set (kern_list s) \<longrightarrow> ki_handle ki = k \<and> ll_ok ka_handle (ki_arg_list ki))"

definition keyed_ok :: "'w det \<Rightarrow> bool" where
  "keyed_ok s \<longleftrightarrow> (\<forall>v i. evt_list s v = Some i \<longrightarrow> ev_handle i = v)
     \<and> (\<forall>c q. cmd_queue_cache s c = Some q \<longrightarrow> qc_handle q = c)"

definition tables_ok :: "'w det \<Rightarrow> bool" where
  "tables_ok s \<longleftrightarrow> mem_ok s \<and> svm_ok s \<and> kern_ok s \<and> keyed_ok s"

lemmas ok_defs = mem_ok_def svm_ok_def kern_ok_def keyed_ok_def

lemma mem_okD:
  "mem_ok s \<Longrightarrow> cl_mem_alloc s h = Some a \<Longrightarrow>
    \<exists>m. mobjs s a = Some m \<and> m_handle m = h \<and> a < next_obj s"
  unfolding mem_ok_def by (metis not_less option.distinct(1))

lemma svm_okD:
  "svm_ok s \<Longrightarrow> (p, a) \<in> set (cl_svm_alloc s) \<Longrightarrow>
    \<exists>m. svobjs s a = Some m \<and> sv_handle m = p \<and> a < next_obj s"
  unfolding svm_ok_def by (metis not_less option.distinct(1))

lemma mem_ok_inj: "mem_ok s \<Longrightarrow> cl_mem_alloc s g = Some a \<Longrightarrow> cl_mem_alloc s h = Some a \<Longrightarrow> g = h"
  using mem_okD [of s g a] mem_okD [of s h a] by auto

lemma svm_ok_inj:
  "svm_ok s \<Longrightarrow> (p, a) \<in> set (cl_svm_alloc s) \<Longrightarrow> (q, a) \<in> set (cl_svm_alloc s) \<Longrightarrow> p = q"
  using svm_okD [of s p a] svm_okD [of s q a] by auto

lemma tables_okD:
  "tables_ok s \<Longrightarrow> mem_ok s" "tables_ok s \<Longrightarrow> svm_ok s" "tables_ok s \<Longrightarrow> kern_ok s"
  "tables_ok s \<Longrightarrow> keyed_ok s"
  by (simp_all add: tables_ok_def)

text \<open>A step changes one table: the others are kept.\<close>

definition same_mem :: "'w det \<Rightarrow> 'w det \<Rightarrow> bool" where
  "same_mem s t \<longleftrightarrow> mobjs t = mobjs s \<and> cl_mem_alloc t = cl_mem_alloc s \<and> next_obj s \<le> next_obj t"

definition same_svm :: "'w det \<Rightarrow> 'w det \<Rightarrow> bool" where
  "same_svm s t \<longleftrightarrow> svobjs t = svobjs s \<and> cl_svm_alloc t = cl_svm_alloc s \<and> next_obj s \<le> next_obj t"

definition same_lists :: "'w det \<Rightarrow> 'w det \<Rightarrow> bool" where
  "same_lists s t \<longleftrightarrow> kern_list t = kern_list s \<and> evt_list t = evt_list s \<and> cmd_queue_cache t = cmd_queue_cache s"

lemmas same_defs = same_mem_def same_svm_def same_lists_def

lemma mem_ok_same: "same_mem s t \<Longrightarrow> mem_ok s \<Longrightarrow> mem_ok t"
  by (simp add: same_mem_def mem_ok_def)

lemma svm_ok_same: "same_svm s t \<Longrightarrow> svm_ok s \<Longrightarrow> svm_ok t"
  by (simp add: same_svm_def svm_ok_def)

lemma lists_ok_same: "same_lists s t \<Longrightarrow> kern_ok s \<and> keyed_ok s \<Longrightarrow> kern_ok t \<and> keyed_ok t"
  by (simp add: same_lists_def kern_ok_def keyed_ok_def)

lemma tables_ok_mem: "tables_ok s \<Longrightarrow> mem_ok t \<Longrightarrow> same_svm s t \<Longrightarrow> same_lists s t \<Longrightarrow> tables_ok t"
  using svm_ok_same lists_ok_same by (auto simp: tables_ok_def)

lemma tables_ok_svm: "tables_ok s \<Longrightarrow> svm_ok t \<Longrightarrow> same_mem s t \<Longrightarrow> same_lists s t \<Longrightarrow> tables_ok t"
  using mem_ok_same lists_ok_same by (auto simp: tables_ok_def)

lemma tables_ok_lists:
  "tables_ok s \<Longrightarrow> kern_ok t \<Longrightarrow> keyed_ok t \<Longrightarrow> same_mem s t \<Longrightarrow> same_svm s t \<Longrightarrow> tables_ok t"
  using mem_ok_same svm_ok_same by (auto simp: tables_ok_def)

text \<open>What a step that does not touch the tables keeps.\<close>

definition same_tables :: "'w det \<Rightarrow> 'w det \<Rightarrow> bool" where
  "same_tables s t \<longleftrightarrow> same_mem s t \<and> same_svm s t \<and> same_lists s t"

lemma tables_ok_same: "same_tables s t \<Longrightarrow> tables_ok s \<Longrightarrow> tables_ok t"
  using tables_ok_mem mem_ok_same by (auto simp: same_tables_def tables_ok_def)

lemma preserves_same:
  assumes "\<And>s. \<exists>x t. f s = Inr (x, t) \<and> same_tables s t"
  shows "preserves tables_ok B f"
  unfolding preserves_def
proof (intro allI impI)
  fix s :: "'a det"
  assume "tables_ok s"
  with assms [of s] tables_ok_same show "case f s of Inl (e, t) \<Rightarrow> e \<notin> B \<and> tables_ok t | Inr (x, t) \<Rightarrow> tables_ok t"
    by fastforce
qed

lemma preserves_frame:
  "(\<And>s. same_tables s (u s)) \<Longrightarrow> preserves tables_ok B (modify u)"
  by (rule preserves_same) auto

section \<open>The basic steps\<close>

abbreviation keeps_tables :: "('w det, 'a) prog \<Rightarrow> bool" where
  "keeps_tables \<equiv> preserves tables_ok {Use_after_free, Loops_forever}"

lemma keeps_call [keeps]: "preserves tables_ok B (call f)"
  by (rule preserves_same) (simp add: same_tables_def same_defs)

lemma keeps_query [keeps]: "preserves I B (query f)"
  by (simp add: preserves_def)

lemma keeps_put_err [keeps]: "preserves tables_ok B (put_err m)"
  by (rule preserves_same) (simp add: put_err_def same_tables_def same_defs)

lemma keeps_real [keeps]: "Null_deref \<notin> B \<Longrightarrow> preserves tables_ok B (real cl name f)"
  unfolding real_def by (intro keeps)

lemma keeps_check_cl_error [keeps]: "Exit (-1) \<notin> B \<Longrightarrow> preserves tables_ok B (check_cl_error e)"
  unfolding check_cl_error_def by (intro keeps)

lemma keeps_cl_msg [keeps]: "preserves tables_ok B (cl_msg_not_found name)"
  unfolding cl_msg_not_found_def by (rule keeps)

lemma keeps_initialize_logging [keeps]: "preserves tables_ok B (initialize_logging cl)"
  by (rule preserves_same) (simp add: runs same_tables_def same_defs)

lemma keeps_cl_mem_find [keeps]: "preserves tables_ok B (cl_mem_find h)"
  by (simp add: cl_mem_find_def preserves_gets)

lemma keeps_lookup [keeps]: "keeps_tables (lookup_mobj h)"
proof (rule preservesI)
  fix s :: "'a det" and e t
  assume "tables_ok s" and "lookup_mobj h s = Inl (e, t)"
  then show "e \<notin> {Use_after_free, Loops_forever} \<and> tables_ok t"
    using mem_okD [of s h] by (auto simp: runs tables_okD split: option.splits)
qed (auto simp: runs split: option.splits)

lemma keeps_set_mobj [keeps]:
  assumes f: "\<And>m. m_handle (f m) = m_handle m"
  shows "preserves tables_ok B (set_mobj a f)"
  unfolding set_mobj_def
proof (rule preserves_modify)
  fix s :: "'a det"
  assume ok: "tables_ok s"
  have "mem_ok (s\<lparr>mobjs := (mobjs s)(a := map_option f (mobjs s a))\<rparr>)"
    using tables_okD(1) [OF ok] by (fastforce simp: mem_ok_def f)
  with ok show "tables_ok (s\<lparr>mobjs := (mobjs s)(a := map_option f (mobjs s a))\<rparr>)"
    by (rule tables_ok_mem) (simp_all add: same_defs)
qed

lemma mem_ok_new:
  "mem_ok s \<Longrightarrow> mem_ok (s\<lparr>mobjs := (mobjs s)(next_obj s \<mapsto> m), next_obj := Suc (next_obj s)\<rparr>)"
  using mem_okD [of s] unfolding mem_ok_def by fastforce

lemma mem_ok_insert:
  "mem_ok s \<Longrightarrow> mobjs s a = Some m \<Longrightarrow>
    mem_ok (s\<lparr>cl_mem_alloc := unomap_insert (mobj_handle s) (cl_mem_alloc s) a\<rparr>)"
  by (auto simp: mem_ok_def unomap_insert_def mobj_handle_def split: option.split)

lemma keeps_new_insert: "preserves tables_ok B (andThen (new_mobj m) cl_mem_insert)"
proof (rule preservesI)
  fix s :: "'a det" and x t
  assume ok: "tables_ok s" and run: "andThen (new_mobj m) cl_mem_insert s = Inr (x, t)"
  let ?u = "s\<lparr>mobjs := (mobjs s)(next_obj s \<mapsto> m), next_obj := Suc (next_obj s)\<rparr>"
  have t: "t = ?u\<lparr>cl_mem_alloc := unomap_insert (mobj_handle ?u) (cl_mem_alloc ?u) (next_obj s)\<rparr>"
    using run by (simp add: andThen_def runs)
  have "mem_ok t"
    unfolding t using tables_okD(1) [OF ok] by (intro mem_ok_insert mem_ok_new) simp_all
  with ok show "tables_ok t" by (rule tables_ok_mem) (simp_all add: t same_defs)
qed (simp add: andThen_def runs)

lemma keeps_drop_memobj [keeps]: "preserves tables_ok B (drop_memobj h)"
proof (rule preservesI)
  fix s :: "'a det" and x t
  assume ok: "tables_ok s" and run: "drop_memobj h s = Inr (x, t)"
  have "mem_ok t"
  proof (cases "cl_mem_alloc s h")
    case None
    with run tables_okD(1) [OF ok] show ?thesis
      by (auto simp: drop_memobj_def andThen_def runs mem_ok_def split: if_splits)
  next
    case (Some a)
    then have t: "t = s\<lparr>cl_mem_alloc := (cl_mem_alloc s)(h := None), mobjs := (mobjs s)(a := None)\<rparr>"
      using run by (simp add: drop_memobj_def andThen_def runs)
    have "b \<noteq> a" if "cl_mem_alloc s g = Some b" "g \<noteq> h" for b g
      using mem_ok_inj [OF tables_okD(1) [OF ok]] Some that by auto
    with tables_okD(1) [OF ok] show ?thesis by (auto simp: t mem_ok_def)
  qed
  with ok show "tables_ok t"
    by (rule tables_ok_mem)
      (use run in \<open>auto simp: drop_memobj_def andThen_def runs same_defs split: option.splits\<close>)
qed (auto simp: drop_memobj_def andThen_def runs split: option.splits)

section \<open>Steps on the SVM table\<close>

lemma map_before_upper_set:
  "map_ok m \<Longrightarrow> map_before_upper m k = Some v \<Longrightarrow> \<exists>j. (j, v) \<in> set m"
  by (drule (1) map_before_upper_Some) auto

text \<open>The regions a search returns are live, and stay live through the next step.\<close>

definition live_region :: "nat option \<Rightarrow> 'w det \<Rightarrow> bool" where
  "live_region r s \<longleftrightarrow> tables_ok s \<and> (\<forall>a. r = Some a \<longrightarrow> svobjs s a \<noteq> None)"

lemma triple_svm_find:
  "triple tables_ok {Use_after_free, Loops_forever} tables_ok (cl_svm_mem_find p) live_region"
  unfolding triple_def
proof (intro allI impI)
  fix s :: "'a det"
  assume ok: "tables_ok s"
  have *: "svobjs s a \<noteq> None" if "map_before_upper (cl_svm_alloc s) p = Some a" for a
    using map_before_upper_set [OF _ that] svm_okD [OF tables_okD(2) [OF ok]] tables_okD(2) [OF ok]
    by (fastforce simp: svm_ok_def)
  then show "case cl_svm_mem_find p s of Inl (e, t) \<Rightarrow> e \<notin> {Use_after_free, Loops_forever} \<and> tables_ok t
      | Inr (x, t) \<Rightarrow> live_region x t"
    using ok by (auto simp: cl_svm_mem_find_def svm_find_def live_region_def split: option.split)
qed

lemma triple_get_live:
  assumes "\<And>m. keeps_tables (g m)"
  shows "triple (live_region (Some a)) {Use_after_free, Loops_forever} tables_ok (andThen (get_svobj a) g) (\<lambda>_. tables_ok)"
proof (rule triple_andThen)
  show "triple (live_region (Some a)) {Use_after_free, Loops_forever} tables_ok (get_svobj a) (\<lambda>_. tables_ok)"
    by (auto simp: triple_def live_region_def get_svobj_def)
qed (use assms in \<open>simp add: preserves_triple\<close>)

text \<open>The way every wrapper uses the search: look for the region, then read it.\<close>

lemma keeps_svm_find_get:
  assumes "keeps_tables f" and "\<And>a m. keeps_tables (g a m)" and "\<And>x. keeps_tables (h x)"
  shows "keeps_tables (andThen (cl_svm_mem_find p) (\<lambda>r. andThen (case r of None \<Rightarrow> f
    | Some a \<Rightarrow> andThen (get_svobj a) (g a)) h))"
  unfolding preserves_triple
proof (rule triple_andThen [OF triple_svm_find], rule triple_andThen)
  fix r
  show "triple (live_region r) {Use_after_free, Loops_forever} tables_ok
      (case r of None \<Rightarrow> f | Some a \<Rightarrow> andThen (get_svobj a) (g a)) (\<lambda>_. tables_ok)"
    using assms(1, 2)
    by (cases r) (auto intro!: triple_get_live triple_from_preserves simp: live_region_def)
qed (use assms(3) in \<open>simp add: preserves_triple\<close>)

lemma andThen_ret_right [simp]: "andThen f ret = f"
  by (auto simp: andThen_def fun_eq_iff split: sum.split)

lemma keeps_svm_find_get_last:
  assumes "keeps_tables f" and "\<And>a m. keeps_tables (g a m)"
  shows "keeps_tables (andThen (cl_svm_mem_find p) (\<lambda>r. case r of None \<Rightarrow> f
    | Some a \<Rightarrow> andThen (get_svobj a) (g a)))"
  using keeps_svm_find_get [OF assms, of ret p] by (simp add: preserves_ret)

lemma keeps_svm_find [keeps]: "keeps_tables (cl_svm_mem_find p)"
  using triple_svm_find unfolding preserves_triple triple_def live_region_def
  by (metis (no_types, lifting) case_prod_beta sum.case_eq_if)

lemma svm_ok_insert:
  assumes ok: "svm_ok s" and a: "svobjs s a = Some m"
  shows "svm_ok (s\<lparr>cl_svm_alloc := map_insert (svobj_handle s) (cl_svm_alloc s) a\<rparr>)"
  using assms set_map_insert_subset [of "svobj_handle s" "cl_svm_alloc s" a]
  by (auto simp: svm_ok_def svobj_handle_def intro!: map_ok_insert)

lemma svm_ok_new:
  "svm_ok s \<Longrightarrow> svm_ok (s\<lparr>svobjs := (svobjs s)(next_obj s \<mapsto> m), next_obj := Suc (next_obj s)\<rparr>)"
  using svm_okD [of s] unfolding svm_ok_def by fastforce

lemma keeps_new_svm:
  assumes "\<And>x. preserves tables_ok B (g x)"
  shows "preserves tables_ok B (andThen (new_svobj m) (\<lambda>a. andThen (cl_svm_mem_insert a) g))"
proof -
  let ?u = "\<lambda>s :: 'a det. s\<lparr>svobjs := (svobjs s)(next_obj s \<mapsto> m), next_obj := Suc (next_obj s)\<rparr>"
  let ?t = "\<lambda>s. (?u s)\<lparr>cl_svm_alloc := map_insert (svobj_handle (?u s)) (cl_svm_alloc s) (next_obj s)\<rparr>"
  have "tables_ok (?t s)" if ok: "tables_ok s" for s
  proof (rule tables_ok_svm [OF ok])
    show "svm_ok (?t s)"
      using svm_ok_insert [OF svm_ok_new [OF tables_okD(2) [OF ok], of m], of "next_obj s" m] by simp
  qed (simp_all add: same_defs)
  then have "preserves tables_ok B (andThen (modify ?t) g)"
    using assms by (intro preserves_andThen preserves_modify)
  moreover have "andThen (new_svobj m) (\<lambda>a. andThen (cl_svm_mem_insert a) g) = andThen (modify ?t) g"
    by (simp add: fun_eq_iff andThen_def new_svobj_def cl_svm_mem_insert_def)
  ultimately show ?thesis by simp
qed

text \<open>A region taken off the table is live, and no entry refers to it any more.\<close>

definition off_table :: "nat \<Rightarrow> 'w det \<Rightarrow> bool" where
  "off_table a s \<longleftrightarrow> tables_ok s \<and> svobjs s a \<noteq> None \<and> (\<forall>p. (p, a) \<notin> set (cl_svm_alloc s))"

lemma svm_remove_off_table:
  assumes ok: "tables_ok s" and run: "cl_svm_mem_remove p s = Inr (r, t)"
  shows "tables_ok t \<and> (\<forall>a. r = Some a \<longrightarrow> off_table a t)"
proof -
  have m: "map_ok (cl_svm_alloc s)" using ok by (simp add: tables_ok_def svm_ok_def)
  have r: "r = map_find (cl_svm_alloc s) p" and t: "t = s\<lparr>cl_svm_alloc := snd (map_remove (cl_svm_alloc s) p)\<rparr>"
    using run map_remove_fst [of "cl_svm_alloc s" p] by (auto simp: cl_svm_mem_remove_def split: prod.splits)
  have "tables_ok t"
    by (rule tables_ok_svm [OF ok])
      (use tables_okD(2) [OF ok] m in \<open>auto simp: t svm_ok_def map_ok_remove set_map_remove same_defs\<close>)
  moreover have "svobjs t a \<noteq> None \<and> (\<forall>q. (q, a) \<notin> set (cl_svm_alloc t))" if "r = Some a" for a
  proof -
    from that m have "(p, a) \<in> set (cl_svm_alloc s)" by (simp add: r map_find_Some)
    moreover from this have "q \<noteq> p \<Longrightarrow> (q, a) \<notin> set (cl_svm_alloc s)" for q
      using svm_ok_inj [OF tables_okD(2) [OF ok]] by blast
    ultimately show ?thesis
      using svm_okD [OF tables_okD(2) [OF ok], of p a] m by (auto simp: t set_map_remove)
  qed
  ultimately show ?thesis by (simp add: off_table_def)
qed

lemma off_table_delete:
  assumes "off_table a s"
  shows "tables_ok (s\<lparr>svobjs := (svobjs s)(a := None)\<rparr>)"
  by (rule tables_ok_svm) (use assms in \<open>auto simp: off_table_def tables_ok_def svm_ok_def same_defs\<close>)

end
