(* ===== verification/Wrapper_Invariants.thy ===== *)
theory Wrapper_Invariants
  imports Table_Invariant
begin

text \<open>
  The wrappers keep the invariant of the tables: the steps on the lists of kernels, events and queues,
  then every wrapper, component by component.
\<close>

section \<open>Steps on the other lists\<close>

definition kinfo_ok :: "cl_kernel \<Rightarrow> kernel_info \<Rightarrow> bool" where
  "kinfo_ok k ki \<longleftrightarrow> ki_handle ki = k \<and> ll_ok ka_handle (ki_arg_list ki)"

lemma keeps_find_rules:
  "(\<And>r. (\<forall>ki. r = Some ki \<longrightarrow> kinfo_ok k ki) \<Longrightarrow> preserves tables_ok B (g r)) \<Longrightarrow>
    preserves tables_ok B (andThen (kinfo_find k) g)"
  "(\<And>r. (\<forall>i. r = Some i \<longrightarrow> ev_handle i = v) \<Longrightarrow> preserves tables_ok B (ge r)) \<Longrightarrow>
    preserves tables_ok B (andThen (cl_event_find v) ge)"
  "(\<And>r. (\<forall>q. r = Some q \<longrightarrow> qc_handle q = c) \<Longrightarrow> preserves tables_ok B (gq r)) \<Longrightarrow>
    preserves tables_ok B (andThen (commandQueueCache_find c) gq)"
  unfolding preserves_def
  by (auto simp: andThen_def runs tables_ok_def kern_ok_def keyed_ok_def kinfo_ok_def map_find_Some)

lemma tables_ok_kern:
  "tables_ok s \<Longrightarrow> kern_ok (s\<lparr>kern_list := l\<rparr>) \<Longrightarrow> tables_ok (s\<lparr>kern_list := l\<rparr>)"
  by (simp add: tables_ok_def ok_defs)

lemma tables_ok_evt:
  "tables_ok s \<Longrightarrow> (\<And>v i. l v = Some i \<Longrightarrow> ev_handle i = v) \<Longrightarrow> tables_ok (s\<lparr>evt_list := l\<rparr>)"
  by (simp add: tables_ok_def ok_defs)

lemma tables_ok_queues:
  "tables_ok s \<Longrightarrow> (\<And>c q. l c = Some q \<Longrightarrow> qc_handle q = c) \<Longrightarrow> tables_ok (s\<lparr>cmd_queue_cache := l\<rparr>)"
  by (simp add: tables_ok_def ok_defs)

lemma keeps_kinfo_insert [keeps]:
  "kinfo_ok (ki_handle ki) ki \<Longrightarrow> preserves tables_ok B (kinfo_insert ki)"
  unfolding kinfo_insert_def
  by (intro preserves_modify tables_ok_kern)
    (use set_map_insert_subset [of ki_handle _ ki] in
      \<open>auto simp: tables_ok_def kern_ok_def kinfo_ok_def intro!: map_ok_insert\<close>)

lemma keeps_kinfo_remove [keeps]: "preserves tables_ok B (kinfo_remove k)"
proof (rule preservesI)
  fix s :: "'a det" and x t
  assume ok: "tables_ok s" and "kinfo_remove k s = Inr (x, t)"
  then have t: "t = s\<lparr>kern_list := snd (map_remove (kern_list s) k)\<rparr>"
    by (auto simp: kinfo_remove_def split: prod.splits)
  show "tables_ok t"
    unfolding t by (rule tables_ok_kern [OF ok])
      (use tables_okD(3) [OF ok] in \<open>auto simp: kern_ok_def map_ok_remove set_map_remove\<close>)
qed (auto simp: kinfo_remove_def split: prod.splits)

lemma set_map_assign: "set (map_assign m k v) \<subseteq> insert (k, v) (set m)"
  by (induction m k v rule: map_assign.induct) auto

lemma keeps_kinfo_assign [keeps]: "kinfo_ok k ki \<Longrightarrow> preserves tables_ok B (kinfo_assign k ki)"
  unfolding kinfo_assign_def
  by (intro preserves_modify tables_ok_kern)
    (use set_map_assign [of _ k ki] in \<open>auto simp: tables_ok_def kern_ok_def kinfo_ok_def\<close>)

lemma kinfo_ok_new [simp]: "kinfo_ok (ki_handle (new_kinfo k n)) (new_kinfo k n)" "kinfo_ok k (new_kinfo k n)"
  by (simp_all add: kinfo_ok_def new_kinfo_def)

lemma kinfo_ok_replace [simp]: "kinfo_ok k ki \<Longrightarrow> kinfo_ok k (replace_arg ki arg)"
  by (simp add: kinfo_ok_def replace_arg_def karg_insert_def karg_remove_def ll.replace_ok)

lemma kinfo_ok_count [simp]: "kinfo_ok k ki \<Longrightarrow> kinfo_ok k (ki\<lparr>ki_ref_count := n\<rparr>)"
  by (simp add: kinfo_ok_def)

lemma keeps_kinfo_or_new:
  assumes g: "\<And>ki. kinfo_ok k ki \<Longrightarrow> preserves tables_ok B (g ki)"
  shows "preserves tables_ok B (andThen (kinfo_or_new k) g)"
proof -
  have "preserves tables_ok B (andThen (kinfo_find k) (\<lambda>r. case r of
      Some ki \<Rightarrow> g ki | None \<Rightarrow> andThen (kinfo_insert (new_kinfo k 1)) (\<lambda>_. g (new_kinfo k 1))))"
    by (intro keeps_find_rules(1) preserves_option preserves_andThen keeps_kinfo_insert g) simp_all
  moreover have "andThen (kinfo_or_new k) g = andThen (kinfo_find k) (\<lambda>r. case r of
      Some ki \<Rightarrow> g ki | None \<Rightarrow> andThen (kinfo_insert (new_kinfo k 1)) (\<lambda>_. g (new_kinfo k 1)))"
    by (auto simp: kinfo_or_new_def fun_eq_iff andThen_def runs split: option.splits)
  ultimately show ?thesis by simp
qed

lemma keeps_cl_event_insert [keeps]: "preserves tables_ok B (cl_event_insert i)"
  unfolding cl_event_insert_def
  by (intro preserves_modify tables_ok_evt)
    (auto simp: tables_ok_def keyed_ok_def unomap_insert_def split: option.splits if_splits)

lemma keeps_cl_event_assign [keeps]: "ev_handle i = v \<Longrightarrow> preserves tables_ok B (cl_event_assign v i)"
  unfolding cl_event_assign_def
  by (intro preserves_modify tables_ok_evt) (auto simp: tables_ok_def keyed_ok_def split: if_splits)

lemma keeps_cl_event_remove [keeps]: "preserves tables_ok B (cl_event_remove v)"
proof (rule preservesI)
  fix s :: "'a det" and x t
  assume ok: "tables_ok s" and "cl_event_remove v s = Inr (x, t)"
  then have t: "t = s\<lparr>evt_list := (evt_list s)(v := None)\<rparr>"
    by (auto simp: cl_event_remove_def unomap_remove_eq)
  show "tables_ok t"
    unfolding t by (rule tables_ok_evt [OF ok])
      (use tables_okD(4) [OF ok] in \<open>auto simp: keyed_ok_def split: if_splits\<close>)
qed (auto simp: cl_event_remove_def unomap_remove_eq)

lemma keeps_commandQueueCache_insert [keeps]: "preserves tables_ok B (commandQueueCache_insert q)"
  unfolding commandQueueCache_insert_def
  by (intro preserves_modify tables_ok_queues)
    (auto simp: tables_ok_def keyed_ok_def unomap_insert_def split: option.splits if_splits)

lemma keeps_commandQueueCache_assign [keeps]:
  "qc_handle q = c \<Longrightarrow> preserves tables_ok B (commandQueueCache_assign c q)"
  unfolding commandQueueCache_assign_def
  by (intro preserves_modify tables_ok_queues) (auto simp: tables_ok_def keyed_ok_def split: if_splits)

section \<open>Devices and queues\<close>

lemma keeps_queues [keeps]:
  "keeps_tables (clCreateCommandQueue cl c d p e)"
  "keeps_tables (clRetainCommandQueue cl q)"
  "keeps_tables (clReleaseCommandQueue cl q)"
proof -
  show "keeps_tables (clCreateCommandQueue cl c d p e)"
    unfolding clCreateCommandQueue_def cache_queue_def by (rule keeps)+
  show "keeps_tables (clRetainCommandQueue cl q)"
    unfolding clRetainCommandQueue_def by (rule keeps_find_rules keeps | simp)+
  show "keeps_tables (clReleaseCommandQueue cl q)"
    unfolding clReleaseCommandQueue_def by (rule keeps)+
qed

text \<open>The rules in the order they are tried: first those that look at two steps at once.\<close>

lemmas keeps_first = keeps_find_rules keeps_kinfo_or_new keeps_svm_find_get keeps_svm_find_get_last
  keeps_new_svm keeps_new_insert

lemma keeps_queue_steps [keeps]:
  "keeps_tables (getCommandQueueForContext cl c)"
  "keeps_tables (read_val p)" "keeps_tables (assign_val p v)" "keeps_tables (read_at xs i)"
  "keeps_tables (queue_flags key props)"
  "keeps_tables (is_nvidia_platform cl c)"
proof -
  show "keeps_tables (getCommandQueueForContext cl c)"
    unfolding getCommandQueueForContext_def by (rule keeps_first keeps | simp)+
  show "keeps_tables (read_val p)"
    unfolding read_val_def by (rule keeps_first keeps | simp)+
  show "keeps_tables (assign_val p v)"
    unfolding assign_val_def by (rule keeps_first keeps | simp)+
  show read: "keeps_tables (read_at xs i)" for xs i
    unfolding read_at_def by (rule keeps_first keeps | simp)+
  show "keeps_tables (queue_flags key props)"
    unfolding queue_flags_def by (rule keeps_first keeps read | simp)+
  show "keeps_tables (is_nvidia_platform cl c)"
    unfolding is_nvidia_platform_def by (rule keeps_first keeps | simp)+
qed

lemma keeps_clCreateCommandQueueWithProperties [keeps]:
  "keeps_tables (clCreateCommandQueueWithProperties cl c d p e)"
  unfolding clCreateCommandQueueWithProperties_def cache_queue_def by (rule keeps_first keeps | simp)+

lemma keeps_update_val [keeps]: "keeps_tables (update_val p f)"
  unfolding update_val_def by (rule keeps_first keeps | simp)+

lemma keeps_lower_device_info [keeps]: "keeps_tables (lower_device_info cl d n p)"
  unfolding lower_device_info_def
  by (cases n) (simp_all only: cl_device_info.case, (rule keeps_first keeps | simp)+)

lemma keeps_clGetDeviceInfo [keeps]: "keeps_tables (clGetDeviceInfo cl d n p)"
  unfolding clGetDeviceInfo_def by (rule keeps_first keeps | simp)+

lemma keeps_image_support_check [keeps]: "keeps_tables (image_support_check cl name q)"
  unfolding image_support_check_def by (rule keeps_first keeps | simp)+

section \<open>The checks and the transfer commands\<close>

lemma keeps_print [keeps]: "preserves tables_ok B (print_and_log_err m)"
  by (rule preserves_same) (simp add: print_and_log_err_def same_tables_def same_defs)

lemma keeps_report [keeps]:
  "preserves tables_ok B (apiOverflowError cl func b n)"
  "preserves tables_ok B (apiImageOverflowError cl func b x y z)"
  by (rule preserves_same, simp add: runs reported_def same_tables_def same_defs)+

lemma keeps_kill_or_report [keeps]: "keeps_tables kill_or_report"
  unfolding kill_or_report_def optionalKillOnOverflow_def by (rule keeps_first keeps | simp)+

lemma keeps_canaryAccessAllowed [keeps]: "preserves tables_ok B canaryAccessAllowed"
  unfolding canaryAccessAllowed_def by (rule keeps)

lemma keeps_checks [keeps]:
  "keeps_tables (apiBufferOverflowCheck cl func b off sz)"
  "keeps_tables (apiBufferRectOverflowCheck cl func b o3 r3 rp sp)"
  "keeps_tables (apiImageOverflowCheck cl func b o3 r3)"
  unfolding apiBufferOverflowCheck_def apiBufferRectOverflowCheck_def apiImageOverflowCheck_def
  by (rule keeps_first keeps | simp)+

lemma keeps_both_fit [keeps]: "keeps_tables a \<Longrightarrow> keeps_tables b \<Longrightarrow> keeps_tables (both_fit a b)"
  unfolding both_fit_def by (rule keeps_first keeps | assumption)+

lemmas transfer_defs = clEnqueueReadBuffer_def clEnqueueReadBufferRect_def clEnqueueWriteBuffer_def
  clEnqueueWriteBufferRect_def clEnqueueFillBuffer_def clEnqueueCopyBuffer_def
  clEnqueueCopyBufferRect_def clEnqueueReadImage_def clEnqueueWriteImage_def clEnqueueFillImage_def
  clEnqueueCopyImage_def clEnqueueCopyImageToBuffer_def clEnqueueCopyBufferToImage_def

lemma keeps_buffer_transfers [keeps]:
  "keeps_tables (clEnqueueReadBuffer cl q b bl off sz evs)"
  "keeps_tables (clEnqueueReadBufferRect cl q b bl o3 h3 r3 p1 p2 p3 p4 evs)"
  "keeps_tables (clEnqueueWriteBuffer cl q b bl off sz p evs)"
  "keeps_tables (clEnqueueWriteBufferRect cl q b bl o3 h3 r3 p1 p2 p3 p4 p evs)"
  "keeps_tables (clEnqueueFillBuffer cl q b pat off sz evs)"
  "keeps_tables (clEnqueueCopyBuffer cl q b c off off2 sz evs)"
  "keeps_tables (clEnqueueCopyBufferRect cl q b c o3 h3 r3 p1 p2 p3 p4 evs)"
  unfolding transfer_defs by (rule keeps_first keeps | simp)+

lemma keeps_image_transfers [keeps]:
  "keeps_tables (clEnqueueReadImage cl q b bl o3 r3 p1 p2 evs)"
  "keeps_tables (clEnqueueWriteImage cl q b bl o3 r3 p1 p2 p evs)"
  "keeps_tables (clEnqueueFillImage cl q b col o3 r3 evs)"
  "keeps_tables (clEnqueueCopyImage cl q b c o3 h3 r3 evs)"
  "keeps_tables (clEnqueueCopyImageToBuffer cl q b c o3 r3 off evs)"
  "keeps_tables (clEnqueueCopyBufferToImage cl q b c off o3 r3 evs)"
  unfolding transfer_defs by (rule keeps_first keeps | simp)+

section \<open>Memory objects\<close>

lemma keeps_counts [keeps]:
  "preserves tables_ok B (count_object n)" "preserves tables_ok B (count_canary n)"
  "preserves tables_ok B update_high" "preserves tables_ok B (uncount_object m)"
  "preserves tables_ok B (count_svm n)" "preserves tables_ok B (uncount_svm n)"
proof -
  have frame: "same_tables s (if b then s else t)" if "same_tables s t" for b and s t :: "'a det"
    using that by (simp add: same_tables_def same_defs)
  show count: "preserves tables_ok B (count_object n)" "preserves tables_ok B (count_canary n)"
    "preserves tables_ok B update_high" for n
    unfolding count_object_def count_canary_def update_high_def
    by (rule preserves_frame; simp add: same_tables_def same_defs)+
  show "preserves tables_ok B (uncount_object m)" "preserves tables_ok B (uncount_svm n)"
    unfolding uncount_object_def uncount_svm_def
    by (rule preserves_frame; simp add: same_tables_def same_defs Let_def)+
  show "preserves tables_ok B (count_svm n)"
    unfolding count_svm_def by (rule count keeps | simp)+
qed

lemma keeps_queries [keeps]:
  "keeps_tables (clGetMemObjectInfo cl h n p)"
  "keeps_tables (clGetImageInfo cl h n p)"
  unfolding clGetMemObjectInfo_def clGetImageInfo_def by (rule keeps_first keeps | simp)+

lemma keeps_clCreateBuffer [keeps]: "keeps_tables (clCreateBuffer cl c f sz hp e)"
proof -
  have prepare: "keeps_tables (prepare_buffer cl f2 sz hp)" for f2
    unfolding prepare_buffer_def by (rule keeps_first keeps | simp)+
  have split: "keeps_tables (split_buffer cl c mb f2 sz n)" for f2 mb n
    unfolding split_buffer_def by (rule keeps_first keeps | simp)+
  show ?thesis
    unfolding clCreateBuffer_def by (rule prepare split keeps_first keeps | simp)+
qed

lemma keeps_memory [keeps]:
  "keeps_tables (clCreateSubBuffer cl h f ty i e)"
  "keeps_tables (clRetainMemObject cl h)"
  "keeps_tables (clReleaseMemObject cl h)"
  "keeps_tables (clEnqueueMapBuffer cl q h bl mf off sz evs e)"
  "keeps_tables (clEnqueueUnmapMemObject cl q h p evs)"
  unfolding clCreateSubBuffer_def clRetainMemObject_def clReleaseMemObject_def clEnqueueMapBuffer_def
    clEnqueueUnmapMemObject_def Let_def
  by (rule keeps_first keeps | simp)+

lemma keeps_releaseInternalMemObject [keeps]: "keeps_tables (releaseInternalMemObject cl h)"
proof -
  have flag: "preserves tables_ok B (modify (\<lambda>s :: 'a det. s\<lparr>internal_create := b\<rparr>))" for B b
    by (rule preserves_frame) (simp add: same_tables_def same_defs)
  show ?thesis
    unfolding releaseInternalMemObject_def by (rule flag keeps_first keeps | simp)+
qed

section \<open>Images\<close>

lemma keeps_image_steps [keeps]:
  "keeps_tables unknown_image_type"
  "keeps_tables (prepare_image keep np temp hp)"
  "keeps_tables (write_image_copy cl c h region d)"
  "keeps_tables (finish_image temp f hp)"
proof -
  show unknown: "keeps_tables unknown_image_type"
    unfolding unknown_image_type_def by (rule keeps | simp)+
  show "keeps_tables (prepare_image keep np temp hp)"
    unfolding prepare_image_def Let_def
    by (rule unknown [unfolded unknown_image_type_def] keeps_first keeps | simp add: unknown_image_type_def)+
  show "keeps_tables (write_image_copy cl c h region d)"
    unfolding write_image_copy_def by (rule keeps_first keeps | simp)+
  show "keeps_tables (finish_image temp f hp)"
    unfolding finish_image_def by (rule keeps_new_insert)
qed

lemma keeps_images [keeps]:
  "keeps_tables (clCreateImage cl c f fmt d hp e)"
  "keeps_tables (clCreateImage2D cl c f fmt w h rp hp e)"
  "keeps_tables (clCreateImage3D cl c f fmt w h dp rp sp hp e)"
  unfolding clCreateImage_def clCreateImage2D_def clCreateImage3D_def create_image_handle_def
    create_image2d_handle_def create_image3d_handle_def Let_def
  by (rule keeps_first keeps | simp)+

section \<open>Shared virtual memory\<close>

lemma keeps_fg_lists [keeps]:
  "preserves tables_ok B (cl_svm_fg_alloc c p f sz al)"
  "preserves tables_ok B (cl_svm_fg_free c p)"
  "preserves tables_ok B (find_free_svm c sz al)"
proof -
  show "preserves tables_ok B (cl_svm_fg_alloc c p f sz al)"
    unfolding cl_svm_fg_alloc_def insert_allocated_def
    by (rule preserves_frame) (simp add: same_tables_def same_defs)
  show "preserves tables_ok B (cl_svm_fg_free c p)"
    by (rule preserves_same) (auto simp: cl_svm_fg_free_def same_tables_def same_defs split: option.split)
  show "preserves tables_ok B (find_free_svm c sz al)"
    by (rule preserves_same)
      (auto simp: find_free_svm_def insert_allocated_def same_tables_def same_defs split: option.split)
qed

lemma keeps_svm_delete:
  "triple (off_table a) B tables_ok (cl_svm_mem_delete a) (\<lambda>_. tables_ok)"
  by (simp add: triple_def cl_svm_mem_delete_def off_table_delete)

lemma triple_svm_remove:
  "triple tables_ok B tables_ok (cl_svm_mem_remove p)
    (\<lambda>r s. tables_ok s \<and> (\<forall>a. r = Some a \<longrightarrow> off_table a s))"
  unfolding triple_def
proof (intro allI impI)
  fix s :: "'a det"
  assume ok: "tables_ok s"
  obtain r t where "cl_svm_mem_remove p s = Inr (r, t)"
    by (simp add: cl_svm_mem_remove_def case_prod_beta)
  with svm_remove_off_table [OF ok this] show "case cl_svm_mem_remove p s of
      Inl (e, t) \<Rightarrow> e \<notin> B \<and> tables_ok t
    | Inr (x, t) \<Rightarrow> tables_ok t \<and> (\<forall>a. x = Some a \<longrightarrow> off_table a t)" by simp
qed

text \<open>The removal of a region: it is read, counted back and freed before anything else runs.\<close>

lemma keeps_svm_take:
  assumes g: "\<And>m. keeps_tables (g m)"
  shows "keeps_tables (andThen (cl_svm_mem_remove p) (\<lambda>temp. case temp of None \<Rightarrow> ret ()
      | Some a \<Rightarrow> andThen (get_svobj a) (\<lambda>m. andThen (uncount_svm (sv_size m)) (\<lambda>_.
          andThen (cl_svm_mem_delete a) (\<lambda>_. g m)))))"
  unfolding preserves_triple
proof (rule triple_andThen [OF triple_svm_remove])
  have uncount: "triple (off_table a) {Use_after_free, Loops_forever} tables_ok (uncount_svm n) (\<lambda>_. off_table a)" for a n
    by (auto simp: triple_def off_table_def uncount_svm_def tables_ok_def ok_defs)
  have get: "triple (off_table a) {Use_after_free, Loops_forever} tables_ok (get_svobj a) (\<lambda>_. off_table a)" for a
    by (auto simp: triple_def off_table_def get_svobj_def)
  have "triple (off_table a) {Use_after_free, Loops_forever} tables_ok
      (andThen (get_svobj a) (\<lambda>m. andThen (uncount_svm (sv_size m)) (\<lambda>_. andThen (cl_svm_mem_delete a)
        (\<lambda>_. g m)))) (\<lambda>_. tables_ok)" for a
    by (intro triple_andThen [OF get] triple_andThen [OF uncount] triple_andThen [OF keeps_svm_delete])
      (use g in \<open>simp add: preserves_triple\<close>)
  then show "triple (\<lambda>s. tables_ok s \<and> (\<forall>a. r = Some a \<longrightarrow> off_table a s)) {Use_after_free, Loops_forever} tables_ok
      (case r of None \<Rightarrow> ret () | Some a \<Rightarrow> andThen (get_svobj a) (\<lambda>m. andThen (uncount_svm (sv_size m))
        (\<lambda>_. andThen (cl_svm_mem_delete a) (\<lambda>_. g m)))) (\<lambda>_. tables_ok)" for r
    by (cases r) (auto simp: triple_def)
qed

lemma keeps_clSVMFree [keeps]: "keeps_tables (clSVMFree cl c p)"
  unfolding clSVMFree_def by (rule keeps_svm_take keeps_first keeps | simp)+

lemma keeps_forget_svm [keeps]: "keeps_tables (forget_svm c p)"
  unfolding forget_svm_def preserves_triple
proof (rule triple_andThen [OF triple_svm_remove], rule triple_andThen [where Q = "\<lambda>_. tables_ok"])
  show "triple (\<lambda>s. tables_ok s \<and> (\<forall>a. r = Some a \<longrightarrow> off_table a s)) {Use_after_free, Loops_forever} tables_ok
    (case r of None \<Rightarrow> ret () | Some a \<Rightarrow> cl_svm_mem_delete a) (\<lambda>_. tables_ok)" for r
    using keeps_svm_delete [of "the r"] by (cases r) (auto simp: triple_def)
  show "triple tables_ok {Use_after_free, Loops_forever} tables_ok (andThen (cl_svm_fg_free c p) (\<lambda>_. ret ()))
    (\<lambda>_. tables_ok)"
    by (fold preserves_triple) (rule keeps | simp)+
qed

lemma keeps_svm [keeps]:
  "keeps_tables (internalSVMAlloc cl c f sz al)"
  "keeps_tables (clSVMAlloc cl c f sz al)"
  "keeps_tables (clEnqueueSVMFree cl q ps pf ud evs)"
  "keeps_tables (clEnqueueSVMMap cl q bl mf p sz evs)"
  "keeps_tables (clEnqueueSVMUnmap cl q p evs)"
  unfolding internalSVMAlloc_def clSVMAlloc_def fill_svm_canaries_def clEnqueueSVMFree_def
    clEnqueueSVMMap_def clEnqueueSVMUnmap_def Let_def
  by (rule keeps_first keeps | simp)+

section \<open>Kernels and events\<close>

lemma keeps_kernels [keeps]:
  "keeps_tables (clRetainKernel cl k)"
  "keeps_tables (clReleaseKernel cl k)"
  "keeps_tables (clSetKernelArg cl k i sz v)"
  "keeps_tables (clSetKernelArgSVMPointer cl k i p)"
  unfolding clRetainKernel_def clReleaseKernel_def clSetKernelArg_def clSetKernelArgSVMPointer_def
  by (rule keeps_first keeps | simp)+

lemma keeps_clRetainEvent [keeps]: "keeps_tables (clRetainEvent cl v)"
proof -
  have "keeps_tables (andThen (case r of
      Some i \<Rightarrow> ret i
    | None \<Rightarrow> andThen (cl_event_insert \<lparr>ev_handle = v, ev_ref_count = 1, ev_internal_event = 0\<rparr>)
        (\<lambda>_. ret \<lparr>ev_handle = v, ev_ref_count = 1, ev_internal_event = 0\<rparr>))
    (\<lambda>i. andThen (cl_event_assign v (i\<lparr>ev_ref_count := ev_ref_count i + 1\<rparr>)) (\<lambda>_. call (rt_RetainEvent cl v))))"
    if "\<forall>i. r = Some i \<longrightarrow> ev_handle i = v" for r
    using that by (cases r) (simp_all, (rule keeps | simp)+)
  then show ?thesis
    unfolding clRetainEvent_def by (intro preserves_if preserves_andThen [OF keeps_initialize_logging]
      keeps_find_rules(2) preserves_andThen [OF keeps_cl_msg] preserves_ret) auto
qed

lemma keeps_events [keeps]:
  "keeps_tables (clGetEventProfilingInfo cl v n)"
  "keeps_tables (clReleaseEvent cl v)"
  "keeps_tables (clEnqueueTask cl q k evs)"
  "keeps_tables (clEnqueueNativeKernel cl q uf args ml al evs)"
  unfolding clGetEventProfilingInfo_def clReleaseEvent_def clEnqueueTask_def
    clEnqueueNativeKernel_def
  by (rule keeps_first keeps | simp)+

end
