(* ===== verification/Memory_Props.thy ===== *)
theory Memory_Props
  imports Buffer_Props Wrapper_Invariants
begin

text \<open>
  The life of a memory object: its creation, what the table knows of it, its references, its release,
  and the memory counted for it.
\<close>

section \<open>Running \<open>clCreateBuffer\<close>\<close>

lemma buffer_flags_kept:
  "CL_MEM_COPY_HOST_PTR \<in> buffer_flags f \<longleftrightarrow> CL_MEM_COPY_HOST_PTR \<in> f"
  "CL_MEM_USE_HOST_PTR \<in> buffer_flags f \<longleftrightarrow> CL_MEM_USE_HOST_PTR \<in> f"
  by (auto simp: buffer_flags_def)

text \<open>The platform is not NVIDIA's, as the runtime's queries tell.\<close>

definition other_platform :: "'w ocl \<Rightarrow> cl_context \<Rightarrow> 'w \<Rightarrow> bool" where
  "other_platform cl context w \<longleftrightarrow> (case q_context_devices cl context w of
       (e1, devices) \<Rightarrow> e1 = CL_SUCCESS \<and> devices \<noteq> []
         \<and> (case q_device_platform cl (hd devices) w of (e2, platform) \<Rightarrow> e2 = CL_SUCCESS
           \<and> (case q_platform_name cl platform w of (e3, name) \<Rightarrow> e3 = CL_SUCCESS
             \<and> \<not> strstr name ''NVIDIA'')))"

lemma other_platform_run:
  assumes "other_platform cl context (world s)"
  shows "is_nvidia_platform cl context s = Inr (False, s)"
proof -
  obtain d ds where "q_context_devices cl context (world s) = (CL_SUCCESS, d # ds)"
    using assms by (auto simp: other_platform_def neq_Nil_conv split: prod.splits)
  with assms show ?thesis
    by (auto simp: is_nvidia_platform_def other_platform_def split: prod.splits)
qed

text \<open>What the counters say after a buffer has been counted.\<close>

definition counted_buffer :: "u64 \<Rightarrow> 'w det \<Rightarrow> 'w det \<Rightarrow> bool" where
  "counted_buffer sz s t \<longleftrightarrow>
     current_user_mem t = current_user_mem s + (if stats_mem s \<and> \<not> internal_create s then sz else 0)
     \<and> current_overhead_mem t = current_overhead_mem s + (if \<not> stats_mem s then 0
         else POISON_REGIONS * POISON_FILL_LENGTH + (if internal_create s then sz else 0))
     \<and> stats_flags t = stats_flags s \<and> internal_create t = internal_create s"

definition new_buffer :: "cl_context \<Rightarrow> cl_mem_flags \<Rightarrow> u64 \<Rightarrow> cl_mem \<Rightarrow> cl_mem \<Rightarrow> cl_memobj" where
  "new_buffer context flags sz main_buff r = zero_memobj
     \<lparr>m_handle := r, m_context := context, m_flags := flags, m_size := sz, m_main_buff := main_buff,
      m_has_canary := True, m_ref_count := 1\<rparr>"

definition runtime_flags :: "cl_mem_flags \<Rightarrow> cl_mem_flags" where
  "runtime_flags flags = insert CL_MEM_COPY_HOST_PTR (buffer_flags flags)"

text \<open>The state after each counting step; the steps change nothing but the counters.\<close>

lemma stats_mem_logged [simp]: "stats_mem (logged cl s) = stats_mem s"
  by (simp add: stats_mem_def)

definition after_object :: "u64 \<Rightarrow> 'w det \<Rightarrow> 'w det" where
  "after_object n s = snd (projr (count_object n s))"

definition after_canary :: "u64 \<Rightarrow> 'w det \<Rightarrow> 'w det" where
  "after_canary n s = snd (projr (count_canary n s))"

definition after_high :: "'w det \<Rightarrow> 'w det" where
  "after_high s = snd (projr (update_high s))"

lemma counting_runs [runs]:
  "count_object n s = Inr ((), after_object n s)" "count_canary n s = Inr ((), after_canary n s)"
  "update_high s = Inr ((), after_high s)"
  by (simp_all add: after_object_def after_canary_def after_high_def count_object_def count_canary_def
      update_high_def)

lemmas counting_defs = after_object_def after_canary_def after_high_def count_object_def
  count_canary_def update_high_def

lemma after_frame [simp]:
  "world (after_object n s) = world s" "environ (after_object n s) = environ s"
  "host_mem (after_object n s) = host_mem s" "mobjs (after_object n s) = mobjs s"
  "svobjs (after_object n s) = svobjs s" "next_obj (after_object n s) = next_obj s"
  "cl_mem_alloc (after_object n s) = cl_mem_alloc s"
  "cl_svm_alloc (after_object n s) = cl_svm_alloc s" "kern_list (after_object n s) = kern_list s"
  "evt_list (after_object n s) = evt_list s"
  "cmd_queue_cache (after_object n s) = cmd_queue_cache s"
  "stats_flags (after_object n s) = stats_flags s"
  "internal_create (after_object n s) = internal_create s"
  "stats_mem (after_object n s) = stats_mem s"
  "world (after_canary n s) = world s" "environ (after_canary n s) = environ s"
  "host_mem (after_canary n s) = host_mem s" "mobjs (after_canary n s) = mobjs s"
  "svobjs (after_canary n s) = svobjs s" "next_obj (after_canary n s) = next_obj s"
  "cl_mem_alloc (after_canary n s) = cl_mem_alloc s"
  "cl_svm_alloc (after_canary n s) = cl_svm_alloc s" "kern_list (after_canary n s) = kern_list s"
  "evt_list (after_canary n s) = evt_list s"
  "cmd_queue_cache (after_canary n s) = cmd_queue_cache s"
  "stats_flags (after_canary n s) = stats_flags s"
  "internal_create (after_canary n s) = internal_create s"
  "stats_mem (after_canary n s) = stats_mem s"
  "world (after_high s) = world s" "environ (after_high s) = environ s"
  "host_mem (after_high s) = host_mem s" "mobjs (after_high s) = mobjs s"
  "svobjs (after_high s) = svobjs s" "next_obj (after_high s) = next_obj s"
  "cl_mem_alloc (after_high s) = cl_mem_alloc s" "cl_svm_alloc (after_high s) = cl_svm_alloc s"
  "kern_list (after_high s) = kern_list s" "evt_list (after_high s) = evt_list s"
  "cmd_queue_cache (after_high s) = cmd_queue_cache s" "stats_flags (after_high s) = stats_flags s"
  "internal_create (after_high s) = internal_create s" "stats_mem (after_high s) = stats_mem s"
  by (simp_all add: counting_defs stats_mem_def)

text \<open>What the current counters are after a buffer of size \<open>sz\<close> has been counted.\<close>

definition after_buffer :: "u64 \<Rightarrow> 'w det \<Rightarrow> 'w det" where
  "after_buffer sz s = after_high (after_canary (POISON_REGIONS * POISON_FILL_LENGTH) (after_object sz s))"

lemma counted_after_buffer: "counted_buffer sz s (after_buffer sz s)"
  by (simp add: counted_buffer_def after_buffer_def counting_defs stats_mem_def)

text \<open>
  The runtime creates the buffer with its canaries and the sub-buffer between them: the documented
  results of \<open>clCreateBuffer\<close> and \<open>clCreateSubBuffer\<close> on success, for the arguments the tool uses.
\<close>

definition creates_buffer ::
  "'w ocl \<Rightarrow> cl_context \<Rightarrow> cl_mem_flags \<Rightarrow> u64 \<Rightarrow> u8 list \<Rightarrow> cl_mem \<Rightarrow> cl_mem \<Rightarrow> 'w \<Rightarrow> 'w \<Rightarrow> bool" where
  "creates_buffer cl context flags sz bytes main_buff r w w2 \<longleftrightarrow>
     (case rt_CreateBuffer cl context flags (sz + POISON_REGIONS * POISON_FILL_LENGTH) (Host_bytes bytes) w of
        ((mb, _), w1) \<Rightarrow> mb = main_buff
          \<and> rt_CreateSubBuffer cl main_buff
              (flags - {CL_MEM_USE_HOST_PTR, CL_MEM_ALLOC_HOST_PTR, CL_MEM_COPY_HOST_PTR})
              CL_BUFFER_CREATE_TYPE_REGION \<lparr>br_origin = POISON_FILL_LENGTH, br_size = sz\<rparr> w1 =
            ((r, CL_SUCCESS), w2))
     \<and> main_buff \<noteq> 0 \<and> r \<noteq> 0 \<and> other_platform cl context w2"

text \<open>The bytes a buffer is created with.\<close>

definition initial_bytes :: "'w det \<Rightarrow> cl_mem_flags \<Rightarrow> ptr \<Rightarrow> u64 \<Rightarrow> u8 list" where
  "initial_bytes s flags host_ptr sz = with_canaries
     (if CL_MEM_COPY_HOST_PTR \<in> flags then host_bytes (host_mem s) host_ptr (unat sz)
      else replicate (unat sz) 0)"

lemma buffer_fill_initial:
  "unat sz + 4096 < 2 ^ 32 \<Longrightarrow>
    buffer_fill (host_mem s) (CL_MEM_COPY_HOST_PTR \<in> flags) host_ptr sz =
      Some (initial_bytes s flags host_ptr sz)"
  by (simp add: buffer_fill_eq initial_bytes_def)

definition created :: "'w ocl \<Rightarrow> cl_context \<Rightarrow> cl_mem_flags \<Rightarrow> u64 \<Rightarrow> cl_mem \<Rightarrow> cl_mem \<Rightarrow> 'w \<Rightarrow> 'w det \<Rightarrow> 'w det" where
  "created cl context flags sz main_buff r w s = (after_buffer sz (logged cl s))
     \<lparr>world := w, mobjs := (mobjs s)(next_obj s \<mapsto> new_buffer context flags sz main_buff r),
      next_obj := Suc (next_obj s), cl_mem_alloc := (cl_mem_alloc s)(r \<mapsto> next_obj s)\<rparr>"

lemma clCreateBuffer_run:
  assumes "loaded cl ''clCreateBuffer''" and "loaded cl ''clCreateSubBuffer''" and "sz \<noteq> 0"
    and small: "unat sz + 4096 < 2 ^ 32" and use: "CL_MEM_USE_HOST_PTR \<notin> flags"
    and calloc: "calloc_ok cl (sz + POISON_REGIONS * POISON_FILL_LENGTH)"
    and creates: "creates_buffer cl context (runtime_flags flags) sz (initial_bytes s flags host_ptr sz)
      main_buff r (world s) w"
    and "cl_mem_alloc s r = None"
  shows "clCreateBuffer cl context flags sz host_ptr e s =
    Inr ((r, set_err e CL_SUCCESS), created cl context (runtime_flags flags) sz main_buff r w s)"
proof -
  let ?f = "runtime_flags flags" and ?n = "sz + POISON_REGIONS * POISON_FILL_LENGTH"
  obtain e1 w1 where create: "rt_CreateBuffer cl context ?f ?n (Host_bytes (initial_bytes s flags host_ptr sz)) (world s) =
      ((main_buff, e1), w1)" and sub: "rt_CreateSubBuffer cl main_buff
        (?f - {CL_MEM_USE_HOST_PTR, CL_MEM_ALLOC_HOST_PTR, CL_MEM_COPY_HOST_PTR})
        CL_BUFFER_CREATE_TYPE_REGION \<lparr>br_origin = POISON_FILL_LENGTH, br_size = sz\<rparr> w1 = ((r, CL_SUCCESS), w)"
    and nz: "main_buff \<noteq> 0" "r \<noteq> 0" "other_platform cl context w"
    using creates by (auto simp: creates_buffer_def split: prod.splits)
  have use_f: "CL_MEM_USE_HOST_PTR \<notin> ?f" using use by (simp add: runtime_flags_def buffer_flags_kept)
  have prepare: "prepare_buffer cl (buffer_flags flags) sz host_ptr t =
      Inr ((Host_bytes (initial_bytes s flags host_ptr sz), ?f, ?n),
        after_canary (POISON_REGIONS * POISON_FILL_LENGTH) t)" if "host_mem t = host_mem s" for t
    using use calloc buffer_fill_initial [OF small, of s flags host_ptr] that
    by (simp add: prepare_buffer_def buffer_flags_kept runtime_flags_def andThen_def runs)
  have split: "split_buffer cl context main_buff ?f sz ?n t = Inr ((r, CL_SUCCESS), t\<lparr>world := w\<rparr>)"
    if "world t = w1" for t
    using sub nz(3) that assms(2)
    by (simp add: split_buffer_def real_def andThen_def other_platform_run)
  have fields: "main_buff = m_main_buff (new_buffer context ?f sz main_buff r)"
    by (simp add: new_buffer_def)
  show ?thesis
    using assms(1, 3, 8) create nz(1, 2) use_f
    by (simp add: clCreateBuffer_def andThen_def runs prepare split created_def after_buffer_def
        new_buffer_def unomap_insert_def mobj_handle_def zero_memobj_def)
qed

text \<open>
  C15: A buffer the application creates (not over host memory, below 4 GiB) is created between
  canaries and recorded. The runtime is asked for 8192 bytes more, with the application's data, or
  zeros, between two regions of poison; the application gets the sub-buffer between them; the table
  maps it to a new object with the main buffer, the size asked for and one reference, and keeps its
  other entries; the size is counted as user memory and the canaries as overhead.
\<close>

theorem clCreateBuffer_protects:
  assumes "loaded cl ''clCreateBuffer''" and "loaded cl ''clCreateSubBuffer''" and "sz \<noteq> 0"
    and "unat sz + 4096 < 2 ^ 32" and "CL_MEM_USE_HOST_PTR \<notin> flags"
    and "calloc_ok cl (sz + POISON_REGIONS * POISON_FILL_LENGTH)"
    and "creates_buffer cl context (runtime_flags flags) sz (initial_bytes s flags host_ptr sz)
      main_buff r (world s) w"
    and "cl_mem_alloc s r = None"
  shows "\<exists>t a m. clCreateBuffer cl context flags sz host_ptr e s = Inr ((r, set_err e CL_SUCCESS), t)
    \<and> world t = w \<and> cl_mem_alloc t = (cl_mem_alloc s)(r \<mapsto> a) \<and> mobjs t = (mobjs s)(a \<mapsto> m)
    \<and> m_handle m = r \<and> m_main_buff m = main_buff \<and> m_context m = context \<and> m_size m = sz
    \<and> m_has_canary m \<and> \<not> m_is_image m \<and> m_ref_count m = 1 \<and> counted_buffer sz s t"
proof -
  let ?t = "created cl context (runtime_flags flags) sz main_buff r w s"
  have "counted_buffer sz (logged cl s) (after_buffer sz (logged cl s))" by (rule counted_after_buffer)
  then have "counted_buffer sz s ?t" by (simp add: counted_buffer_def created_def)
  with clCreateBuffer_run [OF assms] show ?thesis
    by (intro exI [of _ ?t] exI [of _ "next_obj s"]
        exI [of _ "new_buffer context (runtime_flags flags) sz main_buff r"])
      (simp add: created_def new_buffer_def zero_memobj_def)
qed

text \<open>A runtime with one buffer, and the state of a client that creates it.\<close>

definition tiny_runtime :: "unit ocl \<Rightarrow> unit ocl" where
  "tiny_runtime cl = cl\<lparr>loaded := (\<lambda>_. True), calloc_ok := (\<lambda>_. True),
     rt_CreateBuffer := (\<lambda>context flags sz p w. ((8, CL_SUCCESS), w)),
     rt_CreateSubBuffer := (\<lambda>b flags t region w. ((9, CL_SUCCESS), w)),
     rt_RetainMemObject := (\<lambda>b w. (CL_SUCCESS, w)), rt_ReleaseMemObject := (\<lambda>b w. (CL_SUCCESS, w)),
     q_context_devices := (\<lambda>context w. (CL_SUCCESS, [1])), q_device_platform := (\<lambda>d w. (CL_SUCCESS, 1)),
     q_platform_name := (\<lambda>p w. (CL_SUCCESS, ''AMD''))\<rparr>"

lemma tiny_runtime_creates: "creates_buffer (tiny_runtime cl) context flags sz bytes 8 9 () ()"
  by (simp add: creates_buffer_def tiny_runtime_def other_platform_def)

definition fresh_state :: "unit det \<Rightarrow> unit det" where
  "fresh_state s = s\<lparr>world := (), mobjs := Map.empty, cl_mem_alloc := Map.empty\<rparr>"

theorem clCreateBuffer_protects_witness:
  "\<forall>(cl :: unit ocl) (s :: unit det).
   \<exists>t a m. clCreateBuffer (tiny_runtime cl) 1 {} 100 0 (Some INT_MIN_status) (fresh_state s) =
      Inr ((9, Some CL_SUCCESS), t)
    \<and> cl_mem_alloc t 9 = Some a \<and> mobjs t a = Some m \<and> m_main_buff m = 8 \<and> m_size m = 100 \<and> m_has_canary m"
  (is "\<forall>cl s. ?P cl s")
proof (intro allI)
  fix cl :: "unit ocl" and s :: "unit det"
  let ?cl = "tiny_runtime cl" and ?s = "fresh_state s"
  have "\<exists>t a m. clCreateBuffer ?cl 1 {} 100 0 (Some INT_MIN_status) ?s =
        Inr ((9, set_err (Some INT_MIN_status) CL_SUCCESS), t)
      \<and> world t = () \<and> cl_mem_alloc t = (cl_mem_alloc ?s)(9 \<mapsto> a) \<and> mobjs t = (mobjs ?s)(a \<mapsto> m)
      \<and> m_handle m = 9 \<and> m_main_buff m = 8 \<and> m_context m = 1 \<and> m_size m = 100
      \<and> m_has_canary m \<and> \<not> m_is_image m \<and> m_ref_count m = 1 \<and> counted_buffer 100 ?s t"
    by (rule clCreateBuffer_protects)
      (simp_all add: tiny_runtime_creates, simp_all add: tiny_runtime_def fresh_state_def)
  then show "?P cl s" by (fastforce simp: set_err_def)
qed

section \<open>References\<close>

lemma ref_count_update:
  "m_ref_count_update (\<lambda>n. n + 1) m = m\<lparr>m_ref_count := m_ref_count m + 1\<rparr>"
  "m_ref_count_update (\<lambda>n. n - 1) m = m\<lparr>m_ref_count := m_ref_count m - 1\<rparr>"
  by (cases m, simp)+

lemma release_last_run:
  assumes "loaded cl ''clReleaseMemObject''" and "cl_mem_alloc s h = Some a" and "mobjs s a = Some m"
    and "m_ref_count m = 1" and "m_main_buff m \<noteq> 0"
    and "rt_ReleaseMemObject cl h (world s) = (e1, w1)"
    and "rt_ReleaseMemObject cl (m_main_buff m) w1 = (e2, w2)"
  shows "\<exists>u. clReleaseMemObject cl h s = Inr (e2, u) \<and> world u = w2
    \<and> cl_mem_alloc u = (cl_mem_alloc s)(h := None) \<and> mobjs u = (mobjs s)(a := None) \<and> kern_list u = kern_list s
    \<and> (\<exists>v. uncount_object m (logged cl s) = Inr ((), v)
      \<and> current_user_mem u = current_user_mem v \<and> current_overhead_mem u = current_overhead_mem v)"
  using assms
  by (auto simp: clReleaseMemObject_def andThen_def runs uncount_object_def drop_memobj_def Let_def stats_mem_def)

text \<open>
  C16: Creating a buffer and releasing it once leaves no trace: the table, the objects and the memory
  counted as in use are as before, whether the buffer was the application's or the tool's own, and the
  runtime has been told to release both the sub-buffer and the main buffer.
\<close>

theorem create_release_roundtrip:
  assumes "loaded cl ''clCreateBuffer''" and "loaded cl ''clCreateSubBuffer''" and "sz \<noteq> 0"
    and "unat sz + 4096 < 2 ^ 32" and "CL_MEM_USE_HOST_PTR \<notin> flags"
    and "calloc_ok cl (sz + POISON_REGIONS * POISON_FILL_LENGTH)"
    and "creates_buffer cl context (runtime_flags flags) sz (initial_bytes s flags host_ptr sz)
      main_buff r (world s) w"
    and "cl_mem_alloc s r = None" and "mobjs s (next_obj s) = None" and "loaded cl ''clReleaseMemObject''"
    and "rt_ReleaseMemObject cl r w = (e1, w1)" and "rt_ReleaseMemObject cl main_buff w1 = (e2, w2)"
  shows "\<exists>t u. clCreateBuffer cl context flags sz host_ptr e s = Inr ((r, set_err e CL_SUCCESS), t)
    \<and> clReleaseMemObject cl r t = Inr (e2, u)
    \<and> cl_mem_alloc u = cl_mem_alloc s \<and> mobjs u = mobjs s
    \<and> current_user_mem u = current_user_mem s \<and> current_overhead_mem u = current_overhead_mem s
    \<and> world u = w2"
proof -
  let ?m = "new_buffer context (runtime_flags flags) sz main_buff r"
  let ?t = "created cl context (runtime_flags flags) sz main_buff r w s"
  have m: "m_ref_count ?m = 1" "m_main_buff ?m = main_buff" "m_size ?m = sz" "\<not> m_is_image ?m" "m_has_canary ?m"
    by (simp_all add: new_buffer_def zero_memobj_def)
  have nz: "main_buff \<noteq> 0" using assms(7) by (simp add: creates_buffer_def)
  have t: "cl_mem_alloc ?t r = Some (next_obj s)" "mobjs ?t (next_obj s) = Some ?m" "world ?t = w"
    by (simp_all add: created_def)
  obtain u v where u: "clReleaseMemObject cl r ?t = Inr (e2, u)" "world u = w2"
      "cl_mem_alloc u = (cl_mem_alloc ?t)(r := None)" "mobjs u = (mobjs ?t)(next_obj s := None)"
    and v: "uncount_object ?m (logged cl ?t) = Inr ((), v)"
      "current_user_mem u = current_user_mem v" "current_overhead_mem u = current_overhead_mem v"
    using release_last_run [OF assms(10) t(1, 2), of e1 w1 e2 w2] m nz assms(11, 12) t(3) by auto
  have "counted_buffer sz (logged cl s) (after_buffer sz (logged cl s))" by (rule counted_after_buffer)
  then have "counted_buffer sz s ?t" by (simp add: counted_buffer_def created_def)
  moreover have stats: "stats_mem ?t = stats_mem s"
    by (simp add: created_def stats_mem_def after_buffer_def counting_defs)
  ultimately have "current_user_mem v = current_user_mem s" "current_overhead_mem v = current_overhead_mem s"
    using v(1) m by (auto simp: counted_buffer_def uncount_object_def Let_def split: if_splits)
  with v have "current_user_mem u = current_user_mem s" "current_overhead_mem u = current_overhead_mem s"
    by simp_all
  moreover have "cl_mem_alloc u = cl_mem_alloc s" "mobjs u = mobjs s"
    using u(3, 4) assms(8, 9) by (simp_all add: created_def fun_upd_idem)
  ultimately show ?thesis
    using clCreateBuffer_run [OF assms(1-8), of e] u(1, 2) by blast
qed

theorem create_release_roundtrip_witness:
  "\<forall>(cl :: unit ocl) (s :: unit det).
   \<exists>t u. clCreateBuffer (tiny_runtime cl) 1 {CL_MEM_COPY_HOST_PTR} 100 64 None (fresh_state s) = Inr ((9, None), t)
    \<and> clReleaseMemObject (tiny_runtime cl) 9 t = Inr (CL_SUCCESS, u)
    \<and> cl_mem_alloc u = Map.empty \<and> mobjs u = Map.empty"
  (is "\<forall>cl s. ?P cl s")
proof (intro allI)
  fix cl :: "unit ocl" and s :: "unit det"
  let ?cl = "tiny_runtime cl" and ?s = "fresh_state s"
  have "\<exists>t u. clCreateBuffer ?cl 1 {CL_MEM_COPY_HOST_PTR} 100 64 None ?s = Inr ((9, set_err None CL_SUCCESS), t)
    \<and> clReleaseMemObject ?cl 9 t = Inr (CL_SUCCESS, u)
    \<and> cl_mem_alloc u = cl_mem_alloc ?s \<and> mobjs u = mobjs ?s
    \<and> current_user_mem u = current_user_mem ?s \<and> current_overhead_mem u = current_overhead_mem ?s
    \<and> world u = ()"
    by (rule create_release_roundtrip [where main_buff = 8 and w = "()"])
      (simp_all add: tiny_runtime_creates, simp_all add: tiny_runtime_def fresh_state_def)
  then show "?P cl s" unfolding set_err_def fresh_state_def by (auto intro: exI)
qed

text \<open>
  A retain is undone by a release: on an object that is in use, \<open>clRetainMemObject\<close> raises its
  count by one, and the \<open>clReleaseMemObject\<close> that follows brings the table and every object back to
  what they were. The runtime sees one retain and one release of the object, and of its main buffer
  when it has one.
\<close>

lemma retain_release_roundtrip:
  assumes "loaded cl ''clRetainMemObject''" and "loaded cl ''clReleaseMemObject''"
    and "cl_mem_alloc s h = Some a" and "mobjs s a = Some m" and "m_ref_count m \<noteq> 0"
  shows "\<exists>t u e1 e2. clRetainMemObject cl h s = Inr (e1, t) \<and> clReleaseMemObject cl h t = Inr (e2, u)
    \<and> mobjs t a = Some (m\<lparr>m_ref_count := m_ref_count m + 1\<rparr>)
    \<and> cl_mem_alloc u = cl_mem_alloc s \<and> mobjs u = mobjs s
    \<and> current_user_mem u = current_user_mem s \<and> current_overhead_mem u = current_overhead_mem s
    \<and> (let w1 = snd (rt_RetainMemObject cl h (world s));
           w2 = (if m_main_buff m \<noteq> 0 then snd (rt_RetainMemObject cl (m_main_buff m) w1) else w1);
           w3 = snd (rt_ReleaseMemObject cl h w2)
       in world u = (if m_main_buff m \<noteq> 0 then snd (rt_ReleaseMemObject cl (m_main_buff m) w3) else w3))"
proof -
  let ?t1 = "(logged cl s)\<lparr>mobjs := (mobjs s)(a \<mapsto> m\<lparr>m_ref_count := m_ref_count m + 1\<rparr>)\<rparr>"
  let ?w1 = "snd (rt_RetainMemObject cl h (world s))"
  let ?w2 = "if m_main_buff m \<noteq> 0 then snd (rt_RetainMemObject cl (m_main_buff m) ?w1) else ?w1"
  let ?t = "?t1\<lparr>world := ?w2\<rparr>"
  let ?w3 = "snd (rt_ReleaseMemObject cl h ?w2)"
  let ?w4 = "if m_main_buff m \<noteq> 0 then snd (rt_ReleaseMemObject cl (m_main_buff m) ?w3) else ?w3"
  let ?u = "(logged cl ?t)\<lparr>mobjs := (mobjs s)(a \<mapsto> m), world := ?w4\<rparr>"
  obtain e1 where retain: "clRetainMemObject cl h s = Inr (e1, ?t)"
    using assms by (cases "m_main_buff m = 0") (simp_all add: clRetainMemObject_def andThen_def runs ref_count_update)
  obtain e2 where release: "clReleaseMemObject cl h ?t = Inr (e2, ?u)"
    using assms by (cases "m_main_buff m = 0") (simp_all add: clReleaseMemObject_def andThen_def runs ref_count_update)
  have same: "mobjs ?u = mobjs s" using assms(4) by (simp add: fun_upd_idem)
  show ?thesis
    unfolding Let_def
  proof (intro exI conjI)
    show "clRetainMemObject cl h s = Inr (e1, ?t)" by (rule retain)
    show "clReleaseMemObject cl h ?t = Inr (e2, ?u)" by (rule release)
    show "mobjs ?u = mobjs s" by (rule same)
  qed simp_all
qed

lemma retain_release_example:
  "\<forall>(cl :: unit ocl) (s :: unit det).
   \<exists>t u e1 e2. clRetainMemObject (tiny_runtime cl) 5 (one_buffer 3 (fresh_state s)\<lparr>mobjs :=
        [0 \<mapsto> zero_memobj\<lparr>m_handle := 5, m_ref_count := 1\<rparr>]\<rparr>) = Inr (e1, t)
    \<and> clReleaseMemObject (tiny_runtime cl) 5 t = Inr (e2, u) \<and> cl_mem_alloc u = [5 \<mapsto> 0]"
  (is "\<forall>cl s. ?P cl s")
proof (intro allI)
  fix cl :: "unit ocl" and s :: "unit det"
  let ?s = "one_buffer 3 (fresh_state s)\<lparr>mobjs := [0 \<mapsto> zero_memobj\<lparr>m_handle := 5, m_ref_count := 1\<rparr>]\<rparr>"
  let ?m = "zero_memobj\<lparr>m_handle := 5, m_ref_count := 1\<rparr>"
  have "loaded (tiny_runtime cl) ''clRetainMemObject''" "loaded (tiny_runtime cl) ''clReleaseMemObject''"
    "cl_mem_alloc ?s 5 = Some 0" "mobjs ?s 0 = Some ?m" "m_ref_count ?m \<noteq> 0"
    by (simp_all add: tiny_runtime_def one_buffer_def)
  from retain_release_roundtrip [OF this] show "?P cl s"
    by (auto simp: one_buffer_def)
qed

end
