(* ===== verification/Api_Check_Props.thy ===== *)
theory Api_Check_Props
  imports Interceptor_Enqueue
begin

text \<open>
  The checks of API calls: which accesses they stop, which they let through, and what the transfer
  commands do then.
\<close>

section \<open>Linear accesses\<close>

text \<open>The tool knows the object, checks calls, and does not end the process on an overflow.\<close>

definition checked :: "'w det \<Rightarrow> cl_mem \<Rightarrow> cl_memobj \<Rightarrow> bool" where
  "checked s b m \<longleftrightarrow> (\<exists>a. cl_mem_alloc s b = Some a \<and> mobjs s a = Some m)
     \<and> \<not> api_check_disabled s \<and> get_error_envvar (environ s) = 0"

lemma checked_buffer_run:
  assumes "checked s b m"
  shows "apiBufferOverflowCheck cl func b off sz s =
    (if off + sz > m_size m
     then Inr (True, reported [Func_buffer func b, Api_overflow (ucast (start_past_end off (m_size m)) + 1)] cl s)
     else Inr (False, s))"
  using assms
  by (auto simp: checked_def apiBufferOverflowCheck_run overflow_found_def)

lemma less_no_wrap:
  fixes off sz n :: u64
  assumes "unat off + unat sz < 2 ^ 64"
  shows "off + sz > n \<longleftrightarrow> unat n < unat off + unat sz"
proof -
  have "unat (off + sz) = unat off + unat sz" by (rule unat_add_fits) (use assms in simp)
  then show ?thesis by (simp add: word_less_nat_alt)
qed

text \<open>
  C20: The check of a linear access is exact as long as the end of the access is below 2^64: it lets
  the call through, without a word, if and only if the access ends within the size the application
  asked for; otherwise it prints one report with the number of the first byte outside, and counts it.
\<close>

theorem buffer_access_check_exact:
  assumes "checked s b m" and "unat off + unat sz < 2 ^ 64"
  shows "apiBufferOverflowCheck cl func b off sz s =
    (if unat off + unat sz \<le> unat (m_size m) then Inr (False, s)
     else Inr (True, reported [Func_buffer func b, Api_overflow
       (of_nat (if unat (m_size m) < unat off then unat off - unat (m_size m) + 1 else 1))] cl s))"
proof -
  have pos: "ucast (start_past_end off (m_size m)) + 1 =
      (of_nat (if unat (m_size m) < unat off then unat off - unat (m_size m) + 1 else 1) :: u32)"
  proof (cases "m_size m < off")
    case True
    then have "unat (off - m_size m) = unat off - unat (m_size m)"
      by (simp add: unat_sub_if_size word_less_nat_alt)
    then have "ucast (off - m_size m) = (of_nat (unat off - unat (m_size m)) :: u32)"
      by (metis of_nat_unat)
    with True show ?thesis by (simp add: start_past_end_def word_less_nat_alt)
  qed (simp add: start_past_end_def word_less_nat_alt)
  show ?thesis
    unfolding checked_buffer_run [OF assms(1)] less_no_wrap [OF assms(2)] pos by auto
qed

text \<open>
  An access that wraps around is missed: when offset and size together reach 2^64, the sum the
  check compares is the sum modulo 2^64. If that is small enough, the call goes through.
\<close>

lemma buffer_access_wrap_missed:
  assumes "checked s b m" and "2 ^ 64 \<le> unat off + unat sz"
    and "unat off + unat sz - 2 ^ 64 \<le> unat (m_size m)"
  shows "apiBufferOverflowCheck cl func b off sz s = Inr (False, s)
    \<and> unat (m_size m) < unat off + unat sz"
proof -
  have lt: "unat off < 2 ^ 64" "unat sz < 2 ^ 64" "unat (m_size m) < 2 ^ 64"
    using unsigned_less [of off, where ?'a = nat] unsigned_less [of sz, where ?'a = nat]
      unsigned_less [of "m_size m", where ?'a = nat] by simp_all
  have "unat (off + sz) = unat off + unat sz - 2 ^ 64"
    using assms(2) lt by (simp add: unat_word_ariths mod_if)
  with assms(3) have "\<not> off + sz > m_size m" by (simp add: word_less_nat_alt)
  with checked_buffer_run [OF assms(1)] assms(2) lt show ?thesis by simp
qed

definition checked_state :: "u64 \<Rightarrow> 'w det \<Rightarrow> 'w det" where
  "checked_state sz s = s\<lparr>environ := Map.empty, cl_mem_alloc := [5 \<mapsto> 0],
     mobjs := [0 \<mapsto> zero_memobj\<lparr>m_handle := 5, m_size := sz\<rparr>]\<rparr>"

lemma checked_state_ok: "checked (checked_state sz s) 5 (zero_memobj\<lparr>m_handle := 5, m_size := sz\<rparr>)"
  by (simp add: checked_def checked_state_def api_check_disabled_def get_disable_api_check_envvar_def
      get_error_envvar_def get_env_util_def)

theorem buffer_access_check_exact_witness:
  "\<forall>(cl :: 'w ocl) (s :: 'w det) (func :: string).
   apiBufferOverflowCheck cl func 5 90 10 (checked_state 100 s) = Inr (False, checked_state 100 s)
   \<and> apiBufferOverflowCheck cl func 5 99 10 (checked_state 100 s) =
      Inr (True, reported [Func_buffer func 5, Api_overflow 1] cl (checked_state 100 s))"
  (is "\<forall>cl s func. ?P cl s func")
proof (intro allI)
  fix cl :: "'w ocl" and s :: "'w det" and func :: "string"
  show "?P cl s func"
    using buffer_access_check_exact [OF checked_state_ok [of 100 s], of 90 10 cl func]
      buffer_access_check_exact [OF checked_state_ok [of 100 s], of 99 10 cl func] by simp
qed

lemma buffer_access_wraps_at_64_bits:
  "\<forall>(cl :: 'w ocl) (s :: 'w det) (func :: string).
   apiBufferOverflowCheck cl func 5 (- 1) 2 (checked_state 100 s) = Inr (False, checked_state 100 s)"
  (is "\<forall>cl s func. ?P cl s func")
proof (intro allI)
  fix cl :: "'w ocl" and s :: "'w det" and func :: "string"
  have m1: "unat (- 1 :: u64) = 2 ^ 64 - 1" by (simp add: unsigned_minus_1_eq_mask mask_eq_exp_minus_1)
  have two: "unat (2 :: u64) = 2" by simp
  show "?P cl s func"
    by (rule buffer_access_wrap_missed [OF checked_state_ok, THEN conjunct1]) (simp_all add: m1 two)
qed

section \<open>The transfer commands\<close>

text \<open>An access of a buffer the tool knows, which ends within it or not (and does not wrap).\<close>

definition fits :: "u64 \<Rightarrow> u64 \<Rightarrow> cl_memobj \<Rightarrow> bool" where
  "fits off sz m \<longleftrightarrow> unat off + unat sz \<le> unat (m_size m)"

lemma fits_no_wrap: "fits off sz m \<Longrightarrow> unat off + unat sz < 2 ^ 64"
  using unsigned_less [of "m_size m", where ?'a = nat] by (simp add: fits_def)

lemma check_fits: "checked s b m \<Longrightarrow> fits off sz m \<Longrightarrow> apiBufferOverflowCheck cl func b off sz s = Inr (False, s)"
  using less_no_wrap [OF fits_no_wrap, of off sz m "m_size m"]
  by (simp add: checked_buffer_run fits_def)

definition overflow_report :: "'w ocl \<Rightarrow> string \<Rightarrow> cl_mem \<Rightarrow> u64 \<Rightarrow> cl_memobj \<Rightarrow> 'w det \<Rightarrow> 'w det" where
  "overflow_report cl func b off m s =
     reported [Func_buffer func b, Api_overflow (ucast (start_past_end off (m_size m)) + 1)] cl s"

lemma check_overflows:
  "checked s b m \<Longrightarrow> \<not> fits off sz m \<Longrightarrow> unat off + unat sz < 2 ^ 64 \<Longrightarrow>
    apiBufferOverflowCheck cl func b off sz s = Inr (True, overflow_report cl func b off m s)"
  using less_no_wrap [of off sz "m_size m"]
  by (simp add: checked_buffer_run fits_def overflow_report_def)

lemma overflow_report_frame:
  "world (overflow_report cl func b off m s) = world s"
  "mobjs (overflow_report cl func b off m s) = mobjs s"
  "cl_mem_alloc (overflow_report cl func b off m s) = cl_mem_alloc s"
  "overflows_observed (overflow_report cl func b off m s) = overflows_observed s + 1"
  by (simp_all add: overflow_report_def reported_def)

text \<open>
  C21: Reads, writes and fills of a buffer are guarded: a command that stays inside is handed to the
  runtime with exactly the application's arguments, and its status, data and event come back; one
  that leaves the buffer never reaches the runtime. It is reported, returns \<open>CL_SUCCESS\<close>, and leaves
  the event unwritten.
\<close>

theorem buffer_transfers_guarded:
  assumes "checked s b m" and "unat off + unat sz < 2 ^ 64"
    and "\<And>name. loaded cl name"
  shows "clEnqueueReadBuffer cl q b blocking off sz evs s =
      (if fits off sz m
       then (case rt_EnqueueReadBuffer cl q b blocking off sz evs (world s) of ((err, bytes, ev), w) \<Rightarrow>
         Inr ((err, Some (bytes, ev)), s\<lparr>world := w\<rparr>))
       else Inr ((CL_SUCCESS, None), overflow_report cl ''clEnqueueReadBuffer'' b off m s))
    \<and> clEnqueueWriteBuffer cl q b blocking off sz p evs s =
      (if fits off sz m
       then (case rt_EnqueueWriteBuffer cl q b blocking off sz p evs (world s) of ((err, ev), w) \<Rightarrow>
         Inr ((err, Some ev), s\<lparr>world := w\<rparr>))
       else Inr ((CL_SUCCESS, None), overflow_report cl ''clEnqueueWriteBuffer'' b off m s))
    \<and> clEnqueueFillBuffer cl q b pattern off sz evs s =
      (if fits off sz m
       then (case rt_EnqueueFillBuffer cl q b pattern off sz evs (world s) of ((err, ev), w) \<Rightarrow>
         Inr ((err, Some ev), s\<lparr>world := w\<rparr>))
       else Inr ((CL_SUCCESS, None), overflow_report cl ''clEnqueueFillBuffer'' b off m s))"
proof -
  have check: "apiBufferOverflowCheck cl func b off sz s =
      (if fits off sz m then Inr (False, s) else Inr (True, overflow_report cl func b off m s))" for func
    using check_fits [OF assms(1)] check_overflows [OF assms(1)] assms(2) by simp
  show ?thesis
    using assms(3) by (cases "fits off sz m")
      (simp_all add: clEnqueueReadBuffer_def clEnqueueWriteBuffer_def clEnqueueFillBuffer_def
        andThen_def check split: prod.split)
qed

definition counting_runtime :: "nat ocl \<Rightarrow> nat ocl" where
  "counting_runtime cl = cl\<lparr>loaded := (\<lambda>_. True),
     rt_EnqueueWriteBuffer := (\<lambda>q b blocking off sz p evs w. ((CL_SUCCESS, 7), Suc w)),
     rt_EnqueueCopyBuffer := (\<lambda>q b c o1 o2 sz evs w. ((CL_SUCCESS, 7), Suc w))\<rparr>"

theorem buffer_transfers_guarded_witness:
  "\<forall>(cl :: nat ocl) (s :: nat det) (q :: u64) (p :: hostdata).
   (\<exists>t. clEnqueueWriteBuffer (counting_runtime cl) q 5 True 90 10 p [] (checked_state 100 s) =
      Inr ((CL_SUCCESS, Some 7), t) \<and> world t = Suc (world s))
   \<and> (\<exists>t. clEnqueueWriteBuffer (counting_runtime cl) q 5 True 91 10 p [] (checked_state 100 s) =
      Inr ((CL_SUCCESS, None), t) \<and> world t = world s)"
  (is "\<forall>cl s q p. ?P cl s q p")
proof (intro allI)
  fix cl :: "nat ocl" and s :: "nat det" and q :: "u64" and p :: "hostdata"
  have l: "loaded (counting_runtime cl) name" for name by (simp add: counting_runtime_def)
  note g = buffer_transfers_guarded [OF checked_state_ok [of 100 s] _ l, THEN conjunct2, THEN conjunct1]
  have "clEnqueueWriteBuffer (counting_runtime cl) q 5 True 90 10 p [] (checked_state 100 s) =
      Inr ((CL_SUCCESS, Some 7), (checked_state 100 s)\<lparr>world := Suc (world s)\<rparr>)"
    by (subst g) (simp_all add: fits_def counting_runtime_def checked_state_def)
  moreover have "clEnqueueWriteBuffer (counting_runtime cl) q 5 True 91 10 p [] (checked_state 100 s) =
      Inr ((CL_SUCCESS, None), overflow_report (counting_runtime cl) ''clEnqueueWriteBuffer'' 5 91
        (zero_memobj\<lparr>m_handle := 5, m_size := 100\<rparr>) (checked_state 100 s))"
    by (subst g) (simp_all add: fits_def)
  ultimately show "?P cl s q p" by (simp add: overflow_report_frame checked_state_def)
qed

text \<open>
  C33: A copy between two buffers runs if and only if both ranges fit. When the source does not fit,
  only the source is reported; when only the destination does not, the destination is.
\<close>

theorem buffer_copy_guarded:
  assumes "checked s src m" and "checked s dst n" and "loaded cl ''clEnqueueCopyBuffer''"
    and "unat src_off + unat sz < 2 ^ 64" and "unat dst_off + unat sz < 2 ^ 64"
  shows "clEnqueueCopyBuffer cl q src dst src_off dst_off sz evs s =
    (if \<not> fits src_off sz m
     then Inr ((CL_SUCCESS, None), overflow_report cl ''clEnqueueCopyBuffer'' src src_off m s)
     else if \<not> fits dst_off sz n
     then Inr ((CL_SUCCESS, None), overflow_report cl ''clEnqueueCopyBuffer'' dst dst_off n s)
     else (case rt_EnqueueCopyBuffer cl q src dst src_off dst_off sz evs (world s) of ((err, ev), w) \<Rightarrow>
       Inr ((err, Some ev), s\<lparr>world := w\<rparr>)))"
proof -
  have check: "apiBufferOverflowCheck cl func b off sz s =
      (if fits off sz k then Inr (False, s) else Inr (True, overflow_report cl func b off k s))"
    if "checked s b k" "unat off + unat sz < 2 ^ 64" for func b off k
    using check_fits [OF that(1)] check_overflows [OF that(1)] that(2) by simp
  show ?thesis
    using assms(3)
    by (simp add: clEnqueueCopyBuffer_def both_fit_def andThen_def check [OF assms(1, 4)]
        check [OF assms(2, 5)] split: prod.split)
qed

theorem buffer_copy_guarded_witness:
  "\<forall>(cl :: nat ocl) (s :: nat det) (q :: u64).
   clEnqueueCopyBuffer (counting_runtime cl) q 5 5 0 60 50 [] (checked_state 100 s) =
    Inr ((CL_SUCCESS, None), overflow_report (counting_runtime cl) ''clEnqueueCopyBuffer'' 5 60
      (zero_memobj\<lparr>m_handle := 5, m_size := 100\<rparr>) (checked_state 100 s))"
  (is "\<forall>cl s q. ?P cl s q")
proof (intro allI)
  fix cl :: "nat ocl" and s :: "nat det" and q :: "u64"
  have "loaded (counting_runtime cl) ''clEnqueueCopyBuffer''" by (simp add: counting_runtime_def)
  from buffer_copy_guarded [OF checked_state_ok checked_state_ok this, of 0 50 60 q "[]" 100 s]
  show "?P cl s q" by (simp add: fits_def)
qed

section \<open>Rectangular accesses\<close>

text \<open>
  One past the last byte a rectangle touches, for a region that is not empty; the end the check
  computes; the pitches in force. All are natural numbers.
\<close>

definition rect_start :: "vec3 \<Rightarrow> nat \<Rightarrow> nat \<Rightarrow> nat" where
  "rect_start off row slc = (case off of (o0, o1, o2) \<Rightarrow> unat o0 + unat o1 * row + unat o2 * slc)"

definition rect_end :: "vec3 \<Rightarrow> vec3 \<Rightarrow> nat \<Rightarrow> nat \<Rightarrow> nat" where
  "rect_end off region row slc = (case region of (r0, r1, r2) \<Rightarrow>
     rect_start off row slc + (unat r2 - 1) * slc + (unat r1 - 1) * row + unat r0)"

definition rect_volume :: "vec3 \<Rightarrow> nat" where
  "rect_volume region = (case region of (r0, r1, r2) \<Rightarrow> unat r0 * unat r1 * unat r2)"

definition row_of :: "vec3 \<Rightarrow> u64 \<Rightarrow> nat" where
  "row_of region rp = (if rp = 0 then unat (fst region) else unat rp)"

definition slice_of :: "vec3 \<Rightarrow> u64 \<Rightarrow> u64 \<Rightarrow> nat" where
  "slice_of region rp sp = (if sp = 0 then row_of region rp * unat (fst (snd region)) else unat sp)"

text \<open>The pitches the OpenCL specification allows, on a region that is not empty, and no wrap-around.\<close>

definition rect_ok :: "vec3 \<Rightarrow> vec3 \<Rightarrow> u64 \<Rightarrow> u64 \<Rightarrow> bool" where
  "rect_ok off region rp sp \<longleftrightarrow> (case region of (r0, r1, r2) \<Rightarrow>
     0 < unat r0 \<and> 0 < unat r1 \<and> 0 < unat r2 \<and> unat r0 \<le> row_of region rp
     \<and> row_of region rp * unat r1 \<le> slice_of region rp sp \<and> slice_of region rp sp < 2 ^ 64
     \<and> rect_end off region (row_of region rp) (slice_of region rp sp) < 2 ^ 64)"

lemma volume_le:
  fixes a b c row slc :: nat
  assumes "a \<le> row" and "row * b \<le> slc" and "0 < b" and "0 < c"
  shows "a * b * c \<le> (c - 1) * slc + (b - 1) * row + a"
proof -
  obtain b' c' where bc: "b = Suc b'" "c = Suc c'" using assms(3, 4) by (metis not0_implies_Suc neq0_conv)
  have ab: "a * b \<le> slc" using mult_le_mono1 [OF assms(1), of b] assms(2) by linarith
  have "a * b * c = c' * (a * b) + (b' * a + a)" by (simp add: bc algebra_simps)
  also have "\<dots> \<le> c' * slc + (b' * row + a)"
    using mult_le_mono2 [OF ab, of c'] mult_le_mono2 [OF assms(1), of b'] by linarith
  finally show ?thesis by (simp add: bc)
qed

lemma unat_volume:
  fixes r0 r1 r2 :: u64
  assumes "0 < unat r2" and fits: "unat r0 * unat r1 * unat r2 < 2 ^ 64"
  shows "unat (r0 * r1 * r2) = unat r0 * unat r1 * unat r2"
proof -
  obtain k where "unat r2 = Suc k" using assms(1) by (metis not0_implies_Suc neq0_conv)
  then have "unat r0 * unat r1 * unat r2 = unat r0 * unat r1 * k + unat r0 * unat r1" by simp
  with fits have "unat (r0 * r1) = unat r0 * unat r1" by (intro unat_mult_fits) simp
  with fits show ?thesis by (subst unat_mult_fits) simp_all
qed

lemma rect_bounds_unat:
  assumes "rect_ok off region rp sp" and "rect_bounds off region rp sp = (b_off, b_end)"
  shows "unat b_off = rect_start off (row_of region rp) (slice_of region rp sp)"
    and "unat b_end = rect_start off (row_of region rp) (slice_of region rp sp) + rect_volume region"
    and "rect_volume region + rect_start off (row_of region rp) (slice_of region rp sp)
      \<le> rect_end off region (row_of region rp) (slice_of region rp sp)"
proof -
  obtain o0 o1 o2 r0 r1 r2 where v: "off = (o0, o1, o2)" "region = (r0, r1, r2)"
    by (cases off; cases region)
  define row where "row = row_of region rp"
  define slc where "slc = slice_of region rp sp"
  have ok: "0 < unat r1" "0 < unat r2" "unat r0 \<le> row" "row * unat r1 \<le> slc"
    and bound: "rect_start off row slc + ((unat r2 - 1) * slc + (unat r1 - 1) * row + unat r0) < 2 ^ 64"
    using assms(1) by (simp_all add: rect_ok_def v row_def slc_def rect_end_def add.assoc)
  note vol = volume_le [OF ok(3, 4, 1, 2)]
  let ?row = "if rp = 0 then r0 else rp" and ?slc = "if sp = 0 then (if rp = 0 then r0 else rp) * r1 else sp"
  have urow: "unat ?row = row" by (simp add: row_def row_of_def v)
  have vol64: "unat r0 * unat r1 * unat r2 < 2 ^ 64" using vol bound by linarith
  have uslc: "unat ?slc = slc"
  proof (cases "sp = 0")
    case True
    with assms(1) have "row * unat r1 < 2 ^ 64"
      by (simp add: rect_ok_def v row_def slice_of_def)
    with True urow show ?thesis
      by (simp add: slc_def slice_of_def v row_def unat_mult_fits)
  qed (simp add: slc_def slice_of_def)
  have start: "unat o0 + unat o1 * row + unat o2 * slc < 2 ^ 64"
    using bound by (simp add: rect_start_def v)
  have m1: "unat (o1 * ?row) = unat o1 * row"
    using start urow by (subst unat_mult_fits) simp_all
  have m2: "unat (o2 * ?slc) = unat o2 * slc"
    using start uslc by (subst unat_mult_fits) simp_all
  have s1: "unat (o0 + o1 * ?row) = unat o0 + unat o1 * row"
    using start m1 by (subst unat_add_fits) simp_all
  have b_off: "unat (o0 + o1 * ?row + o2 * ?slc) = unat o0 + unat o1 * row + unat o2 * slc"
    using start s1 m2 by (subst unat_add_fits) simp_all
  note v2 = unat_volume [OF ok(2) vol64]
  have eqs: "b_off = o0 + o1 * ?row + o2 * ?slc" "b_end = r0 * r1 * r2 + b_off"
    using assms(2) by (auto simp: rect_bounds_def v Let_def)
  show off: "unat b_off = rect_start off (row_of region rp) (slice_of region rp sp)"
    unfolding eqs(1) b_off by (simp add: rect_start_def v row_def slc_def)
  have "rect_start off row slc + unat r0 * unat r1 * unat r2 < 2 ^ 64" using vol bound by linarith
  then show "unat b_end = rect_start off (row_of region rp) (slice_of region rp sp) + rect_volume region"
    unfolding eqs(2) using off v2
    by (subst unat_add_fits) (simp_all add: rect_volume_def v row_def slc_def)
  show "rect_volume region + rect_start off (row_of region rp) (slice_of region rp sp)
      \<le> rect_end off region (row_of region rp) (slice_of region rp sp)"
    using vol by (simp add: rect_volume_def rect_end_def v row_def slc_def)
qed

lemma checked_rect_run:
  assumes "checked s b m" and "rect_ok off region rp sp"
  shows "\<exists>n. apiBufferRectOverflowCheck cl func b off region rp sp s =
    (if unat (m_size m) < rect_start off (row_of region rp) (slice_of region rp sp) + rect_volume region
     then Inr (True, reported [Func_buffer func b, Api_overflow n] cl s) else Inr (False, s))"
proof -
  obtain b_off b_end where b: "rect_bounds off region rp sp = (b_off, b_end)" by fastforce
  from rect_bounds_unat(2) [OF assms(2) b] assms(1) show ?thesis
    by (auto simp: checked_def apiBufferRectOverflowCheck_run [OF _ _ b] overflow_found_def word_less_nat_alt)
qed

text \<open>
  C34: The check of a rectangle raises no false alarm: when it reports, the rectangle does touch a byte
  beyond the end of the buffer. When the rectangle is packed (the rows follow one another without a
  gap, as they do when no pitch is given), it is exact.
\<close>

theorem rect_check_sound:
  assumes "checked s b m" and "rect_ok off region rp sp"
  shows "(\<exists>n. apiBufferRectOverflowCheck cl func b off region rp sp s =
        Inr (True, reported [Func_buffer func b, Api_overflow n] cl s)
        \<and> unat (m_size m) < rect_end off region (row_of region rp) (slice_of region rp sp))
      \<or> apiBufferRectOverflowCheck cl func b off region rp sp s = Inr (False, s)
        \<and> (rp = 0 \<and> sp = 0 \<longrightarrow>
            rect_end off region (row_of region rp) (slice_of region rp sp) \<le> unat (m_size m))"
proof -
  obtain b_off b_end where b: "rect_bounds off region rp sp = (b_off, b_end)" by fastforce
  obtain n where run: "apiBufferRectOverflowCheck cl func b off region rp sp s =
    (if unat (m_size m) < rect_start off (row_of region rp) (slice_of region rp sp) + rect_volume region
     then Inr (True, reported [Func_buffer func b, Api_overflow n] cl s) else Inr (False, s))"
    using checked_rect_run [OF assms] by blast
  have "rect_end off region (row_of region rp) (slice_of region rp sp) =
      rect_start off (row_of region rp) (slice_of region rp sp) + rect_volume region" if "rp = 0" "sp = 0"
  proof -
    obtain r0 r1 r2 where v: "region = (r0, r1, r2)" by (cases region)
    have "0 < unat r1" "0 < unat r2" using assms(2) by (simp_all add: rect_ok_def v)
    then obtain b' c' where "unat r1 = Suc b'" "unat r2 = Suc c'" by (metis not0_implies_Suc neq0_conv)
    with that show ?thesis
      by (simp add: rect_end_def rect_volume_def row_of_def slice_of_def v algebra_simps)
  qed
  with run rect_bounds_unat(3) [OF assms(2) b] show ?thesis by (auto simp: not_less)
qed

text \<open>
  C37: With a pitch that leaves gaps between the rows, the check misses overflows: it compares the
  number of bytes of the rectangle, not the distance they span. Whenever the bytes would fit if they
  were packed, the command goes through, also when the last row lies outside.
\<close>

theorem rect_check_misses_gaps:
  assumes "checked s b m" and "rect_ok off region rp sp" and "loaded cl ''clEnqueueWriteBufferRect''"
    and "rect_start off (row_of region rp) (slice_of region rp sp) + rect_volume region \<le> unat (m_size m)"
  shows "clEnqueueWriteBufferRect cl q b blocking off host_off region rp sp hrp hsp p evs s =
    (case rt_EnqueueWriteBufferRect cl q b blocking off host_off region rp sp hrp hsp p evs (world s) of
       ((err, ev), w) \<Rightarrow> Inr ((err, Some ev), s\<lparr>world := w\<rparr>))"
proof -
  have "apiBufferRectOverflowCheck cl ''clEnqueueWriteBufferRect'' b off region rp sp s = Inr (False, s)"
    using checked_rect_run [OF assms(1, 2), of cl "''clEnqueueWriteBufferRect''"] assms(4) by auto
  with assms(3) show ?thesis
    by (simp add: clEnqueueWriteBufferRect_def andThen_def split: prod.split)
qed

lemma gapped_rect:
  "rect_ok (0, 0, 0) (10, 2, 1) 95 0" "row_of (10, 2, 1) 95 = 95" "slice_of (10, 2, 1) 95 0 = 190"
  "rect_start (0, 0, 0) 95 190 + rect_volume (10, 2, 1) = 20" "rect_end (0, 0, 0) (10, 2, 1) 95 190 = 105"
  by (simp_all add: rect_ok_def row_of_def slice_of_def rect_start_def rect_end_def rect_volume_def)

theorem rect_check_sound_witness:
  "\<forall>(cl :: 'w ocl) (s :: 'w det) (func :: string).
   \<exists>n. apiBufferRectOverflowCheck cl func 5 (0, 0, 0) (10, 20, 1) 0 0 (checked_state 100 s) =
    Inr (True, reported [Func_buffer func 5, Api_overflow n] cl (checked_state 100 s))"
  (is "\<forall>cl s func. ?P cl s func")
proof (intro allI)
  fix cl :: "'w ocl" and s :: "'w det" and func :: "string"
  have ok: "rect_ok (0, 0, 0) (10, 20, 1) 0 0"
    by (simp add: rect_ok_def row_of_def slice_of_def rect_start_def rect_end_def)
  from rect_check_sound [OF checked_state_ok [of 100 s] ok, of cl func] show "?P cl s func"
    by (auto simp: rect_end_def rect_start_def row_of_def slice_of_def)
qed

theorem rect_check_misses_gaps_witness:
  "\<forall>(cl :: 'w ocl) (s :: 'w det) (q :: u64) (p :: hostdata).
   unat (100 :: u64) < rect_end (0, 0, 0) (10, 2, 1) 95 190
   \<and> clEnqueueWriteBufferRect (cl\<lparr>loaded := \<lambda>_. True, rt_EnqueueWriteBufferRect :=
        (\<lambda>q b blocking o3 h3 r3 p1 p2 p3 p4 p evs w. ((CL_SUCCESS, 7), w))\<rparr>)
      q 5 True (0, 0, 0) (0, 0, 0) (10, 2, 1) 95 0 0 0 p [] (checked_state 100 s) =
    Inr ((CL_SUCCESS, Some 7), checked_state 100 s)"
  (is "\<forall>cl s q p. ?P cl s q p")
proof (intro allI)
  fix cl :: "'w ocl" and s :: "'w det" and q :: "u64" and p :: "hostdata"
  show "?P cl s q p"
    using rect_check_misses_gaps [OF checked_state_ok [of 100 s] gapped_rect(1), where cl = "cl\<lparr>loaded := \<lambda>_. True,
        rt_EnqueueWriteBufferRect := (\<lambda>q b blocking o3 h3 r3 p1 p2 p3 p4 p evs w. ((CL_SUCCESS, 7), w))\<rparr>"]
    by (simp add: gapped_rect)
qed

end
