(* ===== verification/Image_Check_Props.thy ===== *)
theory Image_Check_Props
  imports Api_Check_Props Interceptor_Memory Image_Props
begin

text \<open>
  Images created with canaries: what the application is told of their size, and which accesses the
  checks let through, for the application and for the tool itself.
\<close>

section \<open>The dimensions the application asked for\<close>

text \<open>An image whose descriptor is the one asked for, enlarged; the pitches may have been cleared.\<close>

definition enlarged_from :: "cl_image_desc \<Rightarrow> cl_memobj \<Rightarrow> bool" where
  "enlarged_from d0 m \<longleftrightarrow> normalised d0 \<and> m_is_image m \<and> m_has_canary m
     \<and> (\<exists>d rp sp. expandLastDimForFill d0 = Some d
       \<and> m_image_desc m = d\<lparr>image_row_pitch := rp, image_slice_pitch := sp\<rparr>)"

definition uses_rows :: "cl_image_desc \<Rightarrow> bool" where
  "uses_rows d \<longleftrightarrow> image_type d \<in> {CL_MEM_OBJECT_IMAGE1D_ARRAY, CL_MEM_OBJECT_IMAGE2D,
     CL_MEM_OBJECT_IMAGE2D_ARRAY, CL_MEM_OBJECT_IMAGE3D}"

definition uses_slices :: "cl_image_desc \<Rightarrow> bool" where
  "uses_slices d \<longleftrightarrow> image_type d \<in> {CL_MEM_OBJECT_IMAGE2D_ARRAY, CL_MEM_OBJECT_IMAGE3D}"

text \<open>The extent in the coordinates of the transfer commands.\<close>

definition extent :: "cl_image_desc \<Rightarrow> u64 \<times> u64 \<times> u64" where
  "extent d = (image_width d,
     if image_type d = CL_MEM_OBJECT_IMAGE1D_ARRAY then image_array_size d else image_height d,
     if image_type d = CL_MEM_OBJECT_IMAGE2D_ARRAY then image_array_size d else image_depth d)"

lemma grown:
  fixes n :: u64
  assumes "1 \<le> n" and "n < 2 ^ 30"
  shows "1 < n + 16" and "unat (n + 16) = unat n + 16"
proof -
  have n: "1 \<le> unat n" "unat n < 2 ^ 30" using assms by (simp_all add: word_le_nat_alt word_less_nat_alt)
  then show u: "unat (n + 16) = unat n + 16" by (subst unat_add_fits) simp_all
  then show "1 < n + 16" using n by (simp add: word_less_nat_alt)
qed

lemma user_dims_expand:
  assumes "normalised d0" and "expandLastDimForFill d0 = Some d"
  shows "user_dims d = (image_width d0, image_height d0, image_depth d0, image_array_size d0)"
  using assms
  by (cases "image_type d0")
    (auto simp: normalised_def Let_def expandLastDimForFill_def user_dims_def poison_defs grown)

lemma user_dims_enlarged:
  "enlarged_from d0 m \<Longrightarrow>
    user_dims (m_image_desc m) = (image_width d0, image_height d0, image_depth d0, image_array_size d0)"
  unfolding enlarged_from_def by (auto simp: user_dims_expand [symmetric] user_dims_def)

text \<open>
  C32: Queries show the image the application asked for. For an image with canaries,
  \<open>clGetImageInfo\<close> gives the original width, height, depth and array size, and \<open>clGetMemObjectInfo\<close>
  the original number of bytes, whatever the runtime says of the larger image.
\<close>

theorem image_queries_hide_canaries:
  assumes "enlarged_from d0 m" and "cl_mem_alloc s img = Some a" and "mobjs s a = Some m"
    and "loaded cl ''clGetImageInfo''" and "loaded cl ''clGetMemObjectInfo''"
    and "rt_GetImageInfo cl img param (world s) = (err, [v])" and "v \<noteq> 0"
    and "rt_GetMemObjectInfo cl img CL_MEM_SIZE (world s) = (err2, [sz])"
    and "(param, result) \<in> {(CL_IMAGE_WIDTH, image_width d0), (CL_IMAGE_HEIGHT, image_height d0),
      (CL_IMAGE_DEPTH, image_depth d0), (CL_IMAGE_ARRAY_SIZE, image_array_size d0)}"
  shows "clGetImageInfo cl img param (Some [x]) s = Inr ((err, Some [result]), s)
    \<and> clGetMemObjectInfo cl img CL_MEM_SIZE (Some [x]) s =
      Inr ((err2, Some [image_width d0 * image_height d0 * image_depth d0 * image_array_size d0
        * ucast (getImageDataSize (m_image_format m))]), s)"
proof -
  have m: "m_is_image m" "m_has_canary m" using assms(1) by (simp_all add: enlarged_from_def)
  have "clGetImageInfo cl img param (Some [x]) s = Inr ((err, Some [result]), s)"
    using assms(2-4, 6, 7, 9) m user_dims_enlarged [OF assms(1)]
    by (auto simp: clGetImageInfo_def andThen_def runs store_values_def read_val_def assign_val_def)
  moreover have "clGetMemObjectInfo cl img CL_MEM_SIZE (Some [x]) s =
      Inr ((err2, Some [user_image_size m]), s)"
    using assms(2, 3, 5, 8) m
    by (auto simp: clGetMemObjectInfo_def andThen_def runs store_values_def assign_val_def)
  ultimately show ?thesis
    using user_dims_enlarged [OF assms(1)] by (simp add: user_image_size_def)
qed

section \<open>Which accesses pass\<close>

lemma limits_for_user:
  assumes "enlarged_from d0 m"
  shows "image_limits m False = (image_width d0,
      if uses_rows d0 then fst (snd (extent d0)) else - 15,
      if uses_slices d0 then snd (snd (extent d0)) else - 15)"
proof -
  obtain d rp sp where "normalised d0" "expandLastDimForFill d0 = Some d" "m_has_canary m"
    "m_image_desc m = d\<lparr>image_row_pitch := rp, image_slice_pitch := sp\<rparr>"
    using assms by (auto simp: enlarged_from_def)
  then show ?thesis
    by (cases "image_type d0")
      (auto simp: normalised_def Let_def expandLastDimForFill_def image_limits_def poison_defs
        uses_rows_def uses_slices_def extent_def)
qed

lemma limits_for_tool: "image_limits m True = extent (m_image_desc m)"
  by (simp add: image_limits_def extent_def Let_def)

text \<open>No sum of an origin and an extent wraps, or comes near to it.\<close>

definition moderate :: "vec3 \<Rightarrow> vec3 \<Rightarrow> bool" where
  "moderate origin region \<longleftrightarrow> (case origin of (o0, o1, o2) \<Rightarrow> case region of (r0, r1, r2) \<Rightarrow>
     unat o0 + unat r0 < 2 ^ 63 \<and> unat o1 + unat r1 < 2 ^ 63 \<and> unat o2 + unat r2 < 2 ^ 63)"

definition within :: "vec3 \<Rightarrow> vec3 \<Rightarrow> vec3 \<Rightarrow> bool" where
  "within limits origin region \<longleftrightarrow> (case limits of (w, h, d) \<Rightarrow> case origin of (o0, o1, o2) \<Rightarrow>
     case region of (r0, r1, r2) \<Rightarrow> unat o0 + unat r0 \<le> unat w \<and> unat o1 + unat r1 \<le> unat h
       \<and> unat o2 + unat r2 \<le> unat d)"

lemma image_overflow_None:
  assumes "moderate origin region"
  shows "image_overflow limits origin region = None \<longleftrightarrow> within limits origin region"
proof -
  obtain w h d o0 o1 o2 r0 r1 r2 where v: "limits = (w, h, d)" "origin = (o0, o1, o2)" "region = (r0, r1, r2)"
    by (cases limits; cases origin; cases region)
  have "unat (o0 + r0) = unat o0 + unat r0" "unat (o1 + r1) = unat o1 + unat r1"
    "unat (o2 + r2) = unat o2 + unat r2"
    using assms by (auto simp: moderate_def v intro!: unat_add_fits)
  then show ?thesis by (auto simp: image_overflow_def within_def v word_less_nat_alt)
qed

text \<open>The tool knows the image, checks calls, and does not end the process.\<close>

lemma checked_image_run:
  assumes "checked s img m" and "m_is_image m" and "moderate origin region"
  shows "within (image_limits m (canaryAccess s)) origin region \<Longrightarrow>
      apiImageOverflowCheck cl func img origin region s = Inr (False, s)"
    and "\<not> within (image_limits m (canaryAccess s)) origin region \<Longrightarrow>
      \<exists>msg. apiImageOverflowCheck cl func img origin region s =
        Inr (True, reported [Func_buffer func img, msg] cl s)"
proof -
  note none = image_overflow_None [OF assms(3), of "image_limits m (canaryAccess s)"]
  have run: "apiImageOverflowCheck cl func img origin region s =
    (case image_overflow (image_limits m (canaryAccess s)) origin region of
       None \<Rightarrow> Inr (False, s)
     | Some r \<Rightarrow> Inr (True, reported [Func_buffer func img, dimension_msg r] cl s))"
    using assms(1, 2)
    by (auto simp: checked_def apiImageOverflowCheck_run overflow_found_def split: option.split)
  show "within (image_limits m (canaryAccess s)) origin region \<Longrightarrow>
      apiImageOverflowCheck cl func img origin region s = Inr (False, s)"
    using none by (simp add: run)
  show "\<not> within (image_limits m (canaryAccess s)) origin region \<Longrightarrow>
      \<exists>msg. apiImageOverflowCheck cl func img origin region s =
        Inr (True, reported [Func_buffer func img, msg] cl s)"
    using none by (auto simp: run)
qed

text \<open>
  C28: The application cannot touch the canaries of an image. With canaries, an access passes the check
  silently if and only if it stays within the extent the application asked for, in each dimension the
  image has; anything else is reported. A dimension the image does not have is not checked at all: its
  limit, 1 less the 16 of a canary that is not there, wraps around.
\<close>

theorem image_access_check_exact:
  assumes "checked s img m" and "enlarged_from d0 m" and "moderate origin region"
    and "\<not> canaryAccess s"
  shows "if within (image_width d0,
        if uses_rows d0 then fst (snd (extent d0)) else - 15,
        if uses_slices d0 then snd (snd (extent d0)) else - 15) origin region
    then apiImageOverflowCheck cl func img origin region s = Inr (False, s)
    else \<exists>msg. apiImageOverflowCheck cl func img origin region s =
      Inr (True, reported [Func_buffer func img, msg] cl s)"
proof -
  have "m_is_image m" using assms(2) by (simp add: enlarged_from_def)
  from checked_image_run [OF assms(1) this assms(3)] show ?thesis
    using assms(4) limits_for_user [OF assms(2)] by simp
qed

text \<open>The sizes with and without the canaries, and the extent, of an enlarged image.\<close>

lemma enlarged_sizes:
  assumes "enlarged_from d0 m" and "dm = get_image_dimensions (m_image_desc m)"
  shows "extent (m_image_desc m) = (ucast (i_lim dm), ucast (j_lim dm), ucast (k_lim dm))"
    and "unat (i_lim dm) = unat (i_dat dm) + 16" and "image_width d0 = ucast (i_dat dm)"
    and "if uses_rows d0 then unat (j_lim dm) = unat (j_dat dm) + 16 \<and> fst (snd (extent d0)) = ucast (j_dat dm)
      else j_lim dm = 1 \<and> j_dat dm = 1"
    and "if uses_slices d0 then unat (k_lim dm) = unat (k_dat dm) + 16 \<and> snd (snd (extent d0)) = ucast (k_dat dm)
      else k_lim dm = 1 \<and> k_dat dm = 1"
proof -
  obtain d rp sp where d: "normalised d0" "expandLastDimForFill d0 = Some d"
    "m_image_desc m = d\<lparr>image_row_pitch := rp, image_slice_pitch := sp\<rparr>"
    using assms by (auto simp: enlarged_from_def)
  have regain: "ucast (ucast (n + 16) :: u32) = n + 16" "ucast ((ucast (n + 16) :: u32) - 16) = n"
    "unat (ucast (n + 16) :: u32) = unat ((ucast (n + 16) :: u32) - 16) + 16"
    if n: "1 \<le> n \<and> n < 2 ^ 30" for n :: u64
  proof -
    have u: "unat (ucast (n + 16) :: u32) = unat n + 16" using n by (intro ucast_poison(3)) auto
    have s: "unat ((ucast (n + 16) :: u32) - 16) = unat n" using u by (simp add: unat_sub word_le_nat_alt)
    show "unat (ucast (n + 16) :: u32) = unat ((ucast (n + 16) :: u32) - 16) + 16" using u s by simp
    show "ucast ((ucast (n + 16) :: u32) - 16) = n" using s by (simp add: word_unat_eq_iff unat_ucast_wider)
    show "ucast (ucast (n + 16) :: u32) = n + 16"
      using u grown(2) [of n] n by (simp add: word_unat_eq_iff unat_ucast_wider)
  qed
  note facts = d(1, 2) regain ucast_poison
  show "extent (m_image_desc m) = (ucast (i_lim dm), ucast (j_lim dm), ucast (k_lim dm))"
    "unat (i_lim dm) = unat (i_dat dm) + 16" "image_width d0 = ucast (i_dat dm)"
    "if uses_rows d0 then unat (j_lim dm) = unat (j_dat dm) + 16 \<and> fst (snd (extent d0)) = ucast (j_dat dm)
      else j_lim dm = 1 \<and> j_dat dm = 1"
    "if uses_slices d0 then unat (k_lim dm) = unat (k_dat dm) + 16 \<and> snd (snd (extent d0)) = ucast (k_dat dm)
      else k_lim dm = 1 \<and> k_dat dm = 1"
    using facts unfolding assms(2) d(3)
    by (cases "image_type d0";
        auto simp: normalised_def Let_def expandLastDimForFill_def get_image_dimensions_def extent_def
          poison_defs uses_rows_def uses_slices_def)+
qed

lemma upto32_less: "x \<in> set (upto32 n) \<Longrightarrow> unat x < unat n"
  using unsigned_less [of n, where ?'a = nat] by (auto simp: upto32_def unat_of_nat_eq)

text \<open>Reads end where the image does, and reach past what the application sees.\<close>

lemma canary_read_cases:
  assumes "(origin, region, off) \<in> set (canary_reads dm ds)"
  obtains (row) j k :: u32 where "unat j < unat (j_dat dm)" "unat k < unat (k_dat dm)"
      "origin = (ucast (i_dat dm), ucast j, ucast k)" "region = (16, 1, 1)"
    | (rows) k :: u32 where "1 < j_lim dm" "unat k < unat (k_dat dm)"
      "origin = (0, ucast (j_dat dm), ucast k)" "region = (ucast (i_lim dm), 16, 1)"
    | (slices) "1 < k_lim dm" "origin = (0, 0, ucast (k_dat dm))"
      "region = (ucast (i_lim dm), ucast (j_lim dm), 16)"
  using assms
  by (auto simp: canary_reads_def end_of_row_def end_of_slice_def canary_slice_def poison_defs
      dest!: upto32_less split: if_splits)

lemma canary_reads_within:
  assumes "enlarged_from d0 m" and "dm = get_image_dimensions (m_image_desc m)"
    and "(origin, region, off) \<in> set (canary_reads dm ds)"
  shows "moderate origin region" and "within (extent (m_image_desc m)) origin region"
    and "\<not> within (image_width d0,
        if uses_rows d0 then fst (snd (extent d0)) else - 15,
        if uses_slices d0 then snd (snd (extent d0)) else - 15) origin region"
proof -
  note sizes = enlarged_sizes [OF assms(1, 2)]
  have lt: "unat w < 2 ^ 32" for w :: u32 using unsigned_less [of w, where ?'a = nat] by simp
  note lts = lt [of "i_lim dm"] lt [of "j_lim dm"] lt [of "k_lim dm"] lt [of "j_dat dm"] lt [of "k_dat dm"]
  show "moderate origin region"
    using assms(3) by (cases rule: canary_read_cases) (use lts sizes(2) in \<open>auto simp: moderate_def unat_ucast_wider\<close>)
  show "within (extent (m_image_desc m)) origin region"
    using assms(3) by (cases rule: canary_read_cases)
      (use sizes in \<open>auto simp: within_def unat_ucast_wider split: if_splits\<close>)
  show "\<not> within (image_width d0, if uses_rows d0 then fst (snd (extent d0)) else - 15,
        if uses_slices d0 then snd (snd (extent d0)) else - 15) origin region"
    using assms(3) by (cases rule: canary_read_cases)
      (use sizes in \<open>auto simp: within_def unat_ucast_wider split: if_splits\<close>)
qed

text \<open>
  C29: The tool can reach the canaries: while access to them is allowed, every read the host check
  makes of the canaries of an image passes the tool's own check; otherwise the check reports it.
\<close>

theorem canary_reads_pass_check:
  assumes "checked s img m" and "enlarged_from d0 m"
    and "(origin, region, off) \<in> set (canary_reads (get_image_dimensions (m_image_desc m)) ds)"
  shows "if canaryAccess s
    then apiImageOverflowCheck cl func img origin region s = Inr (False, s)
    else \<exists>msg. apiImageOverflowCheck cl func img origin region s =
      Inr (True, reported [Func_buffer func img, msg] cl s)"
proof -
  have "m_is_image m" using assms(2) by (simp add: enlarged_from_def)
  note run = checked_image_run [OF assms(1) this]
  note reads = canary_reads_within [OF assms(2) refl assms(3)]
  from run [OF reads(1)] reads(2, 3) limits_for_tool limits_for_user [OF assms(2)]
  show ?thesis by (cases "canaryAccess s") simp_all
qed

section \<open>A 5 by 3 image\<close>

definition image_5x3 :: cl_memobj where
  "image_5x3 = zero_memobj\<lparr>m_handle := 5, m_is_image := True, m_has_canary := True,
     m_image_format := \<lparr>image_channel_order = CL_RGBA, image_channel_data_type = CL_FLOAT\<rparr>,
     m_image_desc := example_2d_canaries\<rparr>"

definition image_state :: "bool \<Rightarrow> 'w det \<Rightarrow> 'w det" where
  "image_state access s = s\<lparr>environ := Map.empty, cl_mem_alloc := [5 \<mapsto> 0], mobjs := [0 \<mapsto> image_5x3],
     canaryAccess := access\<rparr>"

lemma image_5x3_enlarged: "enlarged_from example_2d image_5x3"
proof -
  have pitches: "d = d\<lparr>image_row_pitch := image_row_pitch d, image_slice_pitch := image_slice_pitch d\<rparr>"
    for d :: cl_image_desc by simp
  have "m_image_desc image_5x3 = example_2d_canaries" by (simp add: image_5x3_def)
  with pitches have "\<exists>rp sp. m_image_desc image_5x3 =
      example_2d_canaries\<lparr>image_row_pitch := rp, image_slice_pitch := sp\<rparr>" by metis
  then show ?thesis
    unfolding enlarged_from_def using example_2d_facts(1, 2) by (auto simp: image_5x3_def)
qed

lemma image_state_checked: "checked (image_state access s) 5 image_5x3"
  by (simp add: checked_def image_state_def api_check_disabled_def get_disable_api_check_envvar_def
      get_error_envvar_def get_env_util_def)

lemma example_2d_sizes:
  "image_width example_2d = 5" "uses_rows example_2d" "\<not> uses_slices example_2d"
  "snd (extent example_2d) = (3, 1)"
  by (simp_all add: example_2d_def uses_rows_def uses_slices_def extent_def zero_image_desc_def)

theorem image_queries_hide_canaries_witness:
  "\<forall>(cl :: 'w ocl) (s :: 'w det).
   clGetImageInfo (cl\<lparr>loaded := \<lambda>_. True, rt_GetImageInfo := \<lambda>img param w. (CL_SUCCESS, [21]),
       rt_GetMemObjectInfo := \<lambda>b param w. (CL_SUCCESS, [6384])\<rparr>) 5 CL_IMAGE_WIDTH (Some [0])
     (image_state False s) = Inr ((CL_SUCCESS, Some [5]), image_state False s)"
  (is "\<forall>cl s. ?P cl s")
proof (intro allI)
  fix cl :: "'w ocl" and s :: "'w det"
  let ?cl = "cl\<lparr>loaded := \<lambda>_. True, rt_GetImageInfo := \<lambda>img param w. (CL_SUCCESS, [21]),
       rt_GetMemObjectInfo := \<lambda>b param w. (CL_SUCCESS, [6384])\<rparr>"
  have "cl_mem_alloc (image_state False s) 5 = Some 0" "mobjs (image_state False s) 0 = Some image_5x3"
    "loaded ?cl ''clGetImageInfo''" "loaded ?cl ''clGetMemObjectInfo''"
    "rt_GetImageInfo ?cl 5 CL_IMAGE_WIDTH (world (image_state False s)) = (CL_SUCCESS, [21])"
    "(21 :: u64) \<noteq> 0"
    "rt_GetMemObjectInfo ?cl 5 CL_MEM_SIZE (world (image_state False s)) = (CL_SUCCESS, [6384])"
    "(CL_IMAGE_WIDTH, 5) \<in> {(CL_IMAGE_WIDTH, image_width example_2d), (CL_IMAGE_HEIGHT, image_height example_2d),
      (CL_IMAGE_DEPTH, image_depth example_2d), (CL_IMAGE_ARRAY_SIZE, image_array_size example_2d)}"
    by (simp_all add: image_state_def example_2d_sizes)
  from image_queries_hide_canaries [OF image_5x3_enlarged this] show "?P cl s" by simp
qed

theorem image_access_check_exact_witness:
  "\<forall>(cl :: 'w ocl) (s :: 'w det) (func :: string).
   apiImageOverflowCheck cl func 5 (0, 0, 0) (5, 3, 1) (image_state False s) =
      Inr (False, image_state False s)
   \<and> (\<exists>msg. apiImageOverflowCheck cl func 5 (1, 0, 0) (5, 3, 1) (image_state False s) =
      Inr (True, reported [Func_buffer func 5, msg] cl (image_state False s)))"
  (is "\<forall>cl s func. ?P cl s func")
proof (intro allI)
  fix cl :: "'w ocl" and s :: "'w det" and func :: "string"
  have user: "\<not> canaryAccess (image_state False s)" by (simp add: image_state_def)
  have m: "moderate (0, 0, 0) (5, 3, 1)" "moderate (1, 0, 0) (5, 3, 1)" by (simp_all add: moderate_def)
  have far: "unat (- 15 :: u64) = 2 ^ 64 - 15" by simp
  note exact = image_access_check_exact [OF image_state_checked image_5x3_enlarged _ user]
  from exact [OF m(1), of cl func] exact [OF m(2), of cl func] show "?P cl s func"
    by (simp add: example_2d_sizes within_def far)
qed

theorem canary_reads_pass_check_witness:
  "\<forall>(cl :: 'w ocl) (s :: 'w det) (func :: string).
   apiImageOverflowCheck cl func 5 (5, 2, 0) (16, 1, 1) (image_state True s) = Inr (False, image_state True s)
   \<and> (\<exists>msg. apiImageOverflowCheck cl func 5 (5, 2, 0) (16, 1, 1) (image_state False s) =
      Inr (True, reported [Func_buffer func 5, msg] cl (image_state False s)))"
  (is "\<forall>cl s func. ?P cl s func")
proof (intro allI)
  fix cl :: "'w ocl" and s :: "'w det" and func :: "string"
  let ?reads = "canary_reads \<lparr>i_lim = 21, j_lim = 19, k_lim = 1, i_dat = 5, j_dat = 3, k_dat = 1\<rparr> 16"
  have rows: "set (upto32 n) = {k. unat k < unat n}" for n
    using upto32_less by (force simp: upto32_def image_iff intro: rev_bexI [of "unat _"])
  have "end_of_row \<lparr>i_lim = 21, j_lim = 19, k_lim = 1, i_dat = 5, j_dat = 3, k_dat = 1\<rparr> 16 2 0 \<in> set ?reads"
    unfolding canary_reads_def by (auto simp: rows intro!: exI [of _ "0 :: u32"])
  then have "\<exists>off. ((5, 2, 0), (16, 1, 1), off) \<in> set ?reads"
    by (auto simp: end_of_row_def poison_defs)
  then obtain off where "((5, 2, 0), (16, 1, 1), off) \<in>
      set (canary_reads (get_image_dimensions (m_image_desc image_5x3)) 16)"
    using example_2d_facts(3) by (auto simp: image_5x3_def)
  note passes = canary_reads_pass_check [OF image_state_checked image_5x3_enlarged this]
  from passes [of True s cl func] passes [of False s cl func] show "?P cl s func" by (simp add: image_state_def)
qed

end
