(* ===== verification/Api_Trace.thy ===== *)
theory Api_Trace
  imports Wrapper_Invariants
begin

text \<open>
  The library as its client sees it: a sequence of calls of the wrappers, in any order and with any
  arguments, from the state in which the library is loaded. All wrappers of \<open>cl_interceptor.c\<close> are among
  the calls but \<open>clEnqueueNDRangeKernel\<close>, the launch of a kernel, which \<open>Launch_Trace\<close> adds.
\<close>

section \<open>The calls\<close>

datatype (plugins only: size) api_call =
    Get_device_info cl_device_id cl_device_info val_ptr
  | Create_queue cl_context cl_device_id "queue_property set" err_ptr
  | Create_queue_with_properties cl_context cl_device_id "u64 list option" err_ptr
  | Retain_queue cl_command_queue
  | Release_queue cl_command_queue
  | Create_buffer cl_context cl_mem_flags u64 ptr err_ptr
  | Create_sub_buffer cl_mem cl_mem_flags buffer_create_type cl_buffer_region err_ptr
  | Create_image cl_context cl_mem_flags cl_image_format cl_image_desc ptr err_ptr
  | Create_image2d cl_context cl_mem_flags cl_image_format u64 u64 u64 ptr err_ptr
  | Create_image3d cl_context cl_mem_flags cl_image_format u64 u64 u64 u64 u64 ptr err_ptr
  | Get_mem_info cl_mem cl_mem_info val_ptr
  | Get_image_info cl_mem cl_mem_info val_ptr
  | Retain_mem cl_mem
  | Release_mem cl_mem
  | Map_buffer cl_command_queue cl_mem bool "map_flag set" u64 u64 evts err_ptr
  | Unmap_mem cl_command_queue cl_mem ptr evts
  | Svm_alloc cl_context cl_mem_flags u64 u32
  | Svm_free cl_context ptr
  | Enqueue_svm_free cl_command_queue "ptr list" ptr ptr evts
  | Enqueue_svm_map cl_command_queue bool "map_flag set" ptr u64 evts
  | Enqueue_svm_unmap cl_command_queue ptr evts
  | Retain_kernel cl_kernel
  | Release_kernel cl_kernel
  | Set_kernel_arg cl_kernel u32 u64 "u8 list option"
  | Set_kernel_arg_svm cl_kernel u32 ptr
  | Enqueue_task cl_command_queue cl_kernel evts
  | Enqueue_native_kernel cl_command_queue ptr "u8 list" "cl_mem list" "ptr list" evts
  | Get_profiling_info cl_event nat
  | Retain_event cl_event
  | Release_event cl_event
  | Read_buffer cl_command_queue cl_mem bool u64 u64 evts
  | Write_buffer cl_command_queue cl_mem bool u64 u64 hostdata evts
  | Fill_buffer cl_command_queue cl_mem "u8 list" u64 u64 evts
  | Copy_buffer cl_command_queue cl_mem cl_mem u64 u64 u64 evts
  | Read_image cl_command_queue cl_mem bool vec3 vec3 u64 u64 evts
  | Write_image cl_command_queue cl_mem bool vec3 vec3 u64 u64 hostdata evts
  | Fill_image cl_command_queue cl_mem "u8 list" vec3 vec3 evts
  | Copy_image cl_command_queue cl_mem cl_mem vec3 vec3 vec3 evts
  | Copy_image_to_buffer cl_command_queue cl_mem cl_mem vec3 vec3 u64 evts
  | Copy_buffer_to_image cl_command_queue cl_mem cl_mem u64 vec3 vec3 evts
  | Read_buffer_rect cl_command_queue cl_mem bool vec3 vec3 vec3 u64 u64 u64 u64 evts
  | Write_buffer_rect cl_command_queue cl_mem bool vec3 vec3 vec3 u64 u64 u64 u64 hostdata evts
  | Copy_buffer_rect cl_command_queue cl_mem cl_mem vec3 vec3 vec3 u64 u64 u64 u64 evts

definition discard :: "('s, 'a) prog \<Rightarrow> ('s, unit) prog" where
  "discard f = andThen f (\<lambda>_. ret ())"

primrec run_call :: "'w ocl \<Rightarrow> api_call \<Rightarrow> ('w det, unit) prog" where
  "run_call cl (Get_device_info d n p) = discard (clGetDeviceInfo cl d n p)"
| "run_call cl (Create_queue c d ps e) = discard (clCreateCommandQueue cl c d ps e)"
| "run_call cl (Create_queue_with_properties c d ps e) = discard (clCreateCommandQueueWithProperties cl c d ps e)"
| "run_call cl (Retain_queue q) = discard (clRetainCommandQueue cl q)"
| "run_call cl (Release_queue q) = discard (clReleaseCommandQueue cl q)"
| "run_call cl (Create_buffer c f sz hp e) = discard (clCreateBuffer cl c f sz hp e)"
| "run_call cl (Create_sub_buffer b f t i e) = discard (clCreateSubBuffer cl b f t i e)"
| "run_call cl (Create_image c f fmt d hp e) = discard (clCreateImage cl c f fmt d hp e)"
| "run_call cl (Create_image2d c f fmt w h rp hp e) = discard (clCreateImage2D cl c f fmt w h rp hp e)"
| "run_call cl (Create_image3d c f fmt w h d rp sp hp e) = discard (clCreateImage3D cl c f fmt w h d rp sp hp e)"
| "run_call cl (Get_mem_info b n p) = discard (clGetMemObjectInfo cl b n p)"
| "run_call cl (Get_image_info b n p) = discard (clGetImageInfo cl b n p)"
| "run_call cl (Retain_mem b) = discard (clRetainMemObject cl b)"
| "run_call cl (Release_mem b) = discard (clReleaseMemObject cl b)"
| "run_call cl (Map_buffer q b bl fl off sz evs e) = discard (clEnqueueMapBuffer cl q b bl fl off sz evs e)"
| "run_call cl (Unmap_mem q b p evs) = discard (clEnqueueUnmapMemObject cl q b p evs)"
| "run_call cl (Svm_alloc c f sz al) = discard (clSVMAlloc cl c f sz al)"
| "run_call cl (Svm_free c p) = clSVMFree cl c p"
| "run_call cl (Enqueue_svm_free q ps pf ud evs) = discard (clEnqueueSVMFree cl q ps pf ud evs)"
| "run_call cl (Enqueue_svm_map q bl fl p sz evs) = discard (clEnqueueSVMMap cl q bl fl p sz evs)"
| "run_call cl (Enqueue_svm_unmap q p evs) = discard (clEnqueueSVMUnmap cl q p evs)"
| "run_call cl (Retain_kernel k) = discard (clRetainKernel cl k)"
| "run_call cl (Release_kernel k) = discard (clReleaseKernel cl k)"
| "run_call cl (Set_kernel_arg k i sz v) = discard (clSetKernelArg cl k i sz v)"
| "run_call cl (Set_kernel_arg_svm k i p) = discard (clSetKernelArgSVMPointer cl k i p)"
| "run_call cl (Enqueue_task q k evs) = discard (clEnqueueTask cl q k evs)"
| "run_call cl (Enqueue_native_kernel q f as ms ls evs) = discard (clEnqueueNativeKernel cl q f as ms ls evs)"
| "run_call cl (Get_profiling_info v n) = discard (clGetEventProfilingInfo cl v n)"
| "run_call cl (Retain_event v) = discard (clRetainEvent cl v)"
| "run_call cl (Release_event v) = discard (clReleaseEvent cl v)"
| "run_call cl (Read_buffer q b bl off sz evs) = discard (clEnqueueReadBuffer cl q b bl off sz evs)"
| "run_call cl (Write_buffer q b bl off sz p evs) = discard (clEnqueueWriteBuffer cl q b bl off sz p evs)"
| "run_call cl (Fill_buffer q b pat off sz evs) = discard (clEnqueueFillBuffer cl q b pat off sz evs)"
| "run_call cl (Copy_buffer q b c o1 o2 sz evs) = discard (clEnqueueCopyBuffer cl q b c o1 o2 sz evs)"
| "run_call cl (Read_image q b bl o3 r3 rp sp evs) = discard (clEnqueueReadImage cl q b bl o3 r3 rp sp evs)"
| "run_call cl (Write_image q b bl o3 r3 rp sp p evs) = discard (clEnqueueWriteImage cl q b bl o3 r3 rp sp p evs)"
| "run_call cl (Fill_image q b col o3 r3 evs) = discard (clEnqueueFillImage cl q b col o3 r3 evs)"
| "run_call cl (Copy_image q b c o3 d3 r3 evs) = discard (clEnqueueCopyImage cl q b c o3 d3 r3 evs)"
| "run_call cl (Copy_image_to_buffer q b c o3 r3 off evs) = discard (clEnqueueCopyImageToBuffer cl q b c o3 r3 off evs)"
| "run_call cl (Copy_buffer_to_image q b c off o3 r3 evs) = discard (clEnqueueCopyBufferToImage cl q b c off o3 r3 evs)"
| "run_call cl (Read_buffer_rect q b bl o3 h3 r3 rp sp hrp hsp evs) =
     discard (clEnqueueReadBufferRect cl q b bl o3 h3 r3 rp sp hrp hsp evs)"
| "run_call cl (Write_buffer_rect q b bl o3 h3 r3 rp sp hrp hsp p evs) =
     discard (clEnqueueWriteBufferRect cl q b bl o3 h3 r3 rp sp hrp hsp p evs)"
| "run_call cl (Copy_buffer_rect q b c o3 d3 r3 rp sp drp dsp evs) =
     discard (clEnqueueCopyBufferRect cl q b c o3 d3 r3 rp sp drp dsp evs)"

text \<open>The state when the library is loaded.\<close>

definition initial_state :: "'w \<Rightarrow> env \<Rightarrow> (ptr \<Rightarrow> u8) \<Rightarrow> u32 \<Rightarrow> 'w det" where
  "initial_state w e mem flags =
     \<lparr>world = w, environ = e, host_mem = mem, mobjs = Map.empty, svobjs = Map.empty, next_obj = 0,
      cl_mem_alloc = Map.empty, cl_svm_alloc = [], kern_list = [], evt_list = Map.empty,
      cmd_queue_cache = Map.empty, allocated_fg_svms = Map.empty, free_fg_svms = Map.empty,
      check_canary_kern = 0, check_canary_kern_no_svm = 0, check_img_canary_kern = 0,
      change_arrays = Map.empty, check_callbacks = [],
      stats_flags = flags, internal_create = False, canaryAccess = False, total_user_mem = 0,
      total_overhead_mem = 0, high_user_mem = 0, high_overhead_mem = 0, current_user_mem = 0,
      current_overhead_mem = 0, err_out = [], log_out = None, overflows_observed = 0\<rparr>"

section \<open>The invariant through a call\<close>

lemma initial_tables_ok: "tables_ok (initial_state w e mem flags)"
  by (simp add: initial_state_def tables_ok_def ok_defs)

lemma keeps_discard [keeps]: "preserves I B f \<Longrightarrow> preserves I B (discard f)"
  unfolding discard_def by (intro keeps)

lemma keeps_run_call: "keeps_tables (run_call cl c)"
  by (cases c) (simp_all add: keeps)

end
