(* ===== verification/Universal_Copy.thy ===== *)
theory Universal_Copy
  imports Check_Utils Interceptor_Memory Interceptor_Images
begin

text \<open>
  Copies of memory objects that may belong to other contexts than the queue:
  \<open>src/universal_copy/cl_buffer_copy.c\<close>, \<open>cl_image_copy.c\<close>, \<open>cl_image_to_buffer.c\<close> and
  \<open>universal_copy.c\<close>. The commands go through the tool's own wrappers. Within the context of the queue a
  copy is one command; within one other context it is made on a queue of that context; between contexts
  it goes through memory of the host.

  Where the code is given an address for the event, the functions here return what is stored there;
  \<open>want\<close> tells whether the address is not NULL. The event a command was to write is \<open>None\<close> when the
  wrapper stopped the command.
\<close>

section \<open>Steps the three kinds of copy share\<close>

text \<open>
  \<open>clGetMemObjectInfo\<close> into a variable that holds nothing yet; \<open>check_cl_error\<close>; the variable is read.
\<close>

definition mem_info :: "'w ocl \<Rightarrow> cl_mem \<Rightarrow> cl_mem_info \<Rightarrow> ('w det, u64) prog" where
  "mem_info cl b param =
     andThen (clGetMemObjectInfo cl b param (Some [])) (\<lambda>(err, v).
     andThen (check_cl_error err) (\<lambda>_. read_val v))"

text \<open>A copy on the cached queue of a context, or on a new one that is released again.\<close>

definition on_queue_of ::
  "'w ocl \<Rightarrow> cl_context \<Rightarrow> (cl_command_queue \<Rightarrow> ('w det, cl_event option) prog) \<Rightarrow> ('w det, cl_event) prog" where
  "on_queue_of cl context copy =
     andThen (getCommandQueueForContext cl context) (\<lambda>(found, q).
     andThen (copy q) (\<lambda>ev.
     andThen (written_event ev) (\<lambda>e.
     andThen (if found then ret () else andThen (clReleaseCommandQueue cl q) check_cl_error) (\<lambda>_.
     ret e))))"

definition wait_for :: "'w ocl \<Rightarrow> evts \<Rightarrow> ('w det, unit) prog" where
  "wait_for cl evs = andThen (call (rt_WaitForEvents cl evs)) check_cl_error"

text \<open>
  The first leg of a copy between contexts, to the host, and the second one, from the host. The queue
  is used for a leg in its own context. \<open>from_host\<close> gives the event of the command and the one the
  caller gets.
\<close>

definition to_host ::
  "'w ocl \<Rightarrow> cl_command_queue \<Rightarrow> bool \<Rightarrow> cl_context \<Rightarrow>
    (cl_command_queue \<Rightarrow> evts \<Rightarrow> ('w det, cl_event option) prog) \<Rightarrow> evts \<Rightarrow> ('w det, cl_event option) prog" where
  "to_host cl q own_context context copy evs =
     (if own_context then copy q evs
      else andThen (wait_for cl evs) (\<lambda>_.
           andThen (on_queue_of cl context (\<lambda>q'. copy q' [])) (\<lambda>e. ret (Some e))))"

definition from_host ::
  "'w ocl \<Rightarrow> cl_command_queue \<Rightarrow> cl_context \<Rightarrow> cl_context \<Rightarrow>
    (cl_command_queue \<Rightarrow> evts \<Rightarrow> ('w det, cl_event option) prog) \<Rightarrow> bool \<Rightarrow>
    ('w det, cl_event \<times> cl_event option) prog" where
  "from_host cl q sample_ctx context copy want =
     (if sample_ctx = context
      then andThen (copy q []) (\<lambda>ev.
           andThen (written_event ev) (\<lambda>e. ret (e, if want then Some e else None)))
      else andThen (on_queue_of cl context (\<lambda>q'. copy q' [])) (\<lambda>e.
           andThen (wait_for cl [e]) (\<lambda>_.
           if want
           then andThen (create_complete_user_event cl sample_ctx) (\<lambda>u. ret (e, Some u))
           else ret (e, None))))"

text \<open>The host memory is freed by a callback of the last command; the temporary objects are released.\<close>

definition clean_up_copy :: "'w ocl \<Rightarrow> cl_event \<Rightarrow> cl_mem \<Rightarrow> cl_mem \<Rightarrow> ('w det, unit) prog" where
  "clean_up_copy cl jump2 temp_buff1 temp_buff2 =
     andThen (call (rt_SetEventCallback cl jump2)) (\<lambda>err.
     andThen (check_cl_error err) (\<lambda>_.
     andThen (clReleaseMemObject cl temp_buff1) (\<lambda>err1.
     andThen (check_cl_error err1) (\<lambda>_.
     andThen (clReleaseMemObject cl temp_buff2) check_cl_error))))"

definition through_host_flags :: "cl_mem_flags \<Rightarrow> cl_mem_flags" where
  "through_host_flags flags =
     insert CL_MEM_USE_HOST_PTR flags - {CL_MEM_ALLOC_HOST_PTR, CL_MEM_COPY_HOST_PTR}"

text \<open>A buffer over the temporary host memory.\<close>

definition temp_buffer ::
  "'w ocl \<Rightarrow> cl_context \<Rightarrow> cl_mem_flags \<Rightarrow> u64 \<Rightarrow> ptr \<Rightarrow> ('w det, cl_mem) prog" where
  "temp_buffer cl context flags sz host_ptr =
     andThen (clCreateBuffer cl context flags sz host_ptr (Some CL_SUCCESS)) (\<lambda>(b, err).
     andThen (check_cl_error (the err)) (\<lambda>_. ret b))"

text \<open>
  The choice of the way: all in one context; source and destination in one other context; or not. The
  address of the event is set to NULL first, and keeps that value when a command of the first kind is
  stopped.
\<close>

definition choose_copy ::
  "'w ocl \<Rightarrow> cl_command_queue \<Rightarrow> cl_context \<Rightarrow> cl_context \<Rightarrow> cl_context \<Rightarrow>
    (cl_command_queue \<Rightarrow> evts \<Rightarrow> ('w det, cl_event option) prog) \<Rightarrow> ('w det, cl_event option) prog \<Rightarrow>
    evts \<Rightarrow> bool \<Rightarrow> ('w det, cl_event option) prog" where
  "choose_copy cl q sample_ctx to_ctx from_ctx copy between evs want =
     (if sample_ctx = to_ctx \<and> to_ctx = from_ctx
      then andThen (copy q evs) (\<lambda>ev.
           ret (if want then Some (case ev of None \<Rightarrow> 0 | Some e \<Rightarrow> e) else None))
      else if to_ctx = from_ctx
      then andThen (wait_for cl evs) (\<lambda>_.
           andThen (on_queue_of cl to_ctx (\<lambda>q'. copy q' [])) (\<lambda>e.
           andThen (convertEvents cl sample_ctx [e]) (\<lambda>es.
           ret (if want then Some (hd es) else None))))
      else between)"

section \<open>\<open>cl_buffer_copy.c\<close>\<close>

definition straight_buffer_copy ::
  "'w ocl \<Rightarrow> cl_command_queue \<Rightarrow> cl_mem \<Rightarrow> cl_mem \<Rightarrow> u64 \<Rightarrow> u64 \<Rightarrow> u64 \<Rightarrow> evts \<Rightarrow>
    ('w det, cl_event option) prog" where
  "straight_buffer_copy cl q from to off_from off_to sz evs =
     andThen (clEnqueueCopyBuffer cl q from to off_from off_to sz evs) (\<lambda>(err, ev).
     andThen (check_cl_error err) (\<lambda>_. ret ev))"

definition new_queue_buffer_copy ::
  "'w ocl \<Rightarrow> cl_context \<Rightarrow> cl_mem \<Rightarrow> cl_mem \<Rightarrow> u64 \<Rightarrow> u64 \<Rightarrow> u64 \<Rightarrow> evts \<Rightarrow> ('w det, cl_event) prog" where
  "new_queue_buffer_copy cl context from to off_from off_to sz evs =
     on_queue_of cl context (\<lambda>q. straight_buffer_copy cl q from to off_from off_to sz evs)"

definition copy_between_contexts ::
  "'w ocl \<Rightarrow> cl_command_queue \<Rightarrow> cl_mem \<Rightarrow> cl_mem \<Rightarrow> u64 \<Rightarrow> u64 \<Rightarrow> u64 \<Rightarrow> cl_context \<Rightarrow> evts \<Rightarrow> bool \<Rightarrow>
    ('w det, cl_event option) prog" where
  "copy_between_contexts cl q from to off_from off_to sz sample_ctx evs want =
     andThen (mem_info cl from CL_MEM_FLAGS) (\<lambda>from_flags.
     andThen (mem_info cl to CL_MEM_CONTEXT) (\<lambda>to_context.
     andThen (mem_info cl from CL_MEM_CONTEXT) (\<lambda>from_context.
     andThen (call (malloc cl sz)) (\<lambda>temp_host_ptr.
     andThen (temp_buffer cl from_context (through_host_flags (mem_flags_of cl from_flags)) sz temp_host_ptr)
       (\<lambda>temp_buff1.
     andThen (to_host cl q (sample_ctx = from_context) from_context
       (\<lambda>q'. straight_buffer_copy cl q' from temp_buff1 off_from 0 sz) evs) (\<lambda>jump1.
     andThen (temp_buffer cl to_context (through_host_flags (mem_flags_of cl from_flags)) sz temp_host_ptr)
       (\<lambda>temp_buff2.
     andThen (written_event jump1) (\<lambda>j1.
     andThen (wait_for cl [j1]) (\<lambda>_.
     andThen (from_host cl q sample_ctx to_context
       (\<lambda>q'. straight_buffer_copy cl q' temp_buff2 to 0 off_to sz) want) (\<lambda>(jump2, out).
     andThen (clean_up_copy cl jump2 temp_buff1 temp_buff2) (\<lambda>_.
     ret out)))))))))))"

definition inner_buffer_copy ::
  "'w ocl \<Rightarrow> cl_command_queue \<Rightarrow> cl_mem \<Rightarrow> cl_mem \<Rightarrow> u64 \<Rightarrow> u64 \<Rightarrow> u64 \<Rightarrow> evts \<Rightarrow> bool \<Rightarrow>
    ('w det, cl_event option) prog" where
  "inner_buffer_copy cl q from to off_from off_to sz evs want =
     andThen (mem_info cl to CL_MEM_CONTEXT) (\<lambda>to_context.
     andThen (mem_info cl from CL_MEM_CONTEXT) (\<lambda>from_context.
     andThen (query (q_queue_context cl q)) (\<lambda>(err, sample_ctx).
     andThen (check_cl_error err) (\<lambda>_.
     choose_copy cl q sample_ctx to_context from_context
       (\<lambda>q'. straight_buffer_copy cl q' from to off_from off_to sz)
       (copy_between_contexts cl q from to off_from off_to sz sample_ctx evs want) evs want))))"

definition cl_buffer_copy ::
  "'w ocl \<Rightarrow> cl_command_queue \<Rightarrow> cl_mem \<Rightarrow> cl_mem \<Rightarrow> u64 \<Rightarrow> u64 \<Rightarrow> u64 \<Rightarrow> evts \<Rightarrow> bool \<Rightarrow>
    ('w det, cl_event option) prog" where
  "cl_buffer_copy cl q from to off_from off_to sz evs want =
     inner_buffer_copy cl q from to off_from off_to sz evs want"

section \<open>\<open>cl_image_copy.c\<close>\<close>

definition straight_image_copy ::
  "'w ocl \<Rightarrow> cl_command_queue \<Rightarrow> cl_mem \<Rightarrow> cl_mem \<Rightarrow> vec3 \<Rightarrow> vec3 \<Rightarrow> vec3 \<Rightarrow> evts \<Rightarrow>
    ('w det, cl_event option) prog" where
  "straight_image_copy cl q src dst src_origin dst_origin region evs =
     andThen (clEnqueueCopyImage cl q src dst src_origin dst_origin region evs) (\<lambda>(err, ev).
     andThen (check_cl_error err) (\<lambda>_. ret ev))"

definition new_queue_image_copy ::
  "'w ocl \<Rightarrow> cl_context \<Rightarrow> cl_mem \<Rightarrow> cl_mem \<Rightarrow> vec3 \<Rightarrow> vec3 \<Rightarrow> vec3 \<Rightarrow> evts \<Rightarrow> ('w det, cl_event) prog" where
  "new_queue_image_copy cl context src dst src_origin dst_origin region evs =
     on_queue_of cl context (\<lambda>q. straight_image_copy cl q src dst src_origin dst_origin region evs)"

text \<open>
  The host memory has one byte for each element of the region, whatever the size of an element. The
  temporary images are 3-dimensional.
\<close>

definition volume :: "vec3 \<Rightarrow> u64" where
  "volume region = (case region of (w, h, d) \<Rightarrow> w * h * d)"

definition temp_image_desc :: "vec3 \<Rightarrow> cl_image_desc" where
  "temp_image_desc region = (case region of (w, h, d) \<Rightarrow>
     \<lparr>image_type = CL_MEM_OBJECT_IMAGE3D, image_width = w, image_height = h, image_depth = d,
      image_array_size = 1, image_row_pitch = 0, image_slice_pitch = 0, num_mip_levels = 0,
      num_samples = 0, image_buffer = 0\<rparr>)"

definition temp_image ::
  "'w ocl \<Rightarrow> cl_context \<Rightarrow> cl_mem_flags \<Rightarrow> cl_image_format \<Rightarrow> vec3 \<Rightarrow> ptr \<Rightarrow> ('w det, cl_mem) prog" where
  "temp_image cl context flags fmt region host_ptr =
     andThen (clCreateImage cl context flags fmt (temp_image_desc region) host_ptr (Some CL_SUCCESS))
       (\<lambda>(b, err).
     andThen (check_cl_error (the err)) (\<lambda>_. ret b))"

definition copy_image_between_contexts ::
  "'w ocl \<Rightarrow> cl_command_queue \<Rightarrow> cl_mem \<Rightarrow> cl_mem \<Rightarrow> vec3 \<Rightarrow> vec3 \<Rightarrow> vec3 \<Rightarrow> cl_context \<Rightarrow> cl_memobj \<Rightarrow>
    cl_memobj \<Rightarrow> evts \<Rightarrow> bool \<Rightarrow> ('w det, cl_event option) prog" where
  "copy_image_between_contexts cl q src dst src_origin dst_origin region sample_ctx from_info to_info evs want =
     andThen (call (malloc cl (volume region))) (\<lambda>temp_host_ptr.
     andThen (temp_image cl (m_context from_info) (through_host_flags (m_flags from_info))
       (m_image_format from_info) region temp_host_ptr) (\<lambda>temp_buff1.
     andThen (to_host cl q (sample_ctx = m_context from_info) (m_context from_info)
       (\<lambda>q'. straight_image_copy cl q' src temp_buff1 src_origin (0, 0, 0) region) evs) (\<lambda>jump1.
     andThen (temp_image cl (m_context to_info) (through_host_flags (m_flags from_info))
       (m_image_format from_info) region temp_host_ptr) (\<lambda>temp_buff2.
     andThen (written_event jump1) (\<lambda>j1.
     andThen (wait_for cl [j1]) (\<lambda>_.
     andThen (from_host cl q sample_ctx (m_context to_info)
       (\<lambda>q'. straight_image_copy cl q' temp_buff2 dst (0, 0, 0) dst_origin region) want) (\<lambda>(jump2, out).
     andThen (clean_up_copy cl jump2 temp_buff1 temp_buff2) (\<lambda>_.
     ret out))))))))"

text \<open>Both objects must be in the table.\<close>

definition find_regions ::
  "cl_mem \<Rightarrow> cl_mem \<Rightarrow> ('w det, cl_memobj \<times> cl_memobj) prog" where
  "find_regions dst src =
     andThen (lookup_mobj dst) (\<lambda>to_info.
     andThen (lookup_mobj src) (\<lambda>from_info.
       case (to_info, from_info) of
         (Some (_, t), Some (_, f)) \<Rightarrow> ret (t, f)
       | _ \<Rightarrow> andThen (put_err (Regions_missing (to_info = None) (from_info = None))) (\<lambda>_. fail (Exit (-1)))))"

definition inner_image_copy ::
  "'w ocl \<Rightarrow> cl_command_queue \<Rightarrow> cl_mem \<Rightarrow> cl_mem \<Rightarrow> vec3 \<Rightarrow> vec3 \<Rightarrow> vec3 \<Rightarrow> evts \<Rightarrow> bool \<Rightarrow>
    ('w det, cl_event option) prog" where
  "inner_image_copy cl q src dst src_origin dst_origin region evs want =
     andThen (find_regions dst src) (\<lambda>(to_info, from_info).
     andThen (query (q_queue_context cl q)) (\<lambda>(err, sample_ctx).
     andThen (check_cl_error err) (\<lambda>_.
     choose_copy cl q sample_ctx (m_context to_info) (m_context from_info)
       (\<lambda>q'. straight_image_copy cl q' src dst src_origin dst_origin region)
       (copy_image_between_contexts cl q src dst src_origin dst_origin region sample_ctx from_info to_info
         evs want) evs want)))"

definition cl_image_copy ::
  "'w ocl \<Rightarrow> cl_command_queue \<Rightarrow> cl_mem \<Rightarrow> cl_mem \<Rightarrow> vec3 \<Rightarrow> vec3 \<Rightarrow> vec3 \<Rightarrow> evts \<Rightarrow> bool \<Rightarrow>
    ('w det, cl_event option) prog" where
  "cl_image_copy cl q src dst src_origin dst_origin region evs want =
     inner_image_copy cl q src dst src_origin dst_origin region evs want"

section \<open>\<open>cl_image_to_buffer.c\<close>\<close>

definition straight_image_to_buffer_copy ::
  "'w ocl \<Rightarrow> cl_command_queue \<Rightarrow> cl_mem \<Rightarrow> cl_mem \<Rightarrow> vec3 \<Rightarrow> vec3 \<Rightarrow> u64 \<Rightarrow> evts \<Rightarrow>
    ('w det, cl_event option) prog" where
  "straight_image_to_buffer_copy cl q src dst src_origin region dst_offset evs =
     andThen (clEnqueueCopyImageToBuffer cl q src dst src_origin region dst_offset evs) (\<lambda>(err, ev).
     andThen (check_cl_error err) (\<lambda>_. ret ev))"

definition new_queue_image_to_buffer_copy ::
  "'w ocl \<Rightarrow> cl_context \<Rightarrow> cl_mem \<Rightarrow> cl_mem \<Rightarrow> vec3 \<Rightarrow> vec3 \<Rightarrow> u64 \<Rightarrow> evts \<Rightarrow> ('w det, cl_event) prog" where
  "new_queue_image_to_buffer_copy cl context src dst src_origin region dst_offset evs =
     on_queue_of cl context (\<lambda>q. straight_image_to_buffer_copy cl q src dst src_origin region dst_offset evs)"

text \<open>The number of elements is taken for the number of bytes.\<close>

definition copy_i_to_b_between_contexts ::
  "'w ocl \<Rightarrow> cl_command_queue \<Rightarrow> cl_mem \<Rightarrow> cl_mem \<Rightarrow> vec3 \<Rightarrow> vec3 \<Rightarrow> u64 \<Rightarrow> cl_context \<Rightarrow> cl_memobj \<Rightarrow>
    cl_memobj \<Rightarrow> evts \<Rightarrow> bool \<Rightarrow> ('w det, cl_event option) prog" where
  "copy_i_to_b_between_contexts cl q src dst src_origin region dst_offset sample_ctx from_info to_info evs want =
     andThen (call (malloc cl (volume region))) (\<lambda>temp_host_ptr.
     andThen (temp_buffer cl (m_context from_info) (through_host_flags (m_flags from_info)) (volume region)
       temp_host_ptr) (\<lambda>temp_buff1.
     andThen (to_host cl q (sample_ctx = m_context from_info) (m_context from_info)
       (\<lambda>q'. straight_image_to_buffer_copy cl q' src temp_buff1 src_origin region 0) evs) (\<lambda>jump1.
     andThen (temp_buffer cl (m_context to_info) (through_host_flags (m_flags from_info)) (volume region)
       temp_host_ptr) (\<lambda>temp_buff2.
     andThen (written_event jump1) (\<lambda>j1.
     andThen (wait_for cl [j1]) (\<lambda>_.
     andThen (from_host cl q sample_ctx (m_context to_info)
       (\<lambda>q'. straight_buffer_copy cl q' temp_buff2 dst 0 dst_offset (volume region)) want) (\<lambda>(jump2, out).
     andThen (clean_up_copy cl jump2 temp_buff1 temp_buff2) (\<lambda>_.
     ret out))))))))"

definition inner_image_to_buffer_copy ::
  "'w ocl \<Rightarrow> cl_command_queue \<Rightarrow> cl_mem \<Rightarrow> cl_mem \<Rightarrow> vec3 \<Rightarrow> vec3 \<Rightarrow> u64 \<Rightarrow> evts \<Rightarrow> bool \<Rightarrow>
    ('w det, cl_event option) prog" where
  "inner_image_to_buffer_copy cl q src dst src_origin region dst_offset evs want =
     andThen (find_regions dst src) (\<lambda>(to_info, from_info).
     andThen (query (q_queue_context cl q)) (\<lambda>(err, sample_ctx).
     andThen (check_cl_error err) (\<lambda>_.
     choose_copy cl q sample_ctx (m_context to_info) (m_context from_info)
       (\<lambda>q'. straight_image_to_buffer_copy cl q' src dst src_origin region dst_offset)
       (copy_i_to_b_between_contexts cl q src dst src_origin region dst_offset sample_ctx from_info to_info
         evs want) evs want)))"

definition cl_image_to_buffer_copy ::
  "'w ocl \<Rightarrow> cl_command_queue \<Rightarrow> cl_mem \<Rightarrow> cl_mem \<Rightarrow> vec3 \<Rightarrow> vec3 \<Rightarrow> u64 \<Rightarrow> evts \<Rightarrow> bool \<Rightarrow>
    ('w det, cl_event option) prog" where
  "cl_image_to_buffer_copy cl q src dst src_origin region dst_offset evs want =
     inner_image_to_buffer_copy cl q src dst src_origin region dst_offset evs want"

end
