(* ===== verification/Gpu_Check_Utils.thy ===== *)
theory Gpu_Check_Utils
  imports Universal_Copy Cpu_Check Interceptor_Kernels
begin

text \<open>
  What the device checks share: \<open>src/gpu_check/gpu_check_utils.c\<close>, the argument helpers of
  \<open>cl_utils.c\<close> and \<open>print_program_build_err\<close> of \<open>cl_err.c\<close>. The canaries are compared by a checker
  kernel on the device; its results, one 32-bit number for each buffer (\<open>INT_MAX\<close>: nothing changed),
  are read back without waiting, and reported by a callback when the read has completed
  (\<open>KERN_CALLBACK\<close>). A callback that is registered is appended to \<open>check_callbacks\<close>;
  \<open>run_checker_callback\<close> is what the runtime does with it later. On NVIDIA platforms the tool waits
  and reports at once. The timing of the check (\<open>STATS_CHECKER_TIME\<close>) is left out.
\<close>

section \<open>Arguments of the checker kernels\<close>

definition bytes_of_u32 :: "u32 \<Rightarrow> u8 list" where
  "bytes_of_u32 w = map (\<lambda>i. ucast (drop_bit (8 * i) w)) [0..<4]"

definition cl_set_arg_and_check :: "'w ocl \<Rightarrow> cl_kernel \<Rightarrow> u32 \<Rightarrow> u8 list \<Rightarrow> ('w det, unit) prog" where
  "cl_set_arg_and_check cl kern arg_index arg_value =
     andThen (clSetKernelArg cl kern arg_index (of_nat (length arg_value)) (Some arg_value)) check_cl_error"

definition cl_set_svm_arg_and_check :: "'w ocl \<Rightarrow> cl_kernel \<Rightarrow> u32 \<Rightarrow> ptr \<Rightarrow> ('w det, unit) prog" where
  "cl_set_svm_arg_and_check cl kern arg_index arg_value =
     andThen (clSetKernelArgSVMPointer cl kern arg_index arg_value) check_cl_error"

definition setup_ocl_args ::
  "cl_command_queue \<Rightarrow> cl_kernel \<Rightarrow> u32 \<Rightarrow> u64 list option \<Rightarrow> u64 list option \<Rightarrow> u64 list option \<Rightarrow> evts \<Rightarrow> bool \<Rightarrow>
    launchOclKernelStruct" where
  "setup_ocl_args q kern work_dim offset global_work local_work kern_wait out_evt =
     \<lparr>la_command_queue = q, la_kernel = kern, la_work_dim = work_dim, la_global_work_offset = offset,
      la_global_work_size = global_work, la_local_work_size = local_work,
      la_event_wait_list = kern_wait, la_event = out_evt\<rparr>"

text \<open>
  The device of the context: the query is given room for one device, its result is not looked at, and
  with several devices it stores nothing. Then the size of a work group, which is 1 if the query
  stores nothing.
\<close>

definition work_group_size :: "'w ocl \<Rightarrow> cl_context \<Rightarrow> cl_kernel \<Rightarrow> ('w det, u64) prog" where
  "work_group_size cl kern_ctx check_kern =
     andThen (query (q_context_devices cl kern_ctx)) (\<lambda>(_, devices). case devices of
         [dev_id] \<Rightarrow> andThen (query (q_kernel_work_group_size cl check_kern dev_id)) (\<lambda>vals.
           ret (first_val 1 vals))
       | _ \<Rightarrow> fail Out_of_bounds)"

section \<open>\<open>copy_image_canaries\<close>\<close>

text \<open>The events of the copies go into an array of this many elements, at computed places.\<close>

definition number_of_copy_events :: "image_dims \<Rightarrow> u32" where
  "number_of_copy_events d =
     (if 1 < k_lim d then k_dat d * j_dat d + k_dat d + 1
      else if 1 < j_lim d then k_dat d * j_dat d + k_dat d
      else k_dat d * j_dat d)"

text \<open>One copy: the 64-bit offset of the read is cut to 32 bits when the offset of the image is added.\<close>

definition copy_canary_part ::
  "'w ocl \<Rightarrow> cl_command_queue \<Rightarrow> cl_memobj \<Rightarrow> cl_mem \<Rightarrow> u32 \<Rightarrow> cl_event \<Rightarrow> u32 \<Rightarrow> canary_read \<Rightarrow>
    ('w det, u32 \<times> cl_event) prog" where
  "copy_canary_part cl q img dst_buff offset evt slot r = (case r of (origin, region, off) \<Rightarrow>
     andThen (cl_image_to_buffer_copy cl q (m_handle img) dst_buff origin region
       (ucast (ucast (ucast offset + off) :: u32)) [evt] True) (\<lambda>ev.
       if slot < number_of_copy_events (get_image_dimensions (m_image_desc img))
       then ret (slot, the ev) else fail Out_of_bounds))"

definition copy_image_canaries ::
  "'w ocl \<Rightarrow> cl_command_queue \<Rightarrow> cl_memobj \<Rightarrow> cl_mem \<Rightarrow> u32 \<Rightarrow> cl_event \<Rightarrow> ('w det, cl_event) prog" where
  "copy_image_canaries cl q img dst_buff offset evt =
     (let d = get_image_dimensions (m_image_desc img);
          data_size = ucast (getImageDataSize (m_image_format img));
          copy = copy_canary_part cl q img dst_buff offset evt
      in andThen (mapM (\<lambda>k.
             andThen (if 1 < i_lim d
               then mapM (\<lambda>j. copy (k * (j_dat d + 1) + j) (end_of_row d data_size j k)) (upto32 (j_dat d))
               else ret []) (\<lambda>rows.
             andThen (if 1 < j_lim d
               then mapM (copy (k * (j_dat d + 1) + j_dat d)) [end_of_slice d data_size k]
               else ret []) (\<lambda>last_rows.
             ret (rows @ last_rows)))) (upto32 (k_dat d))) (\<lambda>slices.
         andThen (if 1 < k_lim d
           then mapM (copy (k_dat d * (j_dat d + 1))) [canary_slice d data_size] else ret []) (\<lambda>last_slices.
           case those (fold (\<lambda>(slot, e) arr. arr[unat slot := Some e]) (concat slices @ last_slices)
               (replicate (unat (number_of_copy_events d)) None)) of
             None \<Rightarrow> fail Out_of_bounds
           | Some events \<Rightarrow>
               andThen (call (rt_EnqueueMarkerWithWaitList cl q events)) (\<lambda>(err, copyFinish).
               andThen (check_cl_error err) (\<lambda>_. ret copyFinish)))))"

section \<open>Reports\<close>

text \<open>The results are \<open>int\<close>s: anything below \<open>INT_MAX\<close> is a change.\<close>

definition changed :: "u32 \<Rightarrow> bool" where
  "changed w \<longleftrightarrow> sint w < INT_MAX"

definition report_kernel_overflows ::
  "'w ocl \<Rightarrow> (u32 \<times> ptr) list \<Rightarrow> kernel_info \<Rightarrow> u32 list \<Rightarrow> string option \<Rightarrow> ('w det, unit) prog" where
  "report_kernel_overflows cl results kern_info dupe backtrace_str =
     andThen (forM results (\<lambda>(first_change, buffer).
       if changed first_change then overflowError cl kern_info buffer first_change backtrace_str else ret ()))
       (\<lambda>_.
     if \<exists>r \<in> set results. changed (fst r)
     then andThen (printDupeWarning cl (ki_handle kern_info) dupe) (\<lambda>_.
          andThen (gets (\<lambda>s. get_exitcode_envvar (environ s))) optionalKillOnOverflow)
     else ret ())"

text \<open>The results of a check, in the array of the \<open>verif_info\<close>.\<close>

definition read_changes :: "nat \<Rightarrow> ('w det, u32 list) prog" where
  "read_changes a = andThen (gets (\<lambda>s. change_arrays s a)) (\<lambda>r. case r of
       None \<Rightarrow> fail Out_of_bounds | Some xs \<Rightarrow> ret xs)"

definition write_changes :: "nat \<Rightarrow> u32 list \<Rightarrow> ('w det, unit) prog" where
  "write_changes a xs = modify (\<lambda>s. s\<lparr>change_arrays := (change_arrays s)(a \<mapsto> xs)\<rparr>)"

definition new_changes :: "u32 list \<Rightarrow> ('w det, nat) prog" where
  "new_changes xs s =
     Inr (next_obj s, s\<lparr>change_arrays := (change_arrays s)(next_obj s \<mapsto> xs), next_obj := Suc (next_obj s)\<rparr>)"

definition later :: "checker_callback \<Rightarrow> ('w det, unit) prog" where
  "later c = modify (\<lambda>s. s\<lparr>check_callbacks := check_callbacks s @ [c]\<rparr>)"

definition verify_callback :: "'w ocl \<Rightarrow> kernel_info \<Rightarrow> verif_info \<Rightarrow> ('w det, unit) prog" where
  "verify_callback cl kern_info data =
     andThen (read_changes (vi_first_change data)) (\<lambda>first_change.
     andThen (if length (vi_argMap data) \<le> length first_change then ret () else fail Out_of_bounds) (\<lambda>_.
     andThen (report_kernel_overflows cl (zip first_change (vi_argMap data)) kern_info (vi_dupe data)
       (vi_backtrace_str data)) (\<lambda>_.
     andThen (clReleaseKernel cl (ki_handle kern_info)) (\<lambda>_.
       if vi_used_svm data = 0 then ret ()
       else
         andThen (query (q_queue_context cl (vi_cmd_queue data))) (\<lambda>(err, ctx).
         andThen (check_cl_error err) (\<lambda>_.
           if vi_used_svm_is_clmem data then releaseInternalMemObject cl (vi_used_svm data)
           else clSVMFree cl ctx (vi_used_svm data)))))))"

section \<open>The buffer of results\<close>

text \<open>One \<open>int\<close> for each canary or buffer, filled with \<open>INT_MAX\<close>.\<close>

definition create_result_buffer ::
  "'w ocl \<Rightarrow> cl_context \<Rightarrow> cl_command_queue \<Rightarrow> u32 \<Rightarrow> ('w det, cl_mem \<times> cl_event option) prog" where
  "create_result_buffer cl kern_ctx q num_buffers =
     andThen (clCreateBuffer cl kern_ctx {CL_MEM_READ_WRITE} (4 * ucast num_buffers) 0 (Some CL_SUCCESS))
       (\<lambda>(result, err).
     andThen (check_cl_error (the err)) (\<lambda>_.
     andThen (clEnqueueFillBuffer cl q result (bytes_of_u32 0x7FFFFFFF) 0 (4 * ucast num_buffers) [])
       (\<lambda>(err2, ev).
     andThen (check_cl_error err2) (\<lambda>_. ret (result, ev)))))"

definition get_change_buffer ::
  "'w ocl \<Rightarrow> cl_command_queue \<Rightarrow> u32 \<Rightarrow> cl_mem \<Rightarrow> evts \<Rightarrow> ('w det, nat \<times> cl_event) prog" where
  "get_change_buffer cl q num_buff result check_events =
     andThen (clEnqueueReadBuffer cl q result False 0 (4 * ucast num_buff) check_events) (\<lambda>(err, r).
     andThen (check_cl_error err) (\<lambda>_.
     andThen (written_read r) (\<lambda>(bytes, readback_evt).
     andThen (new_changes (map (word_at bytes) (upto32 num_buff))) (\<lambda>first_change.
     ret (first_change, readback_evt)))))"

text \<open>
  The array of duplicates is copied for the callback, and the kernel retained. The stack trace starts
  five levels up, at the application's call.
\<close>

definition analyze_check_results ::
  "'w ocl \<Rightarrow> cl_command_queue \<Rightarrow> cl_event \<Rightarrow> kernel_info \<Rightarrow> u32 \<Rightarrow> ptr list \<Rightarrow> ptr \<Rightarrow> bool \<Rightarrow> nat \<Rightarrow> u32 list \<Rightarrow>
    ('w det, unit) prog" where
  "analyze_check_results cl q readback_evt kern_info num_buffers buffer_ptrs used_svm used_svm_is_clmem
       first_change dupe =
     andThen (clRetainKernel cl (ki_handle kern_info)) (\<lambda>_.
     andThen (gets (\<lambda>s. get_print_backtrace_envvar (environ s))) (\<lambda>backtrace_wanted.
     andThen (query (q_kernel_num_args cl (ki_handle kern_info))) (\<lambda>(err, nargs).
     andThen (check_cl_error err) (\<lambda>_.
     andThen (query (q_queue_context cl q)) (\<lambda>(err2, kern_ctx).
     andThen (check_cl_error err2) (\<lambda>_.
     andThen (is_nvidia_platform cl kern_ctx) (\<lambda>nvidia.
       let data = \<lparr>vi_kern_info = ki_handle kern_info, vi_first_change = first_change,
         vi_argMap = take (unat num_buffers) buffer_ptrs, vi_cmd_queue = q, vi_used_svm = used_svm,
         vi_used_svm_is_clmem = used_svm_is_clmem, vi_dupe = take (unat nargs) dupe,
         vi_backtrace_str = (if backtrace_wanted \<noteq> 0 then backtrace cl 5 else None)\<rparr>
       in if \<not> nvidia
          then andThen (call (rt_SetEventCallback cl readback_evt)) (\<lambda>err3.
               andThen (check_cl_error err3) (\<lambda>_. later (Verify_callback readback_evt data)))
          else andThen (wait_for cl [readback_evt]) (\<lambda>_. verify_callback cl kern_info data))))))))"

text \<open>\<open>mend_this_canary\<close>: when errors end the process there is nothing to mend.\<close>

definition mend_this_canary ::
  "'w ocl \<Rightarrow> cl_context \<Rightarrow> cl_command_queue \<Rightarrow> ptr \<Rightarrow> cl_event \<Rightarrow> ('w det, cl_event) prog" where
  "mend_this_canary cl kern_ctx q handle copy_event =
     andThen (gets (\<lambda>s. get_error_envvar (environ s))) (\<lambda>kill.
       if kill = 0
       then andThen (mendCanaryRegion cl q handle False [copy_event] True) written_event
       else create_complete_user_event cl kern_ctx)"

section \<open>Checker kernels\<close>

definition print_program_build_err :: "'w ocl \<Rightarrow> cl_context \<Rightarrow> ptr \<Rightarrow> ('w det, unit) prog" where
  "print_program_build_err cl context prog =
     andThen (put_err Build_error) (\<lambda>_.
     andThen (query (q_context_devices cl context)) (\<lambda>(err, devices).
     andThen (check_cl_error err) (\<lambda>_. case devices of
         [] \<Rightarrow> put_err No_build_log
       | dev_id # _ \<Rightarrow>
           andThen (query (q_program_build_log cl prog dev_id)) (\<lambda>(err2, log).
           andThen (check_cl_error err2) (\<lambda>_. put_err (Build_log log))))))"

text \<open>The cached kernel is dropped (0) when it has another context or name.\<close>

definition check_if_same_kernel :: "'w ocl \<Rightarrow> cl_kernel \<Rightarrow> cl_context \<Rightarrow> string \<Rightarrow> ('w det, cl_kernel) prog" where
  "check_if_same_kernel cl kern context name =
     (if kern = 0 then ret 0
      else andThen (query (q_kernel_context cl kern)) (\<lambda>(_, last_ctx).
        if last_ctx \<noteq> context
        then andThen (clReleaseKernel cl kern) (\<lambda>_. ret 0)
        else
          andThen (query (q_kernel_name cl kern)) (\<lambda>(err, kernelName).
          andThen (check_cl_error err) (\<lambda>_.
          andThen (alloc_string cl kernelName) (\<lambda>_.
            if kernelName \<noteq> name
            then andThen (clReleaseKernel cl kern) (\<lambda>_. ret 0)
            else ret kern)))))"

definition get_kernel_for_context ::
  "'w ocl \<Rightarrow> cl_kernel \<Rightarrow> cl_context \<Rightarrow> string \<Rightarrow> checker_source \<Rightarrow> ('w det, cl_kernel) prog" where
  "get_kernel_for_context cl kernel0 context name src =
     andThen (check_if_same_kernel cl kernel0 context name) (\<lambda>kern.
       if kern \<noteq> 0 then ret kern
       else
         andThen (call (rt_CreateProgramWithSource cl context src)) (\<lambda>(prog, err).
         andThen (check_cl_error err) (\<lambda>_.
         andThen (call (rt_BuildProgram cl prog ''-cl-std=CL2.0'')) (\<lambda>err2.
         andThen (if err2 = CL_BUILD_PROGRAM_FAILURE then print_program_build_err cl context prog
           else ret ()) (\<lambda>_.
         andThen (check_cl_error err2) (\<lambda>_.
         andThen (call (rt_CreateKernel cl prog name)) (\<lambda>(new_kernel, err3).
         andThen (check_cl_error err3) (\<lambda>_.
         andThen (call (rt_ReleaseProgram cl prog)) (\<lambda>_.
         ret new_kernel)))))))))"

text \<open>The three cached kernels; the strategy selects the program.\<close>

definition get_canary_check_kernel :: "'w ocl \<Rightarrow> cl_context \<Rightarrow> ('w det, cl_kernel) prog" where
  "get_canary_check_kernel cl context =
     andThen (gets (\<lambda>s. (get_gpu_strat_envvar (environ s), check_canary_kern s))) (\<lambda>(strat, kern).
     andThen (if strat = GPU_MODE_SINGLE_BUFFER
       then get_kernel_for_context cl kern context ''locateDiffParts'' Single_buffer_src
       else if strat = GPU_MODE_MULTI_SVMPTR
       then get_kernel_for_context cl kern context ''locateDiffSVMPtr'' Buffer_and_ptr_copy_src
       else get_kernel_for_context cl kern context ''findCorruption'' Buffer_copy_canary_src) (\<lambda>new_kern.
     andThen (modify (\<lambda>s. s\<lparr>check_canary_kern := new_kern\<rparr>)) (\<lambda>_. ret new_kern)))"

definition get_canary_check_kernel_no_svm :: "'w ocl \<Rightarrow> cl_context \<Rightarrow> ('w det, cl_kernel) prog" where
  "get_canary_check_kernel_no_svm cl context =
     andThen (gets (\<lambda>s. (get_gpu_strat_envvar (environ s), check_canary_kern_no_svm s))) (\<lambda>(strat, kern).
     andThen (if strat = GPU_MODE_SINGLE_BUFFER
       then get_kernel_for_context cl kern context ''locateDiffParts'' Single_buffer_src
       else get_kernel_for_context cl kern context ''findCorruptionNoSVM'' Buffer_copy_canary_src) (\<lambda>new_kern.
     andThen (modify (\<lambda>s. s\<lparr>check_canary_kern_no_svm := new_kern\<rparr>)) (\<lambda>_. ret new_kern)))"

definition get_canary_check_kernel_image :: "'w ocl \<Rightarrow> cl_context \<Rightarrow> ('w det, cl_kernel) prog" where
  "get_canary_check_kernel_image cl context =
     andThen (gets check_img_canary_kern) (\<lambda>kern.
     andThen (get_kernel_for_context cl kern context ''findCorruption'' Image_copy_canary_src) (\<lambda>new_kern.
     andThen (modify (\<lambda>s. s\<lparr>check_img_canary_kern := new_kern\<rparr>)) (\<lambda>_. ret new_kern)))"

end
