(* ===== verification/Gpu_Check.thy ===== *)
theory Gpu_Check
  imports Gpu_Check_Utils Detector
begin

text \<open>
  The two strategies of the device check. \<open>src/gpu_check/copy_canary/\<close>: the canaries of all buffers
  are copied into one buffer, and one checker kernel looks at all of them.
  \<open>src/gpu_check/single_buffer/\<close>: one kernel for each canary, in place. In both, images are flattened
  by \<open>copy_image_canaries\<close>. The events the commands wait for are those the code passes.
\<close>

section \<open>\<open>copy_canary_cl_buffer.c\<close>\<close>

text \<open>The number of bytes of the canaries of \<open>n\<close> buffers, in 32 bits.\<close>

definition canary_bytes :: "u32 \<Rightarrow> u32" where
  "canary_bytes n = POISON_FILL_LENGTH * POISON_REGIONS * n"

definition found_mobj :: "ptr \<Rightarrow> ('w det, cl_memobj) prog" where
  "found_mobj p = andThen (lookup_mobj p) (\<lambda>r. case r of
       None \<Rightarrow> andThen (put_err Memobj_not_found) (\<lambda>_. fail (Exit (-1)))
     | Some (_, m1) \<Rightarrow> ret m1)"

definition found_svobj :: "ptr \<Rightarrow> ('w det, nat \<times> cl_svm_memobj) prog" where
  "found_svobj p = andThen (cl_svm_mem_find p) (\<lambda>r. case r of
       None \<Rightarrow> andThen (put_err Svm_memobj_not_found) (\<lambda>_. fail (Exit (-1)))
     | Some a \<Rightarrow> andThen (get_svobj a) (\<lambda>m1. ret (a, m1)))"

text \<open>The copies of the canaries of one buffer: their events, and the event of the mending.\<close>

definition copy_clmem_canaries ::
  "'w ocl \<Rightarrow> cl_context \<Rightarrow> cl_command_queue \<Rightarrow> cl_mem \<Rightarrow> cl_event \<Rightarrow> u32 \<times> ptr \<Rightarrow> ('w det, evts \<times> cl_event) prog" where
  "copy_clmem_canaries cl kern_ctx q copies evt ib = (case ib of (i, buffer) \<Rightarrow>
     andThen (found_mobj buffer) (\<lambda>m1.
     andThen (cl_buffer_copy cl q (m_main_buff m1) copies 0 (ucast (i * POISON_REGIONS * POISON_FILL_LENGTH))
       POISON_FILL_LENGTH [evt] True) (\<lambda>ev0.
     andThen (cl_buffer_copy cl q (m_main_buff m1) copies (canary_offset (m_size m1))
       (ucast ((i * POISON_REGIONS + 1) * POISON_FILL_LENGTH)) POISON_FILL_LENGTH [evt] True) (\<lambda>ev1.
     andThen (call (rt_EnqueueMarkerWithWaitList cl q [the ev0, the ev1])) (\<lambda>(_, copy_finish).
     andThen (mend_this_canary cl kern_ctx q (m_handle m1) copy_finish) (\<lambda>mend.
     ret ([the ev0, the ev1], mend)))))))"

definition create_clmem_copies ::
  "'w ocl \<Rightarrow> cl_context \<Rightarrow> cl_command_queue \<Rightarrow> ptr list \<Rightarrow> cl_event \<Rightarrow>
    ('w det, cl_mem \<times> (evts \<times> cl_event) list) prog" where
  "create_clmem_copies cl kern_ctx q buffer_ptrs evt =
     andThen (clCreateBuffer cl kern_ctx {} (ucast (canary_bytes (of_nat (length buffer_ptrs)))) 0
       (Some CL_SUCCESS)) (\<lambda>(copies, err).
     andThen (check_cl_error (the err)) (\<lambda>_.
     andThen (mapM (copy_clmem_canaries cl kern_ctx q copies evt)
       (zip (upto32 (of_nat (length buffer_ptrs))) buffer_ptrs)) (\<lambda>evs.
     ret (copies, evs))))"

definition copy_svm_canaries ::
  "'w ocl \<Rightarrow> cl_context \<Rightarrow> cl_command_queue \<Rightarrow> ptr \<Rightarrow> cl_event \<Rightarrow> u32 \<times> ptr \<Rightarrow> ('w det, evts \<times> cl_event) prog" where
  "copy_svm_canaries cl kern_ctx q copies evt ib = (case ib of (i, buffer) \<Rightarrow>
     andThen (found_svobj buffer) (\<lambda>(_, m1).
     andThen (call (rt_EnqueueSVMMemcpy cl q False
       (copies + ucast (i * POISON_REGIONS * POISON_FILL_LENGTH)) (sv_main_buff m1) POISON_FILL_LENGTH [evt]))
       (\<lambda>(err0, ev0).
     andThen (check_cl_error err0) (\<lambda>_.
     andThen (call (rt_EnqueueSVMMemcpy cl q False
       (copies + ucast ((i * POISON_REGIONS + 1) * POISON_FILL_LENGTH))
       (sv_main_buff m1 + canary_offset (sv_size m1)) POISON_FILL_LENGTH [evt])) (\<lambda>(err1, ev1).
     andThen (check_cl_error err1) (\<lambda>_.
     andThen (call (rt_EnqueueMarkerWithWaitList cl q [ev0, ev1])) (\<lambda>(_, copy_finish).
     andThen (mend_this_canary cl kern_ctx q (sv_handle m1) copy_finish) (\<lambda>mend.
     ret ([ev0, ev1], mend)))))))))"

definition create_svm_copies ::
  "'w ocl \<Rightarrow> cl_context \<Rightarrow> cl_command_queue \<Rightarrow> ptr list \<Rightarrow> cl_event \<Rightarrow>
    ('w det, ptr \<times> (evts \<times> cl_event) list) prog" where
  "create_svm_copies cl kern_ctx q svm_ptrs evt =
     andThen (clSVMAlloc cl kern_ctx {CL_MEM_READ_WRITE} (ucast (canary_bytes (of_nat (length svm_ptrs)))) 0)
       (\<lambda>copies.
     andThen (if copies = 0 then andThen (put_err Svm_alloc_failed) (\<lambda>_. fail (Exit (-1))) else ret ()) (\<lambda>_.
     andThen (found_svobj copies) (\<lambda>(a, _).
     andThen (set_svobj a (\<lambda>m. m\<lparr>sv_internal := True\<rparr>)) (\<lambda>_.
     andThen (mapM (copy_svm_canaries cl kern_ctx q copies evt)
       (zip (upto32 (of_nat (length svm_ptrs))) svm_ptrs)) (\<lambda>evs.
     ret (copies, evs))))))"

text \<open>The pointers to the canaries instead of their contents; one event, and completed ones beside it.\<close>

definition svm_canary_pointers :: "ptr \<Rightarrow> ('w det, ptr list) prog" where
  "svm_canary_pointers p =
     andThen (found_svobj p) (\<lambda>(_, m1). ret [sv_main_buff m1, sv_main_buff m1 + canary_offset (sv_size m1)])"

definition create_svm_ptr_copies ::
  "'w ocl \<Rightarrow> cl_context \<Rightarrow> cl_command_queue \<Rightarrow> ptr list \<Rightarrow> cl_event \<Rightarrow> ('w det, cl_mem \<times> evts) prog" where
  "create_svm_ptr_copies cl kern_ctx q svm_ptrs evt =
     (let n = 2 * length svm_ptrs; bytes = 8 * of_nat n
      in andThen (clCreateBuffer cl kern_ctx {} bytes 0 (Some CL_SUCCESS)) (\<lambda>(temp_ptr, err).
         andThen (check_cl_error (the err)) (\<lambda>_.
         andThen (mapM svm_canary_pointers svm_ptrs) (\<lambda>ptrs.
         andThen (clEnqueueWriteBuffer cl q temp_ptr False 0 bytes
           (Host_bytes (concat (map bytes_of_u64 (concat ptrs)))) [evt]) (\<lambda>(err2, ev0).
         andThen (check_cl_error err2) (\<lambda>_.
         andThen (mapM (\<lambda>_. create_complete_user_event cl kern_ctx) [1..<n]) (\<lambda>others.
         andThen (written_event ev0) (\<lambda>e0. ret (temp_ptr, e0 # others)))))))))"

text \<open>
  The launch of the checker kernel: twice as many work items as there are words. The event that is
  returned covers the mending too, unless errors end the process.
\<close>

definition perform_cl_buffer_checks ::
  "'w ocl \<Rightarrow> cl_context \<Rightarrow> cl_command_queue \<Rightarrow> u32 \<Rightarrow> u32 \<Rightarrow> cl_mem \<Rightarrow> ptr \<Rightarrow> bool \<Rightarrow> evts \<Rightarrow> evts \<Rightarrow> cl_mem \<Rightarrow>
    ('w det, cl_event) prog" where
  "perform_cl_buffer_checks cl kern_ctx q num_cl_mem num_svm clmem_copies svm_copies copy_svm_ptrs
       init_evts mend_events result =
     (let buff_end = num_cl_mem * POISON_REGIONS * poisonWordLen;
          svm_end = buff_end + num_svm * POISON_REGIONS * poisonWordLen;
          global_work = POISON_REGIONS * ucast poisonWordLen * ucast (POISON_REGIONS * (num_cl_mem + num_svm))
      in andThen (if 0 < num_svm
           then andThen (get_canary_check_kernel cl kern_ctx) (\<lambda>check_kern.
                andThen (if copy_svm_ptrs
                  then cl_set_arg_and_check cl check_kern 5 (bytes_of_u64 svm_copies)
                  else cl_set_svm_arg_and_check cl check_kern 5 svm_copies) (\<lambda>_.
                andThen (cl_set_arg_and_check cl check_kern 6 (bytes_of_u64 result)) (\<lambda>_. ret check_kern)))
           else andThen (get_canary_check_kernel_no_svm cl kern_ctx) (\<lambda>check_kern.
                andThen (cl_set_arg_and_check cl check_kern 5 (bytes_of_u64 result)) (\<lambda>_. ret check_kern)))
           (\<lambda>check_kern.
         andThen (cl_set_arg_and_check cl check_kern 0 (bytes_of_u32 (POISON_REGIONS * poisonWordLen))) (\<lambda>_.
         andThen (cl_set_arg_and_check cl check_kern 1 (bytes_of_u32 buff_end)) (\<lambda>_.
         andThen (cl_set_arg_and_check cl check_kern 2 (bytes_of_u32 svm_end)) (\<lambda>_.
         andThen (cl_set_arg_and_check cl check_kern 3 (bytes_of_u32 POISON_FILL_32B)) (\<lambda>_.
         andThen (cl_set_arg_and_check cl check_kern 4 (bytes_of_u64 clmem_copies)) (\<lambda>_.
         andThen (work_group_size cl kern_ctx check_kern) (\<lambda>local_work.
         andThen (runNDRangeKernel cl (setup_ocl_args q check_kern 1 None (Some [global_work, 1, 1])
           (Some [local_work, 1, 1]) init_evts True)) (\<lambda>(err, kern_end).
         andThen (check_cl_error err) (\<lambda>_.
         andThen (written_event kern_end) (\<lambda>kern_end.
         andThen (gets (\<lambda>s. get_error_envvar (environ s))) (\<lambda>kill.
           if kill = 0
           then andThen (call (rt_EnqueueMarkerWithWaitList cl q mend_events)) (\<lambda>(err2, mend_finish).
                andThen (check_cl_error err2) (\<lambda>_.
                andThen (call (rt_EnqueueMarkerWithWaitList cl q [mend_finish, kern_end])) (\<lambda>(err3, finish).
                andThen (check_cl_error err3) (\<lambda>_. ret finish))))
           else ret kern_end))))))))))))"

text \<open>
  The SVM regions come after the buffers. When their canaries are checked through pointers, the kernel
  itself mends them.
\<close>

definition copy_all_canaries ::
  "'w ocl \<Rightarrow> cl_context \<Rightarrow> cl_command_queue \<Rightarrow> ptr list \<Rightarrow> ptr list \<Rightarrow> bool \<Rightarrow> cl_event \<Rightarrow>
    ('w det, cl_mem \<times> ptr \<times> evts \<times> evts) prog" where
  "copy_all_canaries cl kern_ctx q buffer_ptrs svm_ptrs copy_svm_ptrs evt =
     andThen (if buffer_ptrs \<noteq> [] then create_clmem_copies cl kern_ctx q buffer_ptrs evt
       else andThen (clCreateBuffer cl kern_ctx {} 1 0 (Some CL_SUCCESS)) (\<lambda>(copies, err).
            andThen (check_cl_error (the err)) (\<lambda>_. ret (copies, [])))) (\<lambda>(clmem_copies, clmem_evs).
     andThen (if svm_ptrs = [] then ret (0, [], [])
       else if copy_svm_ptrs
       then andThen (create_svm_ptr_copies cl kern_ctx q svm_ptrs evt) (\<lambda>(svm_copies, evs).
            andThen (mapM (\<lambda>_. create_complete_user_event cl kern_ctx) svm_ptrs) (\<lambda>mends.
            ret (svm_copies, evs, mends)))
       else andThen (create_svm_copies cl kern_ctx q svm_ptrs evt) (\<lambda>(svm_copies, evs).
            ret (svm_copies, concat (map fst evs), map snd evs))) (\<lambda>(svm_copies, svm_evs, svm_mends).
     ret (clmem_copies, svm_copies, concat (map fst clmem_evs) @ svm_evs, map snd clmem_evs @ svm_mends)))"

definition verify_cl_buffer_copy ::
  "'w ocl \<Rightarrow> cl_context \<Rightarrow> cl_command_queue \<Rightarrow> ptr list \<Rightarrow> ptr list \<Rightarrow> bool \<Rightarrow> kernel_info \<Rightarrow> u32 list \<Rightarrow> cl_event \<Rightarrow>
    ('w det, cl_event) prog" where
  "verify_cl_buffer_copy cl kern_ctx q buffer_ptrs svm_ptrs copy_svm_ptrs kern_info dupe evt =
     (let num_cl_mem = of_nat (length buffer_ptrs); num_svm = of_nat (length svm_ptrs);
          total_buffs = num_cl_mem + num_svm
      in if total_buffs = 0 then create_complete_user_event cl kern_ctx
         else
           andThen (copy_all_canaries cl kern_ctx q buffer_ptrs svm_ptrs copy_svm_ptrs evt)
             (\<lambda>(clmem_copies, svm_copies, events, mend_events).
           andThen (create_result_buffer cl kern_ctx q total_buffs) (\<lambda>(result, fill_evt).
           andThen (written_event fill_evt) (\<lambda>fill_evt.
           andThen (perform_cl_buffer_checks cl kern_ctx q num_cl_mem num_svm clmem_copies svm_copies
             copy_svm_ptrs (events @ [fill_evt]) mend_events result) (\<lambda>kern_end.
           andThen (forM (zip [0..<length mend_events] mend_events) (\<lambda>(i, mend).
             release_events cl [events ! (2 * i), events ! (2 * i + 1), mend])) (\<lambda>_.
           andThen (release_events cl [fill_evt]) (\<lambda>_.
           andThen (get_change_buffer cl q total_buffs result [kern_end]) (\<lambda>(first_change, read_result).
           andThen (analyze_check_results cl q read_result kern_info total_buffs (buffer_ptrs @ svm_ptrs)
             svm_copies copy_svm_ptrs first_change dupe) (\<lambda>_.
           andThen (release_events cl [kern_end]) (\<lambda>_.
           andThen (clReleaseMemObject cl result) (\<lambda>_.
           andThen (clReleaseMemObject cl clmem_copies) (\<lambda>_.
           ret read_result))))))))))))"

section \<open>\<open>copy_canary_cl_image.c\<close>\<close>

text \<open>Where the canaries of each image end in the common buffer, in 32 bits.\<close>

definition image_canary_length :: "ptr \<Rightarrow> ('w det, u32) prog" where
  "image_canary_length image_ptr =
     andThen (found_mobj image_ptr) (\<lambda>img.
       let d = get_image_dimensions (m_image_desc img)
       in case get_image_canary_size (image_type (m_image_desc img))
            (ucast (getImageDataSize (m_image_format img))) (i_lim d) (j_lim d) (j_dat d) (k_dat d) of
          None \<Rightarrow> fail (Exit (-1))
        | Some len \<Rightarrow> ret (ucast len))"

fun running_sums :: "u32 \<Rightarrow> u32 list \<Rightarrow> u32 list" where
  "running_sums acc [] = []"
| "running_sums acc (l # ls) = (acc + l) # running_sums (acc + l) ls"

definition find_canary_ends :: "ptr list \<Rightarrow> ('w det, u32 list) prog" where
  "find_canary_ends image_ptrs =
     andThen (mapM image_canary_length image_ptrs) (\<lambda>lens. ret (running_sums 0 lens))"

definition copy_this_image_canary ::
  "'w ocl \<Rightarrow> cl_command_queue \<Rightarrow> ptr \<Rightarrow> cl_mem \<Rightarrow> u32 \<Rightarrow> cl_event \<Rightarrow> ('w det, cl_memobj \<times> cl_event) prog" where
  "copy_this_image_canary cl q img_ptr canary_copies offset evt =
     andThen (found_mobj img_ptr) (\<lambda>img.
     andThen (copy_image_canaries cl q img canary_copies offset evt) (\<lambda>ev. ret (img, ev)))"

text \<open>An array of the host from \<open>malloc\<close>, and what the code stores in it.\<close>

definition host_array :: "'w ocl \<Rightarrow> u32 list \<Rightarrow> ('w det, ptr) prog" where
  "host_array cl ws =
     (let bytes = concat (map bytes_of_u32 ws)
      in andThen (call (malloc cl (of_nat (length bytes)))) (\<lambda>p.
         andThen (modify (\<lambda>s. s\<lparr>host_mem := (\<lambda>a. if unat (a - p) < length bytes then bytes ! unat (a - p)
           else host_mem s a)\<rparr>)) (\<lambda>_.
         ret p)))"

definition with_local_work :: "u64 \<Rightarrow> u64 \<Rightarrow> ('w det, u64 list option) prog" where
  "with_local_work global_work local_work =
     (if local_work = 0 then fail Div_by_zero
      else ret (if global_work mod local_work = 0 then Some [local_work, 1, 1] else None))"

definition perform_cl_image_checks ::
  "'w ocl \<Rightarrow> cl_context \<Rightarrow> cl_command_queue \<Rightarrow> cl_kernel \<Rightarrow> evts \<Rightarrow> evts \<Rightarrow> cl_mem \<Rightarrow> cl_mem \<Rightarrow> u32 \<Rightarrow> ptr \<Rightarrow> u32 \<Rightarrow>
    ('w det, cl_event) prog" where
  "perform_cl_image_checks cl kern_ctx q check_kern init_evts mend_events canary_copies result num_images
       canary_ends total_canary_len =
     andThen (work_group_size cl kern_ctx check_kern) (\<lambda>local_work.
     andThen (clCreateBuffer cl kern_ctx {CL_MEM_COPY_HOST_PTR} (4 * ucast num_images) canary_ends
       (Some CL_SUCCESS)) (\<lambda>(canary_ends_buf, err).
     andThen (check_cl_error (the err)) (\<lambda>_.
     andThen (cl_set_arg_and_check cl check_kern 0 [POISON_FILL]) (\<lambda>_.
     andThen (cl_set_arg_and_check cl check_kern 1 (bytes_of_u32 num_images)) (\<lambda>_.
     andThen (cl_set_arg_and_check cl check_kern 2 (bytes_of_u64 canary_ends_buf)) (\<lambda>_.
     andThen (cl_set_arg_and_check cl check_kern 3 (bytes_of_u64 canary_copies)) (\<lambda>_.
     andThen (cl_set_arg_and_check cl check_kern 4 (bytes_of_u64 result)) (\<lambda>_.
     andThen (with_local_work (ucast total_canary_len) local_work) (\<lambda>local_arg.
     andThen (runNDRangeKernel cl (setup_ocl_args q check_kern 1 None
       (Some [ucast total_canary_len, 1, 1]) local_arg init_evts True)) (\<lambda>(err2, kern_end).
     andThen (check_cl_error err2) (\<lambda>_.
     andThen (written_event kern_end) (\<lambda>kern_end.
     andThen (call (rt_EnqueueMarkerWithWaitList cl q mend_events)) (\<lambda>(err3, mend_finish).
     andThen (check_cl_error err3) (\<lambda>_.
     andThen (call (rt_EnqueueMarkerWithWaitList cl q [mend_finish, kern_end])) (\<lambda>(err4, finish).
     andThen (check_cl_error err4) (\<lambda>_.
     andThen (clReleaseMemObject cl canary_ends_buf) (\<lambda>_.
     andThen (release_events cl [mend_finish, kern_end]) (\<lambda>_.
     ret finish))))))))))))))))))"

definition verify_cl_images_copy ::
  "'w ocl \<Rightarrow> cl_context \<Rightarrow> cl_command_queue \<Rightarrow> ptr list \<Rightarrow> kernel_info \<Rightarrow> u32 list \<Rightarrow> cl_event \<Rightarrow>
    ('w det, cl_event) prog" where
  "verify_cl_images_copy cl kern_ctx q image_ptrs kern_info dupe evt =
     (let num_images = of_nat (length image_ptrs)
      in if num_images = 0 then create_complete_user_event cl kern_ctx
         else
           andThen (find_canary_ends image_ptrs) (\<lambda>ends.
           andThen (host_array cl ends) (\<lambda>canary_ends.
           andThen (clCreateBuffer cl kern_ctx {} (ucast (last ends)) 0 (Some CL_SUCCESS)) (\<lambda>(canary_copies, err).
           andThen (check_cl_error (the err)) (\<lambda>_.
           andThen (mapM (\<lambda>(img_ptr, offset).
             andThen (copy_this_image_canary cl q img_ptr canary_copies offset evt) (\<lambda>(img, ev).
             andThen (mend_this_canary cl kern_ctx q (m_handle img) ev) (\<lambda>mend. ret (ev, mend))))
             (zip image_ptrs (0 # ends))) (\<lambda>evs.
           andThen (create_result_buffer cl kern_ctx q num_images) (\<lambda>(result, fill_evt).
           andThen (get_canary_check_kernel_image cl kern_ctx) (\<lambda>check_kern.
           andThen (written_event fill_evt) (\<lambda>fill_evt.
           andThen (perform_cl_image_checks cl kern_ctx q check_kern (map fst evs @ [fill_evt])
             (map snd evs) canary_copies result num_images canary_ends (last ends)) (\<lambda>check_done.
           andThen (get_change_buffer cl q num_images result [check_done]) (\<lambda>(first_change, read_result).
           andThen (analyze_check_results cl q read_result kern_info num_images image_ptrs 0 False
             first_change dupe) (\<lambda>_.
           andThen (clReleaseMemObject cl result) (\<lambda>_.
           andThen (clReleaseMemObject cl canary_copies) (\<lambda>_.
           ret read_result))))))))))))))"

section \<open>\<open>gpu_check_copy_canary.c\<close>\<close>

definition input_event :: "'w ocl \<Rightarrow> cl_context \<Rightarrow> cl_event option \<Rightarrow> ('w det, cl_event) prog" where
  "input_event cl kern_ctx evt = (case evt of
       None \<Rightarrow> create_complete_user_event cl kern_ctx | Some e \<Rightarrow> ret e)"

text \<open>The marker after the checks; its event goes to the caller or is released.\<close>

definition finish_checks :: "'w ocl \<Rightarrow> cl_command_queue \<Rightarrow> evts \<Rightarrow> bool \<Rightarrow> ('w det, cl_event option) prog" where
  "finish_checks cl q checks want =
     andThen (call (rt_EnqueueMarkerWithWaitList cl q checks)) (\<lambda>(err, finish).
     andThen (check_cl_error err) (\<lambda>_.
     andThen (forM checks (\<lambda>e. andThen (clReleaseEvent cl e) check_cl_error)) (\<lambda>_.
       if want then ret (Some finish)
       else andThen (clReleaseEvent cl finish) (\<lambda>err2.
            andThen (check_cl_error err2) (\<lambda>_. ret None)))))"

definition verify_on_gpu_copy_canary ::
  "'w ocl \<Rightarrow> cl_command_queue \<Rightarrow> ptr list \<Rightarrow> ptr list \<Rightarrow> ptr list \<Rightarrow> bool \<Rightarrow> kernel_info \<Rightarrow> u32 list \<Rightarrow>
    cl_event option \<Rightarrow> bool \<Rightarrow> ('w det, cl_event option) prog" where
  "verify_on_gpu_copy_canary cl q buffer_ptrs svm_ptrs image_ptrs copy_svm_ptrs kern_info dupe evt want =
     andThen (query (q_queue_context cl q)) (\<lambda>(_, kern_ctx).
     andThen (input_event cl kern_ctx evt) (\<lambda>input_evt.
     andThen (verify_cl_buffer_copy cl kern_ctx q buffer_ptrs svm_ptrs copy_svm_ptrs kern_info dupe input_evt)
       (\<lambda>e0.
     andThen (verify_cl_images_copy cl kern_ctx q image_ptrs kern_info dupe input_evt) (\<lambda>e1.
     finish_checks cl q [e0, e1] want))))"

section \<open>\<open>single_buffer_cl_buffer.c\<close>\<close>

text \<open>The main buffer and the size of a buffer or region; the size is cut to 32 bits.\<close>

definition checked_object :: "bool \<Rightarrow> ptr \<Rightarrow> ('w det, u64 \<times> u32) prog" where
  "checked_object is_svm p =
     (if is_svm
      then andThen (found_svobj p) (\<lambda>(_, m1). ret (sv_main_buff m1, ucast (sv_size m1)))
      else andThen (found_mobj p) (\<lambda>m1. ret (m_main_buff m1, ucast (m_size m1))))"

text \<open>The checker kernel of one canary; \<open>index\<close> is the place of its result.\<close>

definition check_one_canary ::
  "'w ocl \<Rightarrow> cl_kernel \<Rightarrow> bool \<Rightarrow> launchOclKernelStruct \<Rightarrow> u64 \<Rightarrow> u32 \<times> u32 \<Rightarrow> ('w det, cl_event) prog" where
  "check_one_canary cl check_kern is_svm ocl_args mem_handle io = (case io of (index, offset) \<Rightarrow>
     andThen (cl_set_arg_and_check cl check_kern 1 (bytes_of_u32 index)) (\<lambda>_.
     andThen (cl_set_arg_and_check cl check_kern 3 (bytes_of_u32 offset)) (\<lambda>_.
     andThen (if is_svm then cl_set_svm_arg_and_check cl check_kern 4 mem_handle
       else cl_set_arg_and_check cl check_kern 4 (bytes_of_u64 mem_handle)) (\<lambda>_.
     andThen (runNDRangeKernel cl (ocl_args\<lparr>la_event := True\<rparr>)) (\<lambda>(err, ev).
     andThen (check_cl_error err) (\<lambda>_. written_event ev))))))"

definition perform_single_buffer_checks ::
  "'w ocl \<Rightarrow> cl_command_queue \<Rightarrow> cl_kernel \<Rightarrow> cl_event \<Rightarrow> cl_event \<Rightarrow> cl_mem \<Rightarrow> ptr list \<Rightarrow> bool \<Rightarrow>
    ('w det, evts) prog" where
  "perform_single_buffer_checks cl q check_kern init_evt real_kern_evt result buffer_ptrs is_svm =
     andThen (query (q_kernel_context cl check_kern)) (\<lambda>(_, kern_ctx).
     andThen (work_group_size cl kern_ctx check_kern) (\<lambda>local_work.
     let ocl_args = setup_ocl_args q check_kern 1 None (Some [ucast poisonWordLen, 1, 1])
       (Some [local_work, 1, 1]) [init_evt, real_kern_evt] False
     in
     andThen (cl_set_arg_and_check cl check_kern 0 (bytes_of_u32 poisonWordLen)) (\<lambda>_.
     andThen (cl_set_arg_and_check cl check_kern 2 (bytes_of_u32 POISON_FILL_32B)) (\<lambda>_.
     andThen (cl_set_arg_and_check cl check_kern 5 (bytes_of_u64 result)) (\<lambda>_.
     andThen (mapM (\<lambda>(i, p).
       andThen (checked_object is_svm p) (\<lambda>(mem_handle, mem_size).
       mapM (check_one_canary cl check_kern is_svm ocl_args mem_handle)
         [(POISON_REGIONS * i, 0), (POISON_REGIONS * i + 1, mem_size + POISON_FILL_LENGTH)]))
       (zip (upto32 (of_nat (length buffer_ptrs))) buffer_ptrs)) (\<lambda>evss.
     ret (concat evss)))))))"

text \<open>
  The callback that merges the results of the two canaries of each buffer, in place: a change in the
  second one counts from the end of the first. The comparisons are signed.
\<close>

definition merge_halves :: "u32 \<Rightarrow> u32 \<Rightarrow> u32" where
  "merge_halves half1 half2 =
     (let half2' = (if changed half2 then half2 + POISON_FILL_LENGTH else half2)
      in if sint half1 < sint half2' then half1 else half2')"

definition merge_changes :: "u32 \<Rightarrow> u32 list \<Rightarrow> u32 list" where
  "merge_changes num_buff first_change =
     fold (\<lambda>i xs. xs[i := merge_halves (xs ! (2 * i)) (xs ! (2 * i + 1))]) [0..<unat num_buff] first_change"

definition format_result_buff :: "'w ocl \<Rightarrow> nat \<Rightarrow> u32 \<Rightarrow> cl_event \<Rightarrow> ('w det, unit) prog" where
  "format_result_buff cl first_change num_buff complete =
     andThen (read_changes first_change) (\<lambda>xs.
     andThen (if 2 * unat num_buff \<le> length xs then ret () else fail Out_of_bounds) (\<lambda>_.
     andThen (write_changes first_change (merge_changes num_buff xs)) (\<lambda>_.
     andThen (call (rt_SetUserEventComplete cl complete)) check_cl_error)))"

text \<open>Only the first half of the events of the checks is released.\<close>

definition verify_cl_buffer_single ::
  "'w ocl \<Rightarrow> cl_context \<Rightarrow> cl_command_queue \<Rightarrow> ptr list \<Rightarrow> kernel_info \<Rightarrow> u32 list \<Rightarrow> cl_event \<Rightarrow> bool \<Rightarrow>
    ('w det, cl_event) prog" where
  "verify_cl_buffer_single cl kern_ctx q buffer_ptrs kern_info dupe evt is_svm =
     (let num_buff = of_nat (length buffer_ptrs)
      in if num_buff = 0 then create_complete_user_event cl kern_ctx
         else
           andThen (get_canary_check_kernel cl kern_ctx) (\<lambda>check_kern.
           andThen (create_result_buffer cl kern_ctx q (POISON_REGIONS * num_buff)) (\<lambda>(result, init_evt).
           andThen (written_event init_evt) (\<lambda>init_evt.
           andThen (perform_single_buffer_checks cl q check_kern init_evt evt result buffer_ptrs is_svm)
             (\<lambda>check_events.
           andThen (get_change_buffer cl q (POISON_REGIONS * num_buff) result check_events)
             (\<lambda>(first_change, readback_evt).
           andThen (call (rt_CreateUserEvent cl kern_ctx)) (\<lambda>(user_evt, err).
           andThen (check_cl_error err) (\<lambda>_.
           andThen (is_nvidia_platform cl kern_ctx) (\<lambda>nvidia.
           andThen (if \<not> nvidia
             then andThen (call (rt_SetEventCallback cl readback_evt)) (\<lambda>err2.
                  andThen (check_cl_error err2) (\<lambda>_.
                  andThen (later (Format_result readback_evt first_change num_buff user_evt)) (\<lambda>_.
                  ret user_evt)))
             else andThen (wait_for cl [readback_evt]) (\<lambda>_.
                  andThen (format_result_buff cl first_change num_buff user_evt) (\<lambda>_.
                  ret readback_evt))) (\<lambda>done_evt.
           andThen (analyze_check_results cl q done_evt kern_info num_buff buffer_ptrs 0 False first_change
             dupe) (\<lambda>_.
           andThen (clReleaseMemObject cl result) (\<lambda>err3.
           andThen (check_cl_error err3) (\<lambda>_.
           andThen (forM (take (length buffer_ptrs) check_events) (\<lambda>e.
             andThen (clReleaseEvent cl e) check_cl_error)) (\<lambda>_.
           ret readback_evt))))))))))))))"

section \<open>\<open>single_buffer_cl_image.c\<close>\<close>

text \<open>
  The results of \<open>clSetKernelArg\<close> are not looked at here. The kernel is given one image, and always
  writes the first result.
\<close>

definition set_arg_unchecked :: "'w ocl \<Rightarrow> cl_kernel \<Rightarrow> u32 \<Rightarrow> u8 list \<Rightarrow> ('w det, unit) prog" where
  "set_arg_unchecked cl kern arg_index arg_value =
     andThen (clSetKernelArg cl kern arg_index (of_nat (length arg_value)) (Some arg_value)) (\<lambda>_. ret ())"

definition check_one_image ::
  "'w ocl \<Rightarrow> cl_context \<Rightarrow> cl_command_queue \<Rightarrow> cl_kernel \<Rightarrow> u64 \<Rightarrow> cl_event \<Rightarrow> cl_event \<Rightarrow> ptr \<times> u32 \<times> ptr \<Rightarrow>
    ('w det, cl_event) prog" where
  "check_one_image cl kern_ctx q check_kern local_work init_evt real_kern_evt r = (case r of (img_ptr, len, len_ptr) \<Rightarrow>
     andThen (with_local_work (ucast len) local_work) (\<lambda>local_arg.
     andThen (clCreateBuffer cl kern_ctx {CL_MEM_COPY_HOST_PTR} 4 len_ptr (Some CL_SUCCESS)) (\<lambda>(canaryLength, err1).
     andThen (check_cl_error (the err1)) (\<lambda>_.
     andThen (clCreateBuffer cl kern_ctx {} (ucast len) 0 (Some CL_SUCCESS)) (\<lambda>(imgCanaryBuff, err2).
     andThen (check_cl_error (the err2)) (\<lambda>_.
     andThen (found_mobj img_ptr) (\<lambda>img.
     andThen (copy_image_canaries cl q img imgCanaryBuff 0 real_kern_evt) (\<lambda>copy_evt.
     andThen (gets (\<lambda>s. get_error_envvar (environ s))) (\<lambda>kill.
     andThen (if kill = 0
       then andThen (mendCanaryRegion cl q (m_handle img) False [copy_evt] True) written_event
       else ret copy_evt) (\<lambda>wait_evt.
     andThen (set_arg_unchecked cl check_kern 2 (bytes_of_u64 canaryLength)) (\<lambda>_.
     andThen (set_arg_unchecked cl check_kern 3 (bytes_of_u64 imgCanaryBuff)) (\<lambda>_.
     andThen (runNDRangeKernel cl (setup_ocl_args q check_kern 1 None (Some [ucast len, 1, 1]) local_arg
       [init_evt, wait_evt] True)) (\<lambda>(err, ev).
     andThen (check_cl_error err) (\<lambda>_.
     andThen (clReleaseMemObject cl canaryLength) (\<lambda>_.
     andThen (clReleaseMemObject cl imgCanaryBuff) (\<lambda>_.
     written_event ev))))))))))))))))"

definition perform_single_image_checks ::
  "'w ocl \<Rightarrow> cl_context \<Rightarrow> cl_command_queue \<Rightarrow> cl_kernel \<Rightarrow> cl_event \<Rightarrow> cl_event \<Rightarrow> cl_mem \<Rightarrow> ptr list \<Rightarrow> u32 list \<Rightarrow>
    ptr \<Rightarrow> ('w det, evts) prog" where
  "perform_single_image_checks cl kern_ctx q check_kern init_evt real_kern_evt result image_ptrs lens lens_ptr =
     andThen (work_group_size cl kern_ctx check_kern) (\<lambda>local_work.
     andThen (set_arg_unchecked cl check_kern 0 [POISON_FILL]) (\<lambda>_.
     andThen (set_arg_unchecked cl check_kern 1 (bytes_of_u32 1)) (\<lambda>_.
     andThen (set_arg_unchecked cl check_kern 4 (bytes_of_u64 result)) (\<lambda>_.
     mapM (check_one_image cl kern_ctx q check_kern local_work init_evt real_kern_evt)
       (zip image_ptrs (zip lens (map (\<lambda>i. lens_ptr + 4 * of_nat i) [0..<length lens])))))))"

definition verify_cl_images_single ::
  "'w ocl \<Rightarrow> cl_context \<Rightarrow> cl_command_queue \<Rightarrow> ptr list \<Rightarrow> kernel_info \<Rightarrow> u32 list \<Rightarrow> cl_event \<Rightarrow>
    ('w det, cl_event) prog" where
  "verify_cl_images_single cl kern_ctx q image_ptrs kern_info dupe evt =
     (let num_images = of_nat (length image_ptrs)
      in if num_images = 0 then create_complete_user_event cl kern_ctx
         else
           andThen (mapM image_canary_length image_ptrs) (\<lambda>lens.
           andThen (host_array cl lens) (\<lambda>canary_lengths.
           andThen (create_result_buffer cl kern_ctx q num_images) (\<lambda>(result, init_evt).
           andThen (get_canary_check_kernel_image cl kern_ctx) (\<lambda>check_kern.
           andThen (written_event init_evt) (\<lambda>init_evt.
           andThen (perform_single_image_checks cl kern_ctx q check_kern init_evt evt result image_ptrs lens
             canary_lengths) (\<lambda>check_events.
           andThen (get_change_buffer cl q num_images result check_events) (\<lambda>(first_change, readback_evt).
           andThen (clReleaseMemObject cl result) (\<lambda>_.
           andThen (forM check_events (\<lambda>e. andThen (clReleaseEvent cl e) check_cl_error)) (\<lambda>_.
           andThen (analyze_check_results cl q readback_evt kern_info num_images image_ptrs 0 False
             first_change dupe) (\<lambda>_.
           ret readback_evt)))))))))))"

section \<open>\<open>gpu_check_single_buffer.c\<close>\<close>

definition verify_on_gpu_single_buffer ::
  "'w ocl \<Rightarrow> cl_command_queue \<Rightarrow> ptr list \<Rightarrow> ptr list \<Rightarrow> ptr list \<Rightarrow> kernel_info \<Rightarrow> u32 list \<Rightarrow>
    cl_event option \<Rightarrow> bool \<Rightarrow> ('w det, cl_event option) prog" where
  "verify_on_gpu_single_buffer cl q buffer_ptrs svm_ptrs image_ptrs kern_info dupe evt want =
     andThen (query (q_queue_context cl q)) (\<lambda>(_, kern_ctx).
     andThen (input_event cl kern_ctx evt) (\<lambda>input_evt.
     andThen (verify_cl_buffer_single cl kern_ctx q buffer_ptrs kern_info dupe input_evt False) (\<lambda>e0.
     andThen (verify_cl_buffer_single cl kern_ctx q svm_ptrs kern_info dupe input_evt True) (\<lambda>e1.
     andThen (verify_cl_images_single cl kern_ctx q image_ptrs kern_info dupe input_evt) (\<lambda>e2.
     finish_checks cl q [e0, e1, e2] want)))))"

section \<open>Callbacks\<close>

text \<open>
  What the runtime does when the event of the \<open>n\<close>-th registered callback has completed. The report
  goes through the pointer to the kernel's record.
\<close>

definition run_checker_callback :: "'w ocl \<Rightarrow> nat \<Rightarrow> ('w det, unit) prog" where
  "run_checker_callback cl n =
     andThen (gets check_callbacks) (\<lambda>cs.
       if length cs \<le> n then ret ()
       else
         andThen (modify (\<lambda>s. s\<lparr>check_callbacks := take n cs @ drop (Suc n) cs\<rparr>)) (\<lambda>_. case cs ! n of
             Format_result _ first_change num_buff complete \<Rightarrow>
               format_result_buff cl first_change num_buff complete
           | Verify_callback _ data \<Rightarrow>
               andThen (kinfo_find (vi_kern_info data)) (\<lambda>info. case info of
                   None \<Rightarrow> fail Use_after_free
                 | Some kern_info \<Rightarrow> verify_callback cl kern_info data)))"

end
