(* ===== verification/Kernel_Launch.thy ===== *)
theory Kernel_Launch
  imports Gpu_Check
begin

text \<open>
  The launch of a kernel: \<open>createPoisonedKernel\<close>, \<open>copyKernelBuffers\<close> and \<open>verifyBufferInBounds\<close> of
  \<open>src/detector/bufferOverflowDetect.c\<close>, \<open>kernelLaunchFunc\<close> and \<open>clEnqueueNDRangeKernel\<close> of
  \<open>cl_interceptor.c\<close>. A kernel with an argument over host memory, which has no canaries, is run as a
  copy whose arguments have canaries; afterwards the canaries of all its arguments are checked, on the
  host or on the device. The times written to the performance log are left out.
\<close>

section \<open>\<open>verifyBufferInBounds\<close>\<close>

text \<open>The argument at an index that is the first one with its buffer.\<close>

definition is_first :: "u32 list option \<Rightarrow> u32 \<Rightarrow> bool" where
  "is_first dupe i = (case dupe of None \<Rightarrow> False | Some d \<Rightarrow> d ! unat i = i)"

definition info_arg :: "kernel_info option \<Rightarrow> u32 \<Rightarrow> ('w det, kernel_arg option) prog" where
  "info_arg info i = andThen (deref info) (\<lambda>ki. ret (karg_find (ki_arg_list ki) i))"

datatype to_check = Check_buffer cl_mem | Check_image cl_mem | Check_svm | Check_nothing

definition classify_arg :: "kernel_info option \<Rightarrow> u32 list option \<Rightarrow> u32 \<Rightarrow> ('w det, to_check) prog" where
  "classify_arg info dupe i =
     (if \<not> is_first dupe i then ret Check_nothing
      else andThen (info_arg info i) (\<lambda>kernArg. case kernArg of
          None \<Rightarrow> ret Check_nothing
        | Some arg \<Rightarrow> (case ka_buffer arg of
            Some a \<Rightarrow> andThen (get_mobj a) (\<lambda>m1.
              ret (if m_is_image m1 then Check_image (m_handle m1) else Check_buffer (m_handle m1)))
          | None \<Rightarrow> ret (if ka_svm_buffer arg = None then Check_nothing else Check_svm))))"

text \<open>
  When one argument is an SVM region, all regions are checked: the loop over \<open>cl_svm_mem_next\<close>, which
  goes through the table from the address 0 on, leaving out the tool's own regions.
\<close>

fun svm_walk :: "nat \<Rightarrow> ptr \<Rightarrow> ('w det, ptr list) prog" where
  "svm_walk 0 p = fail Loops_forever"
| "svm_walk (Suc fuel) p =
     andThen (cl_svm_mem_next p) (\<lambda>svmIter. case svmIter of
         None \<Rightarrow> ret []
       | Some a \<Rightarrow>
           andThen (get_svobj a) (\<lambda>m.
           andThen (svm_walk fuel (sv_handle m)) (\<lambda>rest.
           ret (if sv_internal m then rest else sv_handle m # rest))))"

definition all_svm_regions :: "('w det, ptr list) prog" where
  "all_svm_regions = andThen (gets (\<lambda>s. Suc (length (cl_svm_alloc s)))) (\<lambda>fuel. svm_walk fuel 0)"

text \<open>The buffers, the SVM regions and the images to check.\<close>

definition collect_checks ::
  "kernel_info option \<Rightarrow> u32 list option \<Rightarrow> u32 \<Rightarrow> ('w det, ptr list \<times> ptr list \<times> ptr list) prog" where
  "collect_checks info dupe nargs =
     andThen (mapM (classify_arg info dupe) (upto32 nargs)) (\<lambda>cs.
     andThen (if Check_svm \<in> set cs then all_svm_regions else ret []) (\<lambda>svm_ptrs.
     ret (concat (map (\<lambda>c. case c of Check_buffer h \<Rightarrow> [h] | _ \<Rightarrow> []) cs), svm_ptrs,
       concat (map (\<lambda>c. case c of Check_image h \<Rightarrow> [h] | _ \<Rightarrow> []) cs))))"

text \<open>Where to check: \<open>use_device\<close> is \<open>CLARMOR_DEVICE_SELECT\<close>.\<close>

definition check_on_gpu :: "bool \<Rightarrow> u32 \<Rightarrow> ptr list \<Rightarrow> ptr list \<Rightarrow> ptr list \<Rightarrow> bool" where
  "check_on_gpu cpu_device use_device buffer_ptrs svm_ptrs image_ptrs \<longleftrightarrow>
     \<not> cpu_device
     \<and> ((svm_ptrs \<noteq> [] \<or> image_ptrs \<noteq> []) \<and> use_device \<noteq> DEVICE_CPU
        \<or> buffer_ptrs @ svm_ptrs @ image_ptrs \<noteq> [] \<and> use_device = DEVICE_GPU)"

text \<open>The event that is stored for the caller, when \<open>want\<close> is set and something is checked.\<close>

definition verifyBufferInBounds ::
  "'w ocl \<Rightarrow> cl_command_queue \<Rightarrow> cl_kernel \<Rightarrow> u32 list option \<Rightarrow> cl_event \<Rightarrow> bool \<Rightarrow>
    ('w det, cl_event option) prog" where
  "verifyBufferInBounds cl q kern dupe evt want =
     andThen (query (q_kernel_num_args cl kern)) (\<lambda>(err, nargs).
     andThen (check_cl_error err) (\<lambda>_.
     andThen (kinfo_find kern) (\<lambda>info.
     andThen (collect_checks info dupe nargs) (\<lambda>(buffer_ptrs, svm_ptrs, image_ptrs).
     andThen (gets (\<lambda>s. get_check_on_device_envvar (environ s))) (\<lambda>use_device.
     andThen (query (q_queue_device cl q)) (\<lambda>(_, device).
     andThen (clGetDeviceInfo cl device CL_DEVICE_TYPE (Some [])) (\<lambda>(_, dev_type_ptr).
     andThen (read_val dev_type_ptr) (\<lambda>dev_type.
       if check_on_gpu (dev_type = c_DEVICE_TYPE_CPU cl) use_device buffer_ptrs svm_ptrs image_ptrs
       then
         andThen (deref info) (\<lambda>kernInfo.
         andThen (gets (\<lambda>s. get_gpu_strat_envvar (environ s))) (\<lambda>strat.
           if strat = GPU_MODE_SINGLE_BUFFER
           then verify_on_gpu_single_buffer cl q buffer_ptrs svm_ptrs image_ptrs kernInfo (the dupe)
             (Some evt) want
           else verify_on_gpu_copy_canary cl q buffer_ptrs svm_ptrs image_ptrs
             (strat = GPU_MODE_MULTI_SVMPTR) kernInfo (the dupe) (Some evt) want))
       else if buffer_ptrs @ svm_ptrs @ image_ptrs \<noteq> []
       then
         andThen (deref info) (\<lambda>kernInfo.
         andThen (verify_buffer_on_host cl buffer_ptrs svm_ptrs image_ptrs kernInfo (the dupe) evt) (\<lambda>_.
           if want
           then andThen (query (q_queue_context cl q)) (\<lambda>(_, ctx).
                andThen (call (rt_CreateUserEvent cl ctx)) (\<lambda>(user_evt, _).
                andThen (call (rt_SetUserEventComplete cl user_evt)) (\<lambda>_. ret (Some user_evt))))
           else ret None))
       else ret None))))))))"

section \<open>\<open>createPoisonedKernel\<close>\<close>

text \<open>Whether an argument is over memory without canaries; the loop stops at the first one.\<close>

fun need_internal_buffer :: "kernel_info option \<Rightarrow> u32 list \<Rightarrow> ('w det, bool) prog" where
  "need_internal_buffer info [] = ret False"
| "need_internal_buffer info (i # is) =
     andThen (info_arg info i) (\<lambda>arg.
     andThen (deref arg) (\<lambda>ka. case ka_buffer ka of
         None \<Rightarrow> need_internal_buffer info is
       | Some a \<Rightarrow> andThen (get_mobj a) (\<lambda>m.
           if \<not> m_has_canary m then ret True else need_internal_buffer info is)))"

definition set_arg ::
  "'w ocl \<Rightarrow> cl_kernel \<Rightarrow> u32 \<Rightarrow> u64 \<Rightarrow> u8 list option \<Rightarrow> ('w det, unit) prog" where
  "set_arg cl kern i sz v = andThen (clSetKernelArg cl kern i sz v) check_cl_error"

text \<open>The extent of an image in the coordinates of a copy.\<close>

definition image_region :: "cl_image_desc \<Rightarrow> vec3" where
  "image_region d =
     (image_width d,
      if image_type d = CL_MEM_OBJECT_IMAGE1D_ARRAY then image_array_size d else image_height d,
      if image_type d = CL_MEM_OBJECT_IMAGE2D_ARRAY then image_array_size d else image_depth d)"

text \<open>A buffer or image like the old one, with canaries, holding the same data.\<close>

definition internal_copy :: "'w ocl \<Rightarrow> cl_command_queue \<Rightarrow> cl_memobj \<Rightarrow> ('w det, cl_mem) prog" where
  "internal_copy cl q old =
     (let flags = m_flags old - {CL_MEM_USE_HOST_PTR, CL_MEM_COPY_HOST_PTR, CL_MEM_ALLOC_HOST_PTR}
      in andThen (if m_is_image old
           then clCreateImage cl (m_context old) flags (m_image_format old)
             ((m_image_desc old)\<lparr>image_buffer := 0\<rparr>) 0 (Some CL_SUCCESS)
           else clCreateBuffer cl (m_context old) flags (m_size old) 0 (Some CL_SUCCESS)) (\<lambda>(new_buffer, err).
         andThen (check_cl_error (the err)) (\<lambda>_.
         andThen (cl_mem_find new_buffer) (\<lambda>found.
         andThen (deref found) (\<lambda>a.
         andThen (set_mobj a (\<lambda>m. m\<lparr>m_internal := True\<rparr>)) (\<lambda>_.
         andThen (if m_is_image old
           then cl_image_copy cl q (m_handle old) new_buffer (0, 0, 0) (0, 0, 0)
             (image_region (m_image_desc old)) [] False
           else cl_buffer_copy cl q (m_handle old) new_buffer 0 0 (m_size old) [] False) (\<lambda>_.
         ret new_buffer)))))))"

definition poison_arg ::
  "'w ocl \<Rightarrow> cl_command_queue \<Rightarrow> kernel_info option \<Rightarrow> cl_kernel \<Rightarrow> u32 list \<Rightarrow> u32 \<Rightarrow> ('w det, unit) prog" where
  "poison_arg cl q old_kern_info new_kernel dupe i =
     (if dupe ! unat i = i
      then
        andThen (info_arg old_kern_info i) (\<lambda>arg.
        andThen (deref arg) (\<lambda>ka. case (ka_buffer ka, ka_svm_buffer ka) of
            (None, None) \<Rightarrow> set_arg cl new_kernel i (ka_size ka) (ka_value ka)
          | (_, Some v) \<Rightarrow>
              andThen (get_svobj v) (\<lambda>m.
              andThen (clSetKernelArgSVMPointer cl new_kernel i (sv_handle m)) check_cl_error)
          | (Some a, None) \<Rightarrow>
              andThen (get_mobj a) (\<lambda>m.
              andThen (if \<not> m_has_canary m then internal_copy cl q m else ret (m_handle m)) (\<lambda>b.
              set_arg cl new_kernel i 8 (Some (bytes_of_u64 b))))))
      else
        andThen (kinfo_find new_kernel) (\<lambda>new_kern_info.
        andThen (info_arg new_kern_info (dupe ! unat i)) (\<lambda>arg.
        andThen (deref arg) (\<lambda>ka. set_arg cl new_kernel i (ka_size ka) (ka_value ka)))))"

definition createPoisonedKernel ::
  "'w ocl \<Rightarrow> cl_command_queue \<Rightarrow> cl_kernel \<Rightarrow> u32 list option \<Rightarrow> ('w det, cl_kernel) prog" where
  "createPoisonedKernel cl q kern dupe =
     andThen (kinfo_find kern) (\<lambda>old_kern_info.
     andThen (query (q_kernel_num_args cl kern)) (\<lambda>(err, nargs).
     andThen (check_cl_error err) (\<lambda>_.
     andThen (need_internal_buffer old_kern_info (upto32 nargs)) (\<lambda>need.
       if \<not> need then ret kern
       else
         andThen (kernelDuplicate cl kern) (\<lambda>new_kernel.
         andThen (case dupe of
             None \<Rightarrow> ret ()
           | Some d \<Rightarrow> forM (upto32 nargs) (poison_arg cl q old_kern_info new_kernel d)) (\<lambda>_.
         andThen (call (rt_Finish cl q)) (\<lambda>_.
         ret new_kernel)))))))"

section \<open>\<open>copyKernelBuffers\<close>\<close>

definition assertM :: "bool \<Rightarrow> ('s, unit) prog" where
  "assertM b = (if b then ret () else fail Assert_fail)"

text \<open>The smaller extent in each dimension, in 32 bits; the type of the destination decides.\<close>

definition common_region :: "cl_image_desc \<Rightarrow> cl_image_desc \<Rightarrow> vec3" where
  "common_region d1 d2 =
     (let low = (\<lambda>a b. ucast (min (ucast a :: u32) (ucast b)) :: u64)
      in (low (image_width d1) (image_width d2),
          if image_type d2 = CL_MEM_OBJECT_IMAGE1D_ARRAY
          then low (image_array_size d1) (image_array_size d2)
          else low (image_height d1) (image_height d2),
          if image_type d2 = CL_MEM_OBJECT_IMAGE2D_ARRAY
          then low (image_array_size d1) (image_array_size d2)
          else low (image_depth d1) (image_depth d2)))"

text \<open>The copy of one argument, with its event.\<close>

definition copy_arg ::
  "'w ocl \<Rightarrow> cl_command_queue \<Rightarrow> kernel_info \<Rightarrow> kernel_info \<Rightarrow> u32 list option \<Rightarrow> u32 \<Rightarrow> ('w det, evts) prog" where
  "copy_arg cl q to_info from_info dupe i =
     (let from_arg = karg_find (ki_arg_list from_info) i; to_arg = karg_find (ki_arg_list to_info) i
      in andThen (assertM (from_arg \<noteq> None)) (\<lambda>_.
         andThen (assertM (to_arg \<noteq> None)) (\<lambda>_.
           case (ka_buffer (the from_arg), ka_buffer (the to_arg)) of
             (Some a1, Some a2) \<Rightarrow>
               if \<not> is_first dupe i \<or> a1 = a2 then ret []
               else
                 andThen (get_mobj a1) (\<lambda>m1.
                 andThen (get_mobj a2) (\<lambda>m2.
                 andThen (if m_is_image m1
                   then cl_image_copy cl q (m_handle m1) (m_handle m2) (0, 0, 0) (0, 0, 0)
                     (common_region (m_image_desc m1) (m_image_desc m2)) [] True
                   else cl_buffer_copy cl q (m_handle m1) (m_handle m2) 0 0 (min (m_size m1) (m_size m2))
                     [] True) (\<lambda>ev.
                 ret [the ev])))
           | _ \<Rightarrow> ret [])))"

definition copyKernelBuffers ::
  "'w ocl \<Rightarrow> cl_kernel \<Rightarrow> cl_kernel \<Rightarrow> u32 list option \<Rightarrow> cl_command_queue \<Rightarrow> ('w det, unit) prog" where
  "copyKernelBuffers cl to from dupe q =
     andThen (query (q_kernel_num_args cl from)) (\<lambda>(err, nargs).
     andThen (check_cl_error err) (\<lambda>_.
     andThen (assertM (nargs < 0x7FFFFFFF)) (\<lambda>_.
     andThen (kinfo_find from) (\<lambda>from_info.
     andThen (kinfo_find to) (\<lambda>to_info.
     andThen (assertM (from_info \<noteq> None)) (\<lambda>_.
     andThen (assertM (to_info \<noteq> None)) (\<lambda>_.
     andThen (call (rt_Finish cl q)) (\<lambda>err2.
     andThen (check_cl_error err2) (\<lambda>_.
     andThen (mapM (copy_arg cl q (the to_info) (the from_info) dupe) (upto32 nargs)) (\<lambda>evss.
     wait_for cl (concat evss)))))))))))"

section \<open>The launch\<close>

text \<open>
  The record that leads from the event the application gets to the event of its kernel. A record the
  table has already is changed in place.
\<close>

definition remember_event :: "cl_event \<Rightarrow> cl_event \<Rightarrow> ('w det, unit) prog" where
  "remember_event external_event internal_event =
     andThen (cl_event_find external_event) (\<lambda>found. case found of
         None \<Rightarrow> cl_event_insert
           \<lparr>ev_handle = external_event, ev_ref_count = 1, ev_internal_event = internal_event\<rparr>
       | Some i \<Rightarrow>
           (let info = i\<lparr>ev_handle := external_event, ev_internal_event := internal_event\<rparr>
            in andThen (cl_event_assign external_event info) (\<lambda>_. cl_event_insert info)))"

definition check_kernel ::
  "'w ocl \<Rightarrow> cl_command_queue \<Rightarrow> cl_kernel \<Rightarrow> u32 list option \<Rightarrow> cl_event \<Rightarrow> bool \<Rightarrow>
    ('w det, cl_event option) prog" where
  "check_kernel cl q kern dupe internal_event want =
     andThen (modify (\<lambda>s. s\<lparr>internal_create := True\<rparr>)) (\<lambda>_.
     andThen allowCanaryAccess (\<lambda>_.
     andThen (verifyBufferInBounds cl q kern dupe internal_event want) (\<lambda>ev.
     andThen disallowCanaryAccess (\<lambda>_.
     andThen (modify (\<lambda>s. s\<lparr>internal_create := False\<rparr>)) (\<lambda>_.
     ret ev)))))"

text \<open>
  \<open>event\<close> is NULL or a variable with a value; the variable keeps it when nothing was checked, and the
  record is made for that value.
\<close>

definition kernelLaunchFunc ::
  "'w ocl \<Rightarrow> launchOclKernelStruct \<Rightarrow> cl_event option \<Rightarrow> ('w det, cl_int \<times> cl_event option) prog" where
  "kernelLaunchFunc cl ocl_args event =
     (let q = la_command_queue ocl_args; org_kernel = la_kernel ocl_args
      in andThen (kinfo_find org_kernel) (\<lambda>info. case info of
           None \<Rightarrow> andThen (put_err Kernel_info_missing) (\<lambda>_. fail (Exit (-1)))
         | Some kinfo \<Rightarrow>
             andThen (query (q_kernel_num_args cl org_kernel)) (\<lambda>(err, nargs).
             andThen (check_cl_error err) (\<lambda>_.
             andThen (findDuplicates nargs (ki_arg_list kinfo)) (\<lambda>dupe.
             andThen (createPoisonedKernel cl q org_kernel dupe) (\<lambda>temp_kernel.
             andThen (runNDRangeKernel cl (ocl_args\<lparr>la_kernel := temp_kernel, la_event := True\<rparr>))
               (\<lambda>(cl_err, ev).
             andThen (check_cl_error cl_err) (\<lambda>_.
             andThen (written_event ev) (\<lambda>internal_event.
             andThen (check_kernel cl q temp_kernel dupe internal_event (event \<noteq> None)) (\<lambda>checked_evt.
             andThen (ret (case event of
                 None \<Rightarrow> None
               | Some old \<Rightarrow> Some (case checked_evt of None \<Rightarrow> old | Some e \<Rightarrow> e))) (\<lambda>external_event.
             andThen (case external_event of
                 None \<Rightarrow> ret ()
               | Some e \<Rightarrow> remember_event e internal_event) (\<lambda>_.
             andThen (if temp_kernel \<noteq> org_kernel
               then andThen (copyKernelBuffers cl org_kernel temp_kernel dupe q) (\<lambda>_.
                    delPoisonKernel cl temp_kernel dupe)
               else ret ()) (\<lambda>_.
             ret (cl_err, external_event))))))))))))))"

definition clEnqueueNDRangeKernel ::
  "'w ocl \<Rightarrow> cl_command_queue \<Rightarrow> cl_kernel \<Rightarrow> u32 \<Rightarrow> u64 list option \<Rightarrow> u64 list option \<Rightarrow> u64 list option \<Rightarrow>
    evts \<Rightarrow> cl_event option \<Rightarrow> ('w det, cl_int \<times> cl_event option) prog" where
  "clEnqueueNDRangeKernel cl q kern work_dim global_work_offset global_work_size local_work_size
       event_list event =
     (if loaded cl ''clEnqueueNDRangeKernel''
      then andThen (initialize_logging cl) (\<lambda>_.
           andThen (fixOclArgs cl (setup_ocl_args q kern work_dim global_work_offset global_work_size
             local_work_size event_list (event \<noteq> None))) (\<lambda>(ocl_args, _).
           kernelLaunchFunc cl ocl_args event))
      else andThen (cl_msg_not_found ''clEnqueueNDRangeKernel'') (\<lambda>_. ret (INT_MIN_status, event)))"

end
