(* ===== verification/Launch_Invariants.thy ===== *)
theory Launch_Invariants
  imports Wrapper_Invariants Kernel_Launch
begin

text \<open>
  The checks and the launch of a kernel keep the invariant of the tables, also when they end the
  process, and every loop ends. An argument of a kernel may be an object the application has released,
  so a launch can read freed memory; that is the only difference to the wrappers.
\<close>

abbreviation keeps_launch :: "('w det, 'a) prog \<Rightarrow> bool" where
  "keeps_launch \<equiv> preserves tables_ok {Loops_forever}"

lemma preserves_weaken:
  assumes "preserves I B f" and "C \<subseteq> B"
  shows "preserves I C f"
proof (rule preservesI)
  fix s e t
  assume "I s" and "f s = Inl (e, t)"
  from preservesD_abort [OF assms(1) this] assms(2) show "e \<notin> C \<and> I t" by auto
next
  fix s x t
  assume "I s" and "f s = Inr (x, t)"
  with assms(1) show "I t" by (rule preservesD)
qed

lemma keeps_wrapper: "keeps_tables f \<Longrightarrow> keeps_launch f"
  by (rule preserves_weaken) auto

lemma keeps_same_state:
  assumes "\<And>s. case f s of Inl (e, t) \<Rightarrow> e \<notin> B \<and> t = s | Inr (x, t) \<Rightarrow> t = s"
  shows "preserves I B f"
  unfolding preserves_def
proof (intro allI impI)
  fix s
  assume "I s"
  with assms [of s] show "case f s of Inl (e, t) \<Rightarrow> e \<notin> B \<and> I t | Inr (x, t) \<Rightarrow> I t"
    by (simp split: sum.splits prod.splits)
qed

lemma keeps_reads [keeps]:
  "Use_after_free \<notin> B \<Longrightarrow> preserves I B (get_mobj a)"
  "Use_after_free \<notin> B \<Longrightarrow> preserves I B (get_svobj a)"
  by (auto intro!: keeps_same_state simp: get_mobj_def get_svobj_def split: option.split)

lemma keeps_modifies [keeps]:
  "preserves tables_ok B allowCanaryAccess"
  "preserves tables_ok B disallowCanaryAccess"
  "preserves tables_ok B (modify (\<lambda>s. s\<lparr>internal_create := b\<rparr>))"
  "preserves tables_ok B (modify (\<lambda>s. s\<lparr>check_canary_kern := k\<rparr>))"
  "preserves tables_ok B (modify (\<lambda>s. s\<lparr>check_canary_kern_no_svm := k\<rparr>))"
  "preserves tables_ok B (modify (\<lambda>s. s\<lparr>check_img_canary_kern := k\<rparr>))"
  "preserves tables_ok B (modify (\<lambda>s. s\<lparr>check_callbacks := f s\<rparr>))"
  "preserves tables_ok B (modify (\<lambda>s. s\<lparr>host_mem := m s\<rparr>))"
  "preserves tables_ok B (write_changes a xs)"
  "preserves tables_ok B (new_changes xs)"
  "preserves tables_ok B (later c)"
  unfolding allowCanaryAccess_def disallowCanaryAccess_def write_changes_def later_def
  by (auto intro!: preserves_frame preserves_same simp: same_tables_def same_defs new_changes_def)

lemma keeps_set_svobj [keeps]:
  assumes f: "\<And>m. sv_handle (f m) = sv_handle m"
  shows "preserves tables_ok B (set_svobj a f)"
  unfolding set_svobj_def
proof (rule preserves_modify)
  fix s :: "'a det"
  assume ok: "tables_ok s"
  have "svm_ok (s\<lparr>svobjs := (svobjs s)(a := map_option f (svobjs s a))\<rparr>)"
    using tables_okD(2) [OF ok] by (fastforce simp: svm_ok_def f)
  with ok show "tables_ok (s\<lparr>svobjs := (svobjs s)(a := map_option f (svobjs s a))\<rparr>)"
    by (rule tables_ok_svm) (simp_all add: same_defs)
qed

lemma keeps_small [keeps]:
  "Out_of_bounds \<notin> B \<Longrightarrow> preserves I B (written_event ev)"
  "Out_of_bounds \<notin> B \<Longrightarrow> preserves I B (written_read r)"
  "Null_deref \<notin> B \<Longrightarrow> Out_of_bounds \<notin> B \<Longrightarrow> preserves I B (read_val p)"
  "Assert_fail \<notin> B \<Longrightarrow> preserves I B (assertM b)"
  unfolding written_event_def written_read_def assertM_def read_val_def by (rule keeps | assumption)+

section \<open>Reports and mending\<close>

lemma keeps_reports [keeps]:
  "keeps_launch (overflowError cl ki buffer w bt)"
  "keeps_launch (printDupeWarning cl kern dupe)"
  "keeps_launch (optionalKillOnOverflow code)"
proof -
  have index: "keeps_launch (getBufferIndex args b)" for args :: "kernel_arg list" and b
    by (induction args b rule: getBufferIndex.induct) (simp_all only: getBufferIndex.simps, (rule keeps | simp)+)
  have count: "preserves tables_ok B count_overflow" for B
    by (rule preserves_same) (simp add: count_overflow_def same_tables_def same_defs)
  have dimension: "preserves tables_ok B (print_dimension x y z)" for B x y z
    unfolding print_dimension_def by (rule keeps | simp)+
  note defs = overflowError_def printDupeWarning_def optionalKillOnOverflow_def print_err_header_def
    print_err_footer_def print_warn_header_def alloc_string_def buffer_name_def print_position_def Let_def
  show "keeps_launch (overflowError cl ki buffer w bt)"
    "keeps_launch (printDupeWarning cl kern dupe)"
    "keeps_launch (optionalKillOnOverflow code)"
    unfolding defs
    by (rule keeps_first index count dimension keeps | (rule keeps_wrapper, rule keeps) | simp)+
qed

lemma keeps_mending [keeps]:
  "keeps_launch (create_complete_user_event cl c)"
  "keeps_launch (convertEvent cl c e)"
  "keeps_launch (convertEvents cl c es)"
  "keeps_launch (poisonFillImageCanaries cl q m es)"
  "keeps_launch (mend_buffer cl q m es)"
  "keeps_launch (mend_svm cl q sm es)"
  "keeps_launch (mendCanaryRegion cl q b bl es w)"
  unfolding create_complete_user_event_def convertEvent_def convertEvents_def poisonFillImageCanaries_def
    mend_buffer_def mend_svm_def mendCanaryRegion_def
  by (rule keeps_first keeps | (rule keeps_wrapper, rule keeps) | simp)+

section \<open>The host check\<close>

lemma keeps_host_parts [keeps]:
  "keeps_launch (cpu_parse_canary cl q n bytes ki b dupe)"
  "keeps_launch (read_cl_mem_canary cl q e b)"
  "keeps_launch (release_events cl es)"
  "keeps_launch (image_read cl q m e r)"
  "keeps_launch (no_read cl c)"
  "keeps_launch (wait_for_reads cl q es)"
  "keeps_launch (set_up_svm_canary_copy cl c p)"
  "keeps_launch (copy_and_map_svm_canaries cl c q e sr)"
  "keeps_launch (unmap_svm_buffers cl c q sr)"
  "keeps_launch (find_image p)"
  unfolding cpu_parse_canary_def read_cl_mem_canary_def release_events_def image_read_def no_read_def
    wait_for_reads_def set_up_svm_canary_copy_def copy_and_map_svm_canaries_def unmap_svm_buffers_def
    find_image_def
  by (rule keeps_first keeps | (rule keeps_wrapper, rule keeps) | simp)+

lemma keeps_host_checks [keeps]:
  "keeps_launch (verify_cl_mem cl ki ps dupe e)"
  "keeps_launch (read_image_canaries cl c q m e)"
  "keeps_launch (verify_images cl ki ps dupe oe)"
  "keeps_launch (verify_svm cl ki ps dupe e)"
  "keeps_launch (verify_buffer_on_host cl ps ss is ki dupe e)"
proof -
  have parts: "keeps_launch (copy_end_of_row cl c q m d ds e k j)"
    "keeps_launch (copy_end_of_slice cl c q m d ds e k)" "keeps_launch (copy_canary_slice cl c q m d ds e)"
    for c q m d ds e k j
    unfolding copy_end_of_row_def copy_end_of_slice_def copy_canary_slice_def by (rule keeps | simp)+
  show img: "keeps_launch (read_image_canaries cl c q m e)" for c q m e
    unfolding read_image_canaries_def Let_def by (rule parts keeps | simp)+
  have parse: "keeps_launch (parse_image cl q n arr ki b dupe)" for q n arr b
    unfolding parse_image_def by (rule keeps | simp)+
  have svm: "keeps_launch (check_svm_buffers cl q ki dupe r)"
    "keeps_launch (release_and_free cl c es i sr e1 e2)" for q r c es i sr e1 e2
    unfolding check_svm_buffers_def release_and_free_def
    by (rule keeps_first keeps | (rule keeps_wrapper, rule keeps) | simp)+
  show mem: "keeps_launch (verify_cl_mem cl ki ps dupe e)" for ps e
    unfolding verify_cl_mem_def read_cl_mem_canaries_def
    by (rule keeps_first keeps | (rule keeps_wrapper, rule keeps) | simp)+
  show imgs: "keeps_launch (verify_images cl ki ps dupe oe)" for ps oe
    unfolding verify_images_def by (rule img parse keeps | (rule keeps_wrapper, rule keeps) | simp)+
  show svms: "keeps_launch (verify_svm cl ki ps dupe e)" for ps e
    unfolding verify_svm_def by (rule svm keeps | (rule keeps_wrapper, rule keeps) | simp)+
  show "keeps_launch (verify_buffer_on_host cl ps ss is ki dupe e)"
    unfolding verify_buffer_on_host_def by (rule mem imgs svms keeps)+
qed

section \<open>Copies\<close>

lemma keeps_copy_steps [keeps]:
  "keeps_launch (mem_info cl b p)"
  "keeps_launch (wait_for cl es)"
  "keeps_launch (temp_buffer cl c f sz hp)"
  "keeps_launch (temp_image cl c f fmt r hp)"
  "keeps_launch (clean_up_copy cl e b1 b2)"
  "keeps_launch (find_regions b1 b2)"
  "keeps_launch (straight_buffer_copy cl q b1 b2 o1 o2 sz es)"
  "keeps_launch (straight_image_copy cl q b1 b2 so dst r es)"
  "keeps_launch (straight_image_to_buffer_copy cl q b1 b2 so r off es)"
  unfolding mem_info_def wait_for_def temp_buffer_def temp_image_def clean_up_copy_def find_regions_def
    straight_buffer_copy_def straight_image_copy_def straight_image_to_buffer_copy_def
  by (rule keeps_first keeps | (rule keeps_wrapper, rule keeps) | simp)+

lemma keeps_legs [keeps]:
  assumes "\<And>q es. keeps_launch (copy q es)"
  shows "keeps_launch (on_queue_of cl c (\<lambda>q. copy q es))"
    and "keeps_launch (to_host cl q own c copy es)"
    and "keeps_launch (from_host cl q c c' copy want)"
    and "keeps_launch between \<Longrightarrow> keeps_launch (choose_copy cl q c c' c'' copy between es want)"
  unfolding on_queue_of_def to_host_def from_host_def choose_copy_def
  by (rule assms keeps_first keeps | (rule keeps_wrapper, rule keeps) | simp)+

lemma keeps_copies [keeps]:
  "keeps_launch (cl_buffer_copy cl q b1 b2 o1 o2 sz es want)"
  "keeps_launch (cl_image_copy cl q b1 b2 so dst r es want)"
  "keeps_launch (cl_image_to_buffer_copy cl q b1 b2 so r off es want)"
  unfolding cl_buffer_copy_def inner_buffer_copy_def copy_between_contexts_def cl_image_copy_def
    inner_image_copy_def copy_image_between_contexts_def cl_image_to_buffer_copy_def
    inner_image_to_buffer_copy_def copy_i_to_b_between_contexts_def
  by (rule keeps_first keeps | (rule keeps_wrapper, rule keeps) | simp)+

section \<open>The device checks\<close>

lemma keeps_device_tools [keeps]:
  "keeps_launch (cl_set_arg_and_check cl k i v)"
  "keeps_launch (cl_set_svm_arg_and_check cl k i p)"
  "keeps_launch (work_group_size cl c k)"
  "keeps_launch (report_kernel_overflows cl rs ki dupe bt)"
  "keeps_launch (read_changes a)"
  "keeps_launch (verify_callback cl ki data)"
  "keeps_launch (create_result_buffer cl c q n)"
  "keeps_launch (get_change_buffer cl q n b es)"
  "keeps_launch (mend_this_canary cl c q p e)"
  "keeps_launch (runNDRangeKernel cl la)"
  "keeps_launch (is_nvidia_platform cl c)"
  unfolding cl_set_arg_and_check_def cl_set_svm_arg_and_check_def work_group_size_def
    report_kernel_overflows_def read_changes_def verify_callback_def create_result_buffer_def
    get_change_buffer_def mend_this_canary_def runNDRangeKernel_def is_nvidia_platform_def
  by (rule keeps_first keeps | (rule keeps_wrapper, rule keeps) | simp)+

lemma keeps_copy_image_canaries [keeps]: "keeps_launch (copy_image_canaries cl q m b off e)"
proof -
  have "keeps_launch (copy_canary_part cl q m b off e slot r)" for slot r
    unfolding copy_canary_part_def by (rule keeps | simp)+
  then show ?thesis unfolding copy_image_canaries_def
    apply -
    apply (rule preserves_let)+
    apply (rule preserves_andThen)
    apply (rule keeps)
    apply (rule preserves_andThen)
    apply (rule preserves_if)
    apply (rule preserves_mapM)
    apply assumption
    apply (rule keeps)
    apply (rule preserves_andThen)
    apply (rule preserves_if)
    apply (rule preserves_mapM)
    apply assumption
    apply (rule keeps)
    apply (rule keeps)
    apply (rule preserves_andThen)
    apply (rule preserves_if)
    apply (rule preserves_mapM)
    apply assumption
    apply (rule keeps)
    apply (rule preserves_option)
    apply (rule keeps | simp)+
    done
qed

lemma keeps_results [keeps]:
  "keeps_launch (analyze_check_results cl q e ki n ps sp b a dupe)"
  unfolding analyze_check_results_def by (rule keeps | (rule keeps_wrapper, rule keeps) | simp)+

text \<open>The ends that remain possible, as rules, so that a proof by \<open>rule\<close> alone gets through.\<close>

lemma other_ends [keeps]:
  "Exit n \<notin> {Loops_forever}" "Null_deref \<notin> {Loops_forever}" "Use_after_free \<notin> {Loops_forever}"
  "Assert_fail \<notin> {Loops_forever}" "Div_by_zero \<notin> {Loops_forever}" "Out_of_bounds \<notin> {Loops_forever}"
  by simp_all

lemma keeps_kernel_parts [keeps]:
  "keeps_launch (print_program_build_err cl c p)"
  "keeps_launch (alloc_string cl name)"
  "keeps_launch (check_if_same_kernel cl k c name)"
  unfolding print_program_build_err_def check_if_same_kernel_def alloc_string_def
  by (rule keeps | (rule keeps_wrapper, rule keeps))+

lemma keeps_checker_kernels [keeps]:
  "keeps_launch (get_canary_check_kernel cl c)"
  "keeps_launch (get_canary_check_kernel_no_svm cl c)"
  "keeps_launch (get_canary_check_kernel_image cl c)"
proof -
  have cached: "keeps_launch (get_kernel_for_context cl k c name src)" for k name src
    unfolding get_kernel_for_context_def
    by (rule keeps | (rule keeps_wrapper, rule keeps))+
  show "keeps_launch (get_canary_check_kernel cl c)" "keeps_launch (get_canary_check_kernel_no_svm cl c)"
    "keeps_launch (get_canary_check_kernel_image cl c)"
    unfolding get_canary_check_kernel_def get_canary_check_kernel_no_svm_def
      get_canary_check_kernel_image_def
    by (rule cached keeps)+
qed

section \<open>The strategies\<close>

lemma keeps_found [keeps]:
  "keeps_launch (found_mobj p)"
  "keeps_launch (found_svobj p)"
  "keeps_launch (image_canary_length p)"
  "keeps_launch (find_canary_ends ps)"
  "keeps_launch (svm_canary_pointers p)"
  "keeps_launch (checked_object b p)"
  "keeps_launch (host_array cl ws)"
  "keeps_launch (with_local_work g l)"
  "keeps_launch (input_event cl c oe)"
  "keeps_launch (finish_checks cl q es want)"
  "keeps_launch (set_arg_unchecked cl k i v)"
  unfolding found_mobj_def found_svobj_def image_canary_length_def find_canary_ends_def
    svm_canary_pointers_def checked_object_def host_array_def with_local_work_def input_event_def
    finish_checks_def set_arg_unchecked_def
  by (rule keeps | (rule keeps_wrapper, rule keeps))+

lemma keeps_canary_copies [keeps]:
  "keeps_launch (copy_clmem_canaries cl c q m e ib)"
  "keeps_launch (create_clmem_copies cl c q ps e)"
  "keeps_launch (copy_svm_canaries cl c q p e ib)"
  "keeps_launch (create_svm_copies cl c q ps e)"
  "keeps_launch (create_svm_ptr_copies cl c q ps e)"
  "keeps_launch (copy_all_canaries cl c q ps ss b e)"
proof -
  show mem: "keeps_launch (copy_clmem_canaries cl c q m e ib)" for m ib
    unfolding copy_clmem_canaries_def by (rule keeps | (rule keeps_wrapper, rule keeps))+
  show svm: "keeps_launch (copy_svm_canaries cl c q p e ib)" for p ib
    unfolding copy_svm_canaries_def by (rule keeps | (rule keeps_wrapper, rule keeps))+
  show mems: "keeps_launch (create_clmem_copies cl c q ps e)" for ps
    unfolding create_clmem_copies_def by (rule mem keeps | (rule keeps_wrapper, rule keeps))+
  have mark: "keeps_launch (set_svobj a (\<lambda>m. m\<lparr>sv_internal := True\<rparr>))" for a
    by (rule keeps_set_svobj) simp
  show svms: "keeps_launch (create_svm_copies cl c q ps e)" for ps
    unfolding create_svm_copies_def by (rule svm mark keeps | (rule keeps_wrapper, rule keeps))+
  show ptrs: "keeps_launch (create_svm_ptr_copies cl c q ps e)" for ps
    unfolding create_svm_ptr_copies_def by (rule keeps | (rule keeps_wrapper, rule keeps))+
  show "keeps_launch (copy_all_canaries cl c q ps ss b e)"
    unfolding copy_all_canaries_def by (rule mems svms ptrs keeps | (rule keeps_wrapper, rule keeps))+
qed

lemma keeps_launches_of_checks [keeps]:
  "keeps_launch (perform_cl_buffer_checks cl c q n1 n2 m p b es ms r)"
  "keeps_launch (perform_cl_image_checks cl c q k es ms m r n p len)"
  "keeps_launch (check_one_canary cl k b la h io)"
  "keeps_launch (check_one_image cl c q k lw e1 e2 tr)"
  unfolding perform_cl_buffer_checks_def perform_cl_image_checks_def check_one_canary_def check_one_image_def
    Let_def
  by (rule keeps | (rule keeps_wrapper, rule keeps))+

lemma keeps_single_checks [keeps]:
  "keeps_launch (perform_single_buffer_checks cl q k e1 e2 r ps b)"
  "keeps_launch (perform_single_image_checks cl c q k e1 e2 r ps ls p)"
  "keeps_launch (format_result_buff cl a n e)"
  unfolding perform_single_buffer_checks_def perform_single_image_checks_def format_result_buff_def
  by (rule keeps | (rule keeps_wrapper, rule keeps))+

lemma keeps_verifiers [keeps]:
  "keeps_launch (verify_cl_buffer_copy cl c q ps ss b ki dupe e)"
  "keeps_launch (verify_cl_images_copy cl c q ps ki dupe e)"
  "keeps_launch (verify_cl_buffer_single cl c q ps ki dupe e b)"
  "keeps_launch (verify_cl_images_single cl c q ps ki dupe e)"
  unfolding verify_cl_buffer_copy_def verify_cl_images_copy_def verify_cl_buffer_single_def
    verify_cl_images_single_def copy_this_image_canary_def Let_def
  by (rule keeps | (rule keeps_wrapper, rule keeps))+

lemma keeps_strategies [keeps]:
  "keeps_launch (verify_on_gpu_copy_canary cl q ps ss is b ki dupe oe want)"
  "keeps_launch (verify_on_gpu_single_buffer cl q ps ss is ki dupe oe want)"
  unfolding verify_on_gpu_copy_canary_def verify_on_gpu_single_buffer_def
  by (rule keeps | (rule keeps_wrapper, rule keeps))+

lemma keeps_checker_callback [keeps]: "keeps_launch (run_checker_callback cl n)"
proof -
  have "keeps_launch (case c of
        Format_result _ a m e \<Rightarrow> format_result_buff cl a m e
      | Verify_callback _ data \<Rightarrow>
          andThen (kinfo_find (vi_kern_info data)) (\<lambda>info. case info of
              None \<Rightarrow> fail Use_after_free
            | Some kern_info \<Rightarrow> verify_callback cl kern_info data))" for c
    by (cases c) (simp_all only: checker_callback.case, (rule keeps_find_rules keeps)+)
  moreover have "preserves tables_ok B (modify (\<lambda>s :: 'a det. s\<lparr>check_callbacks := cs\<rparr>))" for B cs
    by (rule preserves_frame) (simp add: same_tables_def same_defs)
  ultimately show ?thesis
    unfolding run_checker_callback_def by (intro preserves_andThen preserves_gets preserves_if preserves_ret)
qed

section \<open>The walk over the SVM regions\<close>

definition own_region :: "'w det \<Rightarrow> nat \<Rightarrow> bool" where
  "own_region s a = (case svobjs s a of None \<Rightarrow> False | Some m \<Rightarrow> sv_internal m)"

definition regions_after :: "'w det \<Rightarrow> ptr \<Rightarrow> (ptr \<times> nat) list" where
  "regions_after s p = filter (\<lambda>(q, _). p < q) (cl_svm_alloc s)"

lemma map_next_filter:
  "map_next tbl p = (case filter (\<lambda>(q, _). p < q) tbl of [] \<Rightarrow> None | (_, a) # _ \<Rightarrow> Some a)"
  by (induction tbl p rule: map_next.induct) auto

lemma regions_after_next:
  "map_ok tbl \<Longrightarrow> filter (\<lambda>(q, _). p < q) tbl = (k, a) # rest \<Longrightarrow> filter (\<lambda>(q, _). k < q) tbl = rest"
proof (induction tbl p rule: map_next.induct)
  case (2 j v m p)
  show ?case
  proof (cases "p < j")
    case True
    with 2(3) have k: "k = j" and rest: "rest = filter (\<lambda>(q, _). p < q) m" by auto
    have "\<forall>x \<in> set m. j < fst x" using 2(2) by simp
    then have "filter (\<lambda>(q, _). j < q) m = m" "filter (\<lambda>(q, _). p < q) m = m"
      using True by (auto simp: filter_id_conv intro: order.strict_trans)
    then show ?thesis by (simp add: k rest)
  next
    case False
    with 2(3) have m: "filter (\<lambda>(q, _). p < q) m = (k, a) # rest" by simp
    have "(k, a) \<in> set (filter (\<lambda>(q, _). p < q) m)" unfolding m by simp
    then have "(k, a) \<in> set m" by simp
    with 2(2) have "j < k" by auto
    moreover have "filter (\<lambda>(q, _). k < q) m = rest" using 2(1) [OF False _ m] 2(2) by simp
    ultimately show ?thesis by simp
  qed
qed simp

lemma svm_walk_result:
  assumes ok: "svm_ok s"
  shows "length (regions_after s p) < fuel \<Longrightarrow>
    svm_walk fuel p s = Inr (map fst (filter (\<lambda>(_, a). \<not> own_region s a) (regions_after s p)), s)"
proof (induction fuel arbitrary: p)
  case (Suc fuel)
  show ?case
  proof (cases "regions_after s p")
    case Nil
    then show ?thesis
      by (simp add: regions_after_def cl_svm_mem_next_def map_next_filter)
  next
    case (Cons x rest)
    obtain k a where x: "x = (k, a)" by (cases x)
    have "(k, a) \<in> set (regions_after s p)" unfolding Cons x by simp
    then have "(k, a) \<in> set (cl_svm_alloc s)" by (simp add: regions_after_def)
    with svm_okD [OF ok] obtain m where m: "svobjs s a = Some m" "sv_handle m = k" by blast
    have rest: "regions_after s k = rest"
      using regions_after_next [of "cl_svm_alloc s" p k a rest] ok Cons x
      by (simp add: regions_after_def svm_ok_def)
    with Suc.IH [of k] Suc.prems Cons
    have "svm_walk fuel k s = Inr (map fst (filter (\<lambda>(_, a). \<not> own_region s a) rest), s)" by simp
    moreover have "map_next (cl_svm_alloc s) p = Some a"
      using Cons x by (simp add: regions_after_def map_next_filter)
    ultimately show ?thesis
      by (simp add: Cons x m own_region_def cl_svm_mem_next_def get_svobj_def andThen_def)
  qed
qed simp

lemma all_svm_regions_result:
  "svm_ok s \<Longrightarrow> all_svm_regions s =
    Inr (map fst (filter (\<lambda>(_, a). \<not> own_region s a) (regions_after s 0)), s)"
  unfolding all_svm_regions_def
  using svm_walk_result [of s 0 "Suc (length (cl_svm_alloc s))"]
  by (simp add: regions_after_def le_imp_less_Suc del: svm_walk.simps)

lemma keeps_all_svm_regions [keeps]: "preserves tables_ok B all_svm_regions"
  unfolding preserves_def by (simp add: all_svm_regions_result tables_okD)

section \<open>The launch\<close>

lemma keeps_arg_steps [keeps]:
  "keeps_launch (info_arg ki i)"
  "keeps_launch (classify_arg ki dupe i)"
  "keeps_launch (collect_checks ki dupe n)"
  "keeps_launch (need_internal_buffer ki is)"
  "keeps_launch (set_arg cl k i sz v)"
  "keeps_launch (arg_at args i)"
  "keeps_launch (findDuplicates n args)"
  "keeps_launch (fixOclArgs cl la)"
  "keeps_launch (kernelDuplicate cl k)"
proof -
  show info: "keeps_launch (info_arg ki i)" for ki i
    unfolding info_arg_def by (rule keeps)+
  have classify: "keeps_launch (classify_arg ki dupe i)" for i
    unfolding classify_arg_def by (rule info keeps)+
  then show "keeps_launch (classify_arg ki dupe i)" .
  show "keeps_launch (collect_checks ki dupe n)"
    unfolding collect_checks_def by (rule classify keeps)+
  show "keeps_launch (need_internal_buffer ki is)" for "is"
    by (induction "is") (simp_all only: need_internal_buffer.simps, (rule info keeps | assumption)+)
  show "keeps_launch (set_arg cl k i sz v)"
    unfolding set_arg_def by (rule keeps | (rule keeps_wrapper, rule keeps))+
  show at: "keeps_launch (arg_at args i)" for args i
    unfolding arg_at_def by (rule keeps)+
  have before: "keeps_launch (same_before args h js)" for args h js
    by (induction js) (simp_all only: same_before.simps, (rule at keeps | assumption)+)
  show "keeps_launch (findDuplicates n args)"
    unfolding findDuplicates_def duplicate_of_def by (rule at before keeps)+
  show "keeps_launch (fixOclArgs cl la)"
    unfolding fixOclArgs_def Let_def by (rule keeps | (rule keeps_wrapper, rule keeps))+
  show "keeps_launch (kernelDuplicate cl k)"
    unfolding kernelDuplicate_def by (rule keeps)+
qed

lemma keeps_internal_copy [keeps]: "keeps_launch (internal_copy cl q m)"
proof -
  have mark: "preserves tables_ok B (set_mobj a (\<lambda>m. m\<lparr>m_internal := True\<rparr>))" for B a
    by (rule keeps_set_mobj) simp
  show ?thesis
    unfolding internal_copy_def by (rule mark keeps | (rule keeps_wrapper, rule keeps))+
qed

lemma keeps_kinfo_find [keeps]: "preserves I B (kinfo_find k)"
  by (rule keeps_same_state) (simp add: kinfo_find_def)

lemma keeps_poison_arg [keeps]: "keeps_launch (poison_arg cl q ki k d i)"
  unfolding poison_arg_def by (rule keeps | (rule keeps_wrapper, rule keeps) | simp only: split_paired_all)+

lemma keeps_createPoisonedKernel [keeps]: "keeps_launch (createPoisonedKernel cl q k dupe)"
  unfolding createPoisonedKernel_def by (rule keeps_find_rules keeps | (rule keeps_wrapper, rule keeps))+

lemma keeps_copyKernelBuffers [keeps]: "keeps_launch (copyKernelBuffers cl k1 k2 dupe q)"
proof -
  have copy: "keeps_launch (copy_arg cl q ti fi dupe i)" for ti fi i
    unfolding copy_arg_def by (rule keeps | (rule keeps_wrapper, rule keeps))+
  show ?thesis
    unfolding copyKernelBuffers_def by (rule copy keeps)+
qed

lemma kinfo_ok_without [simp]:
  "kinfo_ok k ki \<Longrightarrow> karg_remove (ki_arg_list ki) i = (r, rest) \<Longrightarrow> kinfo_ok k (ki\<lparr>ki_arg_list := rest\<rparr>)"
  using ll_ok_remove [of ka_handle "ki_arg_list ki" i] by (simp add: kinfo_ok_def karg_remove_def)

lemma keeps_deref_some:
  "(\<And>x. p = Some x \<Longrightarrow> preserves I B (g x)) \<Longrightarrow> Null_deref \<notin> B \<Longrightarrow> preserves I B (andThen (deref p) g)"
  by (cases p) (simp_all add: deref_def preserves_def)

lemma keeps_delPoisonKernel [keeps]: "keeps_launch (delPoisonKernel cl k dupe)"
proof -
  have forget: "preserves tables_ok B (set_mobj a (\<lambda>m. m\<lparr>m_host_ptr := 0\<rparr>))" for B a
    by (rule keeps_set_mobj) simp
  have one: "keeps_launch (del_poison_arg cl k i)" for i
    unfolding del_poison_arg_def
    by (rule keeps_find_rules keeps_deref_some forget keeps | (rule keeps_wrapper, rule keeps) | simp)+
  show ?thesis
    unfolding delPoisonKernel_def by (rule one keeps | (rule keeps_wrapper, rule keeps))+
qed

lemma keeps_remember_event [keeps]: "keeps_launch (remember_event e1 e2)"
  unfolding remember_event_def by (rule keeps_find_rules keeps | simp)+

lemma keeps_verifyBufferInBounds [keeps]: "keeps_launch (verifyBufferInBounds cl q k dupe e want)"
  unfolding verifyBufferInBounds_def by (rule keeps | (rule keeps_wrapper, rule keeps))+

lemma keeps_check_kernel [keeps]: "keeps_launch (check_kernel cl q k dupe e want)"
  unfolding check_kernel_def by (rule keeps)+

lemma keeps_kernelLaunchFunc [keeps]: "keeps_launch (kernelLaunchFunc cl la ev)"
  unfolding kernelLaunchFunc_def by (rule keeps)+

lemma keeps_launch_call [keeps]: "keeps_launch (clEnqueueNDRangeKernel cl q k d o1 g l es ev)"
  unfolding clEnqueueNDRangeKernel_def by (rule keeps)+

end
