(* ===== verification/Launch_Trace.thy ===== *)
theory Launch_Trace
  imports Api_Trace Launch_Invariants
begin

text \<open>
  Sessions with launches: calls of the wrappers, launches of kernels and the callbacks of the checks of
  the launches, in any order. A callback runs when the runtime says that the event it waits for is done,
  that is, at any time; its number is its place among those that are waiting.
\<close>

datatype (plugins only: size) session_event =
    Api api_call
  | Launch cl_command_queue cl_kernel u32 "u64 list option" "u64 list option" "u64 list option" evts "cl_event option"
  | Checker_done nat

primrec run_event :: "'w ocl \<Rightarrow> session_event \<Rightarrow> ('w det, unit) prog" where
  "run_event cl (Api c) = run_call cl c"
| "run_event cl (Launch q k dim off gsz lsz evs ev) = discard (clEnqueueNDRangeKernel cl q k dim off gsz lsz evs ev)"
| "run_event cl (Checker_done n) = run_checker_callback cl n"

text \<open>The states of a session, and the states in which the process ends.\<close>

inductive session :: "'w ocl \<Rightarrow> 'w det \<Rightarrow> 'w det \<Rightarrow> bool" for cl s0 where
  begins: "session cl s0 s0"
| continues: "session cl s0 s \<Longrightarrow> run_event cl e s = Inr ((), t) \<Longrightarrow> session cl s0 t"

lemma keeps_run_event: "keeps_launch (run_event cl e)"
  by (cases e) (simp_all only: run_event.simps, (rule keeps_discard keeps keeps_wrapper [OF keeps_run_call])+)

lemma session_tables: "session cl s0 s \<Longrightarrow> tables_ok s0 \<Longrightarrow> tables_ok s"
  by (induction rule: session.induct) (auto intro: preservesD [OF keeps_run_event])



text \<open>
  C23: A launch that has an SVM region as an argument checks the regions the application has allocated, all
  of them and once each, in the order of their addresses: the walk over the table ends and changes nothing.
\<close>

theorem svm_regions_all_checked:
  assumes "tables_ok s"
  shows "\<exists>ptrs. all_svm_regions s = Inr (ptrs, s) \<and> sorted ptrs \<and> distinct ptrs
    \<and> set ptrs = {p. 0 < p \<and> (\<exists>a m. (p, a) \<in> set (cl_svm_alloc s) \<and> svobjs s a = Some m \<and> \<not> sv_internal m)}"
proof -
  have ok: "svm_ok s" using assms by (rule tables_okD)
  then have order: "sorted_wrt (<) (map fst (cl_svm_alloc s))" by (simp add: svm_ok_def map_ok_def)
  let ?own = "\<lambda>(_ :: ptr, a). \<not> own_region s a"
  let ?ptrs = "map fst (filter ?own (regions_after s 0))"
  have "sorted_wrt (<) ?ptrs"
    using order unfolding regions_after_def by (simp add: sorted_wrt_map sorted_wrt_filter)
  then have "sorted ?ptrs" "distinct ?ptrs" by (simp_all add: strict_sorted_iff)
  moreover have "(p, a) \<in> set (filter ?own (regions_after s 0)) \<longleftrightarrow>
      0 < p \<and> (p, a) \<in> set (cl_svm_alloc s) \<and> (\<exists>m. svobjs s a = Some m \<and> \<not> sv_internal m)" for p a
    using svm_okD [OF ok, of p a] by (auto simp: regions_after_def own_region_def)
  then have "set ?ptrs = {p. 0 < p \<and> (\<exists>a m. (p, a) \<in> set (cl_svm_alloc s) \<and> svobjs s a = Some m \<and> \<not> sv_internal m)}"
    by (force simp: image_iff)
  ultimately show ?thesis using all_svm_regions_result [OF ok] by blast
qed

text \<open>Three regions, of which the second is the tool's own.\<close>

theorem svm_regions_all_checked_witness:
  "\<forall>e mem. \<exists>s :: unit det. map fst (cl_svm_alloc s) = [4096, 16384, 32768] \<and> all_svm_regions s = Inr ([4096, 32768], s)"
proof (intro allI)
  fix e :: env and mem :: "ptr \<Rightarrow> u8"
  let ?r = "\<lambda>p own. \<lparr>sv_handle = p, sv_main_buff = p - 4096, sv_context = 1, sv_flags = {}, sv_size = 64,
    sv_alignment = 0, sv_internal = own\<rparr>"
  let ?s = "(initial_state () e mem 0)\<lparr>cl_svm_alloc := [(4096, 0), (16384, 1), (32768, 2)], next_obj := 3,
    svobjs := [0 \<mapsto> ?r 4096 False, 1 \<mapsto> ?r 16384 True, 2 \<mapsto> ?r 32768 False]\<rparr>"
  have "tables_ok ?s" by (auto simp: initial_state_def tables_ok_def ok_defs)
  from svm_regions_all_checked [OF this] obtain ptrs where ptrs: "all_svm_regions ?s = Inr (ptrs, ?s)"
    "sorted ptrs" "distinct ptrs" "set ptrs = {p. 0 < p
      \<and> (\<exists>a m. (p, a) \<in> set (cl_svm_alloc ?s) \<and> svobjs ?s a = Some m \<and> \<not> sv_internal m)}" by blast
  have "x \<in> set ptrs \<longleftrightarrow> x = 4096 \<or> x = 32768" for x
    unfolding ptrs(4)
    by (cases "x = 4096"; cases "x = 16384"; cases "x = 32768") (simp_all add: initial_state_def)
  then have "set ptrs = set [4096, 32768]" by auto
  then have "ptrs = [4096, 32768]" using ptrs(2, 3) by (intro sorted_distinct_set_unique) simp_all
  with ptrs(1) show "\<exists>s :: unit det. map fst (cl_svm_alloc s) = [4096, 16384, 32768]
      \<and> all_svm_regions s = Inr ([4096, 32768], s)" by (intro exI [of _ ?s]) simp
qed

end
