(* ===== verification/Kernel_Arg_Props.thy ===== *)
theory Kernel_Arg_Props
  imports Launch_Trace Image_Check_Props
begin

text \<open>
  What the tool remembers about a kernel between the calls that set its arguments and its launch. The
  lists of the records refine a map from kernels and indices to arguments; at a launch every buffer among
  the arguments is collected for its check once, however often it was passed.
\<close>

section \<open>The recorded arguments as a map\<close>

definition set_args :: "'w det \<Rightarrow> cl_kernel \<times> u32 \<rightharpoonup> kernel_arg" where
  "set_args s = (\<lambda>(k, i). Option.bind (map_find (kern_list s) k) (\<lambda>ki. karg_find (ki_arg_list ki) i))"

lemma set_args_same: "kern_list t = kern_list s \<Longrightarrow> set_args t = set_args s"
  by (simp add: set_args_def)

lemma karg_find_replace:
  "ll_ok ka_handle (ki_arg_list ki) \<Longrightarrow>
    karg_find (ki_arg_list (replace_arg ki arg)) i =
      (if i = ka_handle arg then Some arg else karg_find (ki_arg_list ki) i)"
  by (simp add: replace_arg_def karg_find_def karg_insert_def karg_remove_def ll.look_replace)

text \<open>The record that is looked up or made, and then assigned with one argument replaced.\<close>

lemma kinfo_or_new_result:
  assumes ok: "kern_ok s"
  shows "\<exists>ki l. kinfo_or_new kern s = Inr (ki, s\<lparr>kern_list := l\<rparr>) \<and> map_find l kern = Some ki
    \<and> ll_ok ka_handle (ki_arg_list ki) \<and> set_args (s\<lparr>kern_list := l\<rparr>) = set_args s"
proof (cases "map_find (kern_list s) kern")
  case None
  let ?l = "map_insert ki_handle (kern_list s) (new_kinfo kern 1)"
  have "map_find ?l k = (if k = kern then Some (new_kinfo kern 1) else map_find (kern_list s) k)" for k
    using ok None by (simp add: map_find_insert kern_ok_def new_kinfo_def)
  moreover have "karg_find [] i = None" for i by (simp add: karg_find_def)
  ultimately show ?thesis
    using None by (auto simp: kinfo_or_new_def runs andThen_def set_args_def new_kinfo_def fun_eq_iff)
next
  case (Some ki)
  with ok have "(kern, ki) \<in> set (kern_list s)" by (simp add: kern_ok_def map_find_Some)
  with ok have "ll_ok ka_handle (ki_arg_list ki)" by (simp add: kern_ok_def)
  with Some show ?thesis
    by (intro exI [of _ ki] exI [of _ "kern_list s"]) (simp add: kinfo_or_new_def runs andThen_def)
qed

lemma set_args_assign:
  assumes "map_find l kern = Some ki" "ll_ok ka_handle (ki_arg_list ki)"
  shows "set_args (s\<lparr>kern_list := map_assign l kern (replace_arg ki arg)\<rparr>) =
    (set_args (s\<lparr>kern_list := l\<rparr>))((kern, ka_handle arg) \<mapsto> arg)"
  using assms by (auto simp: set_args_def fun_eq_iff map_find_assign karg_find_replace)

text \<open>
  C17: Setting an argument updates the map from kernels and indices to arguments at one place, if the
  runtime accepts the argument, and leaves it alone otherwise: the new argument replaces the one that was
  set for this index, and those of other indices and kernels stay. The recorded argument refers to the memory
  object whose handle the value is.
\<close>

theorem clSetKernelArg_refines_map:
  assumes "tables_ok s" and "loaded cl ''clSetKernelArg''"
    and call: "rt_SetKernelArg cl kern i sz v (world s) = (err, w)"
  shows "\<exists>t. clSetKernelArg cl kern i sz v s = Inr (err, t) \<and> world t = w \<and> set_args t =
    (if err = CL_SUCCESS
     then (set_args s)((kern, i) \<mapsto> \<lparr>ka_handle = i, ka_size = sz, ka_value = map_option (take (unat sz)) v,
       ka_buffer = (if sz = 8 then Option.bind v (\<lambda>b. cl_mem_alloc s (u64_of_bytes b)) else None),
       ka_svm_buffer = None\<rparr>)
     else set_args s)"
proof -
  let ?s = "(logged cl s)\<lparr>world := w\<rparr>"
  let ?m1 = "if sz = 8 then Option.bind v (\<lambda>b. cl_mem_alloc s (u64_of_bytes b)) else None"
  let ?arg = "\<lparr>ka_handle = i, ka_size = sz, ka_value = map_option (take (unat sz)) v, ka_buffer = ?m1, ka_svm_buffer = None\<rparr>"
  have args: "set_args ?s = set_args s" by (rule set_args_same) simp
  show ?thesis
  proof (cases "err = CL_SUCCESS")
    case False
    then have "clSetKernelArg cl kern i sz v s = Inr (err, ?s)"
      using assms(2) call by (simp add: clSetKernelArg_def andThen_def initialize_logging_run)
    with False args show ?thesis by simp
  next
    case True
    have "kern_ok ?s" using assms(1) by (simp add: tables_ok_def kern_ok_def)
    then obtain ki l where ki: "kinfo_or_new kern ?s = Inr (ki, ?s\<lparr>kern_list := l\<rparr>)" "map_find l kern = Some ki"
      "ll_ok ka_handle (ki_arg_list ki)" "set_args (?s\<lparr>kern_list := l\<rparr>) = set_args ?s"
      using kinfo_or_new_result by blast
    have "clSetKernelArg cl kern i sz v s = Inr (err, ?s\<lparr>kern_list := map_assign l kern (replace_arg ki ?arg)\<rparr>)"
      using True assms(2) call ki(1)
      by (cases v) (simp_all add: clSetKernelArg_def andThen_def initialize_logging_run runs)
    moreover have "set_args (?s\<lparr>kern_list := map_assign l kern (replace_arg ki ?arg)\<rparr>) =
        (set_args s)((kern, i) \<mapsto> ?arg)"
      using set_args_assign [OF ki(2, 3), of ?arg ?s] ki(4) args by simp
    ultimately show ?thesis using True by simp
  qed
qed

theorem clSetKernelArg_refines_map_witness:
  "\<forall>(cl :: unit ocl) e mem. \<exists>t. clSetKernelArg
      (cl\<lparr>loaded := \<lambda>_. True, rt_SetKernelArg := \<lambda>_ _ _ _ w. (CL_SUCCESS, w)\<rparr>) 5 1 4 (Some [7, 0, 0, 0])
      (initial_state () e mem 0) = Inr (CL_SUCCESS, t)
    \<and> set_args t = [(5, 1) \<mapsto> \<lparr>ka_handle = 1, ka_size = 4, ka_value = Some [7, 0, 0, 0], ka_buffer = None,
        ka_svm_buffer = None\<rparr>]"
proof (intro allI)
  fix cl :: "unit ocl" and e :: env and mem :: "ptr \<Rightarrow> u8"
  let ?cl = "cl\<lparr>loaded := \<lambda>_. True, rt_SetKernelArg := \<lambda>_ _ _ _ w. (CL_SUCCESS, w)\<rparr>"
  let ?s = "initial_state () e mem 0"
  have "set_args ?s = Map.empty" by (simp add: set_args_def initial_state_def fun_eq_iff)
  then show "\<exists>t. clSetKernelArg ?cl 5 1 4 (Some [7, 0, 0, 0]) ?s = Inr (CL_SUCCESS, t)
    \<and> set_args t = [(5, 1) \<mapsto> \<lparr>ka_handle = 1, ka_size = 4, ka_value = Some [7, 0, 0, 0], ka_buffer = None,
        ka_svm_buffer = None\<rparr>]"
    using clSetKernelArg_refines_map [OF initial_tables_ok, of ?cl 5 1 4 "Some [7, 0, 0, 0]" "()" e mem 0 CL_SUCCESS "()"]
    by auto
qed

section \<open>The buffers a launch checks\<close>

text \<open>
  The memory object of an argument. \<open>args_in_use\<close>: the application has released none of them.
  \<open>args_complete\<close>: the arguments \<open>0\<close>, \<open>1\<close>, \<open>...\<close> of the kernel are all set.
\<close>

definition arg_mem :: "'w det \<Rightarrow> kernel_arg \<Rightarrow> cl_memobj option" where
  "arg_mem s arg = Option.bind (ka_buffer arg) (mobjs s)"

definition args_in_use :: "'w det \<Rightarrow> kernel_arg list \<Rightarrow> bool" where
  "args_in_use s args \<longleftrightarrow> (\<forall>arg \<in> set args. \<forall>a. ka_buffer arg = Some a \<longrightarrow>
     (\<exists>m. mobjs s a = Some m \<and> cl_mem_alloc s (m_handle m) = Some a))"

definition args_complete :: "u32 \<Rightarrow> kernel_arg list \<Rightarrow> bool" where
  "args_complete nargs args \<longleftrightarrow> map ka_handle args = upto32 nargs"

lemma mapM_pure: "(\<And>x. x \<in> set xs \<Longrightarrow> f x s = Inr (g x, s)) \<Longrightarrow> mapM f xs s = Inr (map g xs, s)"
  by (induction xs) (simp_all add: andThen_def)

lemma in_upto32: "i \<in> set (upto32 n) \<longleftrightarrow> unat i < unat n"
proof
  assume "unat i < unat n"
  then have "of_nat (unat i) \<in> set (upto32 n)" unfolding upto32_def set_map by (intro imageI) simp
  then show "i \<in> set (upto32 n)" by simp
qed (rule upto32_less)

lemma upto32_nth: "k < unat n \<Longrightarrow> upto32 n ! k = of_nat k"
  by (simp add: upto32_def)

lemma length_upto32 [simp]: "length (upto32 n) = unat n"
  by (simp add: upto32_def)

lemma unat_of_below: "k < unat (n :: u32) \<Longrightarrow> unat (of_nat k :: u32) = k"
  using unsigned_less [of n, where ?'a = nat] by (intro unat_of_nat_eq) simp

lemma distinct_upto32: "distinct (upto32 n)"
  unfolding upto32_def by (auto simp: distinct_map inj_on_def dest: arg_cong [where f = unat] simp: unat_of_below)

lemma distinct_concat_few:
  assumes "distinct is" and "\<And>i. i \<in> set is \<Longrightarrow> distinct (f i)"
    and "\<And>i j x. i \<in> set is \<Longrightarrow> j \<in> set is \<Longrightarrow> x \<in> set (f i) \<Longrightarrow> x \<in> set (f j) \<Longrightarrow> i = j"
  shows "distinct (concat (map f is))"
  using assms
proof (induction "is")
  case (Cons i "is")
  have "set (f i) \<inter> set (concat (map f is)) = {}"
    using Cons.prems(1) Cons.prems(3) [of i] by auto
  moreover have "distinct (concat (map f is))" by (rule Cons.IH) (use Cons.prems in auto)
  ultimately show ?case using Cons.prems(2) [of i] by simp
qed simp

lemma complete_nth:
  assumes "args_complete nargs args"
  shows "length args = unat nargs" "k < unat nargs \<Longrightarrow> ka_handle (args ! k) = of_nat k"
proof -
  have len: "length (map ka_handle args) = unat nargs" using assms by (simp add: args_complete_def)
  then show "length args = unat nargs" by simp
  assume "k < unat nargs"
  then have "map ka_handle args ! k = of_nat k" using assms by (simp add: args_complete_def upto32_nth)
  then show "ka_handle (args ! k) = of_nat k" using len \<open>k < unat nargs\<close> by simp
qed

lemma complete_find:
  assumes "args_complete nargs args" and i: "unat i < unat nargs"
  shows "karg_find args i = Some (args ! unat i)"
proof -
  have "sorted_wrt (<) (upto32 nargs)"
    unfolding sorted_wrt_iff_nth_less
    by (auto simp: upto32_nth word_less_nat_alt unat_of_below [of _ nargs] dest: less_trans [of _ _ "unat nargs"])
  then have "ll_ok ka_handle args" using assms(1) by (simp add: ll_ok_def args_complete_def)
  moreover have "args ! unat i \<in> set args" using complete_nth(1) [OF assms(1)] i by simp
  moreover have "ka_handle (args ! unat i) = i" using complete_nth(2) [OF assms(1) i] by simp
  ultimately show ?thesis by (simp add: karg_find_def ll_find_Some)
qed

text \<open>The handle of the buffer of argument \<open>i\<close>, and the first argument with this buffer.\<close>

definition arg_handle :: "'w det \<Rightarrow> kernel_arg list \<Rightarrow> u32 \<Rightarrow> cl_mem option" where
  "arg_handle s args i = map_option m_handle (arg_mem s (args ! unat i))"

definition first_with :: "'w det \<Rightarrow> kernel_arg list \<Rightarrow> u32 \<Rightarrow> u32" where
  "first_with s args i = (if arg_handle s args i = None then i
     else case find (\<lambda>j. arg_handle s args j = arg_handle s args i) (upto32 i) of None \<Rightarrow> i | Some j \<Rightarrow> j)"

lemma arg_at_run: "unat i < length args \<Longrightarrow> arg_at args i s = Inr (args ! unat i, s)"
  by (simp add: arg_at_def)

lemma same_before_run:
  assumes "args_in_use s args" "\<forall>j \<in> set js. unat j < length args"
  shows "same_before args h js s = Inr (find (\<lambda>j. arg_handle s args j = Some h) js, s)"
  using assms
proof (induction js)
  case (Cons j js)
  then have j: "unat j < length args" "args ! unat j \<in> set args" by simp_all
  show ?case
  proof (cases "ka_buffer (args ! unat j)")
    case None
    with Cons j show ?thesis by (simp add: andThen_def arg_at_run arg_handle_def arg_mem_def)
  next
    case (Some a)
    with Cons.prems(1) j(2) obtain m where "mobjs s a = Some m" by (auto simp: args_in_use_def)
    with Some Cons j show ?thesis
      by (auto simp: andThen_def arg_at_run arg_handle_def arg_mem_def get_mobj_def)
  qed
qed simp

lemma duplicate_of_run:
  assumes use: "args_in_use s args" and i: "unat i < length args"
  shows "duplicate_of args i s = Inr (first_with s args i, s)"
proof (cases "ka_buffer (args ! unat i)")
  case None
  with i show ?thesis
    by (simp add: duplicate_of_def andThen_def arg_at_run first_with_def arg_handle_def arg_mem_def)
next
  case (Some a)
  have "args ! unat i \<in> set args" using i by simp
  with use Some obtain m where m: "mobjs s a = Some m" by (auto simp: args_in_use_def)
  have "\<forall>j \<in> set (upto32 i). unat j < length args" using i by (auto simp: in_upto32)
  note before = same_before_run [OF use this]
  have h: "arg_handle s args i = Some (m_handle m)" by (simp add: arg_handle_def arg_mem_def Some m)
  show ?thesis
    using i by (simp add: duplicate_of_def andThen_def arg_at_run Some get_mobj_def m before first_with_def h)
qed

lemma findDuplicates_run:
  assumes "args_in_use s args" "args_complete nargs args" "nargs \<noteq> 0"
  shows "findDuplicates nargs args s = Inr (Some (map (first_with s args) (upto32 nargs)), s)"
proof -
  have "mapM (duplicate_of args) (upto32 nargs) s = Inr (map (first_with s args) (upto32 nargs), s)"
    by (rule mapM_pure, rule duplicate_of_run [OF assms(1)]) (simp add: complete_nth(1) [OF assms(2)] in_upto32)
  with assms(3) show ?thesis by (simp add: findDuplicates_def andThen_def)
qed

lemma first_with_self:
  "first_with s args i = i \<longleftrightarrow>
    arg_handle s args i = None \<or> (\<forall>j. unat j < unat i \<longrightarrow> arg_handle s args j \<noteq> arg_handle s args i)"
proof (cases "find (\<lambda>j. arg_handle s args j = arg_handle s args i) (upto32 i)")
  case None
  then have "\<forall>j \<in> set (upto32 i). arg_handle s args j \<noteq> arg_handle s args i" by (simp add: find_None_iff)
  with None show ?thesis by (simp add: first_with_def in_upto32)
next
  case (Some j)
  then have "j \<in> set (upto32 i)" "arg_handle s args j = arg_handle s args i"
    by (auto simp: find_Some_iff in_set_conv_nth)
  then have "unat j < unat i" "arg_handle s args j = arg_handle s args i" by (simp_all only: in_upto32)
  with Some show ?thesis by (auto simp: first_with_def)
qed

text \<open>What an argument has to be checked as, when it is the first with its buffer.\<close>

definition arg_check :: "'w det \<Rightarrow> kernel_arg \<Rightarrow> to_check" where
  "arg_check s arg = (case arg_mem s arg of
       Some m \<Rightarrow> if m_is_image m then Check_image (m_handle m) else Check_buffer (m_handle m)
     | None \<Rightarrow> if ka_svm_buffer arg = None then Check_nothing else Check_svm)"

lemma classify_arg_run:
  assumes use: "args_in_use s args" and all: "args_complete nargs args" and i: "unat i < unat nargs"
    and ki: "ki_arg_list ki = args"
  shows "classify_arg (Some ki) (Some (map (first_with s args) (upto32 nargs))) i s =
    Inr (if first_with s args i = i then arg_check s (args ! unat i) else Check_nothing, s)"
proof -
  have first: "is_first (Some (map (first_with s args) (upto32 nargs))) i \<longleftrightarrow> first_with s args i = i"
    using i by (simp add: is_first_def upto32_nth)
  have arg: "args ! unat i \<in> set args" using i complete_nth(1) [OF all] by simp
  have info: "info_arg (Some ki) i s = Inr (Some (args ! unat i), s)"
    by (simp add: info_arg_def andThen_def ki complete_find [OF all i])
  show ?thesis
  proof (cases "ka_buffer (args ! unat i)")
    case None
    then show ?thesis by (simp add: classify_arg_def first andThen_def info arg_check_def arg_mem_def)
  next
    case (Some a)
    with use arg obtain m where "mobjs s a = Some m" by (auto simp: args_in_use_def)
    with Some show ?thesis
      by (simp add: classify_arg_def first andThen_def info arg_check_def arg_mem_def get_mobj_def)
  qed
qed

lemma same_handle_same_mem:
  assumes use: "args_in_use s args" and args: "x \<in> set args" "y \<in> set args"
    and m: "arg_mem s x = Some m" "arg_mem s y = Some n" "m_handle m = m_handle n"
  shows "m = n"
proof -
  obtain a b where "ka_buffer x = Some a" "mobjs s a = Some m" "ka_buffer y = Some b" "mobjs s b = Some n"
    using m(1, 2) by (auto simp: arg_mem_def bind_eq_Some_conv)
  with use args m(3) show ?thesis unfolding args_in_use_def by (metis option.inject)
qed

text \<open>Every memory object among the arguments has a first argument.\<close>

lemma first_with_exists:
  assumes "i < length args" "arg_mem s (args ! i) = Some m" "length args = unat (nargs :: u32)"
  shows "\<exists>j. unat j < unat nargs \<and> first_with s args j = j \<and> arg_handle s args j = Some (m_handle m)"
proof -
  let ?P = "\<lambda>k. k < length args \<and> arg_handle s args (of_nat k) = Some (m_handle m)"
  have small: "unat (of_nat k :: u32) = k" if "k < length args" for k
    using that assms(3) by (intro unat_of_below [of _ nargs]) simp
  have "?P i" using assms(1, 2) small by (simp add: arg_handle_def)
  then obtain k where k: "?P k" "\<And>j. j < k \<Longrightarrow> \<not> ?P j" using exists_least_iff [of ?P] by blast
  have "arg_handle s args j \<noteq> arg_handle s args (of_nat k)" if "unat j < unat (of_nat k :: u32)" for j
    using k(2) [of "unat j"] k(1) that small [of k] by simp
  then have "first_with s args (of_nat k) = of_nat k" unfolding first_with_self by blast
  with k(1) small [of k] assms(3) show ?thesis by (intro exI [of _ "of_nat k"]) simp
qed

text \<open>The handles collected of one kind.\<close>

definition picked :: "(cl_memobj \<Rightarrow> bool) \<Rightarrow> 'w det \<Rightarrow> kernel_arg list \<Rightarrow> u32 \<Rightarrow> cl_mem list" where
  "picked P s args i = (if first_with s args i = i then (case arg_mem s (args ! unat i) of
       Some m \<Rightarrow> if P m then [m_handle m] else [] | None \<Rightarrow> []) else [])"

lemma picked_iff:
  "h \<in> set (picked P s args i) \<longleftrightarrow>
    first_with s args i = i \<and> (\<exists>m. arg_mem s (args ! unat i) = Some m \<and> P m \<and> m_handle m = h)"
proof (cases "first_with s args i = i")
  case True
  then show ?thesis
    unfolding picked_def if_P [OF True] by (cases "arg_mem s (args ! unat i)") (simp_all, blast)
next
  case False
  then show ?thesis unfolding picked_def if_not_P [OF False] by simp
qed

lemma picked_once:
  assumes "h \<in> set (picked P s args i)" "h \<in> set (picked P s args j)"
  shows "i = j"
proof -
  have h: "arg_handle s args i = Some h" "arg_handle s args j = Some h"
    using assms by (auto simp: picked_iff arg_handle_def)
  have first: "first_with s args i = i" "first_with s args j = j" using assms by (auto simp: picked_iff)
  have "\<not> unat i < unat j" "\<not> unat j < unat i" using first h unfolding first_with_self by auto
  then show ?thesis by (simp add: word_unat_eq_iff)
qed

lemma picked_all:
  assumes use: "args_in_use s args" and all: "args_complete nargs args"
  shows "distinct (concat (map (picked P s args) (upto32 nargs)))
    \<and> set (concat (map (picked P s args) (upto32 nargs))) =
      {m_handle m | arg m. arg \<in> set args \<and> arg_mem s arg = Some m \<and> P m}"
proof
  have "distinct (picked P s args i)" for i by (simp add: picked_def split: option.split)
  then show "distinct (concat (map (picked P s args) (upto32 nargs)))"
    by (rule distinct_concat_few [OF distinct_upto32]) (rule picked_once)
  note len = complete_nth(1) [OF all]
  show "set (concat (map (picked P s args) (upto32 nargs))) =
      {m_handle m | arg m. arg \<in> set args \<and> arg_mem s arg = Some m \<and> P m}" (is "?picked = ?all")
  proof (intro equalityI subsetI)
    fix h
    assume "h \<in> ?picked"
    then obtain i where "unat i < unat nargs" "h \<in> set (picked P s args i)" by (auto simp: in_upto32)
    with len show "h \<in> ?all" by (auto simp: picked_iff) (metis nth_mem)
  next
    fix h
    assume "h \<in> ?all"
    then obtain k m where k: "k < length args" "arg_mem s (args ! k) = Some m" "P m" "h = m_handle m"
      by (auto simp: in_set_conv_nth)
    obtain j where j: "unat j < unat nargs" "first_with s args j = j" "arg_handle s args j = Some h"
      using first_with_exists [OF k(1, 2) len] k(4) by auto
    then obtain n where n: "arg_mem s (args ! unat j) = Some n" "m_handle n = h" by (auto simp: arg_handle_def)
    have "n = m" by (rule same_handle_same_mem [OF use _ _ n(1) k(2)]) (use n k j len in simp_all)
    with n k(3) j have "h \<in> set (picked P s args j)" by (auto simp: picked_iff)
    with j(1) show "h \<in> ?picked" by (auto simp: in_upto32)
  qed
qed

lemma collect_checks_run:
  "mapM (classify_arg info dupe) (upto32 nargs) s = Inr (cs, s) \<Longrightarrow>
    (if Check_svm \<in> set cs then all_svm_regions else ret []) s = Inr (svms, s) \<Longrightarrow>
    collect_checks info dupe nargs s = Inr ((concat (map (\<lambda>c. case c of Check_buffer h \<Rightarrow> [h] | _ \<Rightarrow> []) cs), svms,
      concat (map (\<lambda>c. case c of Check_image h \<Rightarrow> [h] | _ \<Rightarrow> []) cs)), s)"
  by (simp add: collect_checks_def andThen_def split: if_splits)

lemma svm_among_args:
  assumes use: "args_in_use s args" and all: "args_complete nargs args"
  shows "Check_svm \<in> (\<lambda>i. if first_with s args i = i then arg_check s (args ! unat i) else Check_nothing) ` set (upto32 nargs)
    \<longleftrightarrow> (\<exists>arg \<in> set args. ka_buffer arg = None \<and> ka_svm_buffer arg \<noteq> None)" (is "Check_svm \<in> ?c ` _ \<longleftrightarrow> ?svm")
proof
  assume "Check_svm \<in> ?c ` set (upto32 nargs)"
  then obtain i where i: "i \<in> set (upto32 nargs)" "?c i = Check_svm" by auto
  let ?arg = "args ! unat i"
  have arg: "?arg \<in> set args" using i(1) complete_nth(1) [OF all] by (simp add: in_upto32)
  have "arg_check s ?arg = Check_svm" using i(2) by (simp split: if_splits)
  then have "arg_mem s ?arg = None" "ka_svm_buffer ?arg \<noteq> None"
    by (auto simp: arg_check_def split: option.splits if_splits)
  moreover from this use arg have "ka_buffer ?arg = None"
    by (cases "ka_buffer ?arg") (auto simp: args_in_use_def arg_mem_def)
  ultimately show ?svm using arg by blast
next
  assume ?svm
  then obtain k where k: "k < length args" "ka_buffer (args ! k) = None" "ka_svm_buffer (args ! k) \<noteq> None"
    by (auto simp: in_set_conv_nth)
  have small: "unat (of_nat k :: u32) = k"
    using k(1) complete_nth(1) [OF all] by (intro unat_of_below [of _ nargs]) simp
  have "?c (of_nat k) = Check_svm"
    using k(2, 3) small by (simp add: first_with_def arg_handle_def arg_check_def arg_mem_def)
  moreover have "of_nat k \<in> set (upto32 nargs)" using k(1) small complete_nth(1) [OF all] by (simp add: in_upto32)
  ultimately show "Check_svm \<in> ?c ` set (upto32 nargs)" by (intro rev_image_eqI [of "of_nat k"]) (simp_all only:)
qed

lemma launch_collects:
  assumes use: "args_in_use s args" and all: "args_complete nargs args" "nargs \<noteq> 0" and ki: "ki_arg_list ki = args"
    and ok: "tables_ok s"
  shows "\<exists>dupe buffers svms images. findDuplicates nargs args s = Inr (dupe, s)
    \<and> collect_checks (Some ki) dupe nargs s = Inr ((buffers, svms, images), s)
    \<and> distinct buffers \<and> set buffers = {m_handle m | arg m. arg \<in> set args \<and> arg_mem s arg = Some m \<and> \<not> m_is_image m}
    \<and> distinct images \<and> set images = {m_handle m | arg m. arg \<in> set args \<and> arg_mem s arg = Some m \<and> m_is_image m}
    \<and> (if \<exists>arg \<in> set args. ka_buffer arg = None \<and> ka_svm_buffer arg \<noteq> None
       then all_svm_regions s = Inr (svms, s) else svms = [])"
proof -
  let ?dupe = "map (first_with s args) (upto32 nargs)"
  let ?c = "\<lambda>i. if first_with s args i = i then arg_check s (args ! unat i) else Check_nothing"
  let ?cs = "map ?c (upto32 nargs)"
  have find: "findDuplicates nargs args s = Inr (Some ?dupe, s)" by (rule findDuplicates_run [OF use all])
  have classes: "mapM (classify_arg (Some ki) (Some ?dupe)) (upto32 nargs) s = Inr (?cs, s)"
    by (rule mapM_pure, rule classify_arg_run [OF use all(1) _ ki]) (simp add: in_upto32)
  obtain regions where regions: "all_svm_regions s = Inr (regions, s)"
    using all_svm_regions_result [OF tables_okD(2) [OF ok]] by blast
  let ?svms = "if Check_svm \<in> set ?cs then regions else []"
  let ?buffers = "concat (map (\<lambda>c. case c of Check_buffer h \<Rightarrow> [h] | _ \<Rightarrow> []) ?cs)"
  let ?images = "concat (map (\<lambda>c. case c of Check_image h \<Rightarrow> [h] | _ \<Rightarrow> []) ?cs)"
  have svms: "(if Check_svm \<in> set ?cs then all_svm_regions else ret []) s = Inr (?svms, s)" using regions by simp
  note collect = collect_checks_run [OF classes svms]
  have "(\<lambda>c. case c of Check_buffer h \<Rightarrow> [h] | _ \<Rightarrow> []) (?c i) = picked (\<lambda>m. \<not> m_is_image m) s args i" for i
    by (simp add: picked_def arg_check_def split: option.split)
  then have buffers: "?buffers = concat (map (picked (\<lambda>m. \<not> m_is_image m) s args) (upto32 nargs))"
    by (simp only: map_map comp_def)
  have "(\<lambda>c. case c of Check_image h \<Rightarrow> [h] | _ \<Rightarrow> []) (?c i) = picked m_is_image s args i" for i
    by (simp add: picked_def arg_check_def split: option.split)
  then have images: "?images = concat (map (picked m_is_image s args) (upto32 nargs))"
    by (simp only: map_map comp_def)
  have svm: "Check_svm \<in> set ?cs \<longleftrightarrow> (\<exists>arg \<in> set args. ka_buffer arg = None \<and> ka_svm_buffer arg \<noteq> None)"
    using svm_among_args [OF use all(1)] by simp
  note bufs = picked_all [OF use all(1), of "\<lambda>m. \<not> m_is_image m"] and imgs = picked_all [OF use all(1), of m_is_image]
  have "if \<exists>arg \<in> set args. ka_buffer arg = None \<and> ka_svm_buffer arg \<noteq> None
    then all_svm_regions s = Inr (?svms, s) else ?svms = []"
    unfolding svm [symmetric] using regions by (cases "Check_svm \<in> set ?cs") simp_all
  then show ?thesis
    by (intro exI conjI) (rule find, rule collect, use bufs imgs in \<open>simp_all only: buffers images\<close>)
qed

text \<open>
  C10: A launch looks at every memory object among the arguments of its kernel once: the handles
  of the buffers to check are those of the arguments that are buffers, without repetitions, and the
  handles of the images those of the arguments that are images, also when the same object is passed for
  several arguments. The SVM regions are checked when one argument points to one. All arguments have to be
  set, and their objects must not have been released.
\<close>

theorem launch_checks_every_buffer_once:
  assumes use: "args_in_use s args" and all: "args_complete nargs args" "nargs \<noteq> 0" and ki: "ki_arg_list ki = args"
    and ok: "tables_ok s"
  shows "\<exists>dupe buffers svms images. findDuplicates nargs args s = Inr (dupe, s)
    \<and> collect_checks (Some ki) dupe nargs s = Inr ((buffers, svms, images), s)
    \<and> distinct buffers \<and> set buffers = {m_handle m | arg m. arg \<in> set args \<and> arg_mem s arg = Some m \<and> \<not> m_is_image m}
    \<and> distinct images \<and> set images = {m_handle m | arg m. arg \<in> set args \<and> arg_mem s arg = Some m \<and> m_is_image m}
    \<and> (if \<exists>arg \<in> set args. ka_buffer arg = None \<and> ka_svm_buffer arg \<noteq> None
       then all_svm_regions s = Inr (svms, s) else svms = [])"
  by (rule launch_collects [OF assms])

lemma handles_eq:
  "{m_handle m | arg m. arg \<in> set args \<and> arg_mem s arg = Some m \<and> P m} =
    (\<Union>arg \<in> set args. case arg_mem s arg of None \<Rightarrow> {} | Some m \<Rightarrow> if P m then {m_handle m} else {})"
  by (auto split: option.splits if_splits) blast+

lemma distinct_one: "distinct xs \<Longrightarrow> set xs = {x} \<Longrightarrow> xs = [x]"
  by (cases xs) (auto simp: subset_singleton_iff dest: subset_singletonD)

text \<open>A kernel with the same buffer twice, and an image between them.\<close>

theorem launch_checks_every_buffer_once_witness:
  "\<forall>e mem. \<exists>(s :: unit det) ki dupe.
    map (arg_handle s (ki_arg_list ki)) (upto32 3) = [Some 9, Some 12, Some 9]
    \<and> collect_checks (Some ki) dupe 3 s = Inr (([9], [], [12]), s)"
proof (intro allI)
  fix e :: env and mem :: "ptr \<Rightarrow> u8"
  let ?b = "zero_memobj\<lparr>m_handle := 9\<rparr>" and ?i = "zero_memobj\<lparr>m_handle := 12, m_is_image := True\<rparr>"
  let ?s = "(initial_state () e mem 0)\<lparr>cl_mem_alloc := [9 \<mapsto> 0, 12 \<mapsto> 1], mobjs := [0 \<mapsto> ?b, 1 \<mapsto> ?i], next_obj := 2\<rparr>"
  let ?arg = "\<lambda>i a. \<lparr>ka_handle = i, ka_size = 8, ka_value = None, ka_buffer = Some a, ka_svm_buffer = None\<rparr>"
  let ?args = "[?arg 0 0, ?arg 1 1, ?arg 2 0]"
  let ?ki = "\<lparr>ki_handle = 5, ki_ref_count = 1, ki_arg_list = ?args\<rparr>"
  have upto: "upto32 3 = [0, 1, 2]" by (simp add: upto32_def upt_rec)
  have "tables_ok ?s" by (auto simp: initial_state_def tables_ok_def ok_defs zero_memobj_def)
  moreover have "args_in_use ?s ?args" by (simp add: args_in_use_def zero_memobj_def)
  moreover have "args_complete 3 ?args" by (simp add: args_complete_def upto)
  ultimately obtain dupe buffers svms images where r:
    "collect_checks (Some ?ki) dupe 3 ?s = Inr ((buffers, svms, images), ?s)" "svms = []"
    "distinct buffers" "set buffers = {m_handle m | arg m. arg \<in> set ?args \<and> arg_mem ?s arg = Some m \<and> \<not> m_is_image m}"
    "distinct images" "set images = {m_handle m | arg m. arg \<in> set ?args \<and> arg_mem ?s arg = Some m \<and> m_is_image m}"
    using launch_checks_every_buffer_once [of ?s ?args 3 ?ki] by auto
  have "set buffers = {9}" unfolding r(4) handles_eq by (simp add: arg_mem_def zero_memobj_def)
  with r(3) have "buffers = [9]" by (rule distinct_one)
  moreover have "set images = {12}" unfolding r(6) handles_eq by (simp add: arg_mem_def zero_memobj_def)
  with r(5) have "images = [12]" by (rule distinct_one)
  ultimately show "\<exists>(s :: unit det) ki dupe.
      map (arg_handle s (ki_arg_list ki)) (upto32 3) = [Some 9, Some 12, Some 9]
      \<and> collect_checks (Some ki) dupe 3 s = Inr (([9], [], [12]), s)"
    using r(1, 2) by (intro exI [of _ ?s] exI [of _ ?ki] exI [of _ dupe])
      (simp add: upto arg_handle_def arg_mem_def zero_memobj_def)
qed

section \<open>The event of a launch\<close>

text \<open>
  C31: The application gets the event of the check, but when it asks for times it learns those of its
  kernel: after a launch has recorded the two events, a query for the first is answered for the
  second, also when the first was known before. Other events keep their records. The last release of the
  application's event forgets the record and releases the event of the kernel too.
\<close>

theorem launch_event_redirects:
  assumes "loaded cl ''clGetEventProfilingInfo''" "loaded cl ''clReleaseEvent''" and int: "internal \<noteq> 0"
    and times: "rt_GetEventProfilingInfo cl internal n (world s) = (err, v)"
    and release: "rt_ReleaseEvent cl internal (world s) = (CL_SUCCESS, w1)" "rt_ReleaseEvent cl external w1 = (err2, w2)"
  shows "\<exists>t. remember_event external internal s = Inr ((), t)
    \<and> clGetEventProfilingInfo cl external n t = Inr ((err, Some v), logged cl t)
    \<and> (\<forall>e. e \<noteq> external \<longrightarrow> evt_list t e = evt_list s e)
    \<and> (evt_list s external = None \<longrightarrow> (\<exists>u. clReleaseEvent cl external t = Inr (err2, u)
         \<and> evt_list u = evt_list s \<and> world u = w2))"
proof (cases "evt_list s external")
  case None
  let ?t = "s\<lparr>evt_list := (evt_list s)(external \<mapsto>
    \<lparr>ev_handle = external, ev_ref_count = 1, ev_internal_event = internal\<rparr>)\<rparr>"
  have "remember_event external internal s = Inr ((), ?t)"
    using None by (simp add: remember_event_def andThen_def runs unomap_insert_def)
  moreover have "clGetEventProfilingInfo cl external n ?t = Inr ((err, Some v), logged cl ?t)"
    using assms by (simp add: clGetEventProfilingInfo_def andThen_def initialize_logging_run runs)
  moreover have "\<exists>u. clReleaseEvent cl external ?t = Inr (err2, u) \<and> evt_list u = evt_list s \<and> world u = w2"
    using assms None by (simp add: clReleaseEvent_def andThen_def initialize_logging_run runs check_cl_error_def
      cl_event_remove_def unomap_remove_eq fun_upd_idem)
  ultimately show ?thesis by auto
next
  case (Some i)
  let ?t = "s\<lparr>evt_list := (evt_list s)(external \<mapsto> i\<lparr>ev_handle := external, ev_internal_event := internal\<rparr>)\<rparr>"
  have "remember_event external internal s = Inr ((), ?t)"
    using Some by (simp add: remember_event_def andThen_def runs unomap_insert_def Let_def)
  moreover have "clGetEventProfilingInfo cl external n ?t = Inr ((err, Some v), logged cl ?t)"
    using assms by (simp add: clGetEventProfilingInfo_def andThen_def initialize_logging_run runs)
  ultimately show ?thesis using Some by auto
qed

theorem launch_event_redirects_witness:
  "\<forall>(cl :: unit ocl) e mem. \<exists>(cl' :: unit ocl) t u. remember_event 7 9 (initial_state () e mem 0) = Inr ((), t)
    \<and> clGetEventProfilingInfo cl' 7 0 t = Inr ((CL_SUCCESS, Some 1234), logged cl' t)
    \<and> clReleaseEvent cl' 7 t = Inr (CL_SUCCESS, u) \<and> evt_list u = Map.empty"
proof (intro allI)
  fix cl :: "unit ocl" and e :: env and mem :: "ptr \<Rightarrow> u8"
  let ?cl = "cl\<lparr>loaded := \<lambda>_. True, rt_GetEventProfilingInfo := \<lambda>ev n w. (CL_SUCCESS, if ev = 9 then 1234 else 0),
    rt_ReleaseEvent := \<lambda>_ w. (CL_SUCCESS, w)\<rparr>"
  have none: "evt_list (initial_state () e mem 0) = Map.empty" by (simp add: initial_state_def)
  show "\<exists>(cl' :: unit ocl) t u. remember_event 7 9 (initial_state () e mem 0) = Inr ((), t)
    \<and> clGetEventProfilingInfo cl' 7 0 t = Inr ((CL_SUCCESS, Some 1234), logged cl' t)
    \<and> clReleaseEvent cl' 7 t = Inr (CL_SUCCESS, u) \<and> evt_list u = Map.empty"
    using launch_event_redirects [of ?cl 9 0 "initial_state () e mem 0" CL_SUCCESS 1234 "()" 7 CL_SUCCESS "()"] none
    by auto
qed

end
