(* ===== verification/Session_Safety.thy ===== *)
theory Session_Safety
  imports Kernel_Arg_Props Memory_Props
begin

text \<open>
  When the tool follows a pointer to an object it has freed: the records of the arguments of a kernel keep
  their pointers when the application releases a buffer, and a launch of the kernel reads them.
\<close>

section \<open>The event at which a session ends\<close>

lemma forM_ends:
  "forM es f s = Inl (a, t) \<Longrightarrow> \<exists>pre e post u. es = pre @ e # post \<and> forM pre f s = Inr ((), u) \<and> f e u = Inl (a, t)"
proof (induction es arbitrary: s)
  case (Cons e es)
  show ?case
  proof (cases "f e s")
    case (Inl r)
    with Cons.prems have "f e s = Inl (a, t)" by (simp add: andThen_def)
    then show ?thesis by (intro exI [of _ "[]"] exI [of _ e] exI [of _ es] exI [of _ s]) simp
  next
    case (Inr r)
    then obtain u where u: "f e s = Inr ((), u)" by (cases r) auto
    with Cons.prems have "forM es f u = Inl (a, t)" by (simp add: andThen_def)
    from Cons.IH [OF this] obtain pre e' post u' where
      "es = pre @ e' # post" "forM pre f u = Inr ((), u')" "f e' u' = Inl (a, t)" by blast
    with u show ?thesis
      by (intro exI [of _ "e # pre"] exI [of _ e'] exI [of _ post] exI [of _ u']) (simp add: andThen_def)
  qed
qed simp

definition is_api_call :: "session_event \<Rightarrow> bool" where
  "is_api_call e \<longleftrightarrow> (\<exists>c. e = Api c)"

lemma api_call_ends:
  assumes "tables_ok s" and "run_event cl (Api c) s = Inl (a, t)"
  shows "a \<noteq> Use_after_free"
  using preservesD_abort [OF keeps_run_call assms(1), of cl c a t] assms(2) by simp

lemma keeps_session: "keeps_launch (forM es (run_event cl))"
  by (rule preserves_forM) (rule keeps_run_event)

section \<open>A launch of a kernel with a released argument\<close>

lemma mapM_fails:
  assumes "\<And>x. x \<in> set xs \<Longrightarrow> f x s = Inl (e, s) \<or> (\<exists>y. f x s = Inr (y, s))" and "\<exists>x \<in> set xs. f x s = Inl (e, s)"
  shows "mapM f xs s = Inl (e, s)"
  using assms
proof (induction xs)
  case (Cons x xs)
  show ?case
  proof (cases "f x s = Inl (e, s)")
    case False
    then obtain y where y: "f x s = Inr (y, s)" using Cons.prems(1) [of x] by auto
    with Cons.prems(2) have "\<exists>x \<in> set xs. f x s = Inl (e, s)" by auto
    then have "mapM f xs s = Inl (e, s)" using Cons.prems(1) by (intro Cons.IH) auto
    with y show ?thesis by (simp add: andThen_def)
  qed (simp add: andThen_def)
qed simp

lemma same_before_ends:
  "\<forall>j \<in> set js. unat j < length args \<Longrightarrow>
    same_before args h js s = Inl (Use_after_free, s) \<or> (\<exists>r. same_before args h js s = Inr (r, s))"
  by (induction js) (auto simp: andThen_def arg_at_run get_mobj_def split: option.splits)

lemma duplicate_of_ends:
  assumes "unat i < length args"
  shows "duplicate_of args i s = Inl (Use_after_free, s) \<or> (\<exists>r. duplicate_of args i s = Inr (r, s))"
proof -
  have "\<forall>j \<in> set (upto32 i). unat j < length args" using assms by (auto simp: in_upto32)
  note before = same_before_ends [OF this, of _ s]
  show ?thesis
  proof (cases "arg_mem s (args ! unat i)")
    case None
    with assms show ?thesis
      by (cases "ka_buffer (args ! unat i)") (simp_all add: duplicate_of_def andThen_def arg_at_run get_mobj_def arg_mem_def)
  next
    case (Some m)
    then obtain b where "ka_buffer (args ! unat i) = Some b" "mobjs s b = Some m"
      by (auto simp: arg_mem_def bind_eq_Some_conv)
    with assms before [of "m_handle m"] show ?thesis
      by (auto simp: duplicate_of_def andThen_def arg_at_run get_mobj_def)
  qed
qed

lemma duplicate_of_released:
  assumes "unat i < length args" and "ka_buffer (args ! unat i) = Some a" and "mobjs s a = None"
  shows "duplicate_of args i s = Inl (Use_after_free, s)"
  using assms by (simp add: duplicate_of_def andThen_def arg_at_run get_mobj_def)

lemma findDuplicates_released:
  assumes "args_complete nargs args" and "arg \<in> set args" "ka_buffer arg = Some a" "mobjs s a = None"
  shows "findDuplicates nargs args s = Inl (Use_after_free, s)"
proof -
  note len = complete_nth(1) [OF assms(1)]
  obtain k where k: "k < length args" "args ! k = arg" using assms(2) by (auto simp: in_set_conv_nth)
  have small: "unat (of_nat k :: u32) = k" using k(1) len by (intro unat_of_below [of _ nargs]) simp
  have "mapM (duplicate_of args) (upto32 nargs) s = Inl (Use_after_free, s)"
  proof (rule mapM_fails)
    show "\<exists>i \<in> set (upto32 nargs). duplicate_of args i s = Inl (Use_after_free, s)"
      using k assms(3, 4) len small
      by (intro bexI [of _ "of_nat k"] duplicate_of_released [of _ _ a]) (simp_all add: in_upto32)
  next
    fix i
    assume "i \<in> set (upto32 nargs)"
    with len have "unat i < length args" by (simp add: in_upto32)
    then show "duplicate_of args i s = Inl (Use_after_free, s) \<or> (\<exists>y. duplicate_of args i s = Inr (y, s))"
      by (rule duplicate_of_ends)
  qed
  moreover have "nargs \<noteq> 0" using k(1) len by auto
  ultimately show ?thesis by (simp add: findDuplicates_def andThen_def)
qed

lemma released_argument_read:
  assumes "loaded cl ''clEnqueueNDRangeKernel''" and "map_find (kern_list s) kern = Some ki"
    and "q_kernel_num_args cl kern (world s) = (CL_SUCCESS, nargs)" and "args_complete nargs (ki_arg_list ki)"
    and "arg \<in> set (ki_arg_list ki)" "ka_buffer arg = Some a" "mobjs s a = None"
  shows "clEnqueueNDRangeKernel cl q kern dim off gsz None evs ev s = Inl (Use_after_free, logged cl s)"
proof -
  have "findDuplicates nargs (ki_arg_list ki) (logged cl s) = Inl (Use_after_free, logged cl s)"
    by (rule findDuplicates_released [OF assms(4-6)]) (simp add: assms(7))
  then show ?thesis
    using assms(1-3)
    by (simp add: clEnqueueNDRangeKernel_def fixOclArgs_def setup_ocl_args_def kernelLaunchFunc_def Let_def
        kinfo_find_def query_def check_cl_error_def andThen_def runs)
qed

text \<open>
  C12: Whatever the client does from the start, in whatever order and with whatever arguments, launches and
  the callbacks of their checks included, the tables are consistent to the end: every handle is mapped to
  a live object with that handle, every pointer to a live region that starts there, the ordered tables are
  ordered and the arguments of every kernel are recorded once each, in order. When the session ends early, the
  event that ended it did not loop; and only a launch or a callback follows a pointer to an object or
  region that was freed, no other call. (A launch does, \<open>released_argument_read\<close>: see the example.)
\<close>

theorem api_trace_safe:
  "case forM es (run_event cl) (initial_state w e mem flags) of
     Inr (_, t) \<Rightarrow> tables_ok t
   | Inl (a, t) \<Rightarrow> tables_ok t \<and> a \<noteq> Loops_forever
       \<and> (\<exists>pre ev post s. es = pre @ ev # post \<and> forM pre (run_event cl) (initial_state w e mem flags) = Inr ((), s)
         \<and> tables_ok s \<and> run_event cl ev s = Inl (a, t) \<and> (a = Use_after_free \<longrightarrow> \<not> is_api_call ev))"
proof (cases "forM es (run_event cl) (initial_state w e mem flags)")
  case (Inl r)
  then obtain a t where r: "forM es (run_event cl) (initial_state w e mem flags) = Inl (a, t)" by (cases r) auto
  from preservesD_abort [OF keeps_session initial_tables_ok r] have ok: "a \<noteq> Loops_forever" "tables_ok t" by simp_all
  from forM_ends [OF r] obtain pre ev post s where ends: "es = pre @ ev # post"
    "forM pre (run_event cl) (initial_state w e mem flags) = Inr ((), s)" "run_event cl ev s = Inl (a, t)" by blast
  have "tables_ok s" using preservesD [OF keeps_session initial_tables_ok ends(2)] .
  moreover from this ends(3) have "a = Use_after_free \<longrightarrow> \<not> is_api_call ev"
    unfolding is_api_call_def using api_call_ends by blast
  ultimately show ?thesis using ok ends unfolding r by (simp only: sum.case prod.case) blast
next
  case (Inr r)
  with preservesD [OF keeps_session initial_tables_ok] show ?thesis by (cases r) auto
qed

text \<open>A buffer is created, set as the argument of a kernel and released; then the kernel is launched.\<close>

definition release_then_launch :: "session_event list" where
  "release_then_launch = [Api (Create_buffer 1 {} 100 0 None), Api (Set_kernel_arg 5 0 8 (Some [9, 0, 0, 0, 0, 0, 0, 0])),
     Api (Release_mem 9), Launch 1 5 1 None (Some [64]) None [] None]"

definition one_arg_runtime :: "unit ocl \<Rightarrow> unit ocl" where
  "one_arg_runtime cl = (tiny_runtime cl)\<lparr>rt_SetKernelArg := \<lambda>k i n v w. (CL_SUCCESS, w),
     q_kernel_num_args := \<lambda>k w. (CL_SUCCESS, 1)\<rparr>"

lemma release_then_launch_run:
  "\<exists>t. forM release_then_launch (run_event (one_arg_runtime cl)) (initial_state () e mem 0) = Inl (Use_after_free, t)"
proof -
  let ?cl = "one_arg_runtime cl" and ?s = "initial_state () e mem 0" and ?v = "[9, 0, 0, 0, 0, 0, 0, 0] :: u8 list"
  let ?m = "new_buffer 1 (runtime_flags {}) 100 8 9"
  have loaded: "loaded ?cl f" "calloc_ok ?cl n" for f n by (simp_all add: one_arg_runtime_def tiny_runtime_def)
  have creates: "creates_buffer ?cl 1 (runtime_flags {}) 100 bytes 8 9 (world ?s) ()" for bytes
    by (simp add: creates_buffer_def one_arg_runtime_def tiny_runtime_def other_platform_def)
  obtain t where t: "t = created ?cl 1 (runtime_flags {}) 100 8 9 () ?s" by simp
  have create: "run_event ?cl (Api (Create_buffer 1 {} 100 0 None)) ?s = Inr ((), t)"
    using clCreateBuffer_run [OF loaded(1, 1) _ _ _ loaded(2) creates, of 0 None]
    by (simp add: discard_def t initial_state_def andThen_def)
  have t_facts: "cl_mem_alloc t 9 = Some 0" "mobjs t 0 = Some ?m" "kern_list t = []"
    unfolding t by (simp_all add: created_def initial_state_def after_buffer_def)
  let ?arg = "\<lparr>ka_handle = 0, ka_size = 8, ka_value = Some ?v, ka_buffer = Some 0, ka_svm_buffer = None\<rparr>"
  let ?ki = "\<lparr>ki_handle = 5, ki_ref_count = 1, ki_arg_list = [?arg]\<rparr>"
  obtain u where u: "run_event ?cl (Api (Set_kernel_arg 5 0 8 (Some ?v))) t = Inr ((), u)"
    "mobjs u = mobjs t" "cl_mem_alloc u = cl_mem_alloc t" "map_find (kern_list u) 5 = Some ?ki"
  proof
    have v: "u64_of_bytes ?v = 9" by code_simp
    let ?u = "(logged ?cl t)\<lparr>world := (), kern_list := [(5, ?ki)]\<rparr>"
    show "run_event ?cl (Api (Set_kernel_arg 5 0 8 (Some ?v))) t = Inr ((), ?u)"
      using loaded t_facts
      by (simp add: discard_def clSetKernelArg_def andThen_def runs one_arg_runtime_def kinfo_or_new_def v new_kinfo_def
          replace_arg_def karg_insert_def karg_remove_def)
    show "mobjs ?u = mobjs t" "cl_mem_alloc ?u = cl_mem_alloc t" "map_find (kern_list ?u) 5 = Some ?ki"
      by simp_all
  qed
  have m: "m_ref_count ?m = 1" "m_main_buff ?m \<noteq> 0" by (simp_all add: new_buffer_def)
  have rel: "rt_ReleaseMemObject ?cl h w = (CL_SUCCESS, w)" for h w by (simp add: one_arg_runtime_def tiny_runtime_def)
  obtain x where x: "run_event ?cl (Api (Release_mem 9)) u = Inr ((), x)"
    "mobjs x = (mobjs u)(0 := None)" "kern_list x = kern_list u"
    using release_last_run [OF loaded(1) _ _ m rel rel, of u 9 0] u(2, 3) t_facts
    by (auto simp: discard_def andThen_def)
  have nargs: "q_kernel_num_args ?cl 5 (world x) = (CL_SUCCESS, 1)" by (simp add: one_arg_runtime_def)
  have "args_complete 1 (ki_arg_list ?ki)" by (simp add: args_complete_def upto32_def)
  from released_argument_read [OF loaded(1) _ nargs this, of ?arg 0] u(4) x
  have "run_event ?cl (Launch 1 5 1 None (Some [64]) None [] None) x = Inl (Use_after_free, logged ?cl x)"
    by (simp add: discard_def andThen_def)
  with create u(1) x(1) show ?thesis
    unfolding release_then_launch_def by (simp add: andThen_def del: run_event.simps)
qed

theorem api_trace_safe_witness:
  "\<forall>cl e mem. \<exists>t. forM release_then_launch (run_event (one_arg_runtime cl)) (initial_state () e mem 0) = Inl (Use_after_free, t)
    \<and> tables_ok t"
proof (intro allI)
  fix cl :: "unit ocl" and e :: env and mem :: "ptr \<Rightarrow> u8"
  obtain t where "forM release_then_launch (run_event (one_arg_runtime cl)) (initial_state () e mem 0) = Inl (Use_after_free, t)"
    using release_then_launch_run by blast
  with api_trace_safe [of release_then_launch "one_arg_runtime cl" "()" e mem 0]
  show "\<exists>t. forM release_then_launch (run_event (one_arg_runtime cl)) (initial_state () e mem 0) = Inl (Use_after_free, t)
    \<and> tables_ok t" by simp
qed

end
