(* ===== verification/Overflow_Reports.thy ===== *)
theory Overflow_Reports
  imports Launch_Invariants Cpu_Check_Props
begin

text \<open>
  What the host check does with the bytes it has read: nothing when the canaries are intact; otherwise an
  overflow is reported and counted before anything else can go wrong, and the report is never taken back.
\<close>

section \<open>The messages only grow\<close>

definition printed :: "msg list \<Rightarrow> 'w det \<Rightarrow> bool" where
  "printed ms t \<longleftrightarrow> (\<exists>rest. err_out t = ms @ rest)"

abbreviation keeps_printed :: "msg list \<Rightarrow> ('w det, 'a) prog \<Rightarrow> bool" where
  "keeps_printed ms \<equiv> preserves (printed ms) {}"

lemma no_end_banned [keeps]: "e \<notin> {}"
  by simp

lemma printed_more [intro]: "printed ms s \<Longrightarrow> err_out t = err_out s @ new \<Longrightarrow> printed ms t"
  by (auto simp: printed_def)

lemma printed_same [intro]: "printed ms s \<Longrightarrow> err_out t = err_out s \<Longrightarrow> printed ms t"
  by (simp add: printed_def)

lemma printed_steps [keeps]:
  "keeps_printed ms (put_err m)"
  "keeps_printed ms (print_and_log_err m)"
  "keeps_printed ms count_overflow"
  "keeps_printed ms (call f)"
  "keeps_printed ms (query h)"
  "keeps_printed ms (commandQueueCache_find c)"
  "keeps_printed ms (commandQueueCache_assign c qc)"
  "keeps_printed ms (commandQueueCache_insert qc)"
  "keeps_printed ms (cl_mem_find h1)"
  "keeps_printed ms (cl_svm_mem_find p)"
  unfolding put_err_def print_and_log_err_def count_overflow_def call_def query_def commandQueueCache_find_def
    commandQueueCache_assign_def commandQueueCache_insert_def cl_mem_find_def cl_svm_mem_find_def
  by (auto simp: preserves_def split: prod.split option.split)

lemma printed_errors [keeps]:
  "keeps_printed ms (check_cl_error e)"
  "keeps_printed ms (real cl name f)"
  "keeps_printed ms (initialize_logging cl)"
  "keeps_printed ms (lookup_mobj b)"
  "keeps_printed ms (getBufferIndex args b)"
  "keeps_printed ms (alloc_string cl name)"
  "keeps_printed ms (buffer_name cl kern i)"
  "keeps_printed ms (cl_msg_not_found name)"
proof -
  show err: "keeps_printed ms (check_cl_error e)" for e
    unfolding check_cl_error_def by (rule keeps)+
  have log: "keeps_printed ms (modify (\<lambda>s. s\<lparr>log_out := l\<rparr>))" for l
    by (rule preserves_modify) auto
  show "keeps_printed ms (initialize_logging cl)"
    unfolding initialize_logging_def by (rule log keeps)+
  show "keeps_printed ms (getBufferIndex args b)"
    by (induction args b rule: getBufferIndex.induct) (simp_all only: getBufferIndex.simps, (rule keeps | simp)+)
  show "keeps_printed ms (real cl name f)" "keeps_printed ms (lookup_mobj b)" "keeps_printed ms (alloc_string cl name)"
    "keeps_printed ms (buffer_name cl kern i)" "keeps_printed ms (cl_msg_not_found name)"
    unfolding real_def lookup_mobj_def alloc_string_def buffer_name_def cl_msg_not_found_def
    by (rule err keeps)+
qed

lemma printed_position [keeps]:
  "keeps_printed ms (print_position b)"
  "keeps_printed ms (print_dimension x y z)"
  unfolding print_position_def print_dimension_def Let_def by (rule keeps)+

lemma printed_reports [keeps]:
  "keeps_printed ms (overflowError cl ki buffer w bt)"
  "keeps_printed ms (printDupeWarning cl kern dupe)"
  "keeps_printed ms (optionalKillOnOverflow code)"
  unfolding overflowError_def printDupeWarning_def optionalKillOnOverflow_def print_err_header_def
    print_err_footer_def print_warn_header_def print_dimension_def print_position_def Let_def
  by (rule keeps)+

lemma printed_api_checks [keeps]:
  "keeps_printed ms (apiBufferOverflowCheck cl func b off sz)"
  "keeps_printed ms (apiImageOverflowCheck cl func img origin region)"
  unfolding apiBufferOverflowCheck_def apiImageOverflowCheck_def apiOverflowError_def apiImageOverflowError_def
    kill_or_report_def canaryAccessAllowed_def print_backtrace_def print_err_header_def print_err_footer_def
    print_dimension_def
  by (rule keeps)+

lemma printed_device_info [keeps]: "keeps_printed ms (clGetDeviceInfo cl d n p)"
proof -
  have "keeps_printed ms (update_val p f)" for p f
    unfolding update_val_def read_val_def assign_val_def by (rule keeps)+
  then have lower: "keeps_printed ms (lower_device_info cl d n p)" for p
    unfolding lower_device_info_def by (cases n) (simp_all only: cl_device_info.case, (rule keeps | assumption)+)
  show ?thesis
    unfolding clGetDeviceInfo_def by (rule lower keeps)+
qed

section \<open>Mending prints more, if anything\<close>

lemma printed_queues [keeps]: "keeps_printed ms (getCommandQueueForContext cl c)"
  unfolding getCommandQueueForContext_def clCreateCommandQueue_def cache_queue_def
  by (rule keeps)+

lemma printed_mending [keeps]: "keeps_printed ms (mendCanaryRegion cl q b blocking es want)"
  unfolding mendCanaryRegion_def mend_svm_def mend_buffer_def poisonFillImageCanaries_def convertEvents_def
    convertEvent_def written_event_def clEnqueueFillBuffer_def clEnqueueWriteImage_def image_support_check_def
  by (rule keeps)+

section \<open>Reports\<close>

lemma announced_first:
  assumes "keeps_printed (err_out s @ [Header_error, Overflow_detected]) g"
    and f: "f = andThen print_err_header (\<lambda>_. andThen (print_and_log_err Overflow_detected) (\<lambda>_. g))"
  shows "case f s of Inl (e, t) \<Rightarrow> printed (err_out s @ [Header_error, Overflow_detected]) t
    | Inr (x, t) \<Rightarrow> printed (err_out s @ [Header_error, Overflow_detected]) t"
proof -
  let ?t = "s\<lparr>err_out := err_out s @ [Header_error, Overflow_detected],
    log_out := map_option (\<lambda>l. l @ [Overflow_detected]) (log_out s)\<rparr>"
  have "f s = g ?t" by (simp add: f print_err_header_def put_err_def print_and_log_err_def)
  moreover have "printed (err_out s @ [Header_error, Overflow_detected]) ?t" by (simp add: printed_def)
  ultimately show ?thesis using preserves_result [OF assms(1), of ?t] by (simp split: sum.splits prod.splits)
qed

lemma parse_announces:
  assumes "4 * words_covering n \<le> length bytes"
  shows "if \<forall>i < unat n. bytes ! i = POISON_FILL
    then cpu_parse_canary cl q n bytes ki buffer dupe s = Inr ((), s)
    else (case cpu_parse_canary cl q n bytes ki buffer dupe s of
        Inl (e, t) \<Rightarrow> printed (err_out s @ [Header_error, Overflow_detected]) t
      | Inr (x, t) \<Rightarrow> printed (err_out s @ [Header_error, Overflow_detected]) t)"
proof (cases "find_bad_byte n bytes")
  case None
  with find_bad_byte_cases [OF assms] show ?thesis by (simp add: cpu_parse_canary_def)
next
  case (Some b)
  with find_bad_byte_cases [OF assms] have bad: "\<not> (\<forall>i < unat n. bytes ! i = POISON_FILL)" by auto
  let ?bt = "if get_print_backtrace_envvar (environ s) \<noteq> 0 then backtrace cl 5 else None"
  have "case (andThen (overflowError cl ki buffer b ?bt) (\<lambda>_.
      andThen (printDupeWarning cl (ki_handle ki) dupe) (\<lambda>_.
      andThen (gets (\<lambda>s. get_exitcode_envvar (environ s))) (\<lambda>code.
      andThen (optionalKillOnOverflow code) (\<lambda>_.
      andThen (mendCanaryRegion cl q buffer True [] False) (\<lambda>_. ret ())))))) s of
        Inl (e, t) \<Rightarrow> printed (err_out s @ [Header_error, Overflow_detected]) t
      | Inr (x, t) \<Rightarrow> printed (err_out s @ [Header_error, Overflow_detected]) t"
    unfolding overflowError_def andThen_assoc print_err_footer_def by (rule announced_first [OF _ refl]) (rule keeps)+
  with bad show ?thesis by (simp only: cpu_parse_canary_def Some option.case if_False andThen_simps)
qed

text \<open>
  C18: The host check of a region says nothing and changes nothing if the bytes it has read are poison.
  If one of them is not, an overflow is announced before anything else: it stays in the output, whether
  the rest of the report, the end of the process the user may have asked for, or the mending of the
  canaries succeeds or not.
\<close>

theorem host_check_reports:
  assumes "4 * words_covering n \<le> length bytes"
  shows "if \<forall>i < unat n. bytes ! i = POISON_FILL
    then cpu_parse_canary cl q n bytes ki buffer dupe s = Inr ((), s)
    else (case cpu_parse_canary cl q n bytes ki buffer dupe s of
        Inl (e, t) \<Rightarrow> printed (err_out s @ [Header_error, Overflow_detected]) t
      | Inr (x, t) \<Rightarrow> printed (err_out s @ [Header_error, Overflow_detected]) t)"
  by (rule parse_announces [OF assms])

theorem host_check_reports_witness:
  "\<forall>(cl :: unit ocl) s ki. cpu_parse_canary cl 1 8 (replicate 8 POISON_FILL) ki 2 [] s = Inr ((), s)
    \<and> (case cpu_parse_canary cl 1 8 (replicate 7 POISON_FILL @ [0]) ki 2 [] s of
        Inl (e, t) \<Rightarrow> printed (err_out s @ [Header_error, Overflow_detected]) t
      | Inr (x, t) \<Rightarrow> printed (err_out s @ [Header_error, Overflow_detected]) t)"
proof (intro allI conjI)
  fix cl :: "unit ocl" and s ki
  have len: "4 * words_covering 8 \<le> length (replicate 8 POISON_FILL)"
    "4 * words_covering 8 \<le> length (replicate 7 POISON_FILL @ [0])" by (simp_all add: words_covering_def)
  show "cpu_parse_canary cl 1 8 (replicate 8 POISON_FILL) ki 2 [] s = Inr ((), s)"
    using host_check_reports [OF len(1), of cl 1 ki 2 "[]" s] by simp
  have "\<not> (\<forall>i < unat (8 :: u32). (replicate 7 POISON_FILL @ [0]) ! i = POISON_FILL)"
    by (simp add: poison_defs) (rule exI [of _ 7], simp add: nth_append)
  with host_check_reports [OF len(2), of cl 1 ki 2 "[]" s]
  show "case cpu_parse_canary cl 1 8 (replicate 7 POISON_FILL @ [0]) ki 2 [] s of
        Inl (e, t) \<Rightarrow> printed (err_out s @ [Header_error, Overflow_detected]) t
      | Inr (x, t) \<Rightarrow> printed (err_out s @ [Header_error, Overflow_detected]) t"
    by (simp only: if_False)
qed

section \<open>What a report says\<close>

text \<open>The distance of byte \<open>b\<close> of the two canaries from the data, as the report prints it.\<close>

definition distance_msg :: "nat \<Rightarrow> msg" where
  "distance_msg b = (if b < 4096 then Write_underflow (of_nat (4096 - b)) else Write_overflow (of_nat (b - 4096 + 1)))"

lemma print_position_run:
  assumes "unat bad < 2 ^ 31"
  shows "print_position bad = print_and_log_err (distance_msg (unat bad))"
proof -
  let ?b = "unat bad"
  have bad: "bad = of_nat ?b" by simp
  show ?thesis
  proof (cases "?b < 4096")
    case True
    then have "bad - POISON_FILL_LENGTH = - of_nat (4096 - ?b)"
      by (subst bad) (simp add: POISON_FILL_LENGTH_def of_nat_diff)
    moreover have "sint (- of_nat (4096 - ?b) :: u32) < 0"
    proof -
      have "- of_nat (4096 - ?b) = (word_of_int (- int (4096 - ?b)) :: u32)" by simp
      then have "sint (- of_nat (4096 - ?b) :: u32) = signed_take_bit 31 (- int (4096 - ?b))"
        by (simp only: signed_of_int) simp
      also have "\<dots> = - int (4096 - ?b)" by (rule signed_take_bit_int_eq_self) simp_all
      finally have "sint (- of_nat (4096 - ?b) :: u32) = - int (4096 - ?b)" .
      moreover have "0 < int (4096 - ?b)" using True by (simp only: of_nat_0_less_iff zero_less_diff)
      ultimately show ?thesis by (simp only: neg_less_0_iff_less)
    qed
    ultimately show ?thesis using True by (simp add: print_position_def distance_msg_def)
  next
    case False
    then have "bad - POISON_FILL_LENGTH = of_nat (?b - 4096)"
      by (subst bad) (simp add: POISON_FILL_LENGTH_def of_nat_diff)
    moreover have "0 \<le> sint (of_nat (?b - 4096) :: u32)"
      using sint_of_nat32 [of "?b - 4096"] assms by simp
    ultimately show ?thesis using False by (simp add: print_position_def distance_msg_def add.commute)
  qed
qed

text \<open>The argument of the kernel that is the buffer is found, past the ones that are something else.\<close>

definition not_this :: "'w det \<Rightarrow> ptr \<Rightarrow> kernel_arg \<Rightarrow> bool" where
  "not_this s buffer arg = (case ka_buffer arg of
       Some a \<Rightarrow> \<exists>m. mobjs s a = Some m \<and> m_handle m \<noteq> buffer
     | None \<Rightarrow> (case ka_svm_buffer arg of
         Some a \<Rightarrow> \<exists>m. svobjs s a = Some m \<and> sv_handle m \<noteq> buffer
       | None \<Rightarrow> True))"

lemma not_this_same: "mobjs t = mobjs s \<Longrightarrow> svobjs t = svobjs s \<Longrightarrow> not_this t = not_this s"
  by (intro ext) (simp only: not_this_def)

lemma getBufferIndex_finds:
  assumes "\<forall>x \<in> set before. not_this s buffer x" and "ka_buffer arg = Some a" "mobjs s a = Some m" "m_handle m = buffer"
  shows "getBufferIndex (before @ arg # after) buffer s = Inr (sint (ka_handle arg), s)"
  using assms
  by (induction before) (auto simp: not_this_def get_mobj_def get_svobj_def andThen_def split: option.splits)

text \<open>
  C19: The report of an overflow of a buffer names the kernel, the argument that is the buffer, and how far
  the overwritten byte is from the data: the bytes before the buffer count downwards from its start,
  those after it upwards from its end, from one on. The log gets the same lines as the terminal, without
  the frame, and one overflow is counted.
\<close>

theorem overflow_report_exact:
  assumes name: "q_kernel_name cl (ki_handle ki) (world s) = (CL_SUCCESS, kname)"
    "\<And>n. calloc_ok cl n"
    "q_kernel_arg_name cl (ki_handle ki) (ka_handle arg) (world s) = (CL_SUCCESS, bname)"
    and arg: "ki_arg_list ki = before @ arg # after" "\<forall>x \<in> set before. not_this s buffer x"
    "ka_buffer arg = Some a" "ka_handle arg < 0x80000000"
    and buffer: "cl_mem_alloc s buffer = Some a" "mobjs s a = Some m" "m_handle m = buffer" "\<not> m_is_image m"
    and bad: "unat bad < 8192"
  shows "overflowError cl ki buffer bad None s = Inr ((), s\<lparr>
      err_out := err_out s @ [Header_error, Overflow_detected, Kernel_buffer kname bname, distance_msg (unat bad), Footer],
      log_out := map_option (\<lambda>l. l @ [Overflow_detected, Kernel_buffer kname bname, distance_msg (unat bad)]) (log_out s),
      overflows_observed := overflows_observed s + 1\<rparr>)"
proof -
  have pos: "print_position bad = print_and_log_err (distance_msg (unat bad))"
    by (rule print_position_run) (use bad in simp)
  let ?t = "s\<lparr>err_out := err_out s @ [Header_error, Overflow_detected],
      log_out := map_option (\<lambda>l. l @ [Overflow_detected]) (log_out s), overflows_observed := overflows_observed s + 1\<rparr>"
  have "not_this ?t = not_this s" by (rule not_this_same) simp_all
  with arg(2) have before: "\<forall>x \<in> set before. not_this ?t buffer x" by simp
  have index: "getBufferIndex (ki_arg_list ki) buffer ?t = Inr (sint (ka_handle arg), ?t)"
    unfolding arg(1) by (rule getBufferIndex_finds [OF before arg(3), where m = m]) (simp_all add: buffer)
  have sint: "sint (ka_handle arg) = int (unat (ka_handle arg))"
    using sint_of_nat32 [of "unat (ka_handle arg)"] arg(4) by (simp add: word_less_nat_alt)
  let ?print = "andThen (buffer_name cl (ki_handle ki) (sint (ka_handle arg))) (\<lambda>bufferName.
      andThen (lookup_mobj buffer) (\<lambda>m1. case m1 of
          Some (_, m) \<Rightarrow>
            if m_is_image m
            then (case getImageCanaryXYZ (m_image_format m) (m_image_desc m) bad of
                None \<Rightarrow> fail Div_by_zero
              | Some (x, y, z) \<Rightarrow>
                  andThen (print_and_log_err (Kernel_buffer kname bufferName)) (\<lambda>_. print_dimension x y z))
            else andThen (print_and_log_err (Kernel_buffer kname bufferName)) (\<lambda>_. print_position bad)
        | None \<Rightarrow> andThen (print_and_log_err (Kernel_buffer kname bufferName)) (\<lambda>_. print_position bad)))"
  have "overflowError cl ki buffer bad None s = andThen ?print (\<lambda>_. print_err_footer) ?t"
    unfolding overflowError_def
    by (simp add: print_err_header_def put_err_def print_and_log_err_def count_overflow_def name(1)
      check_cl_error_def alloc_string_def name(2) andThen_Inr [where f = "getBufferIndex (ki_arg_list ki) buffer", OF index] sint del: of_nat_unat)
  also have "\<dots> = Inr ((), s\<lparr>
      err_out := err_out s @ [Header_error, Overflow_detected, Kernel_buffer kname bname, distance_msg (unat bad), Footer],
      log_out := map_option (\<lambda>l. l @ [Overflow_detected, Kernel_buffer kname bname, distance_msg (unat bad)]) (log_out s),
      overflows_observed := overflows_observed s + 1\<rparr>)"
    unfolding pos
    by (simp add: buffer_name_def name lookup_mobj_def cl_mem_find_def unomap_find_def get_mobj_def buffer
      check_cl_error_def print_and_log_err_def print_err_footer_def put_err_def option_map_comp andThen_def)
  finally show ?thesis .
qed

text \<open>The last byte before a buffer that is the second argument of a kernel has changed.\<close>

theorem overflow_report_exact_witness:
  "\<forall>(cl :: unit ocl) (s :: unit det). \<exists>(cl' :: unit ocl) s' ki. err_out s' = [] \<and>
    (case overflowError cl' ki 9 4095 None s' of
      Inl _ \<Rightarrow> False
    | Inr (_, t) \<Rightarrow> err_out t = [Header_error, Overflow_detected, Kernel_buffer ''copy'' ''dst'', Write_underflow 1, Footer])"
proof (intro allI)
  fix cl :: "unit ocl" and s :: "unit det"
  let ?cl = "cl\<lparr>q_kernel_name := \<lambda>_ _. (CL_SUCCESS, ''copy''), calloc_ok := \<lambda>_. True,
    q_kernel_arg_name := \<lambda>_ _ _. (CL_SUCCESS, ''dst'')\<rparr>"
  let ?m = "zero_memobj\<lparr>m_handle := 9, m_size := 64\<rparr>"
  let ?s = "s\<lparr>err_out := [], cl_mem_alloc := [9 \<mapsto> 0], mobjs := [0 \<mapsto> ?m]\<rparr>"
  let ?scalar = "\<lparr>ka_handle = 0, ka_size = 4, ka_value = Some [1, 0, 0, 0], ka_buffer = None, ka_svm_buffer = None\<rparr>"
  let ?arg = "\<lparr>ka_handle = 1, ka_size = 8, ka_value = Some (bytes_of_u64 9), ka_buffer = Some 0, ka_svm_buffer = None\<rparr>"
  let ?ki = "\<lparr>ki_handle = 3, ki_ref_count = 1, ki_arg_list = [?scalar] @ ?arg # []\<rparr>"
  have "overflowError ?cl ?ki 9 4095 None ?s = Inr ((), ?s\<lparr>
      err_out := err_out ?s @ [Header_error, Overflow_detected, Kernel_buffer ''copy'' ''dst'', distance_msg (unat (4095 :: u32)), Footer],
      log_out := map_option (\<lambda>l. l @ [Overflow_detected, Kernel_buffer ''copy'' ''dst'', distance_msg (unat (4095 :: u32))]) (log_out ?s),
      overflows_observed := overflows_observed ?s + 1\<rparr>)"
    by (rule overflow_report_exact [where a = 0 and m = ?m and arg = ?arg and before = "[?scalar]" and after = "[]"])
      (simp_all add: not_this_def zero_memobj_def)
  moreover have "distance_msg (unat (4095 :: u32)) = Write_underflow 1" by (simp add: distance_msg_def)
  ultimately have "case overflowError ?cl ?ki 9 4095 None ?s of
      Inl _ \<Rightarrow> False
    | Inr (_, t) \<Rightarrow> err_out t = [Header_error, Overflow_detected, Kernel_buffer ''copy'' ''dst'', Write_underflow 1, Footer]"
    by simp
  moreover have "err_out ?s = []" by simp
  ultimately show "\<exists>(cl' :: unit ocl) s' ki. err_out s' = [] \<and> (case overflowError cl' ki 9 4095 None s' of
      Inl _ \<Rightarrow> False
    | Inr (_, t) \<Rightarrow> err_out t = [Header_error, Overflow_detected, Kernel_buffer ''copy'' ''dst'', Write_underflow 1, Footer])"
    by blast
qed

end
