(* ===== verification/Svm_Props.thy ===== *)
theory Svm_Props
  imports Memory_Props Launch_Trace
begin

text \<open>
  Shared virtual memory: which pointers the table recognises, the cache of fine-grained regions, and the
  life of a region.
\<close>

section \<open>Looking up a pointer\<close>

text \<open>Two regions of the table do not overlap, and end before the next one starts.\<close>

definition regions_apart :: "'w det \<Rightarrow> bool" where
  "regions_apart s \<longleftrightarrow> (\<forall>h a k b m. (h, a) \<in> set (cl_svm_alloc s) \<longrightarrow> (k, b) \<in> set (cl_svm_alloc s) \<longrightarrow> h < k \<longrightarrow>
     svobjs s a = Some m \<longrightarrow> sv_size m < k - h)"

text \<open>
  C26: \<open>cl_svm_mem_find\<close> recognises a pointer if and only if it lies in a region the application was given, or
  one byte past its end: the comparison is with \<open><\<close> where it should be with \<open>\<le>\<close>. The regions are disjoint.
\<close>

theorem svm_lookup_exact:
  assumes ok: "tables_ok s" and apart: "regions_apart s"
  shows "\<exists>r. cl_svm_mem_find p s = Inr (r, s) \<and> (\<forall>a. r = Some a \<longleftrightarrow>
    (\<exists>h m. (h, a) \<in> set (cl_svm_alloc s) \<and> svobjs s a = Some m \<and> h \<le> p \<and> p - h \<le> sv_size m))"
proof (cases "map_before_upper (cl_svm_alloc s) p")
  case None
  have m: "map_ok (cl_svm_alloc s)" using ok by (simp add: tables_ok_def svm_ok_def)
  from None have "\<not> h \<le> p" if "(h, a) \<in> set (cl_svm_alloc s)" for h a
    using map_before_upper_None [OF m, of p] that by (auto simp: not_le)
  then show ?thesis using None by (auto simp: cl_svm_mem_find_def)
next
  case (Some b)
  have m: "map_ok (cl_svm_alloc s)" using ok by (simp add: tables_ok_def svm_ok_def)
  obtain k where k: "(k, b) \<in> set (cl_svm_alloc s)" "k \<le> p" "\<forall>x \<in> set (cl_svm_alloc s). fst x \<le> p \<longrightarrow> fst x \<le> k"
    using map_before_upper_Some [OF m Some] by blast
  obtain n where n: "svobjs s b = Some n" "sv_handle n = k"
    using svm_okD [OF tables_okD(2) [OF ok] k(1)] by blast
  have only: "a = b \<and> h = k" if "(h, a) \<in> set (cl_svm_alloc s)" "svobjs s a = Some m" "h \<le> p" "p - h \<le> sv_size m" for h a m
  proof -
    have "h \<le> k" using k(3) that(1, 3) by auto
    moreover have "\<not> h < k"
    proof
      assume "h < k"
      then have "sv_size m < k - h" using apart that(1, 2) k(1) unfolding regions_apart_def by blast
      also have "k - h \<le> p - h" using \<open>h \<le> k\<close> k(2) by (simp add: word_le_nat_alt unat_sub)
      finally show False using that(4) by simp
    qed
    ultimately have "h = k" by simp
    moreover have "a = b" using m that(1) k(1) \<open>h = k\<close> by (metis map_find_Some option.inject)
    ultimately show ?thesis by simp
  qed
  let ?r = "if p - k \<le> sv_size n then Some b else None"
  have run: "cl_svm_mem_find p s = Inr (?r, s)"
    using k(2) by (auto simp: cl_svm_mem_find_def svm_find_def Some n not_less not_le)
  have "?r = Some a \<longleftrightarrow> (\<exists>h m. (h, a) \<in> set (cl_svm_alloc s) \<and> svobjs s a = Some m \<and> h \<le> p \<and> p - h \<le> sv_size m)" for a
  proof
    assume "?r = Some a"
    then have "a = b" "p - k \<le> sv_size n" by (simp_all split: if_splits)
    with k(1, 2) n(1) show "\<exists>h m. (h, a) \<in> set (cl_svm_alloc s) \<and> svobjs s a = Some m \<and> h \<le> p \<and> p - h \<le> sv_size m"
      by blast
  next
    assume "\<exists>h m. (h, a) \<in> set (cl_svm_alloc s) \<and> svobjs s a = Some m \<and> h \<le> p \<and> p - h \<le> sv_size m"
    then obtain h m where h: "svobjs s a = Some m" "p - h \<le> sv_size m" "a = b" "h = k" using only by blast
    with n(1) have "p - k \<le> sv_size n" by simp
    with h(3) show "?r = Some a" by simp
  qed
  with run show ?thesis by blast
qed

text \<open>A region of 64 bytes: its last byte and the byte after it are recognised, the next one is not.\<close>

theorem svm_lookup_exact_witness:
  "\<forall>e mem. \<exists>s :: unit det. cl_svm_mem_find 4159 s = Inr (Some 0, s) \<and> cl_svm_mem_find 4160 s = Inr (Some 0, s)
    \<and> cl_svm_mem_find 4161 s = Inr (None, s)"
proof (intro allI)
  fix e :: env and mem :: "ptr \<Rightarrow> u8"
  let ?m = "\<lparr>sv_handle = 4096, sv_main_buff = 0, sv_context = 1, sv_flags = {}, sv_size = 64, sv_alignment = 0,
    sv_internal = False\<rparr>"
  let ?s = "(initial_state () e mem 0)\<lparr>cl_svm_alloc := [(4096, 0)], svobjs := [0 \<mapsto> ?m], next_obj := 1\<rparr>"
  have ok: "tables_ok ?s" by (auto simp: initial_state_def tables_ok_def ok_defs)
  have apart: "regions_apart ?s" by (simp add: regions_apart_def)
  have found: "cl_svm_mem_find p ?s = Inr (if 4096 \<le> p \<and> p - 4096 \<le> 64 then Some 0 else None, ?s)" for p
  proof -
    obtain r where r: "cl_svm_mem_find p ?s = Inr (r, ?s)" "\<forall>a. r = Some a \<longleftrightarrow> a = 0 \<and> 4096 \<le> p \<and> p - 4096 \<le> 64"
      using svm_lookup_exact [OF ok apart, of p] by (elim exE conjE) (simp cong: conj_cong)
    from r(2) have "4096 \<le> p \<and> p - 4096 \<le> 64 \<longleftrightarrow> r = Some 0" "r \<noteq> Some 0 \<Longrightarrow> r = None"
      by (blast, metis option.exhaust)
    with r(1) show ?thesis by (cases "r = Some 0") (simp_all only: if_True if_False simp_thms)
  qed
  have "cl_svm_mem_find 4159 ?s = Inr (Some 0, ?s)" "cl_svm_mem_find 4160 ?s = Inr (Some 0, ?s)"
    "cl_svm_mem_find 4161 ?s = Inr (None, ?s)" unfolding found by simp_all
  then show "\<exists>s :: unit det. cl_svm_mem_find 4159 s = Inr (Some 0, s) \<and> cl_svm_mem_find 4160 s = Inr (Some 0, s)
      \<and> cl_svm_mem_find 4161 s = Inr (None, s)" by blast
qed

section \<open>The cache of fine-grained regions\<close>

text \<open>The cache of a context: the free regions are in order of size, and none of them is also in use.\<close>

definition cached_ok :: "fg_svm_region list \<Rightarrow> (ptr \<rightharpoonup> fg_svm_region) \<Rightarrow> bool" where
  "cached_ok free used \<longleftrightarrow> size_sorted free \<and> distinct (map fg_base free) \<and> (\<forall>r \<in> set free. used (fg_base r) = None)"

abbreviation cache_ok :: "cl_context \<Rightarrow> 'w det \<Rightarrow> bool" where
  "cache_ok ctx s \<equiv> cached_ok (ctx_free s ctx) (ctx_allocated s ctx)"

lemma cache_frame [simp]:
  "ctx_allocated (s\<lparr>free_fg_svms := f\<rparr>) = ctx_allocated s"
  "ctx_free (s\<lparr>allocated_fg_svms := g\<rparr>) = ctx_free s"
  "ctx_free (s\<lparr>free_fg_svms := (free_fg_svms s)(ctx \<mapsto> l)\<rparr>) ctx = l"
  "ctx_allocated (s\<lparr>allocated_fg_svms := (allocated_fg_svms s)(ctx \<mapsto> m)\<rparr>) ctx = m"
  by (simp_all add: ctx_allocated_def ctx_free_def fun_eq_iff)

lemma cached_ok_take: "cached_ok (xs @ r # ys) used \<Longrightarrow> cached_ok (xs @ ys) (used(fg_base r \<mapsto> r))"
  by (auto simp: cached_ok_def size_sorted_def sorted_append) (metis image_eqI)+

lemma cached_ok_insert:
  assumes "cached_ok free used" "fg_base r \<notin> fg_base ` set free"
  shows "cached_ok (insert_free free r) (used(fg_base r := None))"
proof -
  have "distinct (map fg_base (insert_free free r))"
    using assms(2) assms(1) [unfolded cached_ok_def, THEN conjunct2, THEN conjunct1]
    by (induction free r rule: insert_free.induct) auto
  with assms size_sorted_insert_free show ?thesis unfolding cached_ok_def by auto
qed

definition fits :: "u64 \<Rightarrow> u32 \<Rightarrow> fg_svm_region \<Rightarrow> bool" where
  "fits sz alignment r \<longleftrightarrow> sz \<le> fg_size r \<and> fg_alignment r = alignment"

lemma take_free_cases:
  assumes "size_sorted l"
  shows "case take_free l sz al of
      None \<Rightarrow> \<not> (\<exists>r \<in> set l. fits sz al r)
    | Some (r, rest) \<Rightarrow> r \<in> set l \<and> fits sz al r \<and> (\<forall>q \<in> set l. fits sz al q \<longrightarrow> fg_size r \<le> fg_size q)
        \<and> (\<exists>xs ys. l = xs @ r # ys \<and> rest = xs @ ys)"
proof (cases "take_free l sz al")
  case None
  then have "\<not> (\<exists>r \<in> set l. fits sz al r)" by (auto simp: take_free_None fits_def not_le)
  with None show ?thesis by simp
next
  case (Some p)
  obtain r rest where p: "p = (r, rest)" by (cases p)
  from take_free_Some [OF Some [unfolded p]] take_free_least [OF assms Some [unfolded p]] Some p
  show ?thesis by (auto simp: fits_def)
qed

lemma find_free_result:
  assumes "take_free (ctx_free s ctx) sz al = Some (r, rest)" "ctx_allocated s ctx (fg_base r) = None"
  shows "\<exists>t. find_free_svm ctx sz al s = Inr (fg_base r, t) \<and> ctx_free t ctx = rest
    \<and> allocated_fg_svms t ctx = Some ((ctx_allocated s ctx)(fg_base r \<mapsto> r))"
proof -
  have "find_free_svm ctx sz al s =
      Inr (fg_base r, insert_allocated ctx r (s\<lparr>free_fg_svms := (free_fg_svms s)(ctx \<mapsto> rest)\<rparr>))"
    using assms(1) by (auto simp: find_free_svm_def ctx_free_def split: option.splits)
  with assms(2) show ?thesis by (simp add: insert_allocated_def)
qed

lemma give_back_result:
  assumes "allocated_fg_svms t ctx = Some m" "m base = Some r"
  shows "\<exists>u. cl_svm_fg_free ctx base t = Inr (False, u) \<and> ctx_free u ctx = insert_free (ctx_free t ctx) r
    \<and> ctx_allocated u ctx = m(base := None)"
  using assms by (simp add: cl_svm_fg_free_def) (simp add: ctx_allocated_def ctx_free_def)

text \<open>
  C25: A request to the cache is answered with a smallest of the free regions of this context that are
  large enough and have the alignment, which is then in use and no longer free; giving it back makes the
  same regions free again. Without such a region the answer is NULL and nothing changes.
\<close>

theorem svm_cache_best_fit:
  assumes ok: "cache_ok ctx s"
  shows "if \<exists>r \<in> set (ctx_free s ctx). fits sz al r
    then \<exists>r t u. r \<in> set (ctx_free s ctx) \<and> fits sz al r
      \<and> (\<forall>q \<in> set (ctx_free s ctx). fits sz al q \<longrightarrow> fg_size r \<le> fg_size q)
      \<and> find_free_svm ctx sz al s = Inr (fg_base r, t) \<and> cache_ok ctx t
      \<and> ctx_allocated t ctx = (ctx_allocated s ctx)(fg_base r \<mapsto> r)
      \<and> set (ctx_free t ctx) = set (ctx_free s ctx) - {r}
      \<and> cl_svm_fg_free ctx (fg_base r) t = Inr (False, u) \<and> cache_ok ctx u
      \<and> ctx_allocated u ctx = ctx_allocated s ctx \<and> set (ctx_free u ctx) = set (ctx_free s ctx)
    else find_free_svm ctx sz al s = Inr (0, s)"
proof (cases "take_free (ctx_free s ctx) sz al")
  case None
  with take_free_cases [of "ctx_free s ctx" sz al] ok have "\<not> (\<exists>r \<in> set (ctx_free s ctx). fits sz al r)"
    by (simp add: cached_ok_def)
  moreover have "find_free_svm ctx sz al s = Inr (0, s)"
    using None by (simp add: find_free_svm_def ctx_free_def split: option.splits)
  ultimately show ?thesis by (simp only: if_False)
next
  case (Some p)
  obtain r rest where p: "p = (r, rest)" by (cases p)
  obtain xs ys where r: "r \<in> set (ctx_free s ctx)" "fits sz al r"
    "\<forall>q \<in> set (ctx_free s ctx). fits sz al q \<longrightarrow> fg_size r \<le> fg_size q"
    and split: "ctx_free s ctx = xs @ r # ys" "rest = xs @ ys"
    using take_free_cases [of "ctx_free s ctx" sz al] ok Some p by (auto simp: cached_ok_def)
  have fresh: "ctx_allocated s ctx (fg_base r) = None" using ok r(1) by (simp add: cached_ok_def)
  obtain t where t: "find_free_svm ctx sz al s = Inr (fg_base r, t)" "ctx_free t ctx = rest"
    "allocated_fg_svms t ctx = Some ((ctx_allocated s ctx)(fg_base r \<mapsto> r))"
    using find_free_result [OF Some [unfolded p] fresh] by blast
  then have used: "ctx_allocated t ctx = (ctx_allocated s ctx)(fg_base r \<mapsto> r)" by (simp add: ctx_allocated_def)
  obtain u where u: "cl_svm_fg_free ctx (fg_base r) t = Inr (False, u)" "ctx_free u ctx = insert_free rest r"
    "ctx_allocated u ctx = ctx_allocated s ctx"
    using give_back_result [OF t(3), of "fg_base r" r] t(2) fresh by (auto simp: fun_upd_idem)
  have t_ok: "cache_ok ctx t" using cached_ok_take [of xs r ys] ok t(2) used split by simp
  have new: "fg_base r \<notin> fg_base ` set rest" using ok unfolding split cached_ok_def by auto
  have u_ok: "cache_ok ctx u"
    using cached_ok_insert [OF t_ok, of r] new t(2) used u(2, 3) by (simp add: fresh fun_upd_idem)
  have sets: "set (ctx_free t ctx) = set (ctx_free s ctx) - {r}" "set (ctx_free u ctx) = set (ctx_free s ctx)"
    using new unfolding t(2) u(2) split by auto
  have "\<exists>r \<in> set (ctx_free s ctx). fits sz al r" using r(1, 2) by blast
  with r t(1) used u(1, 3) t_ok u_ok sets show ?thesis by auto
qed

text \<open>Three free regions; the request fits the second and the third.\<close>

theorem svm_cache_best_fit_witness:
  "\<forall>e mem. \<exists>s t :: unit det. map fg_size (ctx_free s 1) = [100, 200, 300] \<and> find_free_svm 1 150 8 s = Inr (4096, t)"
proof (intro allI)
  fix e :: env and mem :: "ptr \<Rightarrow> u8"
  let ?r = "\<lambda>base n al. \<lparr>fg_base = base, fg_flags = {}, fg_size = n, fg_alignment = al\<rparr>"
  let ?l = "[?r 64 100 0, ?r 4096 200 8, ?r 8192 300 8]"
  let ?s = "(initial_state () e mem 0)\<lparr>free_fg_svms := [1 \<mapsto> ?l]\<rparr>"
  have free: "ctx_free ?s 1 = ?l" "ctx_allocated ?s 1 = Map.empty"
    by (simp_all add: ctx_free_def ctx_allocated_def initial_state_def)
  have ok: "cache_ok 1 ?s" unfolding free by (simp add: cached_ok_def size_sorted_def)
  have "\<exists>r \<in> set (ctx_free ?s 1). fits 150 8 r" unfolding free by (simp add: fits_def)
  with svm_cache_best_fit [OF ok, of 150 8] obtain r t where r: "r \<in> set ?l" "fits 150 8 r"
    "\<forall>q \<in> set ?l. fits 150 8 q \<longrightarrow> fg_size r \<le> fg_size q" "find_free_svm 1 150 8 ?s = Inr (fg_base r, t)"
    unfolding free by (simp only: if_True) blast
  then have "fg_base r = 4096" by (auto simp: fits_def)
  with r(4) free show "\<exists>s t :: unit det. map fg_size (ctx_free s 1) = [100, 200, 300] \<and> find_free_svm 1 150 8 s = Inr (4096, t)"
    by (intro exI [of _ ?s] exI [of _ t]) simp
qed

section \<open>The life of a region\<close>

lemma map_remove_insert:
  "map_find m (h v) = None \<Longrightarrow> map_remove (map_insert h m v) (h v) = (Some v, m)"
  by (induction h m v rule: map_insert.induct) (auto split: if_splits)

text \<open>The runtime does what is asked: it allocates the region, and its commands on regions succeed.\<close>

definition svm_runtime :: "'w ocl \<Rightarrow> ptr \<Rightarrow> bool" where
  "svm_runtime cl base \<longleftrightarrow> (\<forall>name. loaded cl name)
     \<and> (\<forall>ctx flags sz al w. fst (rt_SVMAlloc cl ctx flags sz al w) = base)
     \<and> (\<forall>q p pat n es w. fst (fst (rt_EnqueueSVMMemFill cl q p pat n es w)) = CL_SUCCESS)
     \<and> (\<forall>q w. fst (q_queue_context cl q w) = CL_SUCCESS)"

lemma fill_run:
  assumes "svm_runtime cl base"
  shows "\<exists>evs w. fill_svm_canaries cl q p sz s = Inr (evs, s\<lparr>world := w\<rparr>)"
  using assms
  by (simp add: svm_runtime_def fill_svm_canaries_def andThen_def case_prod_unfold check_cl_error_def) blast

lemma retain_queue_run:
  assumes "svm_runtime cl base"
  shows "\<exists>err w c. clRetainCommandQueue cl q s = Inr (err, s\<lparr>world := w, cmd_queue_cache := c\<rparr>)"
proof -
  have "(case x of None \<Rightarrow> ret err | Some y \<Rightarrow> andThen (commandQueueCache_assign ctx (f y)) (\<lambda>_. ret err)) s =
      Inr (err, s\<lparr>cmd_queue_cache := (case x of None \<Rightarrow> cmd_queue_cache s | Some y \<Rightarrow> (cmd_queue_cache s)(ctx \<mapsto> f y))\<rparr>)"
    for x err ctx f and s :: "'a det"
    by (simp add: commandQueueCache_assign_def split: option.split)
  with assms show ?thesis
    by (auto simp: svm_runtime_def clRetainCommandQueue_def andThen_def case_prod_unfold check_cl_error_def runs
        intro!: exI)
qed

lemma alloc_run:
  assumes "svm_runtime cl base" "CL_MEM_SVM_ATOMICS \<notin> flags" "CL_MEM_SVM_FINE_GRAIN_BUFFER \<notin> flags"
  shows "\<exists>w. internalSVMAlloc cl ctx flags sz al s = Inr (base, s\<lparr>world := w\<rparr>)"
proof -
  have "loaded cl ''clSVMAlloc''" "fst (rt_SVMAlloc cl ctx flags sz al w) = base" for w
    using assms(1) by (simp_all add: svm_runtime_def)
  with assms(2, 3) show ?thesis by (simp add: internalSVMAlloc_def andThen_def real_def) blast
qed

text \<open>What the counters are after a region of size \<open>sz\<close> has been counted.\<close>

definition counted_svm :: "u64 \<Rightarrow> 'w det \<Rightarrow> 'w det" where
  "counted_svm sz s = after_high (if internal_create s then after_object (sz + svm_canaries) s
     else after_canary svm_canaries (after_object sz s))"

lemma count_svm_run: "count_svm sz s = Inr ((), counted_svm sz s)"
  by (simp add: count_svm_def counted_svm_def andThen_def runs)

lemma counted_svm_frame [simp]:
  "svobjs (counted_svm sz s) = svobjs s" "next_obj (counted_svm sz s) = next_obj s"
  "cl_svm_alloc (counted_svm sz s) = cl_svm_alloc s" "cmd_queue_cache (counted_svm sz s) = cmd_queue_cache s"
  "internal_create (counted_svm sz s) = internal_create s" "stats_mem (counted_svm sz s) = stats_mem s"
  "stats_flags (counted_svm sz s) = stats_flags s"
  by (simp_all add: counted_svm_def)

lemma counted_svm_more [simp]:
  "allocated_fg_svms (counted_svm sz s) = allocated_fg_svms s" "log_out (counted_svm sz s) = log_out s"
  by (simp_all add: counted_svm_def counting_defs)

lemma counted_svm_counters:
  "stats_mem s \<Longrightarrow> current_user_mem (counted_svm sz s) = current_user_mem s + (if internal_create s then 0 else sz)"
  "stats_mem s \<Longrightarrow> current_overhead_mem (counted_svm sz s) =
    current_overhead_mem s + (if internal_create s then sz + svm_canaries else svm_canaries)"
  "\<not> stats_mem s \<Longrightarrow> counted_svm sz s = s"
  by (simp_all add: counted_svm_def counting_defs stats_mem_def)

text \<open>The record of the region; the application's pointer is behind the first canary.\<close>

definition svm_region :: "ptr \<Rightarrow> cl_context \<Rightarrow> cl_mem_flags \<Rightarrow> u64 \<Rightarrow> u32 \<Rightarrow> cl_svm_memobj" where
  "svm_region base ctx flags sz al =
     \<lparr>sv_handle = base + POISON_FILL_LENGTH, sv_main_buff = base, sv_context = ctx, sv_flags = flags, sv_size = sz,
      sv_alignment = al, sv_internal = False\<rparr>"

lemma svobj_handle_eq: "svobj_handle s = (\<lambda>a. case svobjs s a of None \<Rightarrow> 0 | Some m \<Rightarrow> sv_handle m)"
  by (simp add: svobj_handle_def fun_eq_iff)

lemma svm_alloc_run:
  assumes rt: "svm_runtime cl base" and flags: "CL_MEM_SVM_ATOMICS \<notin> flags" "CL_MEM_SVM_FINE_GRAIN_BUFFER \<notin> flags"
    and base: "base \<noteq> 0" and queue: "cmd_queue_cache s ctx = Some qc"
  shows "\<exists>t h. clSVMAlloc cl ctx flags sz al s = Inr (base + POISON_FILL_LENGTH, t)
    \<and> svobjs t = (svobjs s)(next_obj s \<mapsto> svm_region base ctx flags sz al)
    \<and> h (next_obj s) = base + POISON_FILL_LENGTH \<and> cl_svm_alloc t = map_insert h (cl_svm_alloc s) (next_obj s)
    \<and> allocated_fg_svms t = allocated_fg_svms s \<and> stats_mem t = stats_mem s \<and> internal_create t = internal_create s
    \<and> current_user_mem t = current_user_mem (counted_svm sz s)
    \<and> current_overhead_mem t = current_overhead_mem (counted_svm sz s)"
proof -
  let ?c = "counted_svm sz (logged cl s)"
  obtain w1 where w1: "internalSVMAlloc cl ctx flags (sz + svm_canaries) al ?c = Inr (base, ?c\<lparr>world := w1\<rparr>)"
    using alloc_run [OF rt flags] by blast
  have q: "getCommandQueueForContext cl ctx (?c\<lparr>world := w1\<rparr>) = Inr ((True, qc_cached_queue qc), ?c\<lparr>world := w1\<rparr>)"
    using queue by (simp add: getCommandQueueForContext_def andThen_def runs)
  obtain err w2 c where w2: "clRetainCommandQueue cl (qc_cached_queue qc) (?c\<lparr>world := w1\<rparr>) =
      Inr (err, ?c\<lparr>world := w2, cmd_queue_cache := c\<rparr>)"
    using retain_queue_run [OF rt, of "qc_cached_queue qc" "?c\<lparr>world := w1\<rparr>"] by auto
  obtain evs w3 where w3: "fill_svm_canaries cl (qc_cached_queue qc) base sz (?c\<lparr>world := w2, cmd_queue_cache := c\<rparr>) =
      Inr (evs, ?c\<lparr>cmd_queue_cache := c, world := w3\<rparr>)"
    using fill_run [OF rt, of "qc_cached_queue qc" base sz "?c\<lparr>world := w2, cmd_queue_cache := c\<rparr>"] by auto
  have loaded: "loaded cl name" for name using rt by (simp add: svm_runtime_def)
  let ?objs = "(svobjs s)(next_obj s \<mapsto> svm_region base ctx flags sz al)"
  let ?h = "\<lambda>a. case ?objs a of None \<Rightarrow> 0 | Some m \<Rightarrow> sv_handle m"
  let ?t = "?c\<lparr>cmd_queue_cache := c, svobjs := ?objs, next_obj := Suc (next_obj s),
    cl_svm_alloc := map_insert ?h (cl_svm_alloc s) (next_obj s)\<rparr>"
  have "\<exists>w. clSVMAlloc cl ctx flags sz al s = Inr (base + POISON_FILL_LENGTH, ?t\<lparr>world := w\<rparr>)"
    using base w1 q w2 w3 loaded
    by (simp add: clSVMAlloc_def andThen_def initialize_logging_run count_svm_run new_svobj_def svm_region_def
      cl_svm_mem_insert_def clReleaseCommandQueue_def svobj_handle_eq) blast
  then obtain w where w: "clSVMAlloc cl ctx flags sz al s = Inr (base + POISON_FILL_LENGTH, ?t\<lparr>world := w\<rparr>)" ..
  have counters: "current_user_mem ?c = current_user_mem (counted_svm sz s)"
    "current_overhead_mem ?c = current_overhead_mem (counted_svm sz s)"
    by (simp_all add: counted_svm_def counting_defs stats_mem_def)
  show ?thesis
    by (intro exI conjI, rule w) (simp_all add: counters svm_region_def stats_mem_def)
qed

lemma svm_free_run:
  assumes "loaded cl ''clSVMFree''" and p: "p \<noteq> 0" and r: "svobjs t a = Some r" "sv_main_buff r \<noteq> 0"
    and tbl: "map_remove (cl_svm_alloc t) p = (Some a, l)" and coarse: "ctx_allocated t ctx (sv_main_buff r) = None"
  shows "\<exists>u. clSVMFree cl ctx p t = Inr ((), u) \<and> cl_svm_alloc u = l \<and> svobjs u = (svobjs t)(a := None)
    \<and> current_user_mem u = current_user_mem t - (if stats_mem t \<and> \<not> internal_create t then sv_size r else 0)
    \<and> current_overhead_mem u = current_overhead_mem t - (if \<not> stats_mem t then 0
        else if internal_create t then sv_size r + svm_canaries else svm_canaries)"
proof -
  have kept: "allocated_fg_svms (logged cl t) = allocated_fg_svms t" "stats_mem (logged cl t) = stats_mem t"
    by (simp_all add: stats_mem_def)
  have uncached: "cl_svm_fg_free ctx (sv_main_buff r) s = Inr (True, s)" if "allocated_fg_svms s = allocated_fg_svms t" for s :: "'a det"
    using coarse that by (auto simp: cl_svm_fg_free_def ctx_allocated_def split: option.split)
  show ?thesis
    using assms(1-4) tbl
    by (simp add: clSVMFree_def andThen_def initialize_logging_run cl_svm_mem_remove_def get_svobj_def
        uncount_svm_def cl_svm_mem_delete_def uncached kept stats_mem_def case_prod_unfold)
qed

text \<open>
  C24: Allocating an SVM region and freeing it: the application gets a pointer behind the first canary, which
  is recorded with the size it asked for and the base the runtime returned; the free that follows brings
  the table of regions, every record and the counters of memory in use back to what they were. The context
  has a queue, and the address is not the one of a region in use.
\<close>

theorem svm_alloc_free_roundtrip:
  assumes rt: "svm_runtime cl base" and flags: "CL_MEM_SVM_ATOMICS \<notin> flags" "CL_MEM_SVM_FINE_GRAIN_BUFFER \<notin> flags"
    and base: "base \<noteq> 0" "base + POISON_FILL_LENGTH \<noteq> 0" and queue: "cmd_queue_cache s ctx = Some qc" and ok: "tables_ok s"
    and new: "map_find (cl_svm_alloc s) (base + POISON_FILL_LENGTH) = None" "ctx_allocated s ctx base = None"
  shows "\<exists>t a u. clSVMAlloc cl ctx flags sz al s = Inr (base + POISON_FILL_LENGTH, t)
    \<and> map_find (cl_svm_alloc t) (base + POISON_FILL_LENGTH) = Some a \<and> svobjs t a = Some (svm_region base ctx flags sz al)
    \<and> clSVMFree cl ctx (base + POISON_FILL_LENGTH) t = Inr ((), u)
    \<and> cl_svm_alloc u = cl_svm_alloc s \<and> svobjs u = svobjs s
    \<and> current_user_mem u = current_user_mem s \<and> current_overhead_mem u = current_overhead_mem s"
proof -
  let ?p = "base + POISON_FILL_LENGTH :: ptr" and ?r = "svm_region base ctx flags sz al"
  obtain t h where t: "clSVMAlloc cl ctx flags sz al s = Inr (?p, t)" "svobjs t = (svobjs s)(next_obj s \<mapsto> ?r)"
    "h (next_obj s) = ?p" "cl_svm_alloc t = map_insert h (cl_svm_alloc s) (next_obj s)"
    "allocated_fg_svms t = allocated_fg_svms s" "stats_mem t = stats_mem s" "internal_create t = internal_create s"
    "current_user_mem t = current_user_mem (counted_svm sz s)"
    "current_overhead_mem t = current_overhead_mem (counted_svm sz s)"
    using svm_alloc_run [OF rt flags base(1) queue] by blast
  have map: "map_ok (cl_svm_alloc s)" and unused: "svobjs s (next_obj s) = None"
    using ok by (simp_all add: tables_ok_def svm_ok_def)
  have found: "map_find (cl_svm_alloc t) ?p = Some (next_obj s)"
    using new(1) t(3, 4) map by (simp add: map_find_insert)
  have removed: "map_remove (cl_svm_alloc t) ?p = (Some (next_obj s), cl_svm_alloc s)"
    using map_remove_insert [of "cl_svm_alloc s" h "next_obj s"] new(1) t(3, 4) by simp
  have r: "svobjs t (next_obj s) = Some ?r" "sv_main_buff ?r = base" "sv_size ?r = sz" using t(2) by (simp_all add: svm_region_def)
  have coarse: "ctx_allocated t ctx (sv_main_buff ?r) = None"
    using new(2) t(5) r(2) by (simp add: ctx_allocated_def)
  have loaded: "loaded cl ''clSVMFree''" using rt by (simp add: svm_runtime_def)
  obtain u where u: "clSVMFree cl ctx ?p t = Inr ((), u)" "cl_svm_alloc u = cl_svm_alloc s" "svobjs u = (svobjs t)(next_obj s := None)"
    "current_user_mem u = current_user_mem t - (if stats_mem t \<and> \<not> internal_create t then sz else 0)"
    "current_overhead_mem u = current_overhead_mem t - (if \<not> stats_mem t then 0
        else if internal_create t then sz + svm_canaries else svm_canaries)"
    using svm_free_run [OF loaded base(2) r(1) _ removed coarse] base(1) r(2, 3) by auto
  have "svobjs u = svobjs s" using u(3) t(2) unused by (simp add: fun_upd_idem)
  moreover have "current_user_mem u = current_user_mem s" "current_overhead_mem u = current_overhead_mem s"
    using u(4, 5) t(6-9) counted_svm_counters [of s sz] by (cases "stats_mem s"; simp)+
  ultimately show ?thesis using t(1) found r(1) u(1, 2) by blast
qed

theorem svm_alloc_free_roundtrip_witness:
  "\<forall>(cl :: unit ocl) e mem. \<exists>(cl' :: unit ocl) s t a u. cl_svm_alloc s = []
    \<and> clSVMAlloc cl' 1 {CL_MEM_READ_WRITE} 64 0 s = Inr (12288, t)
    \<and> map_find (cl_svm_alloc t) 12288 = Some a \<and> clSVMFree cl' 1 12288 t = Inr ((), u) \<and> cl_svm_alloc u = []"
proof (intro allI)
  fix cl :: "unit ocl" and e :: env and mem :: "ptr \<Rightarrow> u8"
  let ?cl = "cl\<lparr>loaded := \<lambda>_. True, rt_SVMAlloc := \<lambda>_ _ _ _ w. (8192, w),
    rt_EnqueueSVMMemFill := \<lambda>_ _ _ _ _ w. ((CL_SUCCESS, 3), w), q_queue_context := \<lambda>_ _. (CL_SUCCESS, 1)\<rparr>"
  let ?qc = "\<lparr>qc_handle = 1, qc_cached_queue = 2, qc_ref_count = 1\<rparr>"
  let ?s = "(initial_state () e mem 4)\<lparr>cmd_queue_cache := [1 \<mapsto> ?qc]\<rparr>"
  have p: "8192 + POISON_FILL_LENGTH = (12288 :: ptr)" by (simp add: poison_defs)
  have "svm_runtime ?cl 8192" by (simp add: svm_runtime_def)
  moreover have "tables_ok ?s" by (auto simp: initial_state_def tables_ok_def ok_defs)
  ultimately obtain t a u where
    "clSVMAlloc ?cl 1 {CL_MEM_READ_WRITE} 64 0 ?s = Inr (8192 + POISON_FILL_LENGTH, t)"
    "map_find (cl_svm_alloc t) (8192 + POISON_FILL_LENGTH) = Some a"
    "clSVMFree ?cl 1 (8192 + POISON_FILL_LENGTH) t = Inr ((), u)" "cl_svm_alloc u = cl_svm_alloc ?s"
    using svm_alloc_free_roundtrip [of ?cl 8192 "{CL_MEM_READ_WRITE}" ?s 1 ?qc 64 0]
    by (auto simp: p initial_state_def ctx_allocated_def)
  moreover have "cl_svm_alloc ?s = []" by (simp add: initial_state_def)
  ultimately show "\<exists>(cl' :: unit ocl) s t a u. cl_svm_alloc s = []
    \<and> clSVMAlloc cl' 1 {CL_MEM_READ_WRITE} 64 0 s = Inr (12288, t)
    \<and> map_find (cl_svm_alloc t) 12288 = Some a \<and> clSVMFree cl' 1 12288 t = Inr ((), u) \<and> cl_svm_alloc u = []"
    unfolding p by metis
qed

end
