(* ===== verification/Device_Kernels.thy ===== *)
theory Device_Kernels
  imports Gpu_Check
begin

text \<open>
  The checker kernels, OpenCL C in the strings of \<open>src/gpu_check/gpu_check_kernels.cpp\<close>, for OpenCL
  2.0. The memory of the device is a function of addresses. A work item first looks at its word or
  byte (\<open>item\<close>: the result and the memory after it), then at the barrier in
  \<open>work_group_scan_inclusive_min\<close> waits for the items of its group, and some items then do an atomic
  operation on the array of results. Items run in any order and interleaved: \<open>dev_step\<close> is one of
  these two steps of one item. Items that return early take no part, and nobody waits for them: OpenCL
  leaves undefined what a barrier does that not all items of a group reach (\<open>Device_Barrier\<close>). The kernels read
  \<open>get_global_id(0)\<close> into an \<open>int\<close>; all comparisons convert it back to 32-bit unsigned.
\<close>

section \<open>Memory\<close>

type_synonym memory = "ptr \<Rightarrow> u8"

abbreviation no_change :: u32 where
  "no_change \<equiv> 0x7FFFFFFF"

definition mem_word :: "memory \<Rightarrow> ptr \<Rightarrow> u32" where
  "mem_word m a = u32_of_bytes (map (\<lambda>i. m (a + of_nat i)) [0..<4])"

definition store_word :: "memory \<Rightarrow> ptr \<Rightarrow> u32 \<Rightarrow> memory" where
  "store_word m a w = (\<lambda>x. if unat (x - a) < 4 then bytes_of_u32 w ! unat (x - a) else m x)"

definition mem_word64 :: "memory \<Rightarrow> ptr \<Rightarrow> u64" where
  "mem_word64 m a = foldr (\<lambda>b acc. ucast b + 256 * acc) (map (\<lambda>i. m (a + of_nat i)) [0..<8]) 0"

text \<open>The address of a word in an array of words.\<close>

definition word_address :: "ptr \<Rightarrow> u32 \<Rightarrow> ptr" where
  "word_address B index = B + 4 * ucast index"

section \<open>Comparing with the poison\<close>

text \<open>Of the copies of canaries: the index of a byte is computed in 32 bits.\<close>

definition compareWithPoison :: "u32 \<Rightarrow> u32 \<Rightarrow> u32 \<Rightarrow> ptr \<Rightarrow> memory \<Rightarrow> u32" where
  "compareWithPoison poison localBuff index B m =
     (if poison = mem_word m (word_address B index) then no_change
      else (case find (\<lambda>i. poison AND 0xFF \<noteq> ucast (m (B + ucast (4 * index + i)))) [0, 1, 2, 3] of
          None \<Rightarrow> no_change
        | Some i \<Rightarrow> 4 * localBuff + i))"

text \<open>Of the canaries of SVM regions behind pointers: the same, and the word is mended.\<close>

definition compareAndMend :: "u32 \<Rightarrow> u32 \<Rightarrow> u32 \<Rightarrow> ptr \<Rightarrow> memory \<Rightarrow> u32 \<times> memory" where
  "compareAndMend poison localBuff index B m =
     (compareWithPoison poison localBuff index B m,
      if poison = mem_word m (word_address B index) then m
      else store_word m (word_address B index) poison)"

text \<open>Of a canary in place, at an address that is a multiple of 4.\<close>

definition comparePlaceWithPoison :: "u32 \<Rightarrow> u32 \<Rightarrow> ptr \<Rightarrow> memory \<Rightarrow> u32 \<times> memory" where
  "comparePlaceWithPoison poison index canary m =
     (let word = poison XOR mem_word m (word_address canary index)
      in if word = 0 then (no_change, m)
         else (case find (\<lambda>i. bytes_of_u32 word ! i \<noteq> 0) [0..<4] of
             None \<Rightarrow> no_change
           | Some i \<Rightarrow> 4 * index + of_nat i,
           store_word m (word_address canary index) poison))"

text \<open>At any other address, byte by byte; the smallest result is kept.\<close>

definition compare_byte :: "u8 \<Rightarrow> u32 \<Rightarrow> ptr \<Rightarrow> u32 \<Rightarrow> u32 \<times> u32 \<times> memory \<Rightarrow> u32 \<times> u32 \<times> memory" where
  "compare_byte poison index canary i st = (case st of (r, tmpRet, m) \<Rightarrow>
     (let a = canary + ucast (index + i);
          (tmpRet, m) = (if poison \<noteq> m a then (index + i, m(a := poison)) else (tmpRet, m))
      in (if tmpRet < r then tmpRet else r, tmpRet, m)))"

definition compareWithPoisonByte :: "u8 \<Rightarrow> u32 \<Rightarrow> ptr \<Rightarrow> memory \<Rightarrow> u32 \<times> memory" where
  "compareWithPoisonByte poison index canary m =
     (case fold (compare_byte poison index canary) [0, 1, 2, 3] (no_change, no_change, m) of
        (r, _, m') \<Rightarrow> (r, m'))"

section \<open>One work item of each kernel\<close>

definition findCorruption_item :: "u32 \<Rightarrow> u32 \<Rightarrow> u32 \<Rightarrow> ptr \<Rightarrow> ptr \<Rightarrow> u32 \<Rightarrow> memory \<Rightarrow> u32 \<times> memory" where
  "findCorruption_item canaryLen buffEnd poison B C tid m =
     (let localBuff = tid mod canaryLen
      in (if tid < buffEnd then compareWithPoison poison localBuff tid B m
          else compareWithPoison poison localBuff (tid - buffEnd) C m, m))"

definition findCorruptionNoSVM_item :: "u32 \<Rightarrow> u32 \<Rightarrow> u32 \<Rightarrow> ptr \<Rightarrow> u32 \<Rightarrow> memory \<Rightarrow> u32 \<times> memory" where
  "findCorruptionNoSVM_item canaryLen buffEnd poison B tid m =
     (let localBuff = tid mod canaryLen
      in (if tid < buffEnd then compareWithPoison poison localBuff tid B m else no_change, m))"

definition locateDiffParts_item :: "u32 \<Rightarrow> u32 \<Rightarrow> ptr \<Rightarrow> u32 \<Rightarrow> memory \<Rightarrow> u32 \<times> memory" where
  "locateDiffParts_item poison offset B tid m =
     (let canary = B + ucast offset
      in if offset mod 4 \<noteq> 0 then compareWithPoisonByte (ucast (0xFF AND poison)) (tid * 4) canary m
         else comparePlaceWithPoison poison tid canary m)"

text \<open>
  \<open>C\<close> is an array of pointers to canaries, two for each region; the words of the regions are mended,
  and those of the copies too.
\<close>

definition locateDiffSVMPtr_item :: "u32 \<Rightarrow> u32 \<Rightarrow> u32 \<Rightarrow> ptr \<Rightarrow> ptr \<Rightarrow> u32 \<Rightarrow> memory \<Rightarrow> u32 \<times> memory" where
  "locateDiffSVMPtr_item len endBuffs poison B C tid m =
     (let localBuff = tid mod len
      in if tid < endBuffs then compareAndMend poison localBuff tid B m
         else
           (let index = tid mod (len div POISON_REGIONS);
                val_ptr = mem_word64 m (C + 8 * ucast ((tid - endBuffs) div (len div POISON_REGIONS)))
            in compareAndMend poison localBuff index val_ptr m))"

text \<open>
  The kernel of the flattened images: the image a byte belongs to is found by a loop over the ends;
  an item past the last end returns.
\<close>

definition image_of :: "u32 list \<Rightarrow> u32 \<Rightarrow> nat" where
  "image_of ends tid = length (takeWhile (\<lambda>e. e \<le> tid) ends)"

definition findImageCorruption_item :: "u8 \<Rightarrow> u32 list \<Rightarrow> ptr \<Rightarrow> u32 \<Rightarrow> memory \<Rightarrow> u32 \<times> memory" where
  "findImageCorruption_item poison ends B tid m =
     (let buffID = image_of ends tid;
          localBuff = tid - (if 0 < buffID then ends ! (buffID - 1) else 0)
      in (if poison \<noteq> m (B + ucast tid) then localBuff else no_change, m))"

section \<open>The atomic operations\<close>

text \<open>
  The scan of a group of \<open>L\<close> items: the smallest result of the items up to this one. Only the last item
  of the group, and in most kernels the last item of all, writes it, to the place of its own buffer.
\<close>

definition scan_inclusive_min :: "nat \<Rightarrow> (nat \<Rightarrow> u32 option) \<Rightarrow> nat \<Rightarrow> u32" where
  "scan_inclusive_min L rets t =
     fold min (map (\<lambda>u. the (rets u)) (filter (\<lambda>u. rets u \<noteq> None) [L * (t div L)..<t])) (the (rets t))"

definition emit_findCorruption :: "nat \<Rightarrow> u32 \<Rightarrow> u32 \<Rightarrow> (nat \<Rightarrow> u32 option) \<Rightarrow> nat \<Rightarrow> (nat \<times> u32) option" where
  "emit_findCorruption L canaryLen svmEnd rets t =
     (if t mod L = L - 1 \<or> of_nat t = svmEnd - 1
      then Some (unat ((of_nat t :: u32) div canaryLen), scan_inclusive_min L rets t) else None)"

definition emit_locateDiffParts :: "nat \<Rightarrow> u32 \<Rightarrow> u32 \<Rightarrow> (nat \<Rightarrow> u32 option) \<Rightarrow> nat \<Rightarrow> (nat \<times> u32) option" where
  "emit_locateDiffParts L len buffID rets t =
     (if t mod L = L - 1 \<or> of_nat t = len - 1
      then Some (unat buffID, scan_inclusive_min L rets t) else None)"

definition emit_locateDiffSVMPtr :: "nat \<Rightarrow> u32 \<Rightarrow> (nat \<Rightarrow> u32 option) \<Rightarrow> nat \<Rightarrow> (nat \<times> u32) option" where
  "emit_locateDiffSVMPtr L len rets t =
     (if t mod L = L - 1
      then Some (unat ((of_nat t :: u32) div len), scan_inclusive_min L rets t) else None)"

text \<open>No scan: an item whose byte differs writes its own result.\<close>

definition emit_image :: "u32 list \<Rightarrow> (nat \<Rightarrow> u32 option) \<Rightarrow> nat \<Rightarrow> (nat \<times> u32) option" where
  "emit_image ends rets t = (case rets t of
       None \<Rightarrow> None
     | Some r \<Rightarrow> if r \<noteq> no_change then Some (image_of ends (of_nat t), r) else None)"

definition atomic_min :: "(nat \<times> u32) option \<Rightarrow> u32 list \<Rightarrow> u32 list" where
  "atomic_min e first = (case e of None \<Rightarrow> first | Some (i, v) \<Rightarrow> first[i := min (first ! i) v])"

section \<open>Runs\<close>

record device =
  d_mem :: memory
  d_rets :: "nat \<Rightarrow> u32 option"
  d_done :: "nat set"
  d_first :: "u32 list"

definition dev_start :: "memory \<Rightarrow> u32 list \<Rightarrow> device" where
  "dev_start m first = \<lparr>d_mem = m, d_rets = Map.empty, d_done = {}, d_first = first\<rparr>"

text \<open>\<open>L\<close> is the size of a group, \<open>items\<close> the items that do not return early.\<close>

inductive dev_step ::
  "nat \<Rightarrow> nat set \<Rightarrow> (nat \<Rightarrow> memory \<Rightarrow> u32 \<times> memory) \<Rightarrow>
    ((nat \<Rightarrow> u32 option) \<Rightarrow> nat \<Rightarrow> (nat \<times> u32) option) \<Rightarrow> device \<Rightarrow> device \<Rightarrow> bool"
  for L items item emit where
  compute: "t \<in> items \<Longrightarrow> d_rets s t = None \<Longrightarrow> item t (d_mem s) = (r, m) \<Longrightarrow>
    dev_step L items item emit s (s\<lparr>d_mem := m, d_rets := (d_rets s)(t \<mapsto> r)\<rparr>)"
| atomic: "t \<in> items \<Longrightarrow> t \<notin> d_done s \<Longrightarrow>
    (\<forall>u \<in> items. u div L = t div L \<longrightarrow> d_rets s u \<noteq> None) \<Longrightarrow>
    dev_step L items item emit s
      (s\<lparr>d_done := insert t (d_done s), d_first := atomic_min (emit (d_rets s) t) (d_first s)\<rparr>)"

inductive_cases dev_stepE: "dev_step L items item emit s t"

inductive dev_run ::
  "nat \<Rightarrow> nat set \<Rightarrow> (nat \<Rightarrow> memory \<Rightarrow> u32 \<times> memory) \<Rightarrow>
    ((nat \<Rightarrow> u32 option) \<Rightarrow> nat \<Rightarrow> (nat \<times> u32) option) \<Rightarrow> device \<Rightarrow> device \<Rightarrow> bool"
  for L items item emit s0 where
  start: "dev_run L items item emit s0 s0"
| step: "dev_run L items item emit s0 s \<Longrightarrow> dev_step L items item emit s t \<Longrightarrow> dev_run L items item emit s0 t"

definition all_done :: "nat set \<Rightarrow> device \<Rightarrow> bool" where
  "all_done items s \<longleftrightarrow> items \<subseteq> d_done s"

text \<open>The launches of the kernels: the items of a range of \<open>G\<close> items that do not return early.\<close>

definition active_items :: "nat \<Rightarrow> u32 \<Rightarrow> nat set" where
  "active_items G n = {t. t < G \<and> of_nat t < n}"

definition run_findCorruption ::
  "nat \<Rightarrow> nat \<Rightarrow> u32 \<Rightarrow> u32 \<Rightarrow> u32 \<Rightarrow> u32 \<Rightarrow> ptr \<Rightarrow> ptr \<Rightarrow> device \<Rightarrow> device \<Rightarrow> bool" where
  "run_findCorruption L G canaryLen buffEnd svmEnd poison B C s t \<longleftrightarrow>
     dev_run L (active_items G svmEnd) (\<lambda>i. findCorruption_item canaryLen buffEnd poison B C (of_nat i))
       (emit_findCorruption L canaryLen svmEnd) s t \<and> all_done (active_items G svmEnd) t"

definition run_findCorruptionNoSVM ::
  "nat \<Rightarrow> nat \<Rightarrow> u32 \<Rightarrow> u32 \<Rightarrow> u32 \<Rightarrow> u32 \<Rightarrow> ptr \<Rightarrow> device \<Rightarrow> device \<Rightarrow> bool" where
  "run_findCorruptionNoSVM L G canaryLen buffEnd svmEnd poison B s t \<longleftrightarrow>
     dev_run L (active_items G svmEnd) (\<lambda>i. findCorruptionNoSVM_item canaryLen buffEnd poison B (of_nat i))
       (emit_findCorruption L canaryLen svmEnd) s t \<and> all_done (active_items G svmEnd) t"

definition run_locateDiffParts ::
  "nat \<Rightarrow> nat \<Rightarrow> u32 \<Rightarrow> u32 \<Rightarrow> u32 \<Rightarrow> u32 \<Rightarrow> ptr \<Rightarrow> device \<Rightarrow> device \<Rightarrow> bool" where
  "run_locateDiffParts L G len buffID poison offset B s t \<longleftrightarrow>
     dev_run L (active_items G len) (\<lambda>i. locateDiffParts_item poison offset B (of_nat i))
       (emit_locateDiffParts L len buffID) s t \<and> all_done (active_items G len) t"

definition run_locateDiffSVMPtr ::
  "nat \<Rightarrow> nat \<Rightarrow> u32 \<Rightarrow> u32 \<Rightarrow> u32 \<Rightarrow> u32 \<Rightarrow> ptr \<Rightarrow> ptr \<Rightarrow> device \<Rightarrow> device \<Rightarrow> bool" where
  "run_locateDiffSVMPtr L G len endBuffs endSVM poison B C s t \<longleftrightarrow>
     dev_run L (active_items G endSVM) (\<lambda>i. locateDiffSVMPtr_item len endBuffs poison B C (of_nat i))
       (emit_locateDiffSVMPtr L len) s t \<and> all_done (active_items G endSVM) t"

text \<open>This kernel has no barrier: with groups of one item, an item waits for itself only.\<close>

definition run_findImageCorruption ::
  "nat \<Rightarrow> u8 \<Rightarrow> u32 list \<Rightarrow> ptr \<Rightarrow> device \<Rightarrow> device \<Rightarrow> bool" where
  "run_findImageCorruption G poison ends B s t \<longleftrightarrow>
     (let items = {t. t < G \<and> image_of ends (of_nat t) < length ends}
      in dev_run 1 items (\<lambda>i. findImageCorruption_item poison ends B (of_nat i)) (emit_image ends) s t
         \<and> all_done items t)"

end
