(* ===== verification/Device_Runs.thy ===== *)
theory Device_Runs
  imports Device_Kernels Cpu_Check_Props
begin

text \<open>
  What a run of a checker kernel leaves behind, whatever the order of its items. The locale
  \<open>independent_items\<close> states what a kernel has to promise for this: no item writes where another one
  reads, and an atomic operation depends on the results of its own group only.
\<close>

section \<open>Steps\<close>

lemma atomic_min_length [simp]: "length (atomic_min e first) = length first"
  by (simp add: atomic_min_def split: option.split)

lemma atomic_min_le:
  "b < length first \<Longrightarrow> x \<le> atomic_min e first ! b \<longleftrightarrow> x \<le> first ! b \<and> (\<forall>v. e = Some (b, v) \<longrightarrow> x \<le> v)"
proof (cases e)
  case (Some p)
  assume b: "b < length first"
  obtain i v where "p = (i, v)" by (cases p)
  with b Some show ?thesis by (cases "i = b") (auto simp: atomic_min_def)
qed (simp add: atomic_min_def)

locale independent_items =
  fixes L :: nat and items :: "nat set" and item :: "nat \<Rightarrow> memory \<Rightarrow> u32 \<times> memory"
    and emit :: "(nat \<Rightarrow> u32 option) \<Rightarrow> nat \<Rightarrow> (nat \<times> u32) option" and cells :: "nat \<Rightarrow> ptr set"
  assumes own_result: "t \<in> items \<Longrightarrow> (\<And>a. a \<in> cells t \<Longrightarrow> m a = m' a) \<Longrightarrow> fst (item t m) = fst (item t m')"
    and others_keep: "t \<in> items \<Longrightarrow> u \<in> items \<Longrightarrow> t \<noteq> u \<Longrightarrow> a \<in> cells t \<Longrightarrow> snd (item u m) a = m a"
    and emit_group: "(\<And>u. u div L = t div L \<Longrightarrow> r u = r' u) \<Longrightarrow> emit r t = emit r' t"
begin

text \<open>The results when every item has run, from the memory at the start.\<close>

definition results :: "memory \<Rightarrow> nat \<Rightarrow> u32 option" where
  "results m t = (if t \<in> items then Some (fst (item t m)) else None)"

definition run_ok :: "memory \<Rightarrow> u32 list \<Rightarrow> device \<Rightarrow> bool" where
  "run_ok m first s \<longleftrightarrow>
     (\<forall>t. d_rets s t \<noteq> None \<longrightarrow> d_rets s t = results m t)
     \<and> (\<forall>t \<in> items. d_rets s t = None \<longrightarrow> (\<forall>a \<in> cells t. d_mem s a = m a))
     \<and> d_done s \<subseteq> items \<and> length (d_first s) = length first
     \<and> (\<forall>b < length first. \<forall>x. x \<le> d_first s ! b \<longleftrightarrow>
          x \<le> first ! b \<and> (\<forall>t \<in> d_done s. \<forall>v. emit (results m) t = Some (b, v) \<longrightarrow> x \<le> v))"

lemma run_ok_compute:
  assumes ok: "run_ok m first s" and t: "t \<in> items" "d_rets s t = None" and it: "item t (d_mem s) = (r, m')"
  shows "run_ok m first (s\<lparr>d_mem := m', d_rets := (d_rets s)(t \<mapsto> r)\<rparr>)"
proof -
  have cells: "\<And>a. a \<in> cells t \<Longrightarrow> d_mem s a = m a" using ok t by (simp add: run_ok_def)
  have "r = fst (item t m)" using own_result [OF t(1), of "d_mem s" m] cells it by simp
  moreover have "m' a = d_mem s a" if "u \<in> items" "u \<noteq> t" "a \<in> cells u" for u a
    using others_keep [OF that(1) t(1) that(2, 3), of "d_mem s"] it by simp
  ultimately show ?thesis using ok t by (auto simp: run_ok_def results_def)
qed

lemma run_ok_atomic:
  assumes ok: "run_ok m first s" and t: "t \<in> items" "t \<notin> d_done s"
    and group: "\<forall>u \<in> items. u div L = t div L \<longrightarrow> d_rets s u \<noteq> None"
  shows "run_ok m first (s\<lparr>d_done := insert t (d_done s), d_first := atomic_min (emit (d_rets s) t) (d_first s)\<rparr>)"
proof -
  have "d_rets s u = results m u" if "u div L = t div L" for u
    using ok group that by (cases "d_rets s u = None") (auto simp: run_ok_def results_def)
  then have "emit (d_rets s) t = emit (results m) t" by (rule emit_group)
  with ok t(1) show ?thesis by (auto simp: run_ok_def atomic_min_le)
qed

lemma run_ok_run:
  "dev_run L items item emit s0 s \<Longrightarrow> s0 = dev_start m first \<Longrightarrow> run_ok m first s"
proof (induction rule: dev_run.induct)
  case start
  then show ?case by (simp add: run_ok_def dev_start_def)
next
  case (step s t)
  from step(2) run_ok_compute [OF step(3) [OF step(4)]] run_ok_atomic [OF step(3) [OF step(4)]]
  show ?case by (cases rule: dev_step.cases) auto
qed

text \<open>Each result is the smallest of what was there and of what the items write to its place.\<close>

lemma complete_run:
  assumes "dev_run L items item emit (dev_start m first) s" and "all_done items s"
  shows "length (d_first s) = length first"
    and "b < length first \<Longrightarrow> x \<le> d_first s ! b \<longleftrightarrow>
      x \<le> first ! b \<and> (\<forall>t \<in> items. \<forall>v. emit (results m) t = Some (b, v) \<longrightarrow> x \<le> v)"
proof -
  have ok: "run_ok m first s" by (rule run_ok_run [OF assms(1) refl])
  then have "d_done s = items" using assms(2) by (auto simp: run_ok_def all_done_def)
  with ok show "length (d_first s) = length first" "b < length first \<Longrightarrow> x \<le> d_first s ! b \<longleftrightarrow>
      x \<le> first ! b \<and> (\<forall>t \<in> items. \<forall>v. emit (results m) t = Some (b, v) \<longrightarrow> x \<le> v)"
    by (auto simp: run_ok_def)
qed

end

text \<open>Kernels whose items moreover leave a known value in their cells, and write nowhere else.\<close>

locale mending_items = independent_items +
  fixes mended :: u8
  assumes mends: "t \<in> items \<Longrightarrow> a \<in> cells t \<Longrightarrow> snd (item t m) a = mended"
    and mends_only: "t \<in> items \<Longrightarrow> a \<notin> cells t \<Longrightarrow> snd (item t m) a = m a"
begin

definition mem_ok_after :: "memory \<Rightarrow> device \<Rightarrow> bool" where
  "mem_ok_after m s \<longleftrightarrow> (\<forall>t \<in> items. d_rets s t \<noteq> None \<longrightarrow> (\<forall>a \<in> cells t. d_mem s a = mended))
     \<and> (\<forall>a. (\<forall>t \<in> items. a \<notin> cells t) \<longrightarrow> d_mem s a = m a)
     \<and> (\<forall>t \<in> d_done s. d_rets s t \<noteq> None)"

lemma mem_ok_run:
  "dev_run L items item emit s0 s \<Longrightarrow> s0 = dev_start m first \<Longrightarrow> mem_ok_after m s"
proof (induction rule: dev_run.induct)
  case start
  then show ?case by (simp add: mem_ok_after_def dev_start_def)
next
  case (step s t)
  then have ok: "mem_ok_after m s" by simp
  from step(2) show ?case
  proof (cases rule: dev_step.cases)
    case (compute u r m')
    have m': "m' = snd (item u (d_mem s))" using compute(4) by simp
    have "d_mem t a = mended" if v: "v \<in> items" "d_rets t v \<noteq> None" "a \<in> cells v" for v a
    proof (cases "v = u")
      case True
      with v compute(1) m' show ?thesis by (simp add: mends)
    next
      case False
      with v compute(1) have "d_rets s v \<noteq> None" by simp
      with ok v have "d_mem s a = mended" by (simp add: mem_ok_after_def)
      with others_keep [OF v(1) compute(2) False v(3)] compute(1) m' show ?thesis by simp
    qed
    moreover have "d_mem t a = m a" if "\<forall>v \<in> items. a \<notin> cells v" for a
      using that ok mends_only [OF compute(2)] compute(1, 2) m' by (simp add: mem_ok_after_def)
    ultimately show ?thesis using ok compute(1) by (auto simp: mem_ok_after_def)
  next
    case (atomic u)
    with ok show ?thesis by (auto simp: mem_ok_after_def)
  qed
qed

lemma complete_run_mends:
  assumes "dev_run L items item emit (dev_start m first) s" and "all_done items s"
  shows "d_mem s a = (if \<exists>t \<in> items. a \<in> cells t then mended else m a)"
  using mem_ok_run [OF assms(1) refl] assms(2) by (auto simp: mem_ok_after_def all_done_def)

end

end
