(* ===== verification/Device_Progress.thy ===== *)
theory Device_Progress
  imports Device_Kernels
begin

text \<open>
  The runs of \<open>dev_run\<close>, in which nobody waits for an item that has returned early: every run ends, and can
  be completed.
\<close>

text \<open>The steps that remain: an item computes once and writes once.\<close>

definition steps_left :: "nat set \<Rightarrow> device \<Rightarrow> nat" where
  "steps_left items s = card {t \<in> items. d_rets s t = None} + card (items - d_done s)"

lemma step_decreases:
  assumes "dev_step L items item emit s t" and fin: "finite items"
  shows "steps_left items t < steps_left items s"
  using assms(1)
proof (cases rule: dev_step.cases)
  case (compute u r m)
  have "{v \<in> items. d_rets t v = None} = {v \<in> items. d_rets s v = None} - {u}" using compute by auto
  then have "card {v \<in> items. d_rets t v = None} < card {v \<in> items. d_rets s v = None}"
    using compute fin by (intro psubset_card_mono) auto
  then show ?thesis using compute(1) by (simp add: steps_left_def)
next
  case (atomic u)
  have "card (items - d_done t) < card (items - d_done s)"
    using atomic fin by (intro psubset_card_mono) auto
  then show ?thesis using atomic(1) by (simp add: steps_left_def)
qed

lemma step_enabled:
  assumes "\<not> all_done items s"
  shows "\<exists>t. dev_step L items item emit s t"
proof -
  obtain u where u: "u \<in> items" "u \<notin> d_done s" using assms unfolding all_done_def by blast
  show ?thesis
  proof (cases "\<forall>v \<in> items. v div L = u div L \<longrightarrow> d_rets s v \<noteq> None")
    case True
    with dev_step.atomic [OF u] show ?thesis by blast
  next
    case False
    then obtain v where v: "v \<in> items" "d_rets s v = None" by blast
    obtain r m where "item v (d_mem s) = (r, m)" by (cases "item v (d_mem s)")
    with dev_step.compute [OF v] show ?thesis by blast
  qed
qed

lemma dev_run_trans: "dev_run L items item emit s t \<Longrightarrow> dev_run L items item emit r s \<Longrightarrow> dev_run L items item emit r t"
  by (induction rule: dev_run.induct) (auto intro: dev_run.step)

lemma run_completes:
  assumes fin: "finite items"
  shows "\<exists>t. dev_run L items item emit s t \<and> all_done items t"
proof (induction "steps_left items s" arbitrary: s rule: less_induct)
  case less
  show ?case
  proof (cases "all_done items s")
    case False
    then obtain u where u: "dev_step L items item emit s u" using step_enabled by blast
    from less [OF step_decreases [OF u fin]] obtain t where "dev_run L items item emit u t" "all_done items t" by blast
    with dev_run_trans dev_run.step [OF dev_run.start u] show ?thesis by blast
  qed (use dev_run.start in blast)
qed

lemma no_endless_run:
  assumes fin: "finite items"
  shows "\<exists>i. \<not> dev_step L items item emit (f i) (f (Suc i))"
proof (rule ccontr)
  assume "\<nexists>i. \<not> dev_step L items item emit (f i) (f (Suc i))"
  then have less: "steps_left items (f (Suc i)) < steps_left items (f i)" for i using step_decreases fin by blast
  have "steps_left items (f i) + i \<le> steps_left items (f 0)" for i
  proof (induction i)
    case (Suc i)
    with less [of i] show ?case by simp
  qed simp
  from this [of "Suc (steps_left items (f 0))"] show False by simp
qed

lemma finite_active [simp]: "finite (active_items G n)"
  by (simp add: active_items_def)

end
