(* ===== verification/Device_Check_Props.thy ===== *)
theory Device_Check_Props
  imports Device_Runs Device_Progress
begin

text \<open>
  The checker kernels find what the host check finds, in every order of their items. Results are
  compared through their lower bounds: \<open>x \<le> r\<close> for all \<open>x\<close> describes a minimum without computing it.
\<close>

lemma complete_run_exists:
  "finite items \<Longrightarrow> \<exists>s. dev_run L items item emit (dev_start m first) s \<and> all_done items s"
  by (rule run_completes)

section \<open>Scans\<close>

lemma le_fold_min: "x \<le> fold min ys a \<longleftrightarrow> x \<le> a \<and> (\<forall>y \<in> set ys. x \<le> (y :: u32))"
  by (induction ys arbitrary: a) auto

lemma le_scan:
  "rets t \<noteq> None \<Longrightarrow> x \<le> scan_inclusive_min L rets t \<longleftrightarrow>
    (\<forall>u. L * (t div L) \<le> u \<and> u \<le> t \<and> rets u \<noteq> None \<longrightarrow> x \<le> the (rets u))"
proof -
  assume t: "rets t \<noteq> None"
  have le: "L * (t div L) \<le> t" by simp
  have "(\<forall>u. L * (t div L) \<le> u \<and> u \<le> t \<and> rets u \<noteq> None \<longrightarrow> x \<le> the (rets u)) \<longleftrightarrow>
      x \<le> the (rets t) \<and> (\<forall>u. L * (t div L) \<le> u \<and> u < t \<and> rets u \<noteq> None \<longrightarrow> x \<le> the (rets u))"
    using t le by (metis le_less)
  then show ?thesis unfolding scan_inclusive_min_def le_fold_min by auto
qed

lemma same_group:
  fixes u t L :: nat
  assumes "L * (t div L) \<le> u" and "u \<le> t"
  shows "u div L = t div L"
proof (cases "L = 0")
  case False
  then have "t div L \<le> u div L" using div_le_mono [OF assms(1), of L] by simp
  moreover have "u div L \<le> t div L" using assms(2) by (rule div_le_mono)
  ultimately show ?thesis by simp
qed simp

lemma scan_group: "(\<And>u. u div L = t div L \<Longrightarrow> r u = r' u) \<Longrightarrow> scan_inclusive_min L r t = scan_inclusive_min L r' t"
proof -
  assume same: "\<And>u. u div L = t div L \<Longrightarrow> r u = r' u"
  have "r u = r' u" if "u \<in> set [L * (t div L)..<t]" for u
    using that by (intro same same_group) auto
  then have f: "filter (\<lambda>u. r u \<noteq> None) [L * (t div L)..<t] = filter (\<lambda>u. r' u \<noteq> None) [L * (t div L)..<t]"
    and g: "map (\<lambda>u. the (r u)) (filter (\<lambda>u. r' u \<noteq> None) [L * (t div L)..<t]) =
      map (\<lambda>u. the (r' u)) (filter (\<lambda>u. r' u \<noteq> None) [L * (t div L)..<t])"
    by (auto intro!: filter_cong)
  have "r t = r' t" by (rule same) simp
  then show ?thesis unfolding scan_inclusive_min_def f g by simp
qed

text \<open>
  When the groups divide the buffers, the results of the last items of the groups together are those of
  all items of the buffer.
\<close>

lemma groups_cover:
  fixes L c N :: nat
  assumes L: "0 < L" "L dvd c" "c dvd N"
  shows "(\<forall>t < N. t mod L = L - 1 \<and> t div c = b \<longrightarrow> (\<forall>u. L * (t div L) \<le> u \<and> u \<le> t \<longrightarrow> P u)) \<longleftrightarrow>
    (\<forall>u < N. u div c = b \<longrightarrow> P u)" (is "?groups \<longleftrightarrow> ?all")
proof -
  obtain k where k: "c = L * k" using L(2) by auto
  have same: "u div c = t div c" if "u div L = t div L" for u t :: nat
    using that by (simp add: k div_mult2_eq)
  show ?thesis
  proof (intro iffI allI impI)
    fix u
    assume g: ?groups and u: "u < N" "u div c = b"
    let ?t = "L * (u div L) + (L - 1)"
    have t: "?t mod L = L - 1" "?t div L = u div L"
      using L(1) by (simp_all only: mod_mult_self4 div_mult_self4, simp_all)
    have dvd: "L dvd N" using L(2, 3) by (rule dvd_trans)
    then have "u div L < N div L" using u(1) L(1) by (simp add: dvd_div_mult_self div_less_iff_less_mult)
    then have "L * (u div L) + L \<le> N"
      using mult_le_mono2 [of "Suc (u div L)" "N div L" L] dvd by simp
    then have "?t < N" using L(1) by linarith
    moreover have "u \<le> ?t" using mod_less_divisor [OF L(1), of u] mult_div_mod_eq [of L u] by linarith
    moreover have "?t div c = b" using same [OF t(2)] u(2) by simp
    ultimately show "P u" using g t by auto
  next
    fix t u
    assume all: ?all and t: "t < N" "t mod L = L - 1 \<and> t div c = b" and u: "L * (t div L) \<le> u \<and> u \<le> t"
    then have "u < N" "u div c = b" using same [OF same_group [of L t u]] by auto
    with all show "P u" by simp
  qed
qed

section \<open>Comparisons\<close>

lemma mem_word_poison: "mem_word m a = POISON_FILL_32B \<longleftrightarrow> (\<forall>q < 4. m (a + of_nat q) = POISON_FILL)"
proof -
  have w: "mem_word m a = u32_of_bytes [m (a + of_nat 0), m (a + of_nat 1), m (a + of_nat 2), m (a + of_nat 3)]"
    by (simp add: mem_word_def upt_rec)
  have "(\<forall>q < 4. m (a + of_nat q) = POISON_FILL) \<longleftrightarrow> m (a + of_nat 0) = POISON_FILL
      \<and> m (a + of_nat 1) = POISON_FILL \<and> m (a + of_nat 2) = POISON_FILL \<and> m (a + of_nat 3) = POISON_FILL"
    by (auto simp: less_Suc_eq numeral_eq_Suc)
  then show ?thesis unfolding w using u32_of_bytes_inj poison_word by metis
qed

text \<open>The least bad index as a number, \<open>INT_MAX\<close> without one; its lower bounds.\<close>

definition least_bad :: "(nat \<Rightarrow> bool) \<Rightarrow> u32 \<Rightarrow> bool" where
  "least_bad P r \<longleftrightarrow> (\<forall>x. x \<le> r \<longleftrightarrow> x \<le> no_change \<and> (\<forall>i. P i \<longrightarrow> x \<le> of_nat i))"

lemma least_bad_unique: "least_bad P r \<Longrightarrow> least_bad P q \<Longrightarrow> r = q"
  unfolding least_bad_def by (metis order.eq_iff)

lemma of_nat_le: "i \<le> j \<Longrightarrow> j < 2 ^ 31 \<Longrightarrow> (of_nat i :: u32) \<le> of_nat j"
  by (simp add: word_le_nat_alt unat_of_nat_eq)

lemma of_nat_le_no_change: "i < 2 ^ 31 \<Longrightarrow> (of_nat i :: u32) \<le> no_change"
  by (simp add: word_le_nat_alt unat_of_nat_eq)

lemma least_badI_None: "(\<And>i. \<not> P i) \<Longrightarrow> least_bad P no_change"
  by (simp add: least_bad_def)

lemma least_badI_Some:
  assumes "P i" "i < 2 ^ 31" and "\<And>j. P j \<Longrightarrow> i \<le> j \<and> j < 2 ^ 31"
  shows "least_bad P (of_nat i)"
  unfolding least_bad_def
proof (intro allI iffI conjI impI)
  fix x :: u32
  assume x: "x \<le> of_nat i"
  show "x \<le> no_change" by (rule order_trans [OF x of_nat_le_no_change [OF assms(2)]])
  fix j
  assume "P j"
  with assms(3) have "of_nat i \<le> (of_nat j :: u32)" by (intro of_nat_le) auto
  from order_trans [OF x this] show "x \<le> of_nat j" .
next
  fix x :: u32
  assume "x \<le> no_change \<and> (\<forall>i. P i \<longrightarrow> x \<le> of_nat i)"
  with assms(1) show "x \<le> of_nat i" by blast
qed

lemma find_least_bad:
  assumes "base < 2 ^ 29"
  shows "least_bad (\<lambda>i. 4 * base \<le> i \<and> i < 4 * base + 4 \<and> P (i - 4 * base))
    (case find P [0, 1, 2, 3] of None \<Rightarrow> no_change | Some q \<Rightarrow> of_nat (4 * base + q))"
proof (cases "find P [0, 1, 2, 3]")
  case None
  then have "\<forall>q < 4. \<not> P q" by (simp only: find_four)
  then have "least_bad (\<lambda>i. 4 * base \<le> i \<and> i < 4 * base + 4 \<and> P (i - 4 * base)) no_change"
    by (intro least_badI_None) (metis add_less_imp_less_left le_add_diff_inverse)
  with None show ?thesis by simp
next
  case (Some q)
  then have q: "q < 4" "P q" "\<And>r. r < q \<Longrightarrow> \<not> P r" unfolding find_four by auto
  have "least_bad (\<lambda>i. 4 * base \<le> i \<and> i < 4 * base + 4 \<and> P (i - 4 * base)) (of_nat (4 * base + q))"
  proof (rule least_badI_Some)
    fix j
    assume j: "4 * base \<le> j \<and> j < 4 * base + 4 \<and> P (j - 4 * base)"
    then have "\<not> j - 4 * base < q" using q(3) by blast
    with j assms show "4 * base + q \<le> j \<and> j < 2 ^ 31" by auto
  qed (use q assms in auto)
  with Some show ?thesis by simp
qed

text \<open>The host's answer for \<open>n\<close> bytes.\<close>

definition host_result :: "u32 \<Rightarrow> u8 list \<Rightarrow> u32" where
  "host_result n bytes = (case find_bad_byte n bytes of None \<Rightarrow> no_change | Some b \<Rightarrow> b)"

lemma host_result_least:
  assumes "4 * words_covering n \<le> length bytes" and "unat n < 2 ^ 31"
  shows "least_bad (\<lambda>i. i < unat n \<and> bytes ! i \<noteq> POISON_FILL) (host_result n bytes)"
proof (cases "find_bad_byte n bytes")
  case None
  with find_bad_byte_cases [OF assms(1)] show ?thesis
    by (auto simp: host_result_def intro: least_badI_None)
next
  case (Some b)
  with find_bad_byte_cases [OF assms(1)] have b: "unat b < unat n" "bytes ! unat b \<noteq> POISON_FILL"
    "\<And>i. i < unat b \<Longrightarrow> bytes ! i = POISON_FILL" by auto
  have "least_bad (\<lambda>i. i < unat n \<and> bytes ! i \<noteq> POISON_FILL) (of_nat (unat b))"
    by (rule least_badI_Some) (use b assms(2) in \<open>auto simp: not_less [symmetric]\<close>)
  with Some show ?thesis by (simp add: host_result_def)
qed

text \<open>A comparison with a copy gives the least bad byte of its word, counted from the start of the buffer.\<close>

lemma unat_upto4: "i < 4 \<Longrightarrow> unat (of_nat i :: u32) = i"
  by (simp add: unat_of_nat_eq)

lemma word_address_of_nat:
  "word_address B (of_nat k) + of_nat q = B + of_nat (4 * k + q)" if "k < 2 ^ 32"
proof -
  have "ucast (of_nat k :: u32) = (of_nat k :: u64)"
    using that by (simp add: word_unat_eq_iff unat_ucast_wider unat_of_nat_eq)
  then show ?thesis by (simp add: word_address_def algebra_simps)
qed

lemma byte_address_of_nat:
  "ucast (4 * of_nat k + of_nat q :: u32) = (of_nat (4 * k + q) :: u64)" if "4 * k + q < 2 ^ 32"
proof -
  have "4 * of_nat k + of_nat q = (of_nat (4 * k + q) :: u32)" by simp
  with that show ?thesis by (simp add: word_unat_eq_iff unat_ucast_wider unat_of_nat_eq del: of_nat_add of_nat_mult)
qed

lemma poison_low_byte: "POISON_FILL_32B AND 0xFF \<noteq> ucast (b :: u8) \<longleftrightarrow> b \<noteq> POISON_FILL"
proof -
  have "POISON_FILL_32B AND 0xFF = ucast POISON_FILL" by (simp add: poison_defs)
  moreover have "(ucast POISON_FILL :: u32) = ucast b \<longleftrightarrow> POISON_FILL = b"
    by (simp add: word_unat_eq_iff unat_ucast_wider)
  ultimately show ?thesis by metis
qed

lemma compareWithPoison_least:
  assumes base: "base < 2 ^ 29" and k: "k < 2 ^ 29"
  shows "least_bad (\<lambda>i. 4 * base \<le> i \<and> i < 4 * base + 4 \<and> m (B + of_nat (4 * k + (i - 4 * base))) \<noteq> POISON_FILL)
    (compareWithPoison POISON_FILL_32B (of_nat base) (of_nat k) B m)"
proof -
  have word: "POISON_FILL_32B = mem_word m (word_address B (of_nat k)) \<longleftrightarrow>
      (\<forall>q < 4. m (B + of_nat (4 * k + q)) = POISON_FILL)"
  proof -
    have "k < 2 ^ 32" using k by simp
    then show ?thesis
      using mem_word_poison [of m "word_address B (of_nat k)"] by (metis word_address_of_nat)
  qed
  let ?P = "\<lambda>q. m (B + of_nat (4 * k + q)) \<noteq> POISON_FILL"
  have byte: "POISON_FILL_32B AND 0xFF \<noteq> ucast (m (B + ucast (4 * of_nat k + of_nat q :: u32))) \<longleftrightarrow> ?P q"
    if "q < 4" for q :: nat
  proof -
    have "4 * k + q < 2 ^ 32" using that k by simp
    then show ?thesis by (simp only: poison_low_byte byte_address_of_nat)
  qed
  have loop: "(case find (\<lambda>i. POISON_FILL_32B AND 0xFF \<noteq> ucast (m (B + ucast (4 * of_nat k + i :: u32)))) [0, 1, 2, 3] of
      None \<Rightarrow> no_change | Some i \<Rightarrow> 4 * of_nat base + i) =
    (case find ?P [0, 1, 2, 3] of None \<Rightarrow> no_change | Some q \<Rightarrow> of_nat (4 * base + q))"
  proof -
    let ?Q = "\<lambda>i. POISON_FILL_32B AND 0xFF \<noteq> ucast (m (B + ucast (4 * of_nat k + i :: u32)))"
    have "find ?Q [0, 1, 2, 3] = map_option of_nat (find (\<lambda>q. ?Q (of_nat q)) [0, 1, 2, 3])" by simp
    also have "find (\<lambda>q. ?Q (of_nat q)) [0, 1, 2, 3] = find ?P [0, 1, 2, 3]"
      by (rule find_cong [OF refl], rule byte) auto
    finally show ?thesis by (cases "find ?P [0, 1, 2, 3]") simp_all
  qed
  show ?thesis
  proof (cases "\<forall>q < 4. m (B + of_nat (4 * k + q)) = POISON_FILL")
    case True
    then have "find ?P [0, 1, 2, 3] = None" unfolding find_four by blast
    with find_least_bad [OF base, of ?P] True show ?thesis by (simp add: compareWithPoison_def word)
  next
    case False
    then have "compareWithPoison POISON_FILL_32B (of_nat base) (of_nat k) B m =
        (case find ?P [0, 1, 2, 3] of None \<Rightarrow> no_change | Some q \<Rightarrow> of_nat (4 * base + q))"
      unfolding compareWithPoison_def word loop by (simp only: if_False)
    with find_least_bad [OF base, of ?P] show ?thesis by simp
  qed
qed

lemma least_bad_words:
  assumes "\<And>j. j < c \<Longrightarrow> least_bad (\<lambda>i. 4 * j \<le> i \<and> i < 4 * j + 4 \<and> P i) (v j)"
  shows "x \<le> no_change \<and> (\<forall>j < c. x \<le> v j) \<longleftrightarrow> x \<le> no_change \<and> (\<forall>i. i < 4 * c \<and> P i \<longrightarrow> x \<le> of_nat i)"
proof -
  have "x \<le> v j \<longleftrightarrow> x \<le> no_change \<and> (\<forall>i. 4 * j \<le> i \<and> i < 4 * j + 4 \<and> P i \<longrightarrow> x \<le> of_nat i)" if "j < c" for j
    using assms [OF that] by (simp add: least_bad_def)
  moreover have "(\<exists>j < c. 4 * j \<le> i \<and> i < 4 * j + 4) \<longleftrightarrow> i < 4 * c" for i
  proof
    assume "i < 4 * c"
    then show "\<exists>j < c. 4 * j \<le> i \<and> i < 4 * j + 4" by (intro exI [of _ "i div 4"]) auto
  qed auto
  ultimately show ?thesis by metis
qed

section \<open>The kernel that checks copies of canaries\<close>

interpretation fc: independent_items L "active_items G svmEnd"
    "\<lambda>i. findCorruption_item canaryLen buffEnd poison B C (of_nat i)" "emit_findCorruption L canaryLen svmEnd"
    "\<lambda>_. UNIV" for L G svmEnd canaryLen buffEnd poison B C
proof
  fix t and m m' :: memory
  assume "\<And>a. a \<in> UNIV \<Longrightarrow> m a = m' a"
  then have "m = m'" by auto
  then show "fst (findCorruption_item canaryLen buffEnd poison B C (of_nat t) m) =
      fst (findCorruption_item canaryLen buffEnd poison B C (of_nat t) m')" by simp
next
  fix t and r r' :: "nat \<Rightarrow> u32 option"
  assume "\<And>u. u div L = t div L \<Longrightarrow> r u = r' u"
  then have "scan_inclusive_min L r t = scan_inclusive_min L r' t" by (rule scan_group)
  then show "emit_findCorruption L canaryLen svmEnd r t = emit_findCorruption L canaryLen svmEnd r' t"
    by (simp add: emit_findCorruption_def)
qed (simp add: findCorruption_item_def Let_def)

text \<open>A byte of the canaries of buffer \<open>b\<close>, or of the SVM regions that follow the buffers.\<close>

definition canary_byte :: "memory \<Rightarrow> ptr \<Rightarrow> ptr \<Rightarrow> nat \<Rightarrow> nat \<Rightarrow> nat \<Rightarrow> u8" where
  "canary_byte m B C nb b i =
     (if b < nb then m (B + of_nat (8192 * b + i)) else m (C + of_nat (8192 * (b - nb) + i)))"

lemma active_all: "N \<le> G \<Longrightarrow> G < 2 ^ 32 \<Longrightarrow> active_items G (of_nat N) = {t. t < N}"
  by (auto simp: active_items_def word_less_nat_alt unat_of_nat_eq)

lemma of_nat_divmod:
  fixes t :: nat
  assumes "t < 2 ^ 32"
  shows "(of_nat t :: u32) mod 2048 = of_nat (t mod 2048)" "(of_nat t :: u32) div 2048 = of_nat (t div 2048)"
  using assms by (simp_all add: word_unat_eq_iff unat_mod_distrib unat_div_distrib unat_of_nat_eq)

lemma findCorruption_item_least:
  assumes "u < 2048 * n" "nb \<le> n" "n < 2 ^ 17"
  shows "least_bad (\<lambda>i. 4 * (u mod 2048) \<le> i \<and> i < 4 * (u mod 2048) + 4
      \<and> canary_byte m B C nb (u div 2048) i \<noteq> POISON_FILL)
    (fst (findCorruption_item 2048 (of_nat (2048 * nb)) POISON_FILL_32B B C (of_nat u) m))"
proof -
  let ?j = "u mod 2048" and ?b = "u div 2048"
  have u: "u < 2 ^ 28" using assms by simp
  then have u32: "u < 2 ^ 32" by simp
  have j: "?j < 2 ^ 29" by (rule less_trans [of _ 2048]) simp_all
  have less: "(of_nat u :: u32) < of_nat (2048 * nb) \<longleftrightarrow> ?b < nb"
  proof -
    have "2048 * nb < 2 ^ 32" using assms by simp
    with u have "(of_nat u :: u32) < of_nat (2048 * nb) \<longleftrightarrow> u < 2048 * nb"
      by (simp add: word_less_nat_alt unat_of_nat_eq del: of_nat_mult)
    then show ?thesis by (simp add: div_less_iff_less_mult mult.commute)
  qed
  have idx: "4 * k + (i - 4 * ?j) = 8192 * (k div 2048) + i" if "4 * ?j \<le> i" "k mod 2048 = ?j" for k i
    using that mult_div_mod_eq [of 2048 k] by linarith
  show ?thesis
  proof (cases "?b < nb")
    case True
    have "least_bad (\<lambda>i. 4 * ?j \<le> i \<and> i < 4 * ?j + 4 \<and> m (B + of_nat (4 * u + (i - 4 * ?j))) \<noteq> POISON_FILL)
        (compareWithPoison POISON_FILL_32B (of_nat ?j) (of_nat u) B m)"
      by (rule compareWithPoison_least [OF j]) (use u in simp)
    moreover have "fst (findCorruption_item 2048 (of_nat (2048 * nb)) POISON_FILL_32B B C (of_nat u) m) =
        compareWithPoison POISON_FILL_32B (of_nat ?j) (of_nat u) B m"
      unfolding findCorruption_item_def Let_def less of_nat_divmod(1) [OF u32] using True by (simp only: if_True fst_conv)
    ultimately show ?thesis
      using True by (simp only: canary_byte_def if_True idx cong: conj_cong)
  next
    case False
    let ?k = "u - 2048 * nb"
    have ge: "2048 * nb \<le> u" using False by (simp add: not_less less_eq_div_iff_mult_less_eq mult.commute)
    then have k: "?k mod 2048 = ?j" "?k div 2048 = ?b - nb" "?k < 2 ^ 29"
      using u by (auto simp: le_iff_add div_mult_self4)
    have sub: "of_nat u - of_nat (2048 * nb) = (of_nat ?k :: u32)" using ge by (simp add: of_nat_diff)
    have "least_bad (\<lambda>i. 4 * ?j \<le> i \<and> i < 4 * ?j + 4 \<and> m (C + of_nat (4 * ?k + (i - 4 * ?j))) \<noteq> POISON_FILL)
        (compareWithPoison POISON_FILL_32B (of_nat ?j) (of_nat ?k) C m)"
      by (rule compareWithPoison_least [OF j k(3)])
    moreover have "fst (findCorruption_item 2048 (of_nat (2048 * nb)) POISON_FILL_32B B C (of_nat u) m) =
        compareWithPoison POISON_FILL_32B (of_nat ?j) (of_nat ?k) C m"
      unfolding findCorruption_item_def Let_def less sub of_nat_divmod(1) [OF u32] using False by (simp only: if_False fst_conv)
    ultimately show ?thesis
      using False by (simp only: canary_byte_def if_False idx [OF _ k(1)] k(2) cong: conj_cong)
  qed
qed

lemma last_item:
  assumes "t < N" "(of_nat t :: u32) = of_nat N - 1" "N < 2 ^ 32"
  shows "t = N - 1"
proof -
  have "of_nat N - 1 = (of_nat (N - 1) :: u32)" using assms(1) by (simp add: of_nat_diff)
  then have "unat (of_nat t :: u32) = unat (of_nat (N - 1) :: u32)" using assms(2) by simp
  then show ?thesis
    using assms unat_of_nat_eq [of t, where ?'a = 32] unat_of_nat_eq [of "N - 1", where ?'a = 32] by simp
qed

text \<open>The result of a complete run at one place, by its lower bounds.\<close>

lemma findCorruption_bounds:
  assumes run: "run_findCorruption L G 2048 (of_nat (2048 * nb)) (of_nat (2048 * n)) POISON_FILL_32B B C
      (dev_start m (replicate n no_change)) s"
    and size: "nb \<le> n" "n < 2 ^ 17" "2048 * n \<le> G" "G < 2 ^ 32" and L: "0 < L" "L dvd 2048"
    and b: "b < n"
  shows "x \<le> d_first s ! b \<longleftrightarrow> x \<le> no_change \<and>
    (\<forall>u < 2048 * n. u div 2048 = b \<longrightarrow>
      x \<le> fst (findCorruption_item 2048 (of_nat (2048 * nb)) POISON_FILL_32B B C (of_nat u) m))"
proof -
  let ?N = "2048 * n" and ?stop = "of_nat (2048 * n) :: u32"
  let ?val = "\<lambda>u. fst (findCorruption_item 2048 (of_nat (2048 * nb)) POISON_FILL_32B B C (of_nat u) m)"
  have items: "active_items G ?stop = {t. t < ?N}" by (rule active_all [OF size(3, 4)])
  have rets: "fc.results G ?stop 2048 (of_nat (2048 * nb)) POISON_FILL_32B B C m u =
      (if u < ?N then Some (?val u) else None)" for u
    by (subst fc.results_def) (simp only: items mem_Collect_eq)
  have N: "?N < 2 ^ 32" using size by simp
  have slot: "unat ((of_nat t :: u32) div 2048) = t div 2048" if "t < ?N" for t
  proof -
    have "t < 2 ^ 32" using that N by linarith
    then show ?thesis by (subst of_nat_divmod(2)) (simp_all add: unat_of_nat_eq)
  qed
  have last: "t mod L = L - 1" if t: "t < ?N" "(of_nat t :: u32) = ?stop - 1" for t
  proof -
    have t': "t = ?N - 1" by (rule last_item [OF t N])
    have "L dvd ?N" using L(2) by simp
    then obtain q where q: "?N = L * q" by (rule dvdE)
    with t(1) obtain p where "q = Suc p" by (cases q) auto
    with q t' L(1) have "t = L * p + (L - 1)" by simp
    then show ?thesis using L(1) by (simp only: mod_mult_self4) simp
  qed
  have "x \<le> d_first s ! b \<longleftrightarrow> x \<le> replicate n no_change ! b \<and>
      (\<forall>t \<in> active_items G ?stop. \<forall>v. emit_findCorruption L 2048 ?stop
        (fc.results G ?stop 2048 (of_nat (2048 * nb)) POISON_FILL_32B B C m) t = Some (b, v) \<longrightarrow> x \<le> v)"
    by (rule fc.complete_run(2)) (use run b in \<open>simp_all add: run_findCorruption_def\<close>)
  also have "\<dots> \<longleftrightarrow> x \<le> no_change \<and> (\<forall>t < ?N. t mod L = L - 1 \<and> t div 2048 = b \<longrightarrow>
      (\<forall>u. L * (t div L) \<le> u \<and> u \<le> t \<longrightarrow> x \<le> ?val u))"
  proof -
    let ?rets = "fc.results G ?stop 2048 (of_nat (2048 * nb)) POISON_FILL_32B B C m"
    have scan: "x \<le> scan_inclusive_min L ?rets t \<longleftrightarrow> (\<forall>u. L * (t div L) \<le> u \<and> u \<le> t \<longrightarrow> x \<le> ?val u)"
      if "t < ?N" for t
    proof -
      have "u \<le> t \<Longrightarrow> ?rets u = Some (?val u)" for u unfolding rets using that by simp
      then show ?thesis by (subst le_scan) (auto simp: le_less)
    qed
    have "emit_findCorruption L 2048 ?stop ?rets t = Some (b, v) \<longleftrightarrow>
        t mod L = L - 1 \<and> t div 2048 = b \<and> v = scan_inclusive_min L ?rets t" if "t < ?N" for t v
      using slot [OF that] last [OF that] by (auto simp: emit_findCorruption_def)
    with scan show ?thesis unfolding items using b by auto
  qed
  also have "\<dots> \<longleftrightarrow> x \<le> no_change \<and> (\<forall>u < ?N. u div 2048 = b \<longrightarrow> x \<le> ?val u)"
    using groups_cover [OF L, of ?N b "\<lambda>u. x \<le> ?val u"] by simp
  finally show ?thesis .
qed

lemma findCorruption_length:
  "run_findCorruption L G c be se p B C (dev_start m first) s \<Longrightarrow> length (d_first s) = length first"
  unfolding run_findCorruption_def by (elim conjE) (rule fc.complete_run(1))

lemma findCorruption_first:
  assumes run: "run_findCorruption L G 2048 (of_nat (2048 * nb)) (of_nat (2048 * n)) POISON_FILL_32B B C
      (dev_start m (replicate n no_change)) s"
    and size: "nb \<le> n" "n < 2 ^ 17" "2048 * n \<le> G" "G < 2 ^ 32" and L: "0 < L" "L dvd 2048"
  shows "d_first s = map (\<lambda>b. host_result 8192 (map (canary_byte m B C nb b) [0..<8192])) [0..<n]"
proof (rule nth_equalityI)
  have "length (d_first s) = length (replicate n no_change)"
    by (rule findCorruption_length [OF run])
  then show len: "length (d_first s) = length (map (\<lambda>b. host_result 8192 (map (canary_byte m B C nb b) [0..<8192])) [0..<n])"
    by simp
  fix b
  assume "b < length (d_first s)"
  with len have b: "b < n" by simp
  let ?v = "\<lambda>j. fst (findCorruption_item 2048 (of_nat (2048 * nb)) POISON_FILL_32B B C (of_nat (2048 * b + j)) m)"
  let ?bad = "\<lambda>i. canary_byte m B C nb b i \<noteq> POISON_FILL"
  have words: "least_bad (\<lambda>i. 4 * j \<le> i \<and> i < 4 * j + 4 \<and> ?bad i) (?v j)" if j: "j < 2048" for j
  proof -
    have "2048 * b + j < 2048 * n" using b j by linarith
    from findCorruption_item_least [OF this size(1, 2), of m B C] j show ?thesis
      by (simp only: div_mult_self4 mod_mult_self4 div_less mod_less) simp
  qed
  have "x \<le> d_first s ! b \<longleftrightarrow> x \<le> no_change \<and> (\<forall>j < 2048. x \<le> ?v j)" for x
  proof -
    have "(\<forall>u < 2048 * n. u div 2048 = b \<longrightarrow> P u) \<longleftrightarrow> (\<forall>j < 2048. P (2048 * b + j))" for P
    proof (intro iffI allI impI)
      fix u
      assume p: "\<forall>j < 2048. P (2048 * b + j)" and "u < 2048 * n" and u: "u div 2048 = b"
      have "u = 2048 * b + u mod 2048" using u by auto
      with p show "P u" by (metis mod_less_divisor zero_less_numeral)
    next
      fix j :: nat
      assume p: "\<forall>u < 2048 * n. u div 2048 = b \<longrightarrow> P u" and j: "j < 2048"
      have "2048 * b + j < 2048 * n" using b j by linarith
      with p j show "P (2048 * b + j)" by simp
    qed
    then show ?thesis using findCorruption_bounds [OF run size L b, of x] by simp
  qed
  then have "least_bad (\<lambda>i. i < 8192 \<and> ?bad i) (d_first s ! b)"
    unfolding least_bad_def using least_bad_words [OF words, of 2048] by simp
  moreover have "least_bad (\<lambda>i. i < 8192 \<and> ?bad i) (host_result 8192 (map (canary_byte m B C nb b) [0..<8192]))"
  proof -
    have cover: "4 * words_covering 8192 \<le> length (map (canary_byte m B C nb b) [0..<8192])"
      by (simp add: words_covering_def)
    have "i < 8192 \<and> map (canary_byte m B C nb b) [0..<8192] ! i \<noteq> POISON_FILL \<longleftrightarrow> i < 8192 \<and> ?bad i" for i
      by auto
    with host_result_least [OF cover] show ?thesis by (simp cong: conj_cong)
  qed
  ultimately have "d_first s ! b = host_result 8192 (map (canary_byte m B C nb b) [0..<8192])"
    by (rule least_bad_unique)
  with b show "d_first s ! b = map (\<lambda>b. host_result 8192 (map (canary_byte m B C nb b) [0..<8192])) [0..<n] ! b"
    by simp
qed

lemma kernel_finds_host_results:
  assumes "run_findCorruption L G (POISON_REGIONS * poisonWordLen) (of_nat nb * POISON_REGIONS * poisonWordLen)
      (of_nat n * POISON_REGIONS * poisonWordLen) POISON_FILL_32B B C (dev_start m (replicate n no_change)) s"
    and "nb \<le> n" "n < 2 ^ 17" "2048 * n \<le> G" "G < 2 ^ 32" and "0 < L" "L dvd 2048"
  shows "d_first s = map (\<lambda>b. host_result (POISON_REGIONS * POISON_FILL_LENGTH)
    (map (canary_byte m B C nb b) [0..<8192])) [0..<n]"
proof -
  have "POISON_REGIONS * poisonWordLen = (2048 :: u32)" "POISON_REGIONS * POISON_FILL_LENGTH = (8192 :: u32)"
    "of_nat k * POISON_REGIONS * poisonWordLen = (of_nat (2048 * k) :: u32)" for k
    by (simp_all add: poisonWordLen_def poison_defs)
  with findCorruption_first [of L G nb n B C m s] assms show ?thesis by (simp only:)
qed

text \<open>
  C5: Whatever the order in which the work items of the checker kernel run, the array of results ends
  with the host's answer for every buffer and SVM region: \<open>INT_MAX\<close> if its canaries are intact, otherwise
  the first byte that is not poison. The size of a work group has to divide the canaries of a buffer.
\<close>

theorem device_check_equals_host:
  assumes "run_findCorruption L G (POISON_REGIONS * poisonWordLen) (of_nat nb * POISON_REGIONS * poisonWordLen)
      (of_nat n * POISON_REGIONS * poisonWordLen) POISON_FILL_32B B C (dev_start m (replicate n no_change)) s"
    and "nb \<le> n" "n < 2 ^ 17" "2048 * n \<le> G" "G < 2 ^ 32" and "0 < L" "L dvd 2048"
  shows "d_first s = map (\<lambda>b. host_result (POISON_REGIONS * POISON_FILL_LENGTH)
    (map (canary_byte m B C nb b) [0..<8192])) [0..<n]"
  using assms by (rule kernel_finds_host_results)

text \<open>One changed byte of one buffer, checked in groups of 256 items: a complete run exists and finds it.\<close>

theorem device_check_equals_host_witness:
  "\<exists>s. run_findCorruption 256 4096 (POISON_REGIONS * poisonWordLen) (of_nat 1 * POISON_REGIONS * poisonWordLen)
      (of_nat 1 * POISON_REGIONS * poisonWordLen) POISON_FILL_32B 0 0
      (dev_start (\<lambda>a. if a = 5 then 0 else POISON_FILL) (replicate 1 no_change)) s
    \<and> d_first s = [5]" (is "\<exists>s. run_findCorruption 256 4096 ?c ?be ?se ?p 0 0 (dev_start ?m ?f) s \<and> _")
proof -
  obtain s where "dev_run 256 (active_items 4096 ?se) (\<lambda>i. findCorruption_item ?c ?be ?p 0 0 (of_nat i))
      (emit_findCorruption 256 ?c ?se) (dev_start ?m ?f) s \<and> all_done (active_items 4096 ?se) s"
    using complete_run_exists [OF finite_active] by blast
  then have run: "run_findCorruption 256 4096 ?c ?be ?se ?p 0 0 (dev_start ?m ?f) s"
    unfolding run_findCorruption_def .
  let ?bytes = "map (canary_byte ?m 0 0 1 0) [0..<8192]"
  have "d_first s = map (\<lambda>b. host_result (POISON_REGIONS * POISON_FILL_LENGTH)
      (map (canary_byte ?m 0 0 1 b) [0..<8192])) [0..<1]"
    by (rule device_check_equals_host [OF run]) simp_all
  moreover have "host_result (POISON_REGIONS * POISON_FILL_LENGTH) ?bytes = 5"
  proof -
    have eq: "(of_nat i :: u64) = 5 \<longleftrightarrow> i = 5" if "i < 8192" for i
      using that by (simp add: word_unat_eq_iff unat_of_nat_eq)
    have bad: "i < 8192 \<and> ?bytes ! i \<noteq> POISON_FILL \<longleftrightarrow> i = 5" for i
    proof (cases "i < 8192")
      case True
      then have "?bytes ! i = (if i = 5 then 0 else POISON_FILL)" by (simp add: canary_byte_def eq)
      moreover have "POISON_FILL \<noteq> 0" by (simp add: poison_defs)
      ultimately show ?thesis using True by auto
    qed simp
    have n: "POISON_REGIONS * POISON_FILL_LENGTH = (8192 :: u32)" by (simp add: poison_defs)
    have "least_bad (\<lambda>i. i < 8192 \<and> ?bytes ! i \<noteq> POISON_FILL) (host_result 8192 ?bytes)"
      using host_result_least [of 8192 ?bytes] by (simp add: words_covering_def)
    moreover have "least_bad (\<lambda>i. i < 8192 \<and> ?bytes ! i \<noteq> POISON_FILL) (of_nat 5)"
      unfolding bad by (rule least_badI_Some) simp_all
    ultimately have "host_result 8192 ?bytes = of_nat 5" by (rule least_bad_unique)
    then show ?thesis unfolding n by (simp only: of_nat_numeral)
  qed
  moreover have "[0..<1] = [0 :: nat]" by simp
  ultimately have "d_first s = [5]" by (simp only: list.map)
  with run show ?thesis by blast
qed

section \<open>Without SVM regions\<close>

lemma dev_step_cong:
  "dev_step L items item emit s t \<Longrightarrow> (\<And>u. u \<in> items \<Longrightarrow> item u = item' u) \<Longrightarrow> dev_step L items item' emit s t"
  by (induction rule: dev_step.induct) (auto intro: dev_step.intros)

lemma dev_run_cong:
  "dev_run L items item emit s t \<Longrightarrow> (\<And>u. u \<in> items \<Longrightarrow> item u = item' u) \<Longrightarrow> dev_run L items item' emit s t"
proof (induction rule: dev_run.induct)
  case start
  show ?case by (rule dev_run.start)
next
  case (step s t)
  show ?case
    by (rule dev_run.step [OF step(3) dev_step_cong [OF step(2)]]) (use step(4) in simp_all)
qed

text \<open>
  Without SVM regions \<open>findCorruptionNoSVM\<close> has the same runs as \<open>findCorruption\<close>, whatever pointer
  to regions the latter is given.
\<close>

lemma kernels_agree_without_svm:
  "run_findCorruptionNoSVM L G canaryLen n n poison B s t \<longleftrightarrow>
    run_findCorruption L G canaryLen n n poison B C s t"
proof -
  have same: "findCorruptionNoSVM_item canaryLen n poison B (of_nat u) =
      findCorruption_item canaryLen n poison B C (of_nat u)" if "u \<in> active_items G n" for u
    using that by (simp add: active_items_def fun_eq_iff findCorruptionNoSVM_item_def findCorruption_item_def)
  let ?one = "\<lambda>i. findCorruptionNoSVM_item canaryLen n poison B (of_nat i)"
  let ?two = "\<lambda>i. findCorruption_item canaryLen n poison B C (of_nat i)"
  have "dev_run L (active_items G n) ?one e s t \<longleftrightarrow> dev_run L (active_items G n) ?two e s t" for e
    by (rule iffI; erule dev_run_cong; simp add: same)
  then show ?thesis
    unfolding run_findCorruptionNoSVM_def run_findCorruption_def by simp
qed

section \<open>Groups that are too large\<close>

lemma wide_group_skips_even:
  fixes n :: nat
  defines "stop \<equiv> of_nat (4096 * n) :: u32"
  assumes n: "n < 2 ^ 16" "b < n" and t: "t < 4096 * n"
    and e: "emit_findCorruption 4096 2048 stop r t = Some (2 * b, v)"
  shows False
proof -
  have N: "4096 * n < 2 ^ 32" using n(1) by simp
  then have t32: "t < 2 ^ 32" using t by linarith
  have slot: "unat ((of_nat t :: u32) div 2048) = t div 2048"
    using t32 by (subst of_nat_divmod(2)) (simp_all add: unat_of_nat_eq)
  have "t mod 4096 = 4095 \<or> (of_nat t :: u32) = stop - 1" and b: "t div 2048 = 2 * b"
    using e slot by (auto simp: emit_findCorruption_def split: if_splits)
  moreover have "t = 4096 * n - 1" if "(of_nat t :: u32) = stop - 1"
    by (rule last_item [OF t that [unfolded stop_def] N])
  ultimately have ends: "t mod 4096 = 4095 \<or> t = 4096 * n - 1" by blast
  have r: "t = 4096 * b + t mod 2048" using b mult_div_mod_eq [of 2048 t] by simp
  have r': "t mod 2048 < 2048" by simp
  have "(4096 * b + t mod 2048) mod 4096 = t mod 2048"
    by (simp only: mod_mult_self4) (rule mod_less, rule less_trans [OF r'], simp)
  then have "t mod 4096 < 2048" using r r' by metis
  with ends have "t = 4096 * n - 1" by linarith
  with r r' n(2) show False by linarith
qed

text \<open>
  C35: A work group twice as large as the canaries of a buffer writes only to the second of its two
  buffers: the first is never reported, whatever its canaries hold. The device has to limit the group.
\<close>

theorem wide_groups_lose_results:
  assumes run: "run_findCorruption 4096 G 2048 (of_nat (4096 * n)) (of_nat (4096 * n)) POISON_FILL_32B B C
      (dev_start m (replicate (2 * n) no_change)) s"
    and n: "n < 2 ^ 16" "b < n" and G: "4096 * n \<le> G" "G < 2 ^ 32"
  shows "d_first s ! (2 * b) = no_change"
proof -
  let ?stop = "of_nat (4096 * n) :: u32"
  have items: "active_items G ?stop = {t. t < 4096 * n}" by (rule active_all [OF G])
  have odd: False if "t \<in> active_items G ?stop" and "emit_findCorruption 4096 2048 ?stop r t = Some (2 * b, v)" for r t v
    using wide_group_skips_even [OF n, of t r v] that items by simp
  have "no_change \<le> d_first s ! (2 * b) \<and> d_first s ! (2 * b) \<le> no_change"
  proof
    have b: "2 * b < length (replicate (2 * n) no_change)" using n(2) by simp
    have dev: "dev_run 4096 (active_items G ?stop) (\<lambda>i. findCorruption_item 2048 ?stop POISON_FILL_32B B C (of_nat i))
        (emit_findCorruption 4096 2048 ?stop) (dev_start m (replicate (2 * n) no_change)) s"
      and all: "all_done (active_items G ?stop) s"
      using run unfolding run_findCorruption_def by (rule conjunct1, rule conjunct2)
    have start: "replicate (2 * n) no_change ! (2 * b) = no_change" using n(2) by simp
    have "no_change \<le> replicate (2 * n) no_change ! (2 * b) \<and> (\<forall>t \<in> active_items G ?stop. \<forall>v.
        emit_findCorruption 4096 2048 ?stop (fc.results G ?stop 2048 ?stop POISON_FILL_32B B C m) t = Some (2 * b, v)
          \<longrightarrow> no_change \<le> v)"
      unfolding start using odd by blast
    then show "no_change \<le> d_first s ! (2 * b)" by (rule fc.complete_run(2) [OF dev all b, THEN iffD2])
    have "d_first s ! (2 * b) \<le> d_first s ! (2 * b)" by simp
    then have "d_first s ! (2 * b) \<le> replicate (2 * n) no_change ! (2 * b)"
      by (rule fc.complete_run(2) [OF dev all b, THEN iffD1, THEN conjunct1])
    then show "d_first s ! (2 * b) \<le> no_change" unfolding start .
  qed
  then show ?thesis by (simp only: order.eq_iff)
qed

theorem wide_groups_lose_results_witness:
  "\<exists>s. run_findCorruption 4096 8192 2048 (of_nat (4096 * 1)) (of_nat (4096 * 1)) POISON_FILL_32B 0 0
      (dev_start (\<lambda>_. 0) (replicate (2 * 1) no_change)) s \<and> d_first s ! (2 * 0) = no_change"
proof -
  obtain s where "dev_run 4096 (active_items 8192 (of_nat (4096 * 1)))
      (\<lambda>i. findCorruption_item 2048 (of_nat (4096 * 1)) POISON_FILL_32B 0 0 (of_nat i))
      (emit_findCorruption 4096 2048 (of_nat (4096 * 1))) (dev_start (\<lambda>_. 0) (replicate (2 * 1) no_change)) s
      \<and> all_done (active_items 8192 (of_nat (4096 * 1))) s"
    using complete_run_exists [OF finite_active] by blast
  then have run: "run_findCorruption 4096 8192 2048 (of_nat (4096 * 1)) (of_nat (4096 * 1)) POISON_FILL_32B 0 0
      (dev_start (\<lambda>_. 0) (replicate (2 * 1) no_change)) s"
    unfolding run_findCorruption_def .
  have "d_first s ! (2 * 0) = no_change" by (rule wide_groups_lose_results [OF run]) simp_all
  with run show ?thesis by blast
qed

end
