(* ===== verification/In_Place_Checks.thy ===== *)
theory In_Place_Checks
  imports Device_Check_Props
begin

text \<open>
  The strategy of one kernel for each canary: \<open>locateDiffParts\<close> finds the first changed byte of a canary
  and mends the canary, at any address; \<open>merge_changes\<close> turns the results of the two canaries of a
  buffer into the result for the buffer.
\<close>

section \<open>Bytes of words\<close>

lemma byte_of_mem_word:
  assumes "i < 4"
  shows "bytes_of_u32 (mem_word m a) ! i = m (a + of_nat i)"
proof -
  have w: "mem_word m a = u32_of_bytes [m a, m (a + 1), m (a + 2), m (a + 3)]"
    by (simp add: mem_word_def upt_rec)
  have bound: "unat (x :: u8) < 256" for x using unsigned_less [of x, where ?'a = nat] by simp
  have b: "unat (ucast (drop_bit n (w :: u32)) :: u8) = unat w div 2 ^ n mod 256" for n w
    by (simp add: unsigned_ucast_eq unat_drop_bit_eq take_bit_eq_mod drop_bit_eq_div [where ?'a = nat] del: drop_bit_eq_div)
  have "unat (bytes_of_u32 (mem_word m a) ! i) = unat (mem_word m a) div 2 ^ (8 * i) mod 256"
    using assms b by (simp add: bytes_of_u32_def)
  also have "\<dots> = unat (m (a + of_nat i))"
  proof -
    have digit: "(unat (x :: u8) + 256 * y) div 256 = y" "(unat x + 256 * y) mod 256 = unat x" for x y
      using bound [of x] by simp_all
    let ?V = "unat (m a) + 256 * (unat (m (a + 1)) + 256 * (unat (m (a + 2)) + 256 * unat (m (a + 3))))"
    have V: "unat (mem_word m a) = ?V" unfolding w u32_of_4_bytes ..
    have "?V div 1 mod 256 = unat (m a)" by (simp only: digit div_by_1)
    moreover have "?V div 256 mod 256 = unat (m (a + 1))" by (simp only: digit)
    moreover have "?V div (256 * 256) mod 256 = unat (m (a + 2))" by (simp only: div_mult2_eq digit)
    moreover have "?V div (256 * (256 * 256)) mod 256 = unat (m (a + 3))"
      using bound by (simp only: div_mult2_eq digit) simp
    ultimately have "?V div 2 ^ (8 * 0) mod 256 = unat (m (a + of_nat 0))"
      "?V div 2 ^ (8 * 1) mod 256 = unat (m (a + of_nat 1))"
      "?V div 2 ^ (8 * 2) mod 256 = unat (m (a + of_nat 2))"
      "?V div 2 ^ (8 * 3) mod 256 = unat (m (a + of_nat 3))" by simp_all
    moreover have "i = 0 \<or> i = 1 \<or> i = 2 \<or> i = 3" using assms by linarith
    ultimately show ?thesis unfolding V by metis
  qed
  finally show ?thesis by (simp add: word_unat_eq_iff)
qed

lemma bytes_of_poison: "i < 4 \<Longrightarrow> bytes_of_u32 POISON_FILL_32B ! i = POISON_FILL"
proof -
  assume i: "i < 4"
  have "POISON_FILL_32B = mem_word (\<lambda>_. POISON_FILL) 0" by (rule sym) (simp add: mem_word_poison)
  then show ?thesis using byte_of_mem_word [OF i, of "\<lambda>_. POISON_FILL" 0] by simp
qed

lemma bytes_xor: "i < 4 \<Longrightarrow> bytes_of_u32 (v XOR w) ! i = bytes_of_u32 v ! i XOR bytes_of_u32 w ! i"
  by (simp add: bytes_of_u32_def drop_bit_xor unsigned_xor_eq)

lemma xor_zero: "v XOR w = 0 \<longleftrightarrow> v = (w :: 'a::len word)"
  by (metis xor.assoc xor.right_neutral xor_self_eq)

section \<open>One work item\<close>

definition word_cells :: "ptr \<Rightarrow> nat \<Rightarrow> ptr set" where
  "word_cells K t = {K + of_nat (4 * t + q) | q. q < 4}"

definition poisoned :: "ptr set \<Rightarrow> memory \<Rightarrow> memory" where
  "poisoned A m = (\<lambda>a. if a \<in> A then POISON_FILL else m a)"

lemma poisoned_same: "(\<And>a. a \<in> A \<Longrightarrow> m a = POISON_FILL) \<Longrightarrow> poisoned A m = m"
  by (auto simp: poisoned_def)

lemma store_poison:
  assumes "t < 2 ^ 32"
  shows "store_word m (word_address K (of_nat t)) POISON_FILL_32B = poisoned (word_cells K t) m"
proof -
  have "unat (x - word_address K (of_nat t)) < 4 \<longleftrightarrow> x \<in> word_cells K t" for x
  proof
    let ?q = "unat (x - word_address K (of_nat t))"
    assume q: "?q < 4"
    have "x = word_address K (of_nat t) + of_nat ?q" by simp
    then have "x = K + of_nat (4 * t + ?q)" using word_address_of_nat [OF assms, of K ?q] by simp
    with q show "x \<in> word_cells K t" unfolding word_cells_def by blast
  next
    assume "x \<in> word_cells K t"
    then obtain q where q: "q < 4" "x = K + of_nat (4 * t + q)" unfolding word_cells_def by blast
    then have "x - word_address K (of_nat t) = of_nat q" using word_address_of_nat [OF assms, of K q] by simp
    with q(1) show "unat (x - word_address K (of_nat t)) < 4" by (simp add: unat_of_nat_eq)
  qed
  then show ?thesis by (auto simp: store_word_def poisoned_def fun_eq_iff bytes_of_poison)
qed

abbreviation bad_at :: "memory \<Rightarrow> ptr \<Rightarrow> nat \<Rightarrow> bool" where
  "bad_at m K i \<equiv> m (K + of_nat i) \<noteq> POISON_FILL"

lemma comparePlace_result:
  assumes "t < 2 ^ 29"
  shows "least_bad (\<lambda>i. 4 * t \<le> i \<and> i < 4 * t + 4 \<and> bad_at m K i)
      (fst (comparePlaceWithPoison POISON_FILL_32B (of_nat t) K m))"
    and "snd (comparePlaceWithPoison POISON_FILL_32B (of_nat t) K m) = poisoned (word_cells K t) m"
proof -
  let ?a = "word_address K (of_nat t)" and ?P = "\<lambda>q. bad_at m K (4 * t + q)"
  let ?w = "POISON_FILL_32B XOR mem_word m ?a"
  have t32: "t < 2 ^ 32" using assms by simp
  have word: "?w = 0 \<longleftrightarrow> (\<forall>q < 4. \<not> ?P q)"
    unfolding xor_zero using mem_word_poison [of m ?a] by (simp only: word_address_of_nat [OF t32]) metis
  have byte: "bytes_of_u32 ?w ! q \<noteq> 0 \<longleftrightarrow> ?P q" if "q < 4" for q
    using that by (simp only: bytes_xor bytes_of_poison byte_of_mem_word word_address_of_nat [OF t32] xor_zero) metis
  have loop: "find (\<lambda>i. bytes_of_u32 ?w ! i \<noteq> 0) [0..<4] = find ?P [0, 1, 2, 3]"
    by (rule find_cong) (use byte in \<open>auto simp: upt_rec\<close>)
  have bad: "(\<lambda>i. 4 * t \<le> i \<and> i < 4 * t + 4 \<and> ?P (i - 4 * t)) = (\<lambda>i. 4 * t \<le> i \<and> i < 4 * t + 4 \<and> bad_at m K i)"
    by (auto simp: fun_eq_iff)
  have fst: "fst (comparePlaceWithPoison POISON_FILL_32B (of_nat t) K m) =
      (case find ?P [0, 1, 2, 3] of None \<Rightarrow> no_change | Some q \<Rightarrow> of_nat (4 * t + q))"
  proof (cases "?w = 0")
    case True
    then have "find ?P [0, 1, 2, 3] = None" unfolding find_four word .
    with True show ?thesis by (simp add: comparePlaceWithPoison_def)
  next
    case False
    then show ?thesis
      unfolding comparePlaceWithPoison_def Let_def loop if_not_P [OF False] fst_conv
      by (simp split: option.split)
  qed
  show "least_bad (\<lambda>i. 4 * t \<le> i \<and> i < 4 * t + 4 \<and> bad_at m K i)
      (fst (comparePlaceWithPoison POISON_FILL_32B (of_nat t) K m))"
    unfolding fst bad [symmetric] by (rule find_least_bad [OF assms])
  show "snd (comparePlaceWithPoison POISON_FILL_32B (of_nat t) K m) = poisoned (word_cells K t) m"
  proof (cases "?w = 0")
    case True
    then have "poisoned (word_cells K t) m = m"
      unfolding word by (intro poisoned_same) (auto simp: word_cells_def)
    with True show ?thesis by (simp add: comparePlaceWithPoison_def)
  next
    case False
    then show ?thesis by (simp add: comparePlaceWithPoison_def Let_def store_poison [OF t32])
  qed
qed

text \<open>The loop over the bytes, after \<open>n\<close> of them.\<close>

definition byte_loop_ok :: "nat \<Rightarrow> ptr \<Rightarrow> memory \<Rightarrow> nat \<Rightarrow> u32 \<times> u32 \<times> memory \<Rightarrow> bool" where
  "byte_loop_ok t K m n st = (case st of (r, tmpRet, m') \<Rightarrow>
     least_bad (\<lambda>i. 4 * t \<le> i \<and> i < 4 * t + n \<and> bad_at m K i) r \<and> r \<le> tmpRet
     \<and> m' = poisoned {K + of_nat (4 * t + q) | q. q < n} m)"

lemma least_bad_min:
  "least_bad P r \<Longrightarrow> least_bad Q q \<Longrightarrow> least_bad (\<lambda>i. P i \<or> Q i) (min r q)"
  unfolding least_bad_def by auto

lemma address_inj:
  "K + of_nat a = (K + of_nat b :: ptr) \<Longrightarrow> a < 2 ^ 64 \<Longrightarrow> b < 2 ^ 64 \<Longrightarrow> a = b"
proof -
  assume "K + of_nat a = (K + of_nat b :: ptr)" and a: "a < 2 ^ 64" "b < 2 ^ 64"
  then have "of_nat a = (of_nat b :: ptr)" by (simp only: add_left_cancel)
  moreover have "unat (of_nat a :: ptr) = a" "unat (of_nat b :: ptr) = b"
    by (rule unat_of_nat_eq, use a in simp)+
  ultimately show ?thesis by metis
qed

lemma compare_byte_bad:
  "m (K + ucast (index + i)) \<noteq> poison \<Longrightarrow> compare_byte poison index K i (r, tmp, m) =
    (min r (index + i), index + i, m(K + ucast (index + i) := poison))"
  by (auto simp: compare_byte_def min_def)

lemma compare_byte_good:
  "m (K + ucast (index + i)) = poison \<Longrightarrow> r \<le> tmp \<Longrightarrow> compare_byte poison index K i (r, tmp, m) = (r, tmp, m)"
  by (auto simp: compare_byte_def)

lemma byte_step_ok:
  assumes ok: "byte_loop_ok t K m n st" and n: "n < 4" and t: "t < 2 ^ 29"
    and index: "index + i = of_nat (4 * t + n)"
  shows "byte_loop_ok t K m (Suc n) (compare_byte POISON_FILL index K i st)"
proof -
  obtain r tmp m' where st: "st = (r, tmp, m')" by (cases st)
  let ?a = "K + of_nat (4 * t + n)" and ?bad = "\<lambda>n i. 4 * t \<le> i \<and> i < 4 * t + n \<and> bad_at m K i"
  have small: "4 * t + q < 2 ^ 32" if "q \<le> n" for q using that n t by simp
  have addr: "K + ucast (index + i) = ?a"
    unfolding index by (subst byte_address_of_nat [OF small, of n, symmetric]) simp_all
  have loop: "least_bad (?bad n) r \<and> r \<le> tmp \<and> m' = poisoned {K + of_nat (4 * t + q) | q. q < n} m"
    using ok unfolding st byte_loop_ok_def prod.case .
  note least = loop [THEN conjunct1] and r = loop [THEN conjunct2, THEN conjunct1]
    and m' = loop [THEN conjunct2, THEN conjunct2]
  have "?a \<notin> {K + of_nat (4 * t + q) | q. q < n}"
  proof
    assume "?a \<in> {K + of_nat (4 * t + q) | q. q < n}"
    then obtain q where q: "q < n" "?a = K + of_nat (4 * t + q)" by blast
    have "4 * t + n < 2 ^ 64" "4 * t + q < 2 ^ 64" using q(1) small [of n] small [of q] by auto
    with address_inj [OF q(2)] q(1) show False by simp
  qed
  then have here: "m' ?a = m ?a" unfolding m' poisoned_def by (simp only: if_False)
  have cells: "{K + of_nat (4 * t + q) | q. q < Suc n} = insert ?a {K + of_nat (4 * t + q) | q. q < n}"
    by (auto simp: less_Suc_eq)
  show ?thesis
  proof (cases "bad_at m K (4 * t + n)")
    case True
    have "least_bad (\<lambda>i. i = 4 * t + n) (of_nat (4 * t + n))"
      by (rule least_badI_Some) (use n t in auto)
    note both = least_bad_min [OF least this]
    have "(\<lambda>i. ?bad n i \<or> i = 4 * t + n) = ?bad (Suc n)"
      using True by (auto simp: fun_eq_iff less_Suc_eq)
    then have "least_bad (?bad (Suc n)) (min r (of_nat (4 * t + n)))" using both by (simp only:)
    moreover have "m'(?a := POISON_FILL) = poisoned {K + of_nat (4 * t + q) | q. q < Suc n} m"
      unfolding cells m' by (auto simp: poisoned_def fun_eq_iff)
    moreover have changed: "m' (K + ucast (index + i)) \<noteq> POISON_FILL" unfolding addr here using True .
    have "compare_byte POISON_FILL index K i (r, tmp, m') =
        (min r (of_nat (4 * t + n)), of_nat (4 * t + n), m'(?a := POISON_FILL))"
      using compare_byte_bad [of m' K index i POISON_FILL r tmp, OF changed] unfolding addr unfolding index .
    ultimately show ?thesis unfolding st by (simp only: byte_loop_ok_def prod.case min.cobounded2 simp_thms)
  next
    case False
    have "?bad (Suc n) = ?bad n" using False by (auto simp: fun_eq_iff less_Suc_eq)
    moreover have "m' = poisoned {K + of_nat (4 * t + q) | q. q < Suc n} m"
      unfolding cells m' using False by (auto simp: poisoned_def fun_eq_iff)
    moreover have "m' (K + ucast (index + i)) = POISON_FILL" unfolding addr here using False by simp
    ultimately show ?thesis
      using least r unfolding st by (simp only: compare_byte_good byte_loop_ok_def prod.case simp_thms)
  qed
qed

lemma compareByte_result:
  assumes t: "t < 2 ^ 29"
  shows "least_bad (\<lambda>i. 4 * t \<le> i \<and> i < 4 * t + 4 \<and> bad_at m K i)
      (fst (compareWithPoisonByte POISON_FILL (of_nat t * 4) K m))"
    and "snd (compareWithPoisonByte POISON_FILL (of_nat t * 4) K m) = poisoned (word_cells K t) m"
proof -
  let ?step = "compare_byte POISON_FILL (of_nat t * 4) K"
  let ?st = "?step 3 (?step 2 (?step 1 (?step 0 (no_change, no_change, m))))"
  have idx: "of_nat t * 4 + 0 = (of_nat (4 * t + 0) :: u32)" "of_nat t * 4 + 1 = (of_nat (4 * t + Suc 0) :: u32)"
    "of_nat t * 4 + 2 = (of_nat (4 * t + Suc (Suc 0)) :: u32)"
    "of_nat t * 4 + 3 = (of_nat (4 * t + Suc (Suc (Suc 0))) :: u32)" by simp_all
  have "byte_loop_ok t K m 0 (no_change, no_change, m)"
    by (simp add: byte_loop_ok_def poisoned_def least_badI_None)
  from byte_step_ok [OF byte_step_ok [OF byte_step_ok [OF byte_step_ok [OF this _ t idx(1)] _ t idx(2)] _ t idx(3)] _ t idx(4)]
  have "byte_loop_ok t K m (Suc (Suc (Suc (Suc 0)))) ?st" by simp
  moreover have "Suc (Suc (Suc (Suc 0))) = 4" by simp
  ultimately have ok: "byte_loop_ok t K m 4 ?st" by (simp only:)
  have result: "compareWithPoisonByte POISON_FILL (of_nat t * 4) K m = (case ?st of (r, _, m') \<Rightarrow> (r, m'))"
    unfolding compareWithPoisonByte_def fold_simps ..
  obtain r tmp m' where st: "?st = (r, tmp, m')" by (cases ?st)
  note ok = ok [unfolded st byte_loop_ok_def prod.case]
  show "least_bad (\<lambda>i. 4 * t \<le> i \<and> i < 4 * t + 4 \<and> bad_at m K i)
      (fst (compareWithPoisonByte POISON_FILL (of_nat t * 4) K m))"
    unfolding result st prod.case fst_conv by (rule ok [THEN conjunct1])
  show "snd (compareWithPoisonByte POISON_FILL (of_nat t * 4) K m) = poisoned (word_cells K t) m"
    unfolding result st prod.case snd_conv word_cells_def by (rule ok [THEN conjunct2, THEN conjunct2])
qed

text \<open>The item of \<open>locateDiffParts\<close>: the same result at an address that is a multiple of 4 and at any other.\<close>

lemma locateDiffParts_result:
  assumes "t < 2 ^ 29"
  shows "least_bad (\<lambda>i. 4 * t \<le> i \<and> i < 4 * t + 4 \<and> bad_at m (B + ucast offset) i)
      (fst (locateDiffParts_item POISON_FILL_32B offset B (of_nat t) m))"
    and "snd (locateDiffParts_item POISON_FILL_32B offset B (of_nat t) m) =
      poisoned (word_cells (B + ucast offset) t) m"
proof -
  have low: "ucast (0xFF AND POISON_FILL_32B) = POISON_FILL" by (simp add: poison_defs)
  show "least_bad (\<lambda>i. 4 * t \<le> i \<and> i < 4 * t + 4 \<and> bad_at m (B + ucast offset) i)
      (fst (locateDiffParts_item POISON_FILL_32B offset B (of_nat t) m))"
    "snd (locateDiffParts_item POISON_FILL_32B offset B (of_nat t) m) = poisoned (word_cells (B + ucast offset) t) m"
    unfolding locateDiffParts_item_def Let_def low
    using comparePlace_result [OF assms, where m = m and K = "B + ucast offset"]
      compareByte_result [OF assms, where m = m and K = "B + ucast offset"]
    by (simp_all only: split: if_split) simp_all
qed

section \<open>One kernel for each canary\<close>

lemma word_cells_disjoint:
  assumes "t < 1024" "u < 1024" "t \<noteq> u" and "a \<in> word_cells K t"
  shows "a \<notin> word_cells K u"
proof
  assume "a \<in> word_cells K u"
  then obtain q where q: "q < 4" "a = K + of_nat (4 * u + q)" unfolding word_cells_def by blast
  obtain p where p: "p < 4" "a = K + of_nat (4 * t + p)" using assms(4) unfolding word_cells_def by blast
  have same: "K + of_nat (4 * t + p) = K + of_nat (4 * u + q)" using p(2) q(2) by (rule subst)
  have "4 * t + p = 4 * u + q" by (rule address_inj [OF same]) (use assms(1, 2) p(1) q(1) in simp_all)
  with p(1) q(1) assms(3) show False by linarith
qed

lemma active_1024: "t \<in> active_items 1024 n \<Longrightarrow> t < 1024" "t \<in> active_items 1024 n \<Longrightarrow> t < 2 ^ 29"
  by (simp_all add: active_items_def)

interpretation lp: mending_items L "active_items 1024 len"
    "\<lambda>i. locateDiffParts_item POISON_FILL_32B offset B (of_nat i)" "emit_locateDiffParts L len buffID"
    "word_cells (B + ucast offset)" POISON_FILL for L len offset B buffID
proof
  fix t and m m' :: memory
  assume t: "t \<in> active_items 1024 len" and same: "\<And>a. a \<in> word_cells (B + ucast offset) t \<Longrightarrow> m a = m' a"
  let ?bad = "\<lambda>m i. 4 * t \<le> i \<and> i < 4 * t + 4 \<and> bad_at m (B + ucast offset) i"
  have "m (B + ucast offset + of_nat i) = m' (B + ucast offset + of_nat i)" if "4 * t \<le> i" "i < 4 * t + 4" for i
  proof (rule same)
    have "i = 4 * t + (i - 4 * t)" "i - 4 * t < 4" using that by simp_all
    then show "B + ucast offset + of_nat i \<in> word_cells (B + ucast offset) t"
      unfolding word_cells_def mem_Collect_eq by metis
  qed
  then have "?bad m = ?bad m'" by (auto simp: fun_eq_iff)
  with locateDiffParts_result(1) [OF active_1024(2) [OF t]]
  show "fst (locateDiffParts_item POISON_FILL_32B offset B (of_nat t) m) =
      fst (locateDiffParts_item POISON_FILL_32B offset B (of_nat t) m')"
    by (metis (no_types, lifting) least_bad_unique)
next
  fix t u a and m :: memory
  assume "t \<in> active_items 1024 len" "u \<in> active_items 1024 len" "t \<noteq> u" "a \<in> word_cells (B + ucast offset) t"
  then have "a \<notin> word_cells (B + ucast offset) u" by (intro word_cells_disjoint [of t u]) (auto dest: active_1024)
  then show "snd (locateDiffParts_item POISON_FILL_32B offset B (of_nat u) m) a = m a"
    using locateDiffParts_result(2) [OF active_1024(2)] \<open>u \<in> _\<close> by (simp add: poisoned_def)
next
  fix t and r r' :: "nat \<Rightarrow> u32 option"
  assume "\<And>u. u div L = t div L \<Longrightarrow> r u = r' u"
  then have "scan_inclusive_min L r t = scan_inclusive_min L r' t" by (rule scan_group)
  then show "emit_locateDiffParts L len buffID r t = emit_locateDiffParts L len buffID r' t"
    by (simp add: emit_locateDiffParts_def)
next
  fix t a and m :: memory
  assume t: "t \<in> active_items 1024 len"
  show "a \<in> word_cells (B + ucast offset) t \<Longrightarrow>
      snd (locateDiffParts_item POISON_FILL_32B offset B (of_nat t) m) a = POISON_FILL"
    "a \<notin> word_cells (B + ucast offset) t \<Longrightarrow>
      snd (locateDiffParts_item POISON_FILL_32B offset B (of_nat t) m) a = m a"
    using locateDiffParts_result(2) [OF active_1024(2) [OF t]] by (simp_all add: poisoned_def)
qed

lemma active_canary: "active_items 1024 1024 = {t. t < 1024}"
  using active_all [of 1024 1024] by simp

text \<open>The scans of the groups together are the minimum over all items.\<close>

lemma group_scans:
  assumes L: "0 < L" "L dvd N" and rets: "\<And>u. u < N \<Longrightarrow> rets u = Some (val u)"
  shows "(\<forall>t < N. t mod L = L - 1 \<longrightarrow> x \<le> scan_inclusive_min L rets t) \<longleftrightarrow> (\<forall>u < N. x \<le> val u)"
proof -
  have scan: "x \<le> scan_inclusive_min L rets t \<longleftrightarrow> (\<forall>u. L * (t div L) \<le> u \<and> u \<le> t \<longrightarrow> x \<le> val u)"
    if "t < N" for t
  proof -
    have "u \<le> t \<Longrightarrow> rets u = Some (val u)" for u using rets that by simp
    then show ?thesis by (subst le_scan) (auto simp: le_less)
  qed
  have "(\<forall>t < N. t mod L = L - 1 \<longrightarrow> x \<le> scan_inclusive_min L rets t) \<longleftrightarrow>
      (\<forall>t < N. t mod L = L - 1 \<and> t div N = 0 \<longrightarrow> (\<forall>u. L * (t div L) \<le> u \<and> u \<le> t \<longrightarrow> x \<le> val u))"
    using scan by auto
  also have "\<dots> \<longleftrightarrow> (\<forall>u < N. u div N = 0 \<longrightarrow> x \<le> val u)" by (rule groups_cover [OF L]) simp
  finally show ?thesis by auto
qed

lemma emits_of_one_canary:
  assumes L: "0 < L" "L dvd 1024" and rets: "\<And>u. u < 1024 \<Longrightarrow> rets u = Some (val u)"
  shows "(\<forall>t < 1024. \<forall>v. emit_locateDiffParts L 1024 buffID rets t = Some (b, v) \<longrightarrow> x \<le> v) \<longleftrightarrow>
    (b = unat buffID \<longrightarrow> (\<forall>u < 1024. x \<le> val u))"
proof -
  have last: "t mod L = L - 1" if t: "t < 1024" "(of_nat t :: u32) = 1024 - 1" for t
  proof -
    have "t = 1023" using last_item [of t 1024] t by simp
    moreover obtain q where q: "1024 = L * Suc q" using L by (metis dvdE not0_implies_Suc mult_is_0 zero_neq_numeral)
    ultimately have "t = L * q + (L - 1)" using L(1) by simp
    then show ?thesis using L(1) by (simp only: mod_mult_self4) simp
  qed
  have emit: "emit_locateDiffParts L 1024 buffID rets t = Some (b, v) \<longleftrightarrow>
      t mod L = L - 1 \<and> b = unat buffID \<and> v = scan_inclusive_min L rets t" if "t < 1024" for t v
    using last [OF that] by (auto simp: emit_locateDiffParts_def)
  have "(\<forall>t < 1024. \<forall>v. emit_locateDiffParts L 1024 buffID rets t = Some (b, v) \<longrightarrow> x \<le> v) \<longleftrightarrow>
      (b = unat buffID \<longrightarrow> (\<forall>t < 1024. t mod L = L - 1 \<longrightarrow> x \<le> scan_inclusive_min L rets t))"
    using emit by auto
  with group_scans [OF L rets] show ?thesis by simp
qed

lemma in_place_items:
  assumes L: "0 < L" "L dvd 1024" and len: "len = 1024"
  shows "(\<forall>t \<in> active_items 1024 len. \<forall>v.
      emit_locateDiffParts L len buffID (lp.results len offset B m) t = Some (b, v) \<longrightarrow> x \<le> v) \<longleftrightarrow>
    (b = unat buffID \<longrightarrow> (\<forall>u < 1024. x \<le> fst (locateDiffParts_item POISON_FILL_32B offset B (of_nat u) m)))"
proof -
  have "lp.results len offset B m u = Some (fst (locateDiffParts_item POISON_FILL_32B offset B (of_nat u) m))"
    if "u < 1024" for u
    using that by (subst lp.results_def) (simp add: len active_canary)
  note one = emits_of_one_canary [OF L this, where buffID = buffID and b = b and x = x]
  have "(\<forall>t \<in> active_items 1024 len. P t) \<longleftrightarrow> (\<forall>t < 1024. P t)" for P
    by (simp add: len active_canary)
  then show ?thesis using one unfolding len [symmetric] by (simp only:)
qed

lemma same_bounds: "(\<And>x. x \<le> a \<longleftrightarrow> x \<le> b \<and> x \<le> c) \<Longrightarrow> a = min b (c :: u32)"
  by (rule order.antisym) (auto simp del: min_less_iff_conj)

text \<open>The bytes of a canary in place.\<close>

definition canary_at :: "memory \<Rightarrow> ptr \<Rightarrow> u8 list" where
  "canary_at m K = map (\<lambda>i. m (K + of_nat i)) [0..<4096]"

lemma canary_at_nth [simp]: "i < 4096 \<Longrightarrow> canary_at m K ! i = m (K + of_nat i)"
  by (simp add: canary_at_def)

lemma length_canary_at [simp]: "length (canary_at m K) = 4096"
  by (simp add: canary_at_def)

lemma canary_result:
  "least_bad (\<lambda>i. i < 4096 \<and> bad_at m K i) (host_result 4096 (canary_at m K))"
proof -
  have "least_bad (\<lambda>i. i < unat (4096 :: u32) \<and> canary_at m K ! i \<noteq> POISON_FILL) (host_result 4096 (canary_at m K))"
    by (rule host_result_least) (simp_all add: words_covering_def)
  moreover have "(\<lambda>i. i < unat (4096 :: u32) \<and> canary_at m K ! i \<noteq> POISON_FILL) = (\<lambda>i. i < 4096 \<and> bad_at m K i)"
    by (auto simp: fun_eq_iff)
  ultimately show ?thesis by (simp only:)
qed

lemma in_place_minimum:
  "x \<le> no_change \<and> (\<forall>u < 1024. x \<le> fst (locateDiffParts_item POISON_FILL_32B offset B (of_nat u) m)) \<longleftrightarrow>
    x \<le> host_result 4096 (canary_at m (B + ucast offset))"
proof -
  have "least_bad (\<lambda>i. 4 * u \<le> i \<and> i < 4 * u + 4 \<and> bad_at m (B + ucast offset) i)
      (fst (locateDiffParts_item POISON_FILL_32B offset B (of_nat u) m))" if "u < 1024" for u
    by (rule locateDiffParts_result(1)) (use that in simp)
  note words = least_bad_words [of 1024, OF this]
  have "4 * 1024 = (4096 :: nat)" by simp
  then show ?thesis
    using words canary_result [of m "B + ucast offset"] unfolding least_bad_def by (simp only:)
qed

lemma in_place_run:
  assumes run: "run_locateDiffParts L 1024 poisonWordLen buffID POISON_FILL_32B offset B (dev_start m first) s"
    and L: "0 < L" "L dvd 1024" and first: "unat buffID < length first" "first ! unat buffID \<le> no_change"
  shows "d_first s = first[unat buffID := min (first ! unat buffID)
      (host_result POISON_FILL_LENGTH (canary_at m (B + ucast offset)))]
    \<and> d_mem s = poisoned {B + ucast offset + of_nat i | i. i < 4096} m"
proof (rule conjI)
  let ?host = "host_result POISON_FILL_LENGTH (canary_at m (B + ucast offset))"
  have len: "poisonWordLen = 1024" "POISON_FILL_LENGTH = (4096 :: u32)" by (simp_all add: poisonWordLen_def poison_defs)
  have dev: "dev_run L (active_items 1024 poisonWordLen) (\<lambda>i. locateDiffParts_item POISON_FILL_32B offset B (of_nat i))
      (emit_locateDiffParts L poisonWordLen buffID) (dev_start m first) s"
    and all: "all_done (active_items 1024 poisonWordLen) s"
    using run unfolding run_locateDiffParts_def by (rule conjunct1, rule conjunct2)
  show "d_first s = first[unat buffID := min (first ! unat buffID) ?host]"
  proof (rule nth_equalityI)
    show "length (d_first s) = length (first[unat buffID := min (first ! unat buffID) ?host])"
      unfolding lp.complete_run(1) [OF dev all] by simp
    fix b
    assume "b < length (d_first s)"
    then have b: "b < length first" unfolding lp.complete_run(1) [OF dev all] .
    have "x \<le> d_first s ! b \<longleftrightarrow> x \<le> first ! b \<and> (b = unat buffID \<longrightarrow> x \<le> ?host)" for x
    proof -
      have "x \<le> no_change" if "x \<le> first ! unat buffID" using that first(2) by (rule order.trans)
      with lp.complete_run(2) [OF dev all b, of x, unfolded in_place_items [OF L len(1)]]
        in_place_minimum [of x offset B m] show ?thesis unfolding len(2) by blast
    qed
    then show "d_first s ! b = first[unat buffID := min (first ! unat buffID) ?host] ! b"
      using b by (cases "b = unat buffID") (auto intro: order.antisym same_bounds)
  qed
  show "d_mem s = poisoned {B + ucast offset + of_nat i | i. i < 4096} m"
  proof
    fix a
    have "(\<exists>t < 1024. a \<in> word_cells (B + ucast offset) t) \<longleftrightarrow> a \<in> {B + ucast offset + of_nat i | i. i < 4096}"
    proof
      assume "a \<in> {B + ucast offset + of_nat i | i. i < 4096}"
      then obtain i where i: "i < 4096" "a = B + ucast offset + of_nat i" by blast
      then have "i div 4 < 1024" "i = 4 * (i div 4) + i mod 4" "i mod 4 < 4" by simp_all
      with i(2) show "\<exists>t < 1024. a \<in> word_cells (B + ucast offset) t" unfolding word_cells_def mem_Collect_eq by metis
    next
      assume "\<exists>t < 1024. a \<in> word_cells (B + ucast offset) t"
      then obtain t q where t: "t < 1024" "q < 4" "a = B + ucast offset + of_nat (4 * t + q)"
        unfolding word_cells_def by blast
      then have "4 * t + q < 4096" by simp
      with t(3) show "a \<in> {B + ucast offset + of_nat i | i. i < 4096}" by blast
    qed
    then show "d_mem s a = poisoned {B + ucast offset + of_nat i | i. i < 4096} m a"
      unfolding lp.complete_run_mends [OF dev all] len(1) active_canary poisoned_def by simp
  qed
qed

text \<open>
  C9: A run of \<open>locateDiffParts\<close> over a canary lowers the result of its own canary to the host's answer
  and leaves the other results; it leaves the canary mended and every other byte of the memory as it was.
  This holds for every order of the items and every offset, a multiple of 4 or not.
\<close>

theorem in_place_check:
  assumes run: "run_locateDiffParts L 1024 poisonWordLen buffID POISON_FILL_32B offset B (dev_start m first) s"
    and L: "0 < L" "L dvd 1024" and first: "unat buffID < length first" "first ! unat buffID \<le> no_change"
  shows "d_first s = first[unat buffID := min (first ! unat buffID)
      (host_result POISON_FILL_LENGTH (canary_at m (B + ucast offset)))]
    \<and> d_mem s = poisoned {B + ucast offset + of_nat i | i. i < 4096} m"
  using assms by (rule in_place_run)

text \<open>One byte of a canary at an odd offset has changed: a run exists, finds it and mends it.\<close>

theorem in_place_check_witness:
  "\<exists>s. run_locateDiffParts 256 1024 poisonWordLen 1 POISON_FILL_32B 3 0
      (dev_start (\<lambda>a. if a = 10 then 0 else POISON_FILL) [no_change, no_change]) s
    \<and> d_first s ! 0 = no_change \<and> d_mem s = (\<lambda>_. POISON_FILL)"
proof -
  let ?m = "\<lambda>a. if a = (10 :: ptr) then 0 else POISON_FILL"
  obtain s where "dev_run 256 (active_items 1024 poisonWordLen) (\<lambda>i. locateDiffParts_item POISON_FILL_32B 3 0 (of_nat i))
      (emit_locateDiffParts 256 poisonWordLen 1) (dev_start ?m [no_change, no_change]) s
      \<and> all_done (active_items 1024 poisonWordLen) s"
    using complete_run_exists [OF finite_active] by blast
  then have run: "run_locateDiffParts 256 1024 poisonWordLen 1 POISON_FILL_32B 3 0
      (dev_start ?m [no_change, no_change]) s"
    unfolding run_locateDiffParts_def .
  have "d_first s = [no_change, no_change][unat (1 :: u32) := min ([no_change, no_change] ! unat (1 :: u32))
      (host_result POISON_FILL_LENGTH (canary_at ?m (0 + ucast (3 :: u32))))]
    \<and> d_mem s = poisoned {0 + ucast (3 :: u32) + of_nat i | i. i < 4096} ?m"
    by (rule in_place_check [OF run]) simp_all
  moreover have "poisoned {0 + ucast (3 :: u32) + of_nat i | i. i < 4096} ?m = (\<lambda>_. POISON_FILL)"
  proof -
    have "10 = 0 + ucast (3 :: u32) + (of_nat 7 :: ptr)" "(7 :: nat) < 4096" by simp_all
    then have "10 \<in> {0 + ucast (3 :: u32) + (of_nat i :: ptr) | i. i < 4096}" by blast
    then show ?thesis by (auto simp: poisoned_def fun_eq_iff)
  qed
  ultimately show ?thesis using run by auto
qed

section \<open>The two canaries of a buffer\<close>

lemma sint_upto: "x \<le> no_change \<Longrightarrow> sint (x :: u32) = int (unat x)"
  using sint_of_nat32 [of "unat x"] by (simp add: word_le_nat_alt)

lemma sint_less: "a \<le> no_change \<Longrightarrow> b \<le> no_change \<Longrightarrow> sint a < sint b \<longleftrightarrow> a < (b :: u32)"
  by (simp only: sint_upto of_nat_less_iff word_less_nat_alt)

lemma least_bad_shift:
  assumes r: "least_bad (\<lambda>i. i < n \<and> P (c + i)) r" and size: "c + n < 2 ^ 31"
  shows "least_bad (\<lambda>i. c \<le> i \<and> i < c + n \<and> P i) (if sint r < INT_MAX then r + of_nat c else r)"
proof (cases "\<exists>i. i < n \<and> P (c + i)")
  case False
  then have "least_bad (\<lambda>i. i < n \<and> P (c + i)) no_change" by (intro least_badI_None) blast
  with r have none: "r = no_change" by (rule least_bad_unique)
  have "\<not> (c \<le> i \<and> i < c + n \<and> P i)" for i
    using False by (metis le_add_diff_inverse nat_add_left_cancel_less)
  then have "least_bad (\<lambda>i. c \<le> i \<and> i < c + n \<and> P i) no_change" by (intro least_badI_None)
  with none show ?thesis by (simp add: INT_MAX_def)
next
  case True
  then obtain i where i: "i < n \<and> P (c + i)" "\<And>j. j < n \<and> P (c + j) \<Longrightarrow> i \<le> j"
    using exists_least_iff [of "\<lambda>i. i < n \<and> P (c + i)"] by (metis not_less)
  have small: "i < 2 ^ 31 - 1" using i(1) size by simp
  have "least_bad (\<lambda>i. i < n \<and> P (c + i)) (of_nat i)"
    by (rule least_badI_Some) (use i size in auto)
  with r have r: "r = of_nat i" by (rule least_bad_unique)
  have "sint r < INT_MAX" using small sint_of_nat32 [of i] by (simp add: r INT_MAX_def)
  moreover have "least_bad (\<lambda>i. c \<le> i \<and> i < c + n \<and> P i) (of_nat (c + i))"
  proof (rule least_badI_Some)
    fix j
    assume j: "c \<le> j \<and> j < c + n \<and> P j"
    then have "i \<le> j - c" by (intro i(2)) auto
    with j size show "c + i \<le> j \<and> j < 2 ^ 31" by linarith
  qed (use i size in auto)
  ultimately show ?thesis by (simp add: r add.commute)
qed

lemma least_bad_upto:
  "least_bad P r \<Longrightarrow> r \<le> no_change" "least_bad P r \<Longrightarrow> least_bad P q \<Longrightarrow> r = q"
  using least_bad_unique by (auto simp: least_bad_def)

lemma bytes_result:
  "length bytes = unat n \<Longrightarrow> n = 4096 \<or> n = 8192 \<Longrightarrow>
    least_bad (\<lambda>i. i < length bytes \<and> bytes ! i \<noteq> POISON_FILL) (host_result n bytes)"
  using host_result_least [of n bytes] by (auto simp: words_covering_def)

lemma merge_halves_result:
  assumes a: "length a = 4096" and b: "length b = 4096"
  shows "merge_halves (host_result 4096 a) (host_result 4096 b) = host_result 8192 (a @ b)"
proof -
  let ?P = "\<lambda>i. (a @ b) ! i \<noteq> POISON_FILL" and ?x = "host_result 4096 a" and ?y = "host_result 4096 b"
  have len: "POISON_FILL_LENGTH = (of_nat 4096 :: u32)" by (simp add: poison_defs)
  let ?y' = "if sint ?y < INT_MAX then ?y + of_nat 4096 else ?y"
  have x: "least_bad (\<lambda>i. i < 4096 \<and> ?P i) ?x"
    using bytes_result [of a 4096] a by (simp add: nth_append cong: conj_cong)
  have "least_bad (\<lambda>i. i < 4096 \<and> ?P (4096 + i)) ?y"
    using bytes_result [of b 4096] a b by (simp add: nth_append)
  then have y: "least_bad (\<lambda>i. 4096 \<le> i \<and> i < 4096 + 4096 \<and> ?P i) ?y'" by (rule least_bad_shift) simp
  have halves: "merge_halves ?x ?y = min ?x ?y'"
    using sint_less [OF least_bad_upto(1) [OF x] least_bad_upto(1) [OF y]]
    unfolding merge_halves_def changed_def Let_def len by (simp only: min_def not_less [symmetric]) auto
  have "(\<lambda>i. (i < 4096 \<and> ?P i) \<or> (4096 \<le> i \<and> i < 4096 + 4096 \<and> ?P i)) = (\<lambda>i. i < length (a @ b) \<and> ?P i)"
    using a b by (auto simp: fun_eq_iff)
  with least_bad_min [OF x y] have "least_bad (\<lambda>i. i < length (a @ b) \<and> ?P i) (merge_halves ?x ?y)"
    unfolding halves by (simp only:)
  with bytes_result [of "a @ b" 8192] show ?thesis using a b by (intro least_bad_unique) simp_all
qed

text \<open>The loop writes to the first half of the array what it reads further on.\<close>

lemma merge_loop:
  assumes "2 * n \<le> length xs"
  shows "fold (\<lambda>i xs. xs[i := f (xs ! (2 * i)) (xs ! (2 * i + 1))]) [0..<n] xs =
    map (\<lambda>i. f (xs ! (2 * i)) (xs ! (2 * i + 1))) [0..<n] @ drop n xs"
  using assms
proof (induction n)
  case (Suc n)
  then have at: "(map (\<lambda>i. f (xs ! (2 * i)) (xs ! (2 * i + 1))) [0..<n] @ drop n xs) ! k = xs ! k"
    if "n \<le> k" "k < length xs" for k
    using that by (simp add: nth_append)
  from Suc have "drop n xs = xs ! n # drop (Suc n) xs" by (simp add: Cons_nth_drop_Suc)
  with Suc at [of "2 * n"] at [of "2 * n + 1"] show ?case by (simp add: list_update_append)
qed simp

lemma merged_results:
  assumes "\<And>j. j < 2 * n \<Longrightarrow> length (bytes j) = 4096" and "n < 2 ^ 32"
  shows "take n (merge_changes (of_nat n) (map (\<lambda>j. host_result POISON_FILL_LENGTH (bytes j)) [0..<2 * n])) =
    map (\<lambda>i. host_result (POISON_REGIONS * POISON_FILL_LENGTH) (bytes (2 * i) @ bytes (2 * i + 1))) [0..<n]"
proof -
  have len: "POISON_FILL_LENGTH = (4096 :: u32)" "POISON_REGIONS * POISON_FILL_LENGTH = (8192 :: u32)"
    by (simp_all add: poison_defs)
  have n: "unat (of_nat n :: u32) = n" by (rule unat_of_nat_eq) (use assms(2) in simp)
  let ?xs = "map (\<lambda>j. host_result POISON_FILL_LENGTH (bytes j)) [0..<2 * n]"
  have "take n (merge_changes (of_nat n) ?xs) = map (\<lambda>i. merge_halves (?xs ! (2 * i)) (?xs ! (2 * i + 1))) [0..<n]"
    unfolding merge_changes_def n by (subst merge_loop) simp_all
  also have "\<dots> = map (\<lambda>i. host_result 8192 (bytes (2 * i) @ bytes (2 * i + 1))) [0..<n]"
    by (rule map_cong [OF refl]) (simp add: len assms(1) merge_halves_result del: upt_Suc)
  finally show ?thesis unfolding len(2) .
qed

text \<open>
  C13: The consolidated results of the check of one kernel for each canary are the host's answers for the
  two canaries of each buffer together, so that both strategies report the same byte.
\<close>

theorem merged_results_equal_host:
  assumes "\<And>j. j < 2 * n \<Longrightarrow> length (bytes j) = 4096" and "n < 2 ^ 32"
  shows "take n (merge_changes (of_nat n) (map (\<lambda>j. host_result POISON_FILL_LENGTH (bytes j)) [0..<2 * n])) =
    map (\<lambda>i. host_result (POISON_REGIONS * POISON_FILL_LENGTH) (bytes (2 * i) @ bytes (2 * i + 1))) [0..<n]"
  using assms by (rule merged_results)

theorem merged_results_equal_host_witness:
  "take 1 (merge_changes (of_nat 1) (map (\<lambda>j. host_result POISON_FILL_LENGTH (replicate 4096 0)) [0..<2 * 1])) =
    map (\<lambda>i. host_result (POISON_REGIONS * POISON_FILL_LENGTH) (replicate 4096 0 @ replicate 4096 0)) [0..<1]"
  by (rule merged_results_equal_host [of 1 "\<lambda>_. replicate 4096 0"]) simp_all

end
