(* ===== verification/Image_Kernel_Props.thy ===== *)
theory Image_Kernel_Props
  imports Device_Check_Props
begin

text \<open>
  The checker kernel of the flattened canaries of images: every image gets the host's answer, whatever the
  order of the items. The kernel has no barrier; its items find the image of their byte in the ends.
\<close>

lemma length_takeWhile_eq:
  "b < length xs \<Longrightarrow> length (takeWhile P xs) = b \<longleftrightarrow> (\<forall>i < b. P (xs ! i)) \<and> \<not> P (xs ! b)"
proof
  assume b: "b < length xs" and len: "length (takeWhile P xs) = b"
  then show "(\<forall>i < b. P (xs ! i)) \<and> \<not> P (xs ! b)"
    using nth_length_takeWhile [of P xs] takeWhile_nth [of _ P xs] set_takeWhileD [OF nth_mem, of _ P xs] by metis
next
  assume b: "b < length xs" and "(\<forall>i < b. P (xs ! i)) \<and> \<not> P (xs ! b)"
  then have "takeWhile P xs = take b xs" by (intro takeWhile_eq_take_P_nth) auto
  with b show "length (takeWhile P xs) = b" by simp
qed

text \<open>The bytes of image \<open>b\<close> start at the end of the one before.\<close>

definition image_start :: "u32 list \<Rightarrow> nat \<Rightarrow> u32" where
  "image_start ends b = (if 0 < b then ends ! (b - 1) else 0)"

lemma image_of_iff:
  assumes "sorted ends" "b < length ends"
  shows "image_of ends tid = b \<longleftrightarrow> image_start ends b \<le> tid \<and> tid < ends ! b"
proof -
  have "(\<forall>i < b. ends ! i \<le> tid) \<longleftrightarrow> image_start ends b \<le> tid"
  proof
    assume start: "image_start ends b \<le> tid"
    show "\<forall>i < b. ends ! i \<le> tid"
    proof (intro allI impI)
      fix i
      assume i: "i < b"
      then have "ends ! i \<le> ends ! (b - 1)" using assms by (intro sorted_nth_mono) auto
      with start i show "ends ! i \<le> tid" by (simp add: image_start_def)
    qed
  qed (simp add: image_start_def)
  then show ?thesis unfolding image_of_def by (simp add: length_takeWhile_eq [OF assms(2)] not_le)
qed

interpretation ik: independent_items L "{t. t < G \<and> image_of ends (of_nat t) < length ends}"
    "\<lambda>i. findImageCorruption_item poison ends B (of_nat i)" "emit_image ends" "\<lambda>_. UNIV"
  for L G ends poison B
proof
  fix t and m m' :: memory
  assume "\<And>a. a \<in> UNIV \<Longrightarrow> m a = m' a"
  then have "m = m'" by auto
  then show "fst (findImageCorruption_item poison ends B (of_nat t) m) =
      fst (findImageCorruption_item poison ends B (of_nat t) m')" by simp
next
  fix t and r r' :: "nat \<Rightarrow> u32 option"
  assume "\<And>u. u div L = t div L \<Longrightarrow> r u = r' u"
  then have "r t = r' t" by simp
  then show "emit_image ends r t = emit_image ends r' t" by (simp add: emit_image_def)
qed (simp add: findImageCorruption_item_def Let_def)

text \<open>The bytes of image \<open>b\<close>, in whole words as the host reads them.\<close>

definition image_bytes :: "memory \<Rightarrow> ptr \<Rightarrow> u32 list \<Rightarrow> nat \<Rightarrow> u8 list" where
  "image_bytes m B ends b =
     map (\<lambda>i. m (B + of_nat (unat (image_start ends b) + i))) [0..<4 * words_covering (ends ! b - image_start ends b)]"

lemma image_size:
  assumes "sorted ends" "b < length ends"
  shows "unat (ends ! b - image_start ends b) = unat (ends ! b) - unat (image_start ends b)"
    and "image_start ends b \<le> ends ! b"
proof -
  show le: "image_start ends b \<le> ends ! b"
    using sorted_nth_mono [OF assms(1), of "b - 1" b] assms(2) by (simp add: image_start_def)
  then show "unat (ends ! b - image_start ends b) = unat (ends ! b) - unat (image_start ends b)"
    by (rule unat_sub)
qed

text \<open>What an item writes: its own place in its image, if its byte is not poison.\<close>

lemma image_emits:
  assumes ends: "sorted ends" "b < length ends" "\<forall>e \<in> set ends. e \<le> no_change"
    and t: "t < G" "G \<le> 2 ^ 32"
  shows "t \<in> {t. t < G \<and> image_of ends (of_nat t) < length ends}
      \<and> emit_image ends (ik.results G ends POISON_FILL B m) t = Some (b, v) \<longleftrightarrow>
    unat (image_start ends b) \<le> t \<and> t < unat (ends ! b) \<and> m (B + of_nat t) \<noteq> POISON_FILL
      \<and> v = of_nat (t - unat (image_start ends b))"
proof -
  have t': "unat (of_nat t :: u32) = t" by (rule unat_of_nat_eq) (use t in simp)
  have addr: "ucast (of_nat t :: u32) = (of_nat t :: ptr)"
    using t by (simp add: word_unat_eq_iff unat_ucast_wider unat_of_nat_eq)
  have within: "image_of ends (of_nat t) = b \<longleftrightarrow> unat (image_start ends b) \<le> t \<and> t < unat (ends ! b)"
    unfolding image_of_iff [OF ends(1, 2)] word_le_nat_alt word_less_nat_alt t' ..
  have place: "(of_nat t :: u32) - image_start ends b = of_nat (t - unat (image_start ends b))"
    if "unat (image_start ends b) \<le> t"
    using that by (simp add: of_nat_diff)
  have small: "of_nat (t - unat (image_start ends b)) \<noteq> no_change" if "t < unat (ends ! b)"
  proof -
    have "ends ! b \<le> no_change" using ends(2, 3) by simp
    then have "t - unat (image_start ends b) < 2 ^ 31 - 1" using that by (simp add: word_le_nat_alt)
    moreover have "unat (of_nat (t - unat (image_start ends b)) :: u32) = t - unat (image_start ends b)"
      by (rule unat_of_nat_eq) (use t in simp)
    ultimately show ?thesis by auto
  qed
  have result: "ik.results G ends POISON_FILL B m t =
      Some (if m (B + of_nat t) \<noteq> POISON_FILL then of_nat t - image_start ends b else no_change)"
    if "image_of ends (of_nat t) = b"
    using that t(1) ends(2)
    by (subst ik.results_def) (auto simp: findImageCorruption_item_def Let_def addr image_start_def)
  show ?thesis
  proof (cases "image_of ends (of_nat t) = b")
    case True
    with within have range: "unat (image_start ends b) \<le> t" "t < unat (ends ! b)" by simp_all
    show ?thesis
      unfolding emit_image_def result [OF True] place [OF range(1)]
      using True t(1) ends(2) range small [OF range(2)] by auto
  next
    case False
    then have "emit_image ends (ik.results G ends POISON_FILL B m) t \<noteq> Some (b, v)"
      by (auto simp: emit_image_def split: option.splits)
    with False within show ?thesis by blast
  qed
qed

lemma host_bytes_least:
  assumes ends: "sorted ends" "b < length ends" "\<forall>e \<in> set ends. e \<le> no_change"
  defines "n \<equiv> ends ! b - image_start ends b"
  shows "least_bad (\<lambda>i. i < unat (ends ! b) - unat (image_start ends b)
      \<and> m (B + of_nat (unat (image_start ends b) + i)) \<noteq> POISON_FILL) (host_result n (image_bytes m B ends b))"
proof -
  let ?bytes = "image_bytes m B ends b"
  have n: "unat n = unat (ends ! b) - unat (image_start ends b)" unfolding n_def by (rule image_size(1) [OF ends(1, 2)])
  have "ends ! b \<le> no_change" using ends(2, 3) by simp
  then have "unat n < 2 ^ 31" unfolding n by (simp add: word_le_nat_alt)
  then have "least_bad (\<lambda>i. i < unat n \<and> ?bytes ! i \<noteq> POISON_FILL) (host_result n ?bytes)"
    by (intro host_result_least) (simp_all add: image_bytes_def n_def)
  moreover have "?bytes ! i = m (B + of_nat (unat (image_start ends b) + i))" if "i < unat n" for i
    using that words_covering_bounds(1) [of n] by (simp add: image_bytes_def n_def)
  then have "(\<lambda>i. i < unat n \<and> ?bytes ! i \<noteq> POISON_FILL) =
      (\<lambda>i. i < unat n \<and> m (B + of_nat (unat (image_start ends b) + i)) \<noteq> POISON_FILL)" by auto
  ultimately show ?thesis unfolding n by (simp only:)
qed

text \<open>The bytes of a window, counted from its start.\<close>

lemma shift_window:
  fixes lo hi :: nat
  shows "(\<forall>t. lo \<le> t \<and> t < hi \<and> P t \<longrightarrow> Q (t - lo)) \<longleftrightarrow> (\<forall>i. i < hi - lo \<and> P (lo + i) \<longrightarrow> Q i)"
proof (intro iffI allI impI)
  fix i
  assume "\<forall>t. lo \<le> t \<and> t < hi \<and> P t \<longrightarrow> Q (t - lo)" "i < hi - lo \<and> P (lo + i)"
  then show "Q i" by (auto dest!: spec [of _ "lo + i"])
next
  fix t
  assume "\<forall>i. i < hi - lo \<and> P (lo + i) \<longrightarrow> Q i" "lo \<le> t \<and> t < hi \<and> P t"
  then show "Q (t - lo)" by (auto dest!: spec [of _ "t - lo"])
qed

text \<open>
  C14: After every complete run of the kernel that checks images, in any order of its items, the result of
  each image is the host's answer for its flattened canaries. The ends of the images have to be in order.
\<close>

theorem image_check_equals_host:
  assumes run: "run_findImageCorruption G POISON_FILL ends B (dev_start m (replicate (length ends) no_change)) s"
    and ends: "sorted ends" "\<forall>e \<in> set ends. e \<le> no_change \<and> unat e \<le> G" and G: "G \<le> 2 ^ 32"
  shows "d_first s = map (\<lambda>b. host_result (ends ! b - image_start ends b) (image_bytes m B ends b)) [0..<length ends]"
proof (rule nth_equalityI)
  let ?items = "{t. t < G \<and> image_of ends (of_nat t) < length ends}"
  have dev: "dev_run 1 ?items (\<lambda>i. findImageCorruption_item POISON_FILL ends B (of_nat i)) (emit_image ends)
      (dev_start m (replicate (length ends) no_change)) s" and all: "all_done ?items s"
    using run unfolding run_findImageCorruption_def Let_def by (rule conjunct1, rule conjunct2)
  show "length (d_first s) =
      length (map (\<lambda>b. host_result (ends ! b - image_start ends b) (image_bytes m B ends b)) [0..<length ends])"
    unfolding ik.complete_run(1) [OF dev all] by simp
  fix b
  assume "b < length (d_first s)"
  then have b: "b < length ends" unfolding ik.complete_run(1) [OF dev all] by simp
  let ?lo = "unat (image_start ends b)" and ?hi = "unat (ends ! b)"
  let ?bad = "\<lambda>i. i < ?hi - ?lo \<and> m (B + of_nat (?lo + i)) \<noteq> POISON_FILL"
  have upto: "\<forall>e \<in> set ends. e \<le> no_change" and hi: "?hi \<le> G" using ends(2) b by auto
  note size = image_size [OF ends(1) b]
  have "least_bad ?bad (d_first s ! b)"
    unfolding least_bad_def
  proof
    fix x
    have "x \<le> d_first s ! b \<longleftrightarrow> x \<le> no_change \<and> (\<forall>t. \<forall>v. t < G \<and> (t \<in> ?items \<and>
        emit_image ends (ik.results G ends POISON_FILL B m) t = Some (b, v)) \<longrightarrow> x \<le> v)"
      using ik.complete_run(2) [OF dev all, of b x] b by auto
    also have "\<dots> \<longleftrightarrow> x \<le> no_change \<and> (\<forall>t. \<forall>v. t < G \<and> (?lo \<le> t \<and> t < ?hi \<and> m (B + of_nat t) \<noteq> POISON_FILL
        \<and> v = of_nat (t - ?lo)) \<longrightarrow> x \<le> v)"
      using image_emits [OF ends(1) b upto _ G] by (simp only: cong: conj_cong)
    also have "\<dots> \<longleftrightarrow> x \<le> no_change \<and> (\<forall>t. ?lo \<le> t \<and> t < ?hi \<and> m (B + of_nat t) \<noteq> POISON_FILL \<longrightarrow> x \<le> of_nat (t - ?lo))"
      using hi by (metis less_le_trans)
    also have "\<dots> \<longleftrightarrow> x \<le> no_change \<and> (\<forall>i. ?bad i \<longrightarrow> x \<le> of_nat i)"
      by (rule conj_cong [OF refl shift_window [of ?lo ?hi "\<lambda>t. m (B + of_nat t) \<noteq> POISON_FILL" "\<lambda>i. x \<le> of_nat i"]])
    finally show "x \<le> d_first s ! b \<longleftrightarrow> x \<le> no_change \<and> (\<forall>i. ?bad i \<longrightarrow> x \<le> of_nat i)" .
  qed
  moreover have "least_bad ?bad (host_result (ends ! b - image_start ends b) (image_bytes m B ends b))"
    using host_bytes_least [OF ends(1) b upto] .
  ultimately have "d_first s ! b = host_result (ends ! b - image_start ends b) (image_bytes m B ends b)"
    by (rule least_bad_unique)
  with b show "d_first s ! b =
      map (\<lambda>b. host_result (ends ! b - image_start ends b) (image_bytes m B ends b)) [0..<length ends] ! b" by simp
qed

text \<open>Two images of 4 bytes each, a changed byte in the second.\<close>

theorem image_check_equals_host_witness:
  "\<exists>s. run_findImageCorruption 32 POISON_FILL [4, 8] 0
      (dev_start (\<lambda>a. if a = 6 then 0 else POISON_FILL) (replicate (length [4, 8 :: u32]) no_change)) s
    \<and> d_first s = [no_change, 2]"
proof -
  let ?ends = "[4, 8] :: u32 list" and ?m = "\<lambda>a. if a = (6 :: ptr) then 0 else POISON_FILL"
  let ?items = "{t. t < 32 \<and> image_of ?ends (of_nat t) < length ?ends}"
  have "finite ?items" by simp
  then obtain s where "dev_run 1 ?items (\<lambda>i. findImageCorruption_item POISON_FILL ?ends 0 (of_nat i)) (emit_image ?ends)
      (dev_start ?m (replicate (length ?ends) no_change)) s \<and> all_done ?items s"
    using complete_run_exists by blast
  then have run: "run_findImageCorruption 32 POISON_FILL ?ends 0 (dev_start ?m (replicate (length ?ends) no_change)) s"
    unfolding run_findImageCorruption_def Let_def .
  have "d_first s = map (\<lambda>b. host_result (?ends ! b - image_start ?ends b) (image_bytes ?m 0 ?ends b)) [0..<length ?ends]"
    by (rule image_check_equals_host [OF run]) simp_all
  also have "\<dots> = [no_change, 2]" by code_simp
  finally show ?thesis using run by blast
qed

end
