(* ===== verification/Dl_Interceptor.thy ===== *)
theory Dl_Interceptor
  imports Generic_Lists Util_Functions
begin

text \<open>
  How the library gets between an application and the OpenCL runtime: \<open>cl_wrapper/dl_interceptor.c\<close>
  with the set of names of \<open>meta_data_lists/dl_intercept_lists.cpp\<close>, and the constructor of
  \<open>cl_wrapper/cl_interceptor.c\<close>. The dynamic loader is a parameter: \<open>dlopen\<close> may change its world,
  a look-up with \<open>__libc_dlsym\<close> reads it and returns an address and the message of \<open>dlerror\<close>.
\<close>

section \<open>The state\<close>

record 'w loader =
  open_self :: "'w \<Rightarrow> ptr \<times> 'w"
  open_opencl :: "'w \<Rightarrow> ptr \<times> 'w"
  libc_dlsym :: "ptr \<Rightarrow> string \<Rightarrow> 'w \<Rightarrow> ptr \<times> string option"

datatype dl_msg = Dl_msg string | Cl_msg string | Loaded_wrapper | Unable_to_load

text \<open>The lines of the file of statistics; \<open>Mem_line\<close> has the four counters, \<open>Time_line\<close> a time,
  \<open>Enqueue_line\<close> the times of a launch.\<close>

datatype perf_line = Enqueue_header | Checker_header | Mem_header | Mem_line u64 u64 u64 u64 | Time_line u64
  | Enqueue_line u64 u64 u64

record 'w dl_state =
  dl_world :: 'w
  clInterceptorDllHandle :: ptr
  global_dl_protect :: "string list"
  oclDllHandle :: ptr
  cl_functions :: "string \<Rightarrow> ptr"
  tool_stats_flags :: int
  tool_stats_outfile :: "string option"
  perf_file :: "perf_line list"
  check_kern_runtime_us :: u64
  dl_out :: "dl_msg list"

definition dl_initial :: "'w \<Rightarrow> 'w dl_state" where
  "dl_initial w =
     \<lparr>dl_world = w, clInterceptorDllHandle = 0, global_dl_protect = [], oclDllHandle = 0,
      cl_functions = (\<lambda>_. 0), tool_stats_flags = 0, tool_stats_outfile = None, perf_file = [], check_kern_runtime_us = 0, dl_out = []\<rparr>"

section \<open>The set of protected names\<close>

text \<open>The C library's \<open>strcmp\<close>, on strings without NUL.\<close>

fun strcmp :: "string \<Rightarrow> string \<Rightarrow> int" where
  "strcmp [] [] = 0"
| "strcmp [] (d # ds) = - 1"
| "strcmp (c # cs) [] = 1"
| "strcmp (c # cs) (d # ds) =
     (if c = d then strcmp cs ds else if (of_char c :: nat) < of_char d then - 1 else 1)"

text \<open>The names are kept in descending order.\<close>

definition lessStr :: "string \<Rightarrow> string \<Rightarrow> bool" where
  "lessStr lhs rhs \<longleftrightarrow> \<not> strcmp lhs rhs \<le> 0"

definition dl_protect_insert :: "string list \<Rightarrow> string \<Rightarrow> string list" where
  "dl_protect_insert = set_insert lessStr"

definition dl_protect_remove :: "string list \<Rightarrow> string \<Rightarrow> string option \<times> string list" where
  "dl_protect_remove = set_remove lessStr"

definition dl_protect_find :: "string list \<Rightarrow> string \<Rightarrow> string option" where
  "dl_protect_find = set_find lessStr"

definition protected_names :: "string list" where
  "protected_names =
     [''clGetDeviceInfo'', ''clCreateCommandQueue'', ''clCreateCommandQueueWithProperties'',
      ''clRetainCommandQueue'', ''clReleaseCommandQueue'', ''clGetMemObjectInfo'', ''clCreateBuffer'',
      ''clCreateSubBuffer'', ''clGetImageInfo'', ''clCreateImage'', ''clCreateImage2D'',
      ''clCreateImage3D'', ''clRetainMemObject'', ''clReleaseMemObject'', ''clSVMAlloc'', ''clSVMFree'',
      ''clEnqueueSVMFree'', ''clEnqueueSVMMemcpy'', ''clEnqueueSVMMemFill'', ''clRetainKernel'',
      ''clReleaseKernel'', ''clEnqueueNDRangeKernel'', ''clEnqueueTask'', ''clEnqueueNativeKernel'',
      ''clSetKernelArg'', ''clSetKernelArgSVMPointer'', ''clGetEventProfilingInfo'', ''clRetainEvent'',
      ''clReleaseEvent'', ''clEnqueueReadBuffer'', ''clEnqueueReadBufferRect'', ''clEnqueueWriteBuffer'',
      ''clEnqueueWriteBufferRect'', ''clEnqueueFillBuffer'', ''clEnqueueCopyBuffer'',
      ''clEnqueueCopyBufferRect'', ''clEnqueueReadImage'', ''clEnqueueWriteImage'',
      ''clEnqueueFillImage'', ''clEnqueueCopyImage'', ''clEnqueueCopyImageToBuffer'',
      ''clEnqueueCopyBufferToImage'']"

definition protect_name :: "string \<Rightarrow> ('w dl_state, unit) prog" where
  "protect_name name =
     modify (\<lambda>s. s\<lparr>global_dl_protect := dl_protect_insert (global_dl_protect s) name\<rparr>)"

definition init_protect_list :: "('w dl_state, unit) prog" where
  "init_protect_list = forM protected_names protect_name"

section \<open>The hook of dlsym\<close>

definition LIBC :: ptr where
  "LIBC = - 1"

definition dll_init :: "'w loader \<Rightarrow> ('w dl_state, unit) prog" where
  "dll_init ld =
     andThen (gets clInterceptorDllHandle) (\<lambda>h.
     whenM (h = 0)
       (andThen (modify (\<lambda>s. case open_self ld (dl_world s) of
            (self, w) \<Rightarrow> s\<lparr>clInterceptorDllHandle := self, dl_world := w\<rparr>)) (\<lambda>_.
        init_protect_list)))"

definition say :: "dl_msg \<Rightarrow> ('w dl_state, unit) prog" where
  "say m = modify (\<lambda>s. s\<lparr>dl_out := dl_out s @ [m]\<rparr>)"

definition dlsym :: "'w loader \<Rightarrow> ptr \<Rightarrow> string \<Rightarrow> ('w dl_state, ptr) prog" where
  "dlsym ld handle symbol =
     andThen (dll_init ld) (\<lambda>_.
     andThen (gets (\<lambda>s. s)) (\<lambda>s.
       let use = (if handle = LIBC then clInterceptorDllHandle s else handle);
           use = (if dl_protect_find (global_dl_protect s) symbol \<noteq> None \<or> handle = 0
                  then clInterceptorDllHandle s else use)
       in case libc_dlsym ld use symbol (dl_world s) of
            (r, None) \<Rightarrow> ret r
          | (r, Some error) \<Rightarrow> andThen (say (Dl_msg error)) (\<lambda>_. ret r)))"

section \<open>The constructor and the destructor\<close>

definition INT_MIN :: int where
  "INT_MIN = - (2 ^ 31)"

text \<open>The functions whose addresses are looked up, without the prefix \<open>cl\<close>.\<close>

definition function_names :: "string list" where
  "function_names =
     [''GetDeviceInfo'', ''CreateCommandQueue'', ''CreateCommandQueueWithProperties'',
      ''RetainCommandQueue'', ''ReleaseCommandQueue'', ''GetMemObjectInfo'', ''CreateBuffer'',
      ''CreateSubBuffer'', ''GetImageInfo'', ''CreateImage'', ''CreateImage2D'', ''CreateImage3D'',
      ''RetainMemObject'', ''ReleaseMemObject'', ''EnqueueMapBuffer'', ''EnqueueUnmapMemObject'',
      ''SVMAlloc'', ''SVMFree'', ''EnqueueSVMFree'', ''EnqueueSVMMap'', ''EnqueueSVMMemcpy'',
      ''EnqueueSVMMemFill'', ''EnqueueSVMUnmap'', ''RetainKernel'', ''ReleaseKernel'',
      ''EnqueueNDRangeKernel'', ''EnqueueTask'', ''EnqueueNativeKernel'', ''SetKernelArg'',
      ''SetKernelArgSVMPointer'', ''GetEventProfilingInfo'', ''RetainEvent'', ''ReleaseEvent'',
      ''EnqueueReadBuffer'', ''EnqueueReadBufferRect'', ''EnqueueWriteBuffer'',
      ''EnqueueWriteBufferRect'', ''EnqueueFillBuffer'', ''EnqueueCopyBuffer'',
      ''EnqueueCopyBufferRect'', ''EnqueueReadImage'', ''EnqueueWriteImage'', ''EnqueueFillImage'',
      ''EnqueueCopyImage'', ''EnqueueCopyImageToBuffer'', ''EnqueueCopyBufferToImage'']"

definition function_address :: "'w loader \<Rightarrow> ptr \<Rightarrow> string \<Rightarrow> ('w dl_state, unit) prog" where
  "function_address ld handle name =
     andThen (gets (\<lambda>s. libc_dlsym ld handle (''cl'' @ name) (dl_world s))) (\<lambda>(r, error).
     andThen (modify (\<lambda>s. s\<lparr>cl_functions := (cl_functions s)(name := r)\<rparr>)) (\<lambda>_.
       case error of None \<Rightarrow> ret () | Some e \<Rightarrow> say (Cl_msg e)))"

definition cl_function_addresses :: "'w loader \<Rightarrow> ptr \<Rightarrow> ('w dl_state, int) prog" where
  "cl_function_addresses ld handle =
     andThen (forM function_names (function_address ld handle)) (\<lambda>_. ret 0)"

text \<open>The file is opened for writing, which empties it.\<close>

definition init_perf_outfile :: "('w dl_state, unit) prog" where
  "init_perf_outfile = modify (\<lambda>s. s\<lparr>perf_file :=
     (if bit (tool_stats_flags s) 0 then [Enqueue_header]
      else if bit (tool_stats_flags s) 1 then [Checker_header]
      else if bit (tool_stats_flags s) 2 then [Mem_header] else [])\<rparr>)"

definition cl_wrapper_init :: "'w loader \<Rightarrow> env \<Rightarrow> ('w dl_state, int) prog" where
  "cl_wrapper_init ld e =
     andThen (gets oclDllHandle) (\<lambda>h.
       if h \<noteq> 0 then ret INT_MIN
       else
         andThen (modify (\<lambda>s. case open_opencl ld (dl_world s) of
             (lib, w) \<Rightarrow> s\<lparr>oclDllHandle := lib, dl_world := w\<rparr>)) (\<lambda>_.
         andThen (gets oclDllHandle) (\<lambda>lib.
         andThen
           (if lib \<noteq> 0
            then andThen (say Loaded_wrapper) (\<lambda>_. cl_function_addresses ld lib)
            else andThen (say Unable_to_load) (\<lambda>_. ret INT_MIN)) (\<lambda>r.
         andThen (modify (\<lambda>s. s\<lparr>tool_stats_flags := get_tool_perf_envvar e,
             tool_stats_outfile := get_tool_perf_outfile_envvar e\<rparr>)) (\<lambda>_.
         andThen (gets tool_stats_outfile) (\<lambda>f.
         andThen (whenM (f \<noteq> None) init_perf_outfile) (\<lambda>_. ret r)))))))"

text \<open>
  \<open>fopen\<close> of no name is undefined: the mode asks for the statistics, and no file has been given.
\<close>

definition write_out_mem_perf_stats :: "u64 \<Rightarrow> u64 \<Rightarrow> u64 \<Rightarrow> u64 \<Rightarrow> ('w dl_state, unit) prog" where
  "write_out_mem_perf_stats total_user total_overhead high_user high_overhead =
     andThen (gets tool_stats_outfile) (\<lambda>f. case f of
         None \<Rightarrow> fail Null_deref
       | Some _ \<Rightarrow> modify (\<lambda>s. s\<lparr>perf_file :=
           [Mem_header, Mem_line total_user total_overhead high_user high_overhead]\<rparr>))"

end
