(* ===== verification/Loader_Props.thy ===== *)
theory Loader_Props
  imports Dl_Interceptor
begin

text \<open>
  Which functions an application gets from \<open>dlsym\<close>, and what the constructor has loaded. The set of
  protected names is a table in the sense of \<open>keeping_table\<close>.
\<close>

section \<open>The order of the names\<close>

lemma strcmp_eq: "strcmp x y = 0 \<longleftrightarrow> x = y"
  by (induction x y rule: strcmp.induct) auto

lemma strcmp_swap: "strcmp y x = - strcmp x y"
  by (induction x y rule: strcmp.induct) (auto simp: not_less dest: le_neq_implies_less)

lemma strcmp_trans: "0 < strcmp x y \<Longrightarrow> 0 < strcmp y z \<Longrightarrow> 0 < strcmp x z"
proof (induction x y arbitrary: z rule: strcmp.induct)
  case (4 c cs d ds)
  then show ?case by (cases z) (auto split: if_splits)
next
  case (3 c cs)
  then show ?case by (cases z) auto
qed auto

lemma lessStr_same [simp]: "set_same lessStr x y \<longleftrightarrow> x = y"
  using strcmp_swap [of x y] strcmp_eq [of x y] by (auto simp: set_same_def lessStr_def)

lemma lessStr_irrefl: "\<not> lessStr x x"
  by (simp add: lessStr_def strcmp_eq [of x x, THEN iffD2])

lemma lessStr_trans: "lessStr x y \<Longrightarrow> lessStr y z \<Longrightarrow> lessStr x z"
  using strcmp_trans [of x y z] by (simp add: lessStr_def)

lemma lessStr_linear: "\<not> lessStr x y \<Longrightarrow> x \<noteq> y \<Longrightarrow> lessStr y x"
  using lessStr_same [of x y] by (auto simp: set_same_def)

abbreviation names_ok :: "string list \<Rightarrow> bool" where
  "names_ok \<equiv> sorted_wrt lessStr"

lemma find_name: "set_find lessStr xs x = (if x \<in> set xs then Some x else None)"
  by (induction xs) auto

lemma set_insert_name: "set (set_insert lessStr xs x) = insert x (set xs)"
  by (induction xs) auto

lemma names_ok_insert: "names_ok xs \<Longrightarrow> names_ok (set_insert lessStr xs x)"
  by (induction xs) (auto simp: set_insert_name intro: lessStr_trans lessStr_linear)

lemma set_remove_name: "names_ok xs \<Longrightarrow> set_remove lessStr xs x =
    (if x \<in> set xs then Some x else None, filter (\<lambda>y. y \<noteq> x) xs)"
proof (induction xs)
  case (Cons y ys)
  then have "y \<notin> set ys" using lessStr_irrefl by auto
  then have "filter (\<lambda>z. z \<noteq> y) ys = ys" by (intro filter_True) auto
  with Cons show ?case by auto
qed simp

lemma insert_present_name: "names_ok xs \<Longrightarrow> x \<in> set xs \<Longrightarrow> set_insert lessStr xs x = xs"
  by (induction xs) (auto dest: lessStr_trans simp: lessStr_irrefl)

interpretation names: keeping_table "\<lambda>n. n" "set_insert lessStr" "set_remove lessStr" "set_find lessStr" names_ok
  by unfold_locales
    (auto simp: find_name names_ok_insert set_insert_name set_remove_name sorted_wrt_filter
      insert_present_name split: if_splits)

section \<open>The states of the loader\<close>

text \<open>
  The constructor runs, \<open>dlsym\<close> is called, and between the calls other code changes the world of the
  dynamic loader.
\<close>

inductive loader_reaches :: "'w loader \<Rightarrow> 'w dl_state \<Rightarrow> bool" for ld where
  start: "loader_reaches ld (dl_initial w)"
| constructor: "loader_reaches ld s \<Longrightarrow> cl_wrapper_init ld e s = Inr (r, t) \<Longrightarrow> loader_reaches ld t"
| lookup: "loader_reaches ld s \<Longrightarrow> dlsym ld h n s = Inr (p, t) \<Longrightarrow> loader_reaches ld t"
| other: "loader_reaches ld s \<Longrightarrow> loader_reaches ld (s\<lparr>dl_world := w\<rparr>)"

definition protecting :: "'w dl_state \<Rightarrow> bool" where
  "protecting s \<longleftrightarrow> names_ok (global_dl_protect s)
    \<and> (clInterceptorDllHandle s \<noteq> 0 \<longrightarrow> set (global_dl_protect s) = set protected_names)
    \<and> set (global_dl_protect s) \<subseteq> set protected_names"

lemmas loader_defs = andThen_def gets_def modify_def ret_def whenM_def

lemma protect_names:
  "\<exists>xs. forM ns protect_name s = Inr ((), s\<lparr>global_dl_protect := xs\<rparr>)
    \<and> set xs = set ns \<union> set (global_dl_protect s) \<and> (names_ok (global_dl_protect s) \<longrightarrow> names_ok xs)"
proof (induction ns arbitrary: s)
  case Nil
  show ?case by (intro exI [of _ "global_dl_protect s"]) (simp add: ret_def)
next
  case (Cons n ns)
  let ?s = "s\<lparr>global_dl_protect := set_insert lessStr (global_dl_protect s) n\<rparr>"
  from Cons [of ?s] show ?case
    by (auto simp: protect_name_def dl_protect_insert_def loader_defs set_insert_name names.ins_ok_any)
qed

lemma dll_init_result:
  assumes "protecting s"
  shows "\<exists>t. dll_init ld s = Inr ((), t) \<and> set (global_dl_protect t) = set protected_names \<and> protecting t
    \<and> dl_out t = dl_out s \<and> cl_functions t = cl_functions s \<and> (if clInterceptorDllHandle s = 0
      then (clInterceptorDllHandle t, dl_world t) = open_self ld (dl_world s) else t = s)"
proof (cases "clInterceptorDllHandle s = 0")
  case True
  obtain self w where self: "open_self ld (dl_world s) = (self, w)" by force
  let ?s = "s\<lparr>clInterceptorDllHandle := self, dl_world := w\<rparr>"
  from protect_names [of protected_names ?s] obtain xs
    where xs: "forM protected_names protect_name ?s = Inr ((), ?s\<lparr>global_dl_protect := xs\<rparr>)"
      "set xs = set protected_names \<union> set (global_dl_protect s)" "names_ok (global_dl_protect s) \<longrightarrow> names_ok xs"
    by auto
  with assms have "set xs = set protected_names" by (auto simp: protecting_def)
  with assms xs True self show ?thesis
    by (auto simp: dll_init_def init_protect_list_def loader_defs protecting_def)
next
  case False
  with assms show ?thesis by (simp add: dll_init_def loader_defs protecting_def)
qed

lemma find_protected: "dl_protect_find xs n = (if n \<in> set xs then Some n else None)"
  by (simp add: dl_protect_find_def find_name)

text \<open>The handle the look-up uses.\<close>

definition handle_used :: "ptr \<Rightarrow> ptr \<Rightarrow> string \<Rightarrow> ptr" where
  "handle_used self h n = (if n \<in> set protected_names \<or> h = 0 \<or> h = LIBC then self else h)"

lemma dlsym_result:
  assumes "protecting s"
  shows "\<exists>t r error. dlsym ld h n s = Inr (r, t)
    \<and> libc_dlsym ld (handle_used (clInterceptorDllHandle t) h n) n (dl_world t) = (r, error)
    \<and> dl_out t = dl_out s @ (case error of None \<Rightarrow> [] | Some e \<Rightarrow> [Dl_msg e])
    \<and> (if clInterceptorDllHandle s = 0 then (clInterceptorDllHandle t, dl_world t) = open_self ld (dl_world s)
      else clInterceptorDllHandle t = clInterceptorDllHandle s \<and> dl_world t = dl_world s)
    \<and> protecting t"
proof -
  from dll_init_result [OF assms, of ld] obtain t where t: "dll_init ld s = Inr ((), t)"
    "set (global_dl_protect t) = set protected_names" "protecting t" "dl_out t = dl_out s"
    "if clInterceptorDllHandle s = 0
      then (clInterceptorDllHandle t, dl_world t) = open_self ld (dl_world s) else t = s" by blast
  obtain r error where r: "libc_dlsym ld (handle_used (clInterceptorDllHandle t) h n) n (dl_world t) = (r, error)" by force
  let ?t = "t\<lparr>dl_out := dl_out t @ (case error of None \<Rightarrow> [] | Some e \<Rightarrow> [Dl_msg e])\<rparr>"
  have "dlsym ld h n s = (case libc_dlsym ld (handle_used (clInterceptorDllHandle t) h n) n (dl_world t) of
      (r, None) \<Rightarrow> ret r t | (r, Some e) \<Rightarrow> andThen (say (Dl_msg e)) (\<lambda>_. ret r) t)"
    using t by (auto simp: dlsym_def loader_defs Let_def find_protected handle_used_def split: option.split prod.split)
  with t r have "dlsym ld h n s = Inr (r, ?t)" by (cases error) (simp_all add: loader_defs say_def)
  with t r show ?thesis by (intro exI [of _ ?t] exI [of _ r] exI [of _ error]) (auto simp: protecting_def split: if_splits)
qed

section \<open>The constructor\<close>

lemma load_addresses:
  "\<exists>out. forM ns (function_address ld lib) s = Inr ((), s\<lparr>cl_functions := (\<lambda>n. if n \<in> set ns
      then fst (libc_dlsym ld lib (''cl'' @ n) (dl_world s)) else cl_functions s n), dl_out := out\<rparr>)"
proof (induction ns arbitrary: s)
  case Nil
  show ?case by (intro exI [of _ "dl_out s"]) (simp add: ret_def)
next
  case (Cons n ns)
  obtain r error where r: "libc_dlsym ld lib (''cl'' @ n) (dl_world s) = (r, error)" by force
  let ?s = "s\<lparr>cl_functions := (cl_functions s)(n := r),
    dl_out := dl_out s @ (case error of None \<Rightarrow> [] | Some e \<Rightarrow> [Cl_msg e])\<rparr>"
  have "function_address ld lib n s = Inr ((), ?s)"
    using r by (cases error) (simp_all add: function_address_def loader_defs say_def)
  moreover from Cons [of ?s] obtain out where "forM ns (function_address ld lib) ?s = Inr ((), ?s\<lparr>cl_functions :=
      (\<lambda>m. if m \<in> set ns then fst (libc_dlsym ld lib (''cl'' @ m) (dl_world ?s)) else cl_functions ?s m), dl_out := out\<rparr>)"
    by blast
  ultimately have "forM (n # ns) (function_address ld lib) s = Inr ((), s\<lparr>cl_functions := (\<lambda>m. if m \<in> set (n # ns)
      then fst (libc_dlsym ld lib (''cl'' @ m) (dl_world s)) else cl_functions s m), dl_out := out\<rparr>)"
    using r by (auto simp: andThen_def fun_eq_iff intro!: dl_state.equality)
  then show ?case by blast
qed

lemma cl_wrapper_init_result:
  "\<exists>r t. cl_wrapper_init ld e s = Inr (r, t)
    \<and> clInterceptorDllHandle t = clInterceptorDllHandle s \<and> global_dl_protect t = global_dl_protect s
    \<and> (oclDllHandle s \<noteq> 0 \<longrightarrow> t = s \<and> r = INT_MIN)
    \<and> (oclDllHandle s = 0 \<longrightarrow> (oclDllHandle t, dl_world t) = open_opencl ld (dl_world s)
      \<and> cl_functions t = (\<lambda>n. if oclDllHandle t \<noteq> 0 \<and> n \<in> set function_names
          then fst (libc_dlsym ld (oclDllHandle t) (''cl'' @ n) (dl_world t)) else cl_functions s n))"
proof (cases "oclDllHandle s = 0")
  case True
  obtain lib w where lib: "open_opencl ld (dl_world s) = (lib, w)" by force
  let ?s = "s\<lparr>oclDllHandle := lib, dl_world := w\<rparr>"
  let ?named = "?s\<lparr>dl_out := dl_out s @ [Loaded_wrapper]\<rparr>"
  from load_addresses [of function_names ld lib ?named] obtain out where
    "forM function_names (function_address ld lib) ?named = Inr ((), ?named\<lparr>cl_functions := (\<lambda>n.
      if n \<in> set function_names then fst (libc_dlsym ld lib (''cl'' @ n) (dl_world ?named)) else cl_functions ?named n),
      dl_out := out\<rparr>)" by blast
  with True lib show ?thesis
    unfolding cl_wrapper_init_def cl_function_addresses_def init_perf_outfile_def say_def
    by (cases "lib = 0") (auto simp: loader_defs)
qed (simp add: cl_wrapper_init_def loader_defs)

lemma reaches_protecting: "loader_reaches ld s \<Longrightarrow> protecting s"
proof (induction rule: loader_reaches.induct)
  case (constructor s e r t)
  with cl_wrapper_init_result [of ld e s] show ?case by (auto simp: protecting_def)
next
  case (lookup s h n p t)
  from dlsym_result [OF lookup.IH, of ld h n] lookup.hyps(2) show ?case by auto
qed (simp_all add: dl_initial_def protecting_def)

section \<open>What the application gets\<close>

text \<open>
  C38: Whatever was looked up before, a look-up of a protected name, of any name without a handle, or of any
  name in the next library is answered from the global scope, which starts with this library; every other
  look-up is answered by the library the application asks. The handle of the global scope is opened by
  the first look-up and kept.
\<close>

theorem dlsym_redirects:
  assumes "loader_reaches ld s"
  shows "\<exists>t r error. dlsym ld h n s = Inr (r, t)
    \<and> libc_dlsym ld (if n \<in> set protected_names \<or> h \<in> {0, LIBC} then clInterceptorDllHandle t else h) n (dl_world t) = (r, error)
    \<and> dl_out t = dl_out s @ (case error of None \<Rightarrow> [] | Some e \<Rightarrow> [Dl_msg e])
    \<and> (if clInterceptorDllHandle s = 0 then (clInterceptorDllHandle t, dl_world t) = open_self ld (dl_world s)
      else clInterceptorDllHandle t = clInterceptorDllHandle s \<and> dl_world t = dl_world s)"
proof -
  have "handle_used self h n = (if n \<in> set protected_names \<or> h \<in> {0, LIBC} then self else h)" for self
    by (simp add: handle_used_def)
  with dlsym_result [OF reaches_protecting [OF assms], of ld h n] show ?thesis
    by (elim exE conjE) (intro exI conjI, simp_all only:)
qed

lemma dlsym_redirects_witness:
  "\<exists>t r error. dlsym \<lparr>open_self = (\<lambda>w. (7, w)), open_opencl = (\<lambda>w. (9, w)), libc_dlsym = (\<lambda>h n w. (h + 1, None))\<rparr>
      9 ''clCreateBuffer'' (dl_initial ()) = Inr (r, t) \<and> (r :: ptr, error :: string option) = (8, None)"
  using dlsym_redirects [OF loader_reaches.start,
      of "\<lparr>open_self = (\<lambda>w. (7, w)), open_opencl = (\<lambda>w. (9, w)), libc_dlsym = (\<lambda>h n w. (h + 1, None))\<rparr>" 9 "''clCreateBuffer''" "()"]
  by (auto simp: dl_initial_def protected_names_def)

text \<open>
  C39: Of the functions the library wraps, four are not protected: an application that looks one of them
  up in the OpenCL library gets the runtime's own function, and its mappings pass the tool by.
\<close>

theorem unprotected_wrappers:
  assumes "loader_reaches ld s" and h: "h \<noteq> 0" "h \<noteq> LIBC"
  shows "filter (\<lambda>n. n \<notin> set protected_names) (map ((@) ''cl'') function_names) =
      [''clEnqueueMapBuffer'', ''clEnqueueUnmapMemObject'', ''clEnqueueSVMMap'', ''clEnqueueSVMUnmap'']
    \<and> (\<forall>n. n \<notin> set protected_names \<longrightarrow>
      (\<exists>t r error. dlsym ld h n s = Inr (r, t) \<and> libc_dlsym ld h n (dl_world t) = (r, error)))"
proof (intro conjI allI impI)
  show "filter (\<lambda>n. n \<notin> set protected_names) (map ((@) ''cl'') function_names) =
      [''clEnqueueMapBuffer'', ''clEnqueueUnmapMemObject'', ''clEnqueueSVMMap'', ''clEnqueueSVMUnmap'']"
    by code_simp
  show "\<exists>t r error. dlsym ld h n s = Inr (r, t) \<and> libc_dlsym ld h n (dl_world t) = (r, error)"
    if "n \<notin> set protected_names" for n
    using dlsym_result [OF reaches_protecting [OF assms(1)], of ld h n] that h by (auto simp: handle_used_def)
qed

lemma unprotected_wrappers_witness:
  "\<exists>t r error. dlsym \<lparr>open_self = (\<lambda>w. (7, w)), open_opencl = (\<lambda>w. (9, w)), libc_dlsym = (\<lambda>h n w. (h + 1, None))\<rparr>
      9 ''clEnqueueSVMMap'' (dl_initial ()) = Inr (r, t) \<and> (r :: ptr, error :: string option) = (10, None)"
proof -
  have "''clEnqueueSVMMap'' \<notin> set protected_names" by code_simp
  moreover have "LIBC \<noteq> 9" by (simp add: LIBC_def)
  ultimately show ?thesis using unprotected_wrappers [OF loader_reaches.start,
      of 9 "\<lparr>open_self = (\<lambda>w. (7, w)), open_opencl = (\<lambda>w. (9, w)), libc_dlsym = (\<lambda>h n w. (h + 1, None))\<rparr>" "()"]
    by force
qed

end
