(* ===== verification/Get_Cl_Info.thy ===== *)
theory Get_Cl_Info
  imports Prelude
begin

text \<open>
  The program \<open>info_check/get_cl_info.c\<close>, by which the scripts of the tool find out what devices there
  are: its options, the search of the platforms, and what it prints. The OpenCL calls are parameters.
\<close>

section \<open>The calls and the output\<close>

datatype device_type = Device_all | Device_cpu | Device_gpu

text \<open>
  \<open>i_num_devices\<close> is \<open>None\<close> where \<open>clGetDeviceIDs\<close> fails without writing the number, as it may when
  there is no such device. \<open>i_compute_units\<close> is what \<open>this_cus\<close> holds after the call, and a board name
  is an error of one of the two calls or the name.
\<close>

datatype board = Size_error int | Name_error int | Board_name string

record info_calls =
  i_num_platforms :: "32 word"
  i_platform :: "nat \<Rightarrow> 64 word"
  i_num_devices :: "64 word \<Rightarrow> device_type \<Rightarrow> 32 word option"
  i_device :: "64 word \<Rightarrow> device_type \<Rightarrow> nat \<Rightarrow> 64 word"
  i_compute_units :: "64 word \<Rightarrow> 32 word"
  i_board :: "64 word \<Rightarrow> board"

datatype info_line = Help | Number "32 word" | Board_line string
  | Board_size_failed nat int | Board_name_failed nat int

record info_options =
  find_cpu :: bool
  find_gpu :: bool
  get_cus :: bool
  find_board_name :: bool

section \<open>The options\<close>

text \<open>
  The second character of each argument counts, up to the first argument without a dash; \<open>None\<close>
  prints the help.
\<close>

fun parse_options :: "string list \<Rightarrow> info_options \<Rightarrow> info_options option" where
  "parse_options [] opts = Some opts"
| "parse_options (arg # args) opts =
     (if arg \<noteq> [] \<and> arg ! 0 = CHR ''-''
      then (case drop 1 arg of
          c # _ \<Rightarrow>
            if c = CHR ''n'' then parse_options args (opts\<lparr>get_cus := True\<rparr>)
            else if c = CHR ''c'' then parse_options args (opts\<lparr>find_cpu := True\<rparr>)
            else if c = CHR ''g'' then parse_options args (opts\<lparr>find_gpu := True\<rparr>)
            else if c = CHR ''b'' then parse_options args (opts\<lparr>find_board_name := True\<rparr>)
            else None
        | [] \<Rightarrow> None)
      else Some opts)"

definition no_options :: info_options where
  "no_options = \<lparr>find_cpu = False, find_gpu = False, get_cus = False, find_board_name = False\<rparr>"

section \<open>The search\<close>

record info_state =
  num_cus :: "32 word"
  has_cpu :: bool
  has_gpu :: bool
  printed_lines :: "info_line list"

definition print_line :: "info_line \<Rightarrow> (info_state, unit) prog" where
  "print_line l = modify (\<lambda>s. s\<lparr>printed_lines := printed_lines s @ [l]\<rparr>)"

definition wanted_type :: "info_options \<Rightarrow> device_type" where
  "wanted_type opts =
     (if find_cpu opts = find_gpu opts then Device_all else if find_cpu opts then Device_cpu else Device_gpu)"

text \<open>A board name that cannot be read makes \<open>main\<close> return \<open>-1\<close>.\<close>

definition look_at_device :: "info_calls \<Rightarrow> info_options \<Rightarrow> nat \<Rightarrow> 64 word \<Rightarrow> (info_state, unit) prog" where
  "look_at_device cl opts j d =
     (if find_board_name opts
      then (case i_board cl d of
          Size_error e \<Rightarrow> andThen (print_line (Board_size_failed j e)) (\<lambda>_. fail (Exit (-1)))
        | Name_error e \<Rightarrow> andThen (print_line (Board_name_failed j e)) (\<lambda>_. fail (Exit (-1)))
        | Board_name n \<Rightarrow> print_line (Board_line n))
      else
        (let this_cus = i_compute_units cl d
         in modify (\<lambda>s. if num_cus s = 0 \<or> 0 < this_cus \<and> this_cus < num_cus s
              then s\<lparr>num_cus := this_cus\<rparr> else s)))"

definition look_at_platform :: "info_calls \<Rightarrow> info_options \<Rightarrow> nat \<Rightarrow> (info_state, unit) prog" where
  "look_at_platform cl opts i =
     (let p = i_platform cl i;
          dev_type = wanted_type opts;
          num_devices = (case i_num_devices cl p dev_type of None \<Rightarrow> 1 | Some n \<Rightarrow> n)
      in whenM (0 < num_devices)
           (andThen (modify (\<lambda>s. s\<lparr>has_cpu := has_cpu s \<or> find_cpu opts, has_gpu := has_gpu s \<or> find_gpu opts\<rparr>)) (\<lambda>_.
            forM [0..<unat num_devices] (\<lambda>j. look_at_device cl opts j (i_device cl p dev_type j)))))"

definition search :: "info_calls \<Rightarrow> info_options \<Rightarrow> (info_state, int) prog" where
  "search cl opts =
     andThen (forM [0..<unat (i_num_platforms cl)] (look_at_platform cl opts)) (\<lambda>_.
     andThen (gets (\<lambda>s. s)) (\<lambda>s.
     andThen
       (if get_cus opts then print_line (Number (num_cus s))
        else whenM (\<not> find_board_name opts) (print_line (Number (if has_cpu s \<or> has_gpu s then 1 else 0)))) (\<lambda>_.
     ret 0)))"

text \<open>The arguments without the name of the program; the value returned and what was printed.\<close>

definition info_main :: "info_calls \<Rightarrow> string list \<Rightarrow> int \<times> info_line list" where
  "info_main cl args =
     (case (if args = [] then None else parse_options args no_options) of
        None \<Rightarrow> (0, [Help])
      | Some opts \<Rightarrow>
          if \<not> find_cpu opts \<and> \<not> find_gpu opts then (0, [Help])
          else (case search cl opts \<lparr>num_cus = 0, has_cpu = False, has_gpu = False, printed_lines = []\<rparr> of
              Inl (Exit n, s) \<Rightarrow> (n, printed_lines s)
            | Inl (_, s) \<Rightarrow> (-1, printed_lines s)
            | Inr (n, s) \<Rightarrow> (n, printed_lines s)))"

section \<open>What it finds\<close>

text \<open>The devices of a platform; there are none if \<open>clGetDeviceIDs\<close> fails.\<close>

definition devices_of :: "info_calls \<Rightarrow> device_type \<Rightarrow> nat \<Rightarrow> 64 word list" where
  "devices_of cl ty i =
     (let p = i_platform cl i
      in case i_num_devices cl p ty of
           None \<Rightarrow> []
         | Some n \<Rightarrow> map (i_device cl p ty) [0..<unat n])"

definition all_devices :: "info_calls \<Rightarrow> device_type \<Rightarrow> 64 word list" where
  "all_devices cl ty = concat (map (devices_of cl ty) [0..<unat (i_num_platforms cl)])"

definition queries_succeed :: "info_calls \<Rightarrow> device_type \<Rightarrow> bool" where
  "queries_succeed cl ty \<longleftrightarrow> (\<forall>i \<in> set [0..<unat (i_num_platforms cl)]. i_num_devices cl (i_platform cl i) ty \<noteq> None)"

text \<open>The devices the search looks at: where the query fails, one that was never reported.\<close>

definition looked_at :: "info_calls \<Rightarrow> device_type \<Rightarrow> nat \<Rightarrow> 64 word list" where
  "looked_at cl ty i =
     (if i_num_devices cl (i_platform cl i) ty = None then [i_device cl (i_platform cl i) ty 0] else devices_of cl ty i)"

lemma all_looked_at:
  "queries_succeed cl ty \<Longrightarrow> concat (map (looked_at cl ty) [0..<unat (i_num_platforms cl)]) = all_devices cl ty"
  "concat (map (looked_at cl ty) [0..<unat (i_num_platforms cl)]) = [] \<longleftrightarrow> all_devices cl ty = [] \<and> queries_succeed cl ty"
proof -
  show "concat (map (looked_at cl ty) [0..<unat (i_num_platforms cl)]) = all_devices cl ty" if ok: "queries_succeed cl ty"
  proof -
    have "looked_at cl ty i = devices_of cl ty i" if "i \<in> set [0..<unat (i_num_platforms cl)]" for i
    proof -
      have "i_num_devices cl (i_platform cl i) ty \<noteq> None" using ok that unfolding queries_succeed_def by blast
      then show ?thesis by (auto simp: looked_at_def)
    qed
    then show ?thesis unfolding all_devices_def by (intro arg_cong [of _ _ concat] map_cong refl)
  qed
  show "concat (map (looked_at cl ty) [0..<unat (i_num_platforms cl)]) = [] \<longleftrightarrow> all_devices cl ty = [] \<and> queries_succeed cl ty"
  proof -
    have "looked_at cl ty i = [] \<longleftrightarrow> devices_of cl ty i = [] \<and> i_num_devices cl (i_platform cl i) ty \<noteq> None" for i
      by (simp add: looked_at_def)
    then show ?thesis unfolding all_devices_def queries_succeed_def concat_eq_Nil_conv set_map ball_simps by blast
  qed
qed

text \<open>The smallest number of compute units that is not 0.\<close>

definition least_units :: "info_calls \<Rightarrow> 64 word list \<Rightarrow> 32 word" where
  "least_units cl ds =
     (let units = filter (\<lambda>n. n \<noteq> 0) (map (i_compute_units cl) ds)
      in if units = [] then 0 else Min (set units))"

definition fewer_units :: "32 word \<Rightarrow> 32 word \<Rightarrow> 32 word" where
  "fewer_units this_cus n = (if n = 0 \<or> 0 < this_cus \<and> this_cus < n then this_cus else n)"

lemma Min_insert_two: "finite A \<Longrightarrow> Min (insert n (insert u A)) = Min (insert (min n u) A)"
  for n :: "32 word"
  by (cases "A = {}") (simp_all add: min.assoc)

lemma fold_fewer_units:
  "fold fewer_units us n = (let vs = filter (\<lambda>n. n \<noteq> 0) (n # us) in if vs = [] then 0 else Min (set vs))"
proof (induction us arbitrary: n)
  case (Cons u us)
  consider "n = 0" | "n \<noteq> 0" "u = 0" | "n \<noteq> 0" "u \<noteq> 0" by blast
  then show ?case
  proof cases
    case 3
    then have "fewer_units u n = min n u" "min n u \<noteq> 0" by (auto simp: fewer_units_def min_def word_gt_0)
    with Cons [of "min n u"] 3 show ?thesis by (simp add: Let_def Min_insert_two [symmetric])
  qed (use Cons [of u] Cons [of n] in \<open>simp_all add: fewer_units_def Let_def\<close>)
qed (simp add: fewer_units_def)

lemmas info_defs = andThen_def gets_def modify_def ret_def whenM_def print_line_def

lemma look_at_devices:
  assumes "\<not> find_board_name opts"
  shows "forM js (\<lambda>j. look_at_device cl opts j (dev j)) s =
    Inr ((), s\<lparr>num_cus := fold fewer_units (map (\<lambda>j. i_compute_units cl (dev j)) js) (num_cus s)\<rparr>)"
  using assms
  by (induction js arbitrary: s) (auto simp: look_at_device_def info_defs fewer_units_def Let_def)

lemma look_at_platform_result:
  assumes "\<not> find_board_name opts"
  shows "look_at_platform cl opts i s = (let ds = looked_at cl (wanted_type opts) i in
    Inr ((), s\<lparr>num_cus := fold fewer_units (map (i_compute_units cl) ds) (num_cus s),
      has_cpu := has_cpu s \<or> find_cpu opts \<and> ds \<noteq> [], has_gpu := has_gpu s \<or> find_gpu opts \<and> ds \<noteq> []\<rparr>))"
proof -
  let ?dev = "i_device cl (i_platform cl i) (wanted_type opts)"
  let ?n = "case i_num_devices cl (i_platform cl i) (wanted_type opts) of None \<Rightarrow> 1 | Some n \<Rightarrow> n"
  have "looked_at cl (wanted_type opts) i = map ?dev [0..<unat ?n]"
    by (simp add: looked_at_def devices_of_def Let_def split: option.split)
  then show ?thesis
    using assms by (auto simp: look_at_platform_def look_at_devices info_defs Let_def comp_def word_gt_0 unat_gt_0)
qed

lemma look_at_platforms:
  assumes "\<not> find_board_name opts"
  shows "forM is (look_at_platform cl opts) s =
    (let ds = concat (map (looked_at cl (wanted_type opts)) is) in
      Inr ((), s\<lparr>num_cus := fold fewer_units (map (i_compute_units cl) ds) (num_cus s),
        has_cpu := has_cpu s \<or> find_cpu opts \<and> ds \<noteq> [], has_gpu := has_gpu s \<or> find_gpu opts \<and> ds \<noteq> []\<rparr>))"
  using assms
  by (induction "is" arbitrary: s) (auto simp: look_at_platform_result info_defs Let_def intro!: info_state.equality)

lemma parse_no_arguments: "parse_options [] no_options = Some opts \<Longrightarrow> \<not> find_cpu opts \<and> \<not> find_gpu opts"
  by (auto simp: no_options_def)

lemma info_main_run:
  assumes opts: "parse_options args no_options = Some opts" "find_cpu opts \<or> find_gpu opts" "\<not> find_board_name opts"
  shows "info_main cl args = (0, [Number (let ds = concat (map (looked_at cl (wanted_type opts)) [0..<unat (i_num_platforms cl)]) in
    if get_cus opts then least_units cl ds else if ds = [] then 0 else 1)])"
proof -
  have "args \<noteq> []" using opts parse_no_arguments by blast
  moreover have "fold fewer_units (map (i_compute_units cl) ds) 0 = least_units cl ds" for ds
    by (simp add: fold_fewer_units least_units_def Let_def)
  ultimately show ?thesis
    using opts unfolding info_main_def search_def
    by (simp add: look_at_platforms info_defs Let_def)
qed

text \<open>
  C40: With \<open>-n\<close>, and if no query of a platform fails, the program prints the smallest number of compute units,
  other than 0, of the devices of the kind asked for. Without it the program prints 0 if and only if
  there is no such device and no query has failed, and else 1: a failed query counts as a device. It returns 0.
\<close>

theorem info_program_answers:
  assumes opts: "parse_options args no_options = Some opts" "find_cpu opts \<or> find_gpu opts" "\<not> find_board_name opts"
  defines "ty \<equiv> wanted_type opts"
  shows "(get_cus opts \<longrightarrow> queries_succeed cl ty \<longrightarrow> info_main cl args = (0, [Number (least_units cl (all_devices cl ty))]))
    \<and> (\<not> get_cus opts \<longrightarrow>
        info_main cl args = (0, [Number (if all_devices cl ty = [] \<and> queries_succeed cl ty then 0 else 1)]))"
  using info_main_run [OF opts, of cl] all_looked_at [of cl ty] unfolding ty_def Let_def by simp

text \<open>Two GPUs; and a platform without a GPU, whose query fails as the standard says it does: 1 is printed.\<close>

definition two_gpus :: info_calls where
  "two_gpus = \<lparr>i_num_platforms = 1, i_platform = (\<lambda>_. 5), i_num_devices = (\<lambda>_ _. Some 2),
    i_device = (\<lambda>_ _ j. of_nat j), i_compute_units = (\<lambda>d. if d = 0 then 64 else 16), i_board = (\<lambda>_. Size_error 0)\<rparr>"

lemma info_program_answers_witness:
  "info_main two_gpus [''-g'', ''-n''] = (0, [Number 16])
    \<and> info_main (two_gpus\<lparr>i_num_devices := \<lambda>_ _. None\<rparr>) [''-g''] = (0, [Number 1])
    \<and> all_devices (two_gpus\<lparr>i_num_devices := \<lambda>_ _. None\<rparr>) Device_gpu = []"
proof -
  let ?opts = "\<lambda>n. \<lparr>find_cpu = False, find_gpu = True, get_cus = n, find_board_name = False\<rparr>"
  let ?none = "two_gpus\<lparr>i_num_devices := \<lambda>_ _. None\<rparr>"
  have args: "parse_options [''-g'', ''-n''] no_options = Some (?opts True)" by code_simp
  have arg: "parse_options [''-g''] no_options = Some (?opts False)" by code_simp
  have "least_units two_gpus (all_devices two_gpus Device_gpu) = 16"
    by (simp add: two_gpus_def all_devices_def devices_of_def least_units_def Let_def upt_rec)
  moreover have "queries_succeed two_gpus Device_gpu" "\<not> queries_succeed ?none Device_gpu"
    by (simp_all add: queries_succeed_def two_gpus_def)
  moreover have "all_devices ?none Device_gpu = []" by (simp add: all_devices_def devices_of_def)
  moreover note info_program_answers [OF args, of two_gpus] info_program_answers [OF arg, of ?none]
  ultimately show ?thesis by (simp add: wanted_type_def)
qed

end
