(* ===== verification/Launch_Detection.thy ===== *)
theory Launch_Detection
  imports Kernel_Arg_Props Overflow_Reports Buffer_Props
begin

text \<open>
  The check of a launch as a whole, on the host: from the arguments of the kernel to the message. The
  runtime returns what the buffers hold; then an overflow is reported if and only if a canary of a buffer
  among the arguments has been overwritten.
\<close>

section \<open>The state a run ends in\<close>

definition final :: "(abort \<times> 's) + ('a \<times> 's) \<Rightarrow> 's" where
  "final r = (case r of Inl (_, t) \<Rightarrow> t | Inr (_, t) \<Rightarrow> t)"

lemma final_simps [simp]: "final (Inl (e, t)) = t" "final (Inr (x, t)) = t"
  by (simp_all add: final_def)

lemma case_final: "(case r of Inl (e, t) \<Rightarrow> P t | Inr (x, t) \<Rightarrow> P t) \<longleftrightarrow> P (final r)"
  by (simp add: final_def split: sum.split prod.split)

lemma preserves_final: "preserves I B f \<Longrightarrow> I s \<Longrightarrow> I (final (f s))"
  using preserves_result [of I B f s] by (auto simp: final_def split: sum.splits)

lemma final_andThen: "(\<And>x. preserves I B (g x)) \<Longrightarrow> I (final (f s)) \<Longrightarrow> I (final (andThen f g s))"
  by (auto simp: andThen_def split: sum.splits intro!: preserves_final [of I B])

section \<open>What prints no overflow\<close>

definition quiet :: "msg list \<Rightarrow> 'w det \<Rightarrow> bool" where
  "quiet ms t \<longleftrightarrow> (\<exists>new. err_out t = ms @ new \<and> Overflow_detected \<notin> set new)"

abbreviation keeps_quiet :: "msg list \<Rightarrow> ('w det, 'a) prog \<Rightarrow> bool" where
  "keeps_quiet ms \<equiv> preserves (quiet ms) {}"

lemma quiet_start [simp]: "quiet (err_out s) s"
  by (simp add: quiet_def)

lemma quiet_same: "quiet ms s \<Longrightarrow> err_out t = err_out s \<Longrightarrow> quiet ms t"
  by (simp add: quiet_def)

lemma quiet_put: "m \<noteq> Overflow_detected \<Longrightarrow> keeps_quiet ms (put_err m)"
  unfolding put_err_def by (rule preserves_modify) (auto simp: quiet_def)

lemma quiet_steps [keeps]:
  "keeps_quiet ms (call f)"
  "keeps_quiet ms (query h)"
  "keeps_quiet ms (check_cl_error e)"
  "keeps_quiet ms (cl_msg_not_found name)"
  "keeps_quiet ms (initialize_logging cl)"
proof -
  show "keeps_quiet ms (call f)" "keeps_quiet ms (query h)"
    unfolding call_def query_def by (auto simp: preserves_def quiet_def split: prod.split)
  show "keeps_quiet ms (check_cl_error e)" "keeps_quiet ms (cl_msg_not_found name)"
    unfolding check_cl_error_def cl_msg_not_found_def by (rule keeps quiet_put | simp)+
  have log: "keeps_quiet ms (modify (\<lambda>s. s\<lparr>log_out := l\<rparr>))" for l
    by (rule preserves_modify) (auto simp: quiet_def)
  show "keeps_quiet ms (initialize_logging cl)"
    unfolding initialize_logging_def by (rule log keeps quiet_put | simp)+
qed

lemma event_steps [keeps]:
  "keeps_quiet ms (cl_event_find e)" "keeps_printed ms (cl_event_find e)"
  "keeps_quiet ms (cl_event_assign e i)" "keeps_printed ms (cl_event_assign e i)"
  "keeps_quiet ms (cl_event_remove e)" "keeps_printed ms (cl_event_remove e)"
  unfolding cl_event_find_def cl_event_assign_def cl_event_remove_def
  by (auto simp: preserves_def quiet_def printed_def split: option.split prod.split)

lemma release_events_print [keeps]:
  "keeps_quiet ms (release_events cl evs)" "keeps_printed ms (release_events cl evs)"
  unfolding release_events_def clReleaseEvent_def by (rule keeps)+

lemma printed_parse [keeps]: "keeps_printed ms (cpu_parse_canary cl q n bytes ki b dupe)"
  unfolding cpu_parse_canary_def by (rule keeps)+

section \<open>Reading the canaries\<close>

text \<open>
  What the checks rely on: a read inside a buffer succeeds and returns its contents, and waiting succeeds;
  neither changes what buffers hold.
\<close>

definition returns_contents :: "'w ocl \<Rightarrow> ('w \<Rightarrow> cl_mem \<Rightarrow> u8 list) \<Rightarrow> bool" where
  "returns_contents cl contents \<longleftrightarrow> loaded cl ''clEnqueueReadBuffer''
    \<and> (\<forall>q b off n evs w. unat off + unat n \<le> length (contents w b) \<longrightarrow>
        (\<exists>ev w'. rt_EnqueueReadBuffer cl q b False off n evs w =
            ((CL_SUCCESS, take (unat n) (drop (unat off) (contents w b)), ev), w') \<and> contents w' = contents w))
    \<and> (\<forall>evs w. \<exists>w'. rt_WaitForEvents cl evs w = (CL_SUCCESS, w') \<and> contents w' = contents w)"

lemma contents_read:
  "returns_contents cl contents \<Longrightarrow> unat off + unat n \<le> length (contents w b) \<Longrightarrow>
    \<exists>ev w'. rt_EnqueueReadBuffer cl q b False off n evs w =
      ((CL_SUCCESS, take (unat n) (drop (unat off) (contents w b)), ev), w') \<and> contents w' = contents w"
  by (simp add: returns_contents_def)

text \<open>A buffer of the application whose main buffer the runtime holds.\<close>

definition guarded :: "(cl_mem \<Rightarrow> u8 list) \<Rightarrow> 'w det \<Rightarrow> cl_memobj \<Rightarrow> bool" where
  "guarded held s m \<longleftrightarrow> cl_mem_alloc s (m_main_buff m) = None \<and> unat (m_size m) + 4096 < 2 ^ 32
    \<and> length (held (m_main_buff m)) = unat (m_size m) + 8192"

definition intact :: "(cl_mem \<Rightarrow> u8 list) \<Rightarrow> cl_memobj \<Rightarrow> bool" where
  "intact held m \<longleftrightarrow> (\<exists>content. length content = unat (m_size m) \<and> held (m_main_buff m) = with_canaries content)"

lemma read_canary_run:
  assumes rt: "returns_contents cl contents" and g: "guarded (contents (world s)) s m"
    and m: "cl_mem_alloc s h = Some a" "mobjs s a = Some m"
  shows "\<exists>es w. read_cl_mem_canary cl q evt h s =
      Inr ((m_handle m, canary_view (m_size m) (contents (world s) (m_main_buff m)), es), s\<lparr>world := w\<rparr>)
    \<and> contents w = contents (world s)"
proof -
  let ?arr = "contents (world s) (m_main_buff m)" and ?off = "canary_offset (m_size m)"
  have g: "cl_mem_alloc s (m_main_buff m) = None" "unat (m_size m) + 4096 < 2 ^ 32" "length ?arr = unat (m_size m) + 8192"
    using g by (simp_all add: guarded_def)
  have off: "unat ?off = unat (m_size m) + 4096" using unat_canary_offset [OF g(2)] by simp
  have len: "unat (POISON_FILL_LENGTH :: u64) = 4096" by (simp add: POISON_FILL_LENGTH_def)
  have loaded: "loaded cl ''clEnqueueReadBuffer''" using rt by (simp add: returns_contents_def)
  from contents_read [OF rt, of 0 "POISON_FILL_LENGTH" "world s" "m_main_buff m" q "[evt]"] g(3) len
  obtain e0 w0 where r0: "rt_EnqueueReadBuffer cl q (m_main_buff m) False 0 POISON_FILL_LENGTH [evt] (world s) =
      ((CL_SUCCESS, take 4096 ?arr, e0), w0)" "contents w0 = contents (world s)" by auto
  from contents_read [OF rt, of ?off "POISON_FILL_LENGTH" w0 "m_main_buff m" q "[evt]"] g(3) len off r0(2)
  obtain e1 w1 where r1: "rt_EnqueueReadBuffer cl q (m_main_buff m) False ?off POISON_FILL_LENGTH [evt] w0 =
      ((CL_SUCCESS, take 4096 (drop (unat ?off) ?arr), e1), w1)" "contents w1 = contents (world s)" by auto
  have c0: "clEnqueueReadBuffer cl q (m_main_buff m) False 0 POISON_FILL_LENGTH [evt] s =
      Inr ((CL_SUCCESS, Some (take 4096 ?arr, e0)), s\<lparr>world := w0\<rparr>)"
    by (rule unknown_buffer_reads [OF g(1) loaded r0(1)])
  have c1: "clEnqueueReadBuffer cl q (m_main_buff m) False ?off POISON_FILL_LENGTH [evt] (s\<lparr>world := w0\<rparr>) =
      Inr ((CL_SUCCESS, Some (take 4096 (drop (unat ?off) ?arr), e1)), s\<lparr>world := w1\<rparr>)"
    by (subst unknown_buffer_reads) (use g(1) loaded r1(1) in simp_all)
  have "read_cl_mem_canary cl q evt h s =
      Inr ((m_handle m, canary_view (m_size m) ?arr, [e0, e1]), s\<lparr>world := w1\<rparr>)"
    using m c0 c1 by (simp add: read_cl_mem_canary_def andThen_def runs written_read_def canary_view_def)
  with r1(2) show ?thesis by blast
qed

text \<open>The objects of a list of buffers, each with its handle.\<close>

definition mobjs_of :: "'w det \<Rightarrow> ptr list \<Rightarrow> cl_memobj list \<Rightarrow> bool" where
  "mobjs_of s hs ms \<longleftrightarrow>
     list_all2 (\<lambda>h m. m_handle m = h \<and> (\<exists>a. cl_mem_alloc s h = Some a \<and> mobjs s a = Some m)) hs ms"

lemma read_canaries_run:
  assumes rt: "returns_contents cl contents" and "mobjs_of s hs ms" and "\<forall>m \<in> set ms. guarded held s m"
    and "contents (world s) = held"
  shows "\<exists>cs w. read_cl_mem_canaries cl q hs evt s = Inr (cs, s\<lparr>world := w\<rparr>) \<and> contents w = held
    \<and> map (\<lambda>(_, bytes, _). bytes) cs = map (\<lambda>m. canary_view (m_size m) (held (m_main_buff m))) ms"
  using assms(2-4) unfolding read_cl_mem_canaries_def mobjs_of_def
proof (induction ms arbitrary: hs s rule: list.induct)
  case Nil
  from Nil.prems(1) have "hs = []" by simp
  with Nil show ?case by (intro exI [of _ "[]"] exI [of _ "world s"]) simp
next
  case (Cons m ms)
  from Cons.prems(1) obtain h rest a where hs: "hs = h # rest" and m: "cl_mem_alloc s h = Some a" "mobjs s a = Some m"
    and rest: "list_all2 (\<lambda>h m. m_handle m = h \<and> (\<exists>a. cl_mem_alloc s h = Some a \<and> mobjs s a = Some m)) rest ms"
    unfolding list_all2_Cons2 by blast
  from Cons.prems have "guarded (contents (world s)) s m" by simp
  from read_canary_run [OF rt this m, of q evt] Cons.prems(3) obtain es w where
    one: "read_cl_mem_canary cl q evt h s = Inr ((m_handle m, canary_view (m_size m) (held (m_main_buff m)), es), s\<lparr>world := w\<rparr>)"
    and w: "contents w = held" by auto
  have "\<forall>m \<in> set ms. guarded held (s\<lparr>world := w\<rparr>) m" using Cons.prems(2) by (simp add: guarded_def)
  moreover have "list_all2 (\<lambda>h m. m_handle m = h \<and>
      (\<exists>a. cl_mem_alloc (s\<lparr>world := w\<rparr>) h = Some a \<and> mobjs (s\<lparr>world := w\<rparr>) a = Some m)) rest ms"
    using rest by simp
  ultimately obtain cs w' where "mapM (read_cl_mem_canary cl q evt) rest (s\<lparr>world := w\<rparr>) = Inr (cs, s\<lparr>world := w'\<rparr>)"
    "contents w' = held" "map (\<lambda>(_, bytes, _). bytes) cs = map (\<lambda>m. canary_view (m_size m) (held (m_main_buff m))) ms"
    using Cons.IH [of "s\<lparr>world := w\<rparr>" rest] w by auto
  with one hs show ?case
    by (intro exI [of _ "(m_handle m, canary_view (m_size m) (held (m_main_buff m)), es) # cs"] exI [of _ w'])
      (simp add: andThen_def)
qed

section \<open>From the bytes to the message\<close>

abbreviation announced :: "'w det \<Rightarrow> 'w det \<Rightarrow> bool" where
  "announced s \<equiv> printed (err_out s @ [Header_error, Overflow_detected])"

lemma parse_canaries_run:
  assumes "\<forall>(_, bytes, _) \<in> set cs. 4 * words_covering n \<le> length bytes"
  shows "if \<forall>(_, bytes, _) \<in> set cs. \<forall>i < unat n. bytes ! i = POISON_FILL
    then forM cs (\<lambda>(buffer, bytes, _). cpu_parse_canary cl q n bytes ki buffer dupe) s = Inr ((), s)
    else announced s (final (forM cs (\<lambda>(buffer, bytes, _). cpu_parse_canary cl q n bytes ki buffer dupe) s))"
  using assms
proof (induction cs)
  case (Cons c cs)
  obtain buffer bytes es where c: "c = (buffer, bytes, es)" by (cases c)
  have head: "if \<forall>i < unat n. bytes ! i = POISON_FILL then cpu_parse_canary cl q n bytes ki buffer dupe s = Inr ((), s)
    else announced s (final (cpu_parse_canary cl q n bytes ki buffer dupe s))"
    by (rule parse_announces [unfolded case_final]) (use Cons.prems c in simp)
  show ?case
  proof (cases "\<forall>i < unat n. bytes ! i = POISON_FILL")
    case True
    with head Cons c show ?thesis by (simp add: andThen_def)
  next
    case False
    have keep: "keeps_printed ms (forM cs (\<lambda>(buffer, bytes, _). cpu_parse_canary cl q n bytes ki buffer dupe))" for ms
      by (rule keeps)+
    from False head have "announced s (final (cpu_parse_canary cl q n bytes ki buffer dupe s))" by (simp only: if_False)
    then have "announced s (final (forM (c # cs) (\<lambda>(buffer, bytes, _). cpu_parse_canary cl q n bytes ki buffer dupe) s))"
      unfolding c forM.simps prod.case by (rule final_andThen [OF keep])
    moreover have "\<not> (\<forall>(_, bytes, _) \<in> set (c # cs). \<forall>i < unat n. bytes ! i = POISON_FILL)" using False c by auto
    ultimately show ?thesis by (simp only: if_False)
  qed
qed simp

lemma cached_queue:
  "cmd_queue_cache s ctx = Some qc \<Longrightarrow> getCommandQueueForContext cl ctx s = Inr ((True, qc_cached_queue qc), s)"
  by (simp add: getCommandQueueForContext_def commandQueueCache_find_def unomap_find_def)

lemma view_intact:
  assumes "guarded held s m"
  shows "length (canary_view (m_size m) (held (m_main_buff m))) = 8192"
    and "(\<forall>i < 8192. canary_view (m_size m) (held (m_main_buff m)) ! i = POISON_FILL) \<longleftrightarrow> intact held m"
  using assms length_canary_view both_canaries_iff by (simp_all add: guarded_def intact_def)

lemma verify_cl_mem_run:
  assumes rt: "returns_contents cl contents" and ms: "mobjs_of s hs ms" "\<forall>m \<in> set ms. guarded (contents (world s)) s m"
    and ctx: "q_kernel_context cl (ki_handle ki) (world s) = (CL_SUCCESS, ctx)" "cmd_queue_cache s ctx = Some qc"
  shows "if \<forall>m \<in> set ms. intact (contents (world s)) m
    then quiet (err_out s) (final (verify_cl_mem cl ki hs dupe evt s))
    else announced s (final (verify_cl_mem cl ki hs dupe evt s))"
proof (cases "hs = []")
  case True
  with ms(1) show ?thesis by (simp add: verify_cl_mem_def mobjs_of_def)
next
  case False
  let ?n = "POISON_REGIONS * POISON_FILL_LENGTH :: u32" and ?q = "qc_cached_queue qc"
  have n: "unat ?n = 8192" "words_covering ?n = 2048"
    by (simp_all add: POISON_REGIONS_def POISON_FILL_LENGTH_def words_covering_def)
  obtain cs w where cs: "read_cl_mem_canaries cl ?q hs evt s = Inr (cs, s\<lparr>world := w\<rparr>)"
    "map (\<lambda>(_, bytes, _). bytes) cs = map (\<lambda>m. canary_view (m_size m) (contents (world s) (m_main_buff m))) ms"
    using read_canaries_run [OF rt ms refl] by blast
  obtain w' where wait: "rt_WaitForEvents cl (concat (map (\<lambda>(_, _, evs). evs) cs)) w = (CL_SUCCESS, w')"
    using rt unfolding returns_contents_def by blast
  let ?parse = "forM cs (\<lambda>(buffer, bytes, _). cpu_parse_canary cl ?q ?n bytes ki buffer dupe)"
  let ?rest = "andThen ?parse (\<lambda>_. release_events cl (concat (map (\<lambda>(_, _, evs). evs) cs)))"
  have run: "verify_cl_mem cl ki hs dupe evt s = ?rest (s\<lparr>world := w'\<rparr>)"
    using False ctx(1) cs(1) wait cached_queue [OF ctx(2)]
    by (simp add: verify_cl_mem_def check_cl_error_def andThen_Inr [of _ s] query_def call_def)
  have all: "(\<forall>(_, bytes, _) \<in> set cs. P bytes) \<longleftrightarrow>
      (\<forall>m \<in> set ms. P (canary_view (m_size m) (contents (world s) (m_main_buff m))))" for P
    using cs(2) [THEN arg_cong, of "\<lambda>xs. \<forall>x \<in> set xs. P x"] by (simp add: case_prod_beta)
  have len: "\<forall>(_, bytes, _) \<in> set cs. 4 * words_covering ?n \<le> length bytes"
    unfolding all n(2) using ms(2) view_intact(1) by fastforce
  have poison: "(\<forall>(_, bytes, _) \<in> set cs. \<forall>i < unat ?n. bytes ! i = POISON_FILL) \<longleftrightarrow>
      (\<forall>m \<in> set ms. intact (contents (world s)) m)"
    unfolding all n(1) using ms(2) view_intact(2) by blast
  note parse = parse_canaries_run [OF len, of cl ?q ki dupe "s\<lparr>world := w'\<rparr>", unfolded poison]
  show ?thesis
  proof (cases "\<forall>m \<in> set ms. intact (contents (world s)) m")
    case True
    with parse have "?parse (s\<lparr>world := w'\<rparr>) = Inr ((), s\<lparr>world := w'\<rparr>)" by (simp only: if_True)
    moreover have "quiet (err_out s) (s\<lparr>world := w'\<rparr>)" by (simp add: quiet_def)
    ultimately have "quiet (err_out s) (final (?rest (s\<lparr>world := w'\<rparr>)))"
      by (intro final_andThen [OF release_events_print(1)]) (simp only: final_simps)
    then show ?thesis unfolding run if_P [OF True] .
  next
    case False
    with parse have "announced (s\<lparr>world := w'\<rparr>) (final (?parse (s\<lparr>world := w'\<rparr>)))" by (simp only: if_False)
    moreover have "err_out (s\<lparr>world := w'\<rparr>) = err_out s" by simp
    ultimately have "announced s (final (?parse (s\<lparr>world := w'\<rparr>)))" by (simp only:)
    then have "announced s (final (?rest (s\<lparr>world := w'\<rparr>)))" by (rule final_andThen [OF release_events_print(2)])
    then show ?thesis unfolding run if_not_P [OF False] .
  qed
qed

section \<open>The whole check\<close>

text \<open>The queries before the check: the kernel's arguments and context, the device of the queue.\<close>

definition answers_queries :: "'w ocl \<Rightarrow> 'w det \<Rightarrow> cl_kernel \<Rightarrow> u32 \<Rightarrow> cl_context \<Rightarrow> bool" where
  "answers_queries cl s kern nargs ctx \<longleftrightarrow> q_kernel_num_args cl kern (world s) = (CL_SUCCESS, nargs)
    \<and> q_kernel_context cl kern (world s) = (CL_SUCCESS, ctx) \<and> loaded cl ''clGetDeviceInfo''
    \<and> (\<forall>d. fst (rt_GetDeviceInfo cl d CL_DEVICE_IMAGE_SUPPORT (world s)) = CL_SUCCESS)
    \<and> (\<forall>d. snd (rt_GetDeviceInfo cl d CL_DEVICE_TYPE (world s)) \<noteq> [])"

lemma device_type_known:
  assumes "answers_queries cl s kern nargs ctx"
  shows "\<exists>e v vs. clGetDeviceInfo cl d CL_DEVICE_TYPE (Some []) s = Inr ((e, Some (v # vs)), s)"
proof -
  obtain e v vs where "rt_GetDeviceInfo cl d CL_DEVICE_TYPE (world s) = (e, v # vs)"
    using assms unfolding answers_queries_def by (metis list.exhaust prod.collapse)
  moreover obtain sup where "rt_GetDeviceInfo cl d CL_DEVICE_IMAGE_SUPPORT (world s) = (CL_SUCCESS, sup)"
    using assms unfolding answers_queries_def by (metis prod.collapse)
  moreover have "loaded cl ''clGetDeviceInfo''" using assms by (simp add: answers_queries_def)
  ultimately show ?thesis
    by (simp add: clGetDeviceInfo_def query_def andThen_def store_values_def check_cl_error_def lower_device_info_def)
qed

lemma host_check_run:
  assumes q: "answers_queries cl s kern nargs ctx" and ki: "map_find (kern_list s) kern = Some ki"
    and checks: "collect_checks (Some ki) dupe nargs s = Inr ((hs, [], []), s)"
    and host: "get_check_on_device_envvar (environ s) = DEVICE_CPU"
  shows "\<exists>rest. verifyBufferInBounds cl q kern dupe evt want s = andThen (verify_cl_mem cl ki hs (the dupe) evt) rest s
    \<and> (\<forall>ms x. keeps_quiet ms (rest x) \<and> keeps_printed ms (rest x))"
proof -
  obtain err d where d: "q_queue_device cl q (world s) = (err, d)" by force
  from device_type_known [OF q, of d] obtain e v vs where
    t: "clGetDeviceInfo cl d CL_DEVICE_TYPE (Some []) s = Inr ((e, Some (v # vs)), s)" by blast
  let ?rest = "\<lambda>_. if hs \<noteq> [] \<and> want
    then andThen (query (q_queue_context cl q)) (\<lambda>(_, ctx).
         andThen (call (rt_CreateUserEvent cl ctx)) (\<lambda>(user_evt, _).
         andThen (call (rt_SetUserEventComplete cl user_evt)) (\<lambda>_. ret (Some user_evt))))
    else ret None"
  have "verifyBufferInBounds cl q kern dupe evt want s = andThen (verify_cl_mem cl ki hs (the dupe) evt) ?rest s"
    using q ki host d t checks
    by (simp add: verifyBufferInBounds_def answers_queries_def query_def andThen_Inr [of _ s] check_cl_error_def
        kinfo_find_def read_val_def check_on_gpu_def DEVICE_CPU_def DEVICE_GPU_def verify_buffer_on_host_def
        verify_images_def verify_svm_def verify_cl_mem_def)
  moreover have "keeps_quiet ms (?rest x) \<and> keeps_printed ms (?rest x)" for ms x
    by (intro conjI) (rule keeps)+
  ultimately show ?thesis by (intro exI [of _ ?rest]) blast
qed

text \<open>The memory objects behind the arguments of a kernel.\<close>

definition arg_mobjs :: "'w det \<Rightarrow> kernel_arg list \<Rightarrow> cl_memobj set" where
  "arg_mobjs s args = {m. \<exists>arg \<in> set args. arg_mem s arg = Some m}"

lemma mobjs_of_handles:
  assumes use: "args_in_use s args" and hs: "set hs = {m_handle m | m. m \<in> arg_mobjs s args}"
  shows "\<exists>ms. mobjs_of s hs ms \<and> set ms = arg_mobjs s args"
proof -
  let ?m = "\<lambda>h. the (mobjs s (the (cl_mem_alloc s h)))"
  have own: "?m (m_handle m) = m \<and> (\<exists>a. cl_mem_alloc s (m_handle m) = Some a \<and> mobjs s a = Some m)"
    if m: "m \<in> arg_mobjs s args" for m
  proof -
    from m obtain arg a where "arg \<in> set args" "ka_buffer arg = Some a" "mobjs s a = Some m"
      by (auto simp: arg_mobjs_def arg_mem_def bind_eq_Some_conv)
    with use have "cl_mem_alloc s (m_handle m) = Some a" "mobjs s a = Some m" by (auto simp: args_in_use_def)
    then show ?thesis by simp
  qed
  have "mobjs_of s hs (map ?m hs)"
    unfolding mobjs_of_def list.rel_map(2) by (rule list.rel_refl_strong) (use hs own in force)
  moreover have "set (map ?m hs) = arg_mobjs s args" using hs own by force
  ultimately show ?thesis by blast
qed

lemma announced_reports:
  "announced s t \<Longrightarrow> Overflow_detected \<in> set (drop (length (err_out s)) (err_out t))"
  "quiet (err_out s) t \<Longrightarrow> Overflow_detected \<notin> set (drop (length (err_out s)) (err_out t))"
  by (auto simp: printed_def quiet_def)

text \<open>
  C1: The check of a launch is exact. For a kernel whose arguments are buffers and plain values,
  all set and not released, checked on the host, the messages the check adds announce an overflow if and
  only if the contents of some buffer among the arguments are not data between two intact canaries. This
  holds in whatever way the check ends, and for any runtime that returns the contents of its buffers.
\<close>

theorem launch_reports_overflows:
  assumes args: "map_find (kern_list s) kern = Some ki" "ki_handle ki = kern" "args_in_use s (ki_arg_list ki)"
      "args_complete nargs (ki_arg_list ki)" "nargs \<noteq> 0" "tables_ok s"
    and plain: "\<forall>arg \<in> set (ki_arg_list ki). ka_buffer arg = None \<longrightarrow> ka_svm_buffer arg = None"
    and buffers: "\<forall>m \<in> arg_mobjs s (ki_arg_list ki). \<not> m_is_image m \<and> guarded (contents (world s)) s m"
    and host: "get_check_on_device_envvar (environ s) = DEVICE_CPU" "cmd_queue_cache s ctx = Some qc"
    and rt: "returns_contents cl contents" "answers_queries cl s kern nargs ctx"
  shows "\<exists>dupe. findDuplicates nargs (ki_arg_list ki) s = Inr (dupe, s)
    \<and> (Overflow_detected \<in> set (drop (length (err_out s))
        (err_out (final (verifyBufferInBounds cl q kern dupe evt want s))))
      \<longleftrightarrow> (\<exists>m \<in> arg_mobjs s (ki_arg_list ki). \<not> intact (contents (world s)) m))"
proof -
  let ?args = "ki_arg_list ki"
  have no_images: "{m_handle m | arg m. arg \<in> set ?args \<and> arg_mem s arg = Some m \<and> m_is_image m} = {}"
    and all: "{m_handle m | arg m. arg \<in> set ?args \<and> arg_mem s arg = Some m \<and> \<not> m_is_image m} =
      {m_handle m | m. m \<in> arg_mobjs s ?args}"
    using buffers by (auto simp: arg_mobjs_def)
  have no_svm: "(\<exists>arg \<in> set ?args. ka_buffer arg = None \<and> ka_svm_buffer arg \<noteq> None) = False"
    using plain by auto
  from launch_collects [OF args(3-5) refl args(6), unfolded no_images all no_svm if_False] obtain dupe hs svms images where
    dupe: "findDuplicates nargs ?args s = Inr (dupe, s)"
    and checks: "collect_checks (Some ki) dupe nargs s = Inr ((hs, svms, images), s)"
      "svms = []" "set images = {}" "set hs = {m_handle m | m. m \<in> arg_mobjs s ?args}"
    by blast
  from mobjs_of_handles [OF args(3) checks(4)] obtain ms where
    ms: "mobjs_of s hs ms" "set ms = arg_mobjs s ?args" by blast
  from checks have "collect_checks (Some ki) dupe nargs s = Inr ((hs, [], []), s)" by simp
  from host_check_run [OF rt(2) args(1) this host(1)] obtain rest where
    run: "verifyBufferInBounds cl q kern dupe evt want s = andThen (verify_cl_mem cl ki hs (the dupe) evt) rest s"
    and rest: "\<And>ms x. keeps_quiet ms (rest x)" "\<And>ms x. keeps_printed ms (rest x)" by blast
  have "q_kernel_context cl (ki_handle ki) (world s) = (CL_SUCCESS, ctx)"
    using rt(2) args(2) by (simp add: answers_queries_def)
  from verify_cl_mem_run [OF rt(1) ms(1) _ this host(2)] buffers ms(2)
  have check: "if \<forall>m \<in> arg_mobjs s ?args. intact (contents (world s)) m
    then quiet (err_out s) (final (verify_cl_mem cl ki hs (the dupe) evt s))
    else announced s (final (verify_cl_mem cl ki hs (the dupe) evt s))" by simp
  show ?thesis
  proof (cases "\<forall>m \<in> arg_mobjs s ?args. intact (contents (world s)) m")
    case True
    with check have "quiet (err_out s) (final (verifyBufferInBounds cl q kern dupe evt want s))"
      unfolding run by (intro final_andThen [OF rest(1)]) (simp only: if_True)
    with True dupe announced_reports(2) show ?thesis by blast
  next
    case False
    with check have "announced s (final (verifyBufferInBounds cl q kern dupe evt want s))"
      unfolding run by (intro final_andThen [OF rest(2)]) (simp only: if_False)
    with False dupe announced_reports(1) show ?thesis by blast
  qed
qed

text \<open>A kernel 7 whose only argument is a buffer of 3 bytes, and a runtime that returns zeros.\<close>

definition zero_runtime :: "unit ocl \<Rightarrow> unit ocl" where
  "zero_runtime cl = (constant_reads (replicate 8195 0) cl)
    \<lparr>loaded := \<lambda>_. True, rt_WaitForEvents := \<lambda>_ w. (CL_SUCCESS, w), q_kernel_num_args := \<lambda>_ _. (CL_SUCCESS, 1),
      q_kernel_context := \<lambda>_ _. (CL_SUCCESS, 3), rt_GetDeviceInfo := \<lambda>_ _ _. (CL_SUCCESS, [0])\<rparr>"

definition one_arg_kernel :: kernel_info where
  "one_arg_kernel = \<lparr>ki_handle = 7, ki_ref_count = 1, ki_arg_list =
     [\<lparr>ka_handle = 0, ka_size = 8, ka_value = None, ka_buffer = Some 0, ka_svm_buffer = None\<rparr>]\<rparr>"

definition three_bytes :: cl_memobj where
  "three_bytes = zero_memobj\<lparr>m_handle := 5, m_main_buff := 6, m_size := 3, m_has_canary := True\<rparr>"

definition one_arg_state :: "unit det" where
  "one_arg_state = (initial_state () [''CLARMOR_DEVICE_SELECT'' \<mapsto> ''2''] (\<lambda>_. 0) 0)
    \<lparr>cl_mem_alloc := [5 \<mapsto> 0], mobjs := [0 \<mapsto> three_bytes], next_obj := 1, kern_list := [(7, one_arg_kernel)],
      cmd_queue_cache := [3 \<mapsto> \<lparr>qc_handle = 3, qc_cached_queue = 9, qc_ref_count = 1\<rparr>]\<rparr>"

lemma select_host: "e ''CLARMOR_DEVICE_SELECT'' = Some ''2'' \<Longrightarrow> get_check_on_device_envvar e = DEVICE_CPU"
  by (simp add: get_check_on_device_envvar_def get_env_util_def strtoul0_def sign_split_def is_space_def
      digit_val_def DEVICE_CPU_def)

lemma launch_reports_overflows_witness:
  "\<forall>cl. \<exists>dupe. Overflow_detected \<in> set (err_out (final
    (verifyBufferInBounds (zero_runtime cl) 1 7 dupe 2 False one_arg_state)))"
proof
  fix cl :: "unit ocl"
  let ?s = one_arg_state and ?ki = one_arg_kernel and ?held = "\<lambda>(_ :: unit) (_ :: cl_mem). replicate 8195 (0 :: u8)"
  have objs: "arg_mobjs ?s (ki_arg_list ?ki) = {three_bytes}"
    by (simp add: arg_mobjs_def arg_mem_def one_arg_kernel_def one_arg_state_def)
  have args: "map_find (kern_list ?s) 7 = Some ?ki" "ki_handle ?ki = 7" "args_in_use ?s (ki_arg_list ?ki)"
    "args_complete 1 (ki_arg_list ?ki)" "(1 :: u32) \<noteq> 0" "tables_ok ?s"
    by (simp_all add: args_in_use_def args_complete_def one_arg_kernel_def one_arg_state_def three_bytes_def upto32_def
        initial_state_def tables_ok_def ok_defs zero_memobj_def)
  have plain: "\<forall>arg \<in> set (ki_arg_list ?ki). ka_buffer arg = None \<longrightarrow> ka_svm_buffer arg = None"
    by (simp add: one_arg_kernel_def)
  have buffers: "\<forall>m \<in> arg_mobjs ?s (ki_arg_list ?ki). \<not> m_is_image m \<and> guarded (?held (world ?s)) ?s m"
    unfolding objs by (simp add: guarded_def one_arg_state_def three_bytes_def zero_memobj_def)
  have host: "get_check_on_device_envvar (environ ?s) = DEVICE_CPU"
    by (rule select_host) (simp add: one_arg_state_def initial_state_def)
  have queue: "cmd_queue_cache ?s 3 = Some \<lparr>qc_handle = 3, qc_cached_queue = 9, qc_ref_count = 1\<rparr>"
    by (simp add: one_arg_state_def)
  have rt: "returns_contents (zero_runtime cl) ?held" "answers_queries (zero_runtime cl) ?s 7 1 3"
    by (simp_all add: returns_contents_def answers_queries_def zero_runtime_def constant_reads_def)
  have "\<not> intact (?held (world ?s)) three_bytes"
    by (auto simp: intact_def three_bytes_def with_canaries_def POISON_FILL_def nth_append
        dest!: arg_cong [of _ _ "\<lambda>xs. xs ! 0"])
  moreover have "err_out ?s = []" by (simp add: one_arg_state_def initial_state_def)
  moreover note launch_reports_overflows [OF args plain buffers host queue rt, of 1 2 False]
  ultimately show "\<exists>dupe. Overflow_detected \<in> set (err_out (final
      (verifyBufferInBounds (zero_runtime cl) 1 7 dupe 2 False ?s)))"
    unfolding objs by auto
qed

end
