(* ===== verification/Device_Reports.thy ===== *)
theory Device_Reports
  imports Launch_Detection Device_Check_Props Gpu_Check
begin

text \<open>
  The check of a launch on the device, from the run of the checker kernel to the message: the callback
  that reads the results reports an overflow if and only if a canary the kernel has looked at is damaged.
\<close>

section \<open>What the callback does besides reporting\<close>

lemma quiet_callback_steps [keeps]:
  "keeps_quiet ms (kinfo_find k)" "keeps_printed ms (kinfo_find k)"
  "keeps_quiet ms (kinfo_remove k)" "keeps_printed ms (kinfo_remove k)"
  "keeps_quiet ms (kinfo_assign k ki)" "keeps_printed ms (kinfo_assign k ki)"
  unfolding kinfo_find_def kinfo_remove_def kinfo_assign_def
  by (auto simp: preserves_def quiet_def printed_def split: option.split prod.split)

lemma quiet_release_kernel [keeps]:
  "keeps_quiet ms (clReleaseKernel cl k)" "keeps_printed ms (clReleaseKernel cl k)"
  unfolding clReleaseKernel_def by (rule keeps)+

lemma quiet_object_steps [keeps]:
  "keeps_quiet ms (cl_mem_find h)"
  "keeps_quiet ms (get_mobj a)" "keeps_printed ms (get_mobj a)"
  "keeps_quiet ms (set_mobj a f)" "keeps_printed ms (set_mobj a f)"
  "keeps_quiet ms (drop_memobj h)" "keeps_printed ms (drop_memobj h)"
  "keeps_quiet ms (uncount_object m)" "keeps_printed ms (uncount_object m)"
  "keeps_quiet ms (cl_svm_mem_remove p)" "keeps_printed ms (cl_svm_mem_remove p)"
  "keeps_quiet ms (get_svobj a)" "keeps_printed ms (get_svobj a)"
  "keeps_quiet ms (uncount_svm n)" "keeps_printed ms (uncount_svm n)"
  "keeps_quiet ms (cl_svm_mem_delete a)" "keeps_printed ms (cl_svm_mem_delete a)"
  "keeps_quiet ms (cl_svm_fg_free c p)" "keeps_printed ms (cl_svm_fg_free c p)"
  unfolding cl_mem_find_def get_mobj_def set_mobj_def drop_memobj_def cl_mem_remove_def cl_mem_delete_def
    uncount_object_def cl_svm_mem_remove_def get_svobj_def uncount_svm_def cl_svm_mem_delete_def cl_svm_fg_free_def
  by (auto simp: preserves_def quiet_def printed_def Let_def andThen_def split: option.split prod.split)

lemma quiet_release_objects [keeps]:
  "keeps_quiet ms (clSVMFree cl c p)" "keeps_printed ms (clSVMFree cl c p)"
  "keeps_quiet ms (clReleaseMemObject cl b)" "keeps_printed ms (clReleaseMemObject cl b)"
  "keeps_quiet ms (releaseInternalMemObject cl b)" "keeps_printed ms (releaseInternalMemObject cl b)"
proof -
  have flag: "keeps_quiet ms (modify (\<lambda>s. s\<lparr>internal_create := b\<rparr>))"
    "keeps_printed ms (modify (\<lambda>s. s\<lparr>internal_create := b\<rparr>))" for b
    by (rule preserves_modify, auto simp: quiet_def printed_def)+
  show "keeps_quiet ms (clSVMFree cl c p)" "keeps_printed ms (clSVMFree cl c p)"
    unfolding clSVMFree_def by (rule keeps)+
  show release: "keeps_quiet ms (clReleaseMemObject cl b)" "keeps_printed ms (clReleaseMemObject cl b)" for b
    unfolding clReleaseMemObject_def lookup_mobj_def by (rule keeps)+
  show "keeps_quiet ms (releaseInternalMemObject cl b)" "keeps_printed ms (releaseInternalMemObject cl b)"
    unfolding releaseInternalMemObject_def by (rule keeps release flag)+
qed

section \<open>The report of a list of results\<close>

lemma overflowError_announces: "announced s (final (overflowError cl ki buffer bad bt s))"
  unfolding overflowError_def print_err_footer_def
  by (rule announced_first [OF _ refl, unfolded case_final]) (rule keeps)+

lemma printed_report [keeps]: "keeps_printed ms (report_kernel_overflows cl rs ki dupe bt)"
  unfolding report_kernel_overflows_def by (rule keeps)+

lemma report_announces:
  "if \<forall>r \<in> set rs. \<not> changed (fst r) then report_kernel_overflows cl rs ki dupe bt s = Inr ((), s)
    else announced s (final (report_kernel_overflows cl rs ki dupe bt s))"
proof -
  let ?one = "\<lambda>(first_change, buffer). if changed first_change then overflowError cl ki buffer first_change bt else ret ()"
  have keep: "keeps_printed ms (forM rs ?one)" for ms rs by (rule keeps)+
  have loop: "if \<forall>r \<in> set rs. \<not> changed (fst r) then forM rs ?one s = Inr ((), s)
      else announced s (final (forM rs ?one s))"
  proof (induction rs)
    case (Cons r rs)
    obtain w b where r: "r = (w, b)" by (cases r)
    show ?case
    proof (cases "changed w")
      case True
      have "announced s (final (?one r s))" using overflowError_announces True r by (simp only: prod.case if_True)
      then have "announced s (final (forM (r # rs) ?one s))"
        unfolding forM.simps by (rule final_andThen [OF keep])
      moreover have "\<not> (\<forall>r \<in> set (r # rs). \<not> changed (fst r))" using True r by simp
      ultimately show ?thesis by (simp only: if_False)
    next
      case False
      have "forM (r # rs) ?one s = forM rs ?one s" using False r by (simp add: andThen_def)
      moreover have "(\<forall>x \<in> set (r # rs). \<not> changed (fst x)) \<longleftrightarrow> (\<forall>x \<in> set rs. \<not> changed (fst x))"
        using False r by simp
      ultimately show ?thesis using Cons by (simp only:)
    qed
  qed simp
  show ?thesis
  proof (cases "\<forall>r \<in> set rs. \<not> changed (fst r)")
    case True
    with loop show ?thesis by (auto simp: report_kernel_overflows_def andThen_def)
  next
    case False
    with loop have "announced s (final (forM rs ?one s))" by (simp only: if_False)
    then have "announced s (final (report_kernel_overflows cl rs ki dupe bt s))"
      unfolding report_kernel_overflows_def by (rule final_andThen [rotated]) (rule keeps)+
    then show ?thesis unfolding if_not_P [OF False] .
  qed
qed

lemma verify_callback_run:
  assumes "change_arrays s (vi_first_change data) = Some xs" and "length (vi_argMap data) \<le> length xs"
  shows "if \<forall>x \<in> set (take (length (vi_argMap data)) xs). \<not> changed x then quiet (err_out s) (final (verify_callback cl ki data s))
    else announced s (final (verify_callback cl ki data s))"
proof -
  let ?rest = "\<lambda>_. andThen (clReleaseKernel cl (ki_handle ki)) (\<lambda>_.
       if vi_used_svm data = 0 then ret ()
       else
         andThen (query (q_queue_context cl (vi_cmd_queue data))) (\<lambda>(err, ctx).
         andThen (check_cl_error err) (\<lambda>_.
           if vi_used_svm_is_clmem data then releaseInternalMemObject cl (vi_used_svm data)
           else clSVMFree cl ctx (vi_used_svm data))))"
  let ?report = "report_kernel_overflows cl (zip xs (vi_argMap data)) ki (vi_dupe data) (vi_backtrace_str data)"
  have run: "verify_callback cl ki data s = andThen ?report ?rest s"
  proof -
    have read: "read_changes (vi_first_change data) s = Inr (xs, s)"
      using assms(1) by (simp add: read_changes_def)
        show ?thesis
      unfolding verify_callback_def andThen_Inr [where f = "read_changes (vi_first_change data)", OF read] if_P [OF assms(2)] andThen_simps(1) ..
  qed
  have rest: "keeps_quiet ms (?rest x)" "keeps_printed ms (?rest x)" for ms x
    by (rule keeps)+
  have all: "(\<forall>r \<in> set (zip xs (vi_argMap data)). \<not> changed (fst r)) \<longleftrightarrow>
      (\<forall>x \<in> set (take (length (vi_argMap data)) xs). \<not> changed x)"
  proof -
    have "map fst (zip xs (vi_argMap data)) = take (length (vi_argMap data)) xs"
      using assms(2) by (simp add: map_fst_zip_take min_def)
    then have "set (take (length (vi_argMap data)) xs) = fst ` set (zip xs (vi_argMap data))"
      by (metis set_map)
    then show ?thesis by simp
  qed
  note report = report_announces [of "zip xs (vi_argMap data)" cl ki "vi_dupe data" "vi_backtrace_str data" s, unfolded all]
  show ?thesis
  proof (cases "\<forall>x \<in> set (take (length (vi_argMap data)) xs). \<not> changed x")
    case True
    with report have "?report s = Inr ((), s)" by (simp only: if_True)
    then have "quiet (err_out s) (final (andThen ?report ?rest s))"
      by (intro final_andThen [OF rest(1)]) (simp only: final_simps quiet_start)
    then show ?thesis unfolding run if_P [OF True] .
  next
    case False
    with report have "announced s (final (?report s))" by (simp only: if_False)
    then have "announced s (final (andThen ?report ?rest s))" by (rule final_andThen [OF rest(2)])
    then show ?thesis unfolding run if_not_P [OF False] .
  qed
qed

section \<open>From the kernel's run to the message\<close>

lemma changed_host_result:
  assumes "4 * words_covering n \<le> length bytes" and "unat n < 2 ^ 31"
  shows "changed (host_result n bytes) \<longleftrightarrow> (\<exists>i < unat n. bytes ! i \<noteq> POISON_FILL)"
proof (cases "find_bad_byte n bytes")
  case None
  with find_bad_byte_cases [OF assms(1)] show ?thesis by (auto simp: host_result_def changed_def INT_MAX_def)
next
  case (Some b)
  with find_bad_byte_cases [OF assms(1)] have b: "unat b < unat n" "bytes ! unat b \<noteq> POISON_FILL" by auto
  have "sint b = int (unat b)" using sint_of_nat32 [of "unat b"] b(1) assms(2) by simp
  moreover have "unat b < 2147483647" using b(1) assms(2) by simp
  ultimately have "sint b < INT_MAX" unfolding INT_MAX_def by linarith
  with Some have "changed (host_result n bytes)" by (simp add: host_result_def changed_def)
  with b show ?thesis by blast
qed

text \<open>
  The checker kernel has run over copies of canaries, its items in any order, and the array of results
  holds what it has written: the messages the callback of the check adds announce an overflow if and only
  if some byte of these canaries is not poison. This holds in whatever way the callback ends.
\<close>

lemma callback_reports:
  assumes callback: "k < length (check_callbacks s)" "check_callbacks s ! k = Verify_callback e data"
      "map_find (kern_list s) (vi_kern_info data) = Some ki"
    and run: "run_findCorruption L G (POISON_REGIONS * poisonWordLen) (of_nat nb * POISON_REGIONS * poisonWordLen)
      (of_nat n * POISON_REGIONS * poisonWordLen) POISON_FILL_32B B C (dev_start m (replicate n no_change)) d"
    and size: "nb \<le> n" "n < 2 ^ 17" "2048 * n \<le> G" "G < 2 ^ 32" "0 < L" "L dvd 2048"
    and results: "change_arrays s (vi_first_change data) = Some (d_first d)" "length (vi_argMap data) = n"
  shows "Overflow_detected \<in> set (drop (length (err_out s)) (err_out (final (run_checker_callback cl k s))))
    \<longleftrightarrow> (\<exists>b < n. \<exists>i < 8192. canary_byte m B C nb b i \<noteq> POISON_FILL)"
proof -
  let ?s = "s\<lparr>check_callbacks := take k (check_callbacks s) @ drop (Suc k) (check_callbacks s)\<rparr>"
  have run_cb: "run_checker_callback cl k s = verify_callback cl ki data ?s"
    using callback by (simp add: run_checker_callback_def kinfo_find_def)
  have "POISON_REGIONS * poisonWordLen = (2048 :: u32)"
    "of_nat k * POISON_REGIONS * poisonWordLen = (of_nat (2048 * k) :: u32)" for k
    by (simp_all add: poisonWordLen_def poison_defs)
  with run size have d: "d_first d = map (\<lambda>b. host_result 8192 (map (canary_byte m B C nb b) [0..<8192])) [0..<n]"
    by (intro findCorruption_first) (simp_all only:)
  have host: "changed (host_result 8192 (map (canary_byte m B C nb b) [0..<8192])) \<longleftrightarrow>
      (\<exists>i < 8192. canary_byte m B C nb b i \<noteq> POISON_FILL)" for b
    by (subst changed_host_result) (auto simp: words_covering_def)
  have none: "(\<forall>x \<in> set (d_first d). \<not> changed x) \<longleftrightarrow>
      \<not> (\<exists>b < n. \<exists>i < 8192. canary_byte m B C nb b i \<noteq> POISON_FILL)"
    unfolding d using host by auto
  have same: "err_out ?s = err_out s" by simp
  have len: "length (vi_argMap data) = length (d_first d)" and arr: "change_arrays ?s (vi_first_change data) = Some (d_first d)"
    using results d by simp_all
  have all: "take (length (vi_argMap data)) (d_first d) = d_first d" using len by simp
  note verify_callback_run [OF arr eq_imp_le [OF len], of cl ki, unfolded all none same]
  then show ?thesis
    unfolding run_cb using announced_reports [of s] same by (metis (no_types, lifting))
qed

end
