(* ===== verification/Canary_Copies.thy ===== *)
theory Canary_Copies
  imports Device_Reports Memory_Props Api_Check_Props
begin

text \<open>
  The copies of the device check: with a runtime that carries out the commands in the order of their
  calls, the buffer of copies holds the canaries of all buffers one after the other, as they were before
  the check, and afterwards the canaries are poison again: every one is copied before it is mended.
\<close>

section \<open>A runtime that carries out copies and fills\<close>

definition put_bytes :: "nat \<Rightarrow> u8 list \<Rightarrow> u8 list \<Rightarrow> u8 list" where
  "put_bytes off bytes arr = take off arr @ bytes @ drop (off + length bytes) arr"

lemma length_put_bytes: "off + length bytes \<le> length arr \<Longrightarrow> length (put_bytes off bytes arr) = length arr"
  by (simp add: put_bytes_def)

text \<open>
  What the check relies on. \<open>contents w b\<close> are the bytes of a main buffer or of the buffer of copies;
  none of these shares memory with another, and other handles, such as the application's sub-buffers,
  stand for no bytes. All events, buffers and queues belong to one context. The pattern of a fill is one
  byte.
\<close>

definition carries_out :: "'w ocl \<Rightarrow> ('w \<Rightarrow> cl_mem \<Rightarrow> u8 list) \<Rightarrow> cl_context \<Rightarrow> bool" where
  "carries_out cl contents ctx \<longleftrightarrow>
     loaded cl ''clEnqueueCopyBuffer'' \<and> loaded cl ''clEnqueueFillBuffer'' \<and> loaded cl ''clGetMemObjectInfo''
   \<and> (\<forall>q from to src dst n evs w. from \<noteq> to \<and> unat src + unat n \<le> length (contents w from)
        \<and> unat dst + unat n \<le> length (contents w to) \<longrightarrow>
        (\<exists>e w'. rt_EnqueueCopyBuffer cl q from to src dst n evs w = ((CL_SUCCESS, e), w')
          \<and> contents w' = (contents w)
              (to := put_bytes (unat dst) (take (unat n) (drop (unat src) (contents w from))) (contents w to))))
   \<and> (\<forall>q b v off n evs w. unat off + unat n \<le> length (contents w b) \<longrightarrow>
        (\<exists>e w'. rt_EnqueueFillBuffer cl q b [v] off n evs w = ((CL_SUCCESS, e), w')
          \<and> contents w' = (contents w)(b := put_bytes (unat off) (replicate (unat n) v) (contents w b))))
   \<and> (\<forall>q evs w. \<exists>err e w'. rt_EnqueueMarkerWithWaitList cl q evs w = ((err, e), w') \<and> contents w' = contents w)
   \<and> (\<forall>e w. q_event_context cl e w = ctx) \<and> (\<forall>q w. q_queue_context cl q w = (CL_SUCCESS, ctx))
   \<and> (\<forall>b w. rt_GetMemObjectInfo cl b CL_MEM_CONTEXT w = (CL_SUCCESS, [ctx]))"

lemma carries_outD:
  assumes "carries_out cl contents ctx"
  shows "from \<noteq> to \<Longrightarrow> unat src + unat n \<le> length (contents w from) \<Longrightarrow> unat dst + unat n \<le> length (contents w to) \<Longrightarrow>
      \<exists>e w'. rt_EnqueueCopyBuffer cl q from to src dst n evs w = ((CL_SUCCESS, e), w') \<and> contents w' = (contents w)
        (to := put_bytes (unat dst) (take (unat n) (drop (unat src) (contents w from))) (contents w to))"
    and "unat off + unat n \<le> length (contents w b) \<Longrightarrow>
      \<exists>e w'. rt_EnqueueFillBuffer cl q b [v] off n evs w = ((CL_SUCCESS, e), w')
        \<and> contents w' = (contents w)(b := put_bytes (unat off) (replicate (unat n) v) (contents w b))"
    and "\<exists>err e w'. rt_EnqueueMarkerWithWaitList cl q evs w = ((err, e), w') \<and> contents w' = contents w"
    and "q_event_context cl e w = ctx" "q_queue_context cl q w = (CL_SUCCESS, ctx)"
      "rt_GetMemObjectInfo cl b CL_MEM_CONTEXT w = (CL_SUCCESS, [ctx])"
    and "loaded cl ''clEnqueueCopyBuffer''" "loaded cl ''clEnqueueFillBuffer''" "loaded cl ''clGetMemObjectInfo''"
  using assms unfolding carries_out_def by simp_all

section \<open>One copy\<close>

lemma known_fits:
  "cl_mem_alloc s b = Some a \<Longrightarrow> mobjs s a = Some m \<Longrightarrow> fits off sz m \<Longrightarrow>
    apiBufferOverflowCheck cl func b off sz s = Inr (False, s)"
  using less_no_wrap [OF fits_no_wrap, of off sz m "m_size m"]
  by (simp add: apiBufferOverflowCheck_def andThen_def runs fits_def)

lemma mem_context:
  "carries_out cl contents ctx \<Longrightarrow> mem_info cl b CL_MEM_CONTEXT s = Inr (ctx, s)"
  by (simp add: mem_info_def clGetMemObjectInfo_def carries_outD(6, 9) query_def store_values_def check_cl_error_def
      read_val_def andThen_def)

lemma buffer_copy_run:
  assumes rt: "carries_out cl contents ctx"
    and "cl_mem_alloc s from = None" "cl_mem_alloc s to = Some c" "mobjs s c = Some mc" "fits dst n mc" "from \<noteq> to"
    and "unat src + unat n \<le> length (contents (world s) from)" "unat dst + unat n \<le> length (contents (world s) to)"
  shows "\<exists>e w. cl_buffer_copy cl q from to src dst n evs True s = Inr (Some e, s\<lparr>world := w\<rparr>)
    \<and> contents w = (contents (world s))
      (to := put_bytes (unat dst) (take (unat n) (drop (unat src) (contents (world s) from))) (contents (world s) to))"
proof -
  from carries_outD(1) [OF rt assms(6-8), of q evs] obtain e w where
    cmd: "rt_EnqueueCopyBuffer cl q from to src dst n evs (world s) = ((CL_SUCCESS, e), w)"
    and w: "contents w = (contents (world s))
      (to := put_bytes (unat dst) (take (unat n) (drop (unat src) (contents (world s) from))) (contents (world s) to))"
    by blast
  have fit: "both_fit (apiBufferOverflowCheck cl ''clEnqueueCopyBuffer'' from src n)
      (apiBufferOverflowCheck cl ''clEnqueueCopyBuffer'' to dst n) s = Inr (True, s)"
    by (simp add: both_fit_def andThen_def check_unknown(1) [OF assms(2)] known_fits [OF assms(3-5)])
  have "clEnqueueCopyBuffer cl q from to src dst n evs s = Inr ((CL_SUCCESS, Some e), s\<lparr>world := w\<rparr>)"
    unfolding clEnqueueCopyBuffer_def using carries_outD(7) [OF rt] fit cmd
    by (simp add: andThen_def call_def)
  then have "straight_buffer_copy cl q from to src dst n evs s = Inr (Some e, s\<lparr>world := w\<rparr>)"
    by (simp add: straight_buffer_copy_def andThen_def check_cl_error_def)
  then have "cl_buffer_copy cl q from to src dst n evs True s = Inr (Some e, s\<lparr>world := w\<rparr>)"
    unfolding cl_buffer_copy_def inner_buffer_copy_def choose_copy_def
    by (simp add: andThen_def mem_context [OF rt] query_def carries_outD(5) [OF rt] check_cl_error_def)
  with w show ?thesis by blast
qed

section \<open>Mending\<close>

lemma fill_buffer_run:
  assumes rt: "carries_out cl contents ctx" and "cl_mem_alloc s b = None"
    and "unat off + unat n \<le> length (contents (world s) b)"
  shows "\<exists>e w. clEnqueueFillBuffer cl q b [v] off n evs s = Inr ((CL_SUCCESS, Some e), s\<lparr>world := w\<rparr>)
    \<and> contents w = (contents (world s))(b := put_bytes (unat off) (replicate (unat n) v) (contents (world s) b))"
proof -
  from carries_outD(2) [OF rt assms(3), of q v evs] obtain e w where
    "rt_EnqueueFillBuffer cl q b [v] off n evs (world s) = ((CL_SUCCESS, e), w)"
    and w: "contents w = (contents (world s))(b := put_bytes (unat off) (replicate (unat n) v) (contents (world s) b))"
    by blast
  then have "clEnqueueFillBuffer cl q b [v] off n evs s = Inr ((CL_SUCCESS, Some e), s\<lparr>world := w\<rparr>)"
    unfolding clEnqueueFillBuffer_def using carries_outD(8) [OF rt] check_unknown(1) [OF assms(2)]
    by (simp add: andThen_def call_def)
  with w show ?thesis by blast
qed

text \<open>A buffer whose canaries are intact again, around the data it holds.\<close>

definition mended :: "u64 \<Rightarrow> u8 list \<Rightarrow> u8 list" where
  "mended sz arr = with_canaries (take (unat sz) (drop 4096 arr))"

lemma mended_fills:
  assumes "length arr = unat sz + 8192"
  shows "put_bytes 0 (poison_bytes 4096) (put_bytes (4096 + unat sz) (poison_bytes 4096) arr) = mended sz arr"
  using assms by (simp add: put_bytes_def mended_def with_canaries_def take_drop min_def add.commute)

lemma mend_run:
  assumes rt: "carries_out cl contents ctx" and b: "cl_mem_alloc s b = None"
    and sz: "unat sz + 4096 < 2 ^ 32" "length (contents (world s) b) = unat sz + 8192" and m: "m_main_buff m = b" "m_size m = sz"
  shows "\<exists>e w. mend_buffer cl q m evs s = Inr (e, s\<lparr>world := w\<rparr>)
    \<and> contents w = (contents (world s))(b := mended sz (contents (world s) b))"
proof -
  let ?n = "POISON_FILL_LENGTH :: u64" and ?off = "canary_offset sz" and ?arr = "contents (world s) b"
  have off: "unat ?off = 4096 + unat sz" by (rule unat_canary_offset [OF sz(1)])
  have n: "unat ?n = 4096" by (rule unat_poison_length)
  have fits: "unat ?off + unat ?n \<le> length ?arr" using off n sz(2) by simp
  from fill_buffer_run [OF rt b fits, of q POISON_FILL evs] off n obtain e1 w1 where
    f1: "clEnqueueFillBuffer cl q b [POISON_FILL] ?off ?n evs s = Inr ((CL_SUCCESS, Some e1), s\<lparr>world := w1\<rparr>)"
    and w1: "contents w1 = (contents (world s))(b := put_bytes (4096 + unat sz) (poison_bytes 4096) ?arr)"
    by (auto simp: poison_bytes_def)
  let ?s1 = "s\<lparr>world := w1\<rparr>"
  have len: "length (put_bytes (4096 + unat sz) (poison_bytes 4096) ?arr) = unat sz + 8192"
    using sz(2) by (simp add: length_put_bytes poison_bytes_def)
  then have "unat (0 :: u64) + unat ?n \<le> length (contents (world ?s1) b)" using w1 n by simp
  moreover have "cl_mem_alloc ?s1 b = None" using b by simp
  ultimately obtain e2 w2 where
    f2: "clEnqueueFillBuffer cl q b [POISON_FILL] 0 ?n evs ?s1 = Inr ((CL_SUCCESS, Some e2), ?s1\<lparr>world := w2\<rparr>)"
    and "contents w2 = (contents w1)(b := put_bytes 0 (poison_bytes 4096) (contents w1 b))"
    using fill_buffer_run [OF rt, of ?s1 b 0 ?n q POISON_FILL evs] n by (auto simp: poison_bytes_def)
  then have w2: "contents w2 = (contents (world s))(b := mended sz ?arr)"
    using w1 mended_fills [OF sz(2)] by simp
  from carries_outD(3) [OF rt, of q "[e1, e2]" w2] obtain err e w where
    "rt_EnqueueMarkerWithWaitList cl q [e1, e2] w2 = ((err, e), w)" and w: "contents w = contents w2"
    by blast
  then have "mend_buffer cl q m evs s = Inr (e, s\<lparr>world := w\<rparr>)"
    unfolding mend_buffer_def m using f1 f2
    by (simp add: andThen_def check_cl_error_def written_event_def call_def)
  with w w2 show ?thesis by metis
qed

text \<open>Mending goes through the cached queue of the buffer's context; the events need no conversion.\<close>

lemma mend_this_run:
  assumes rt: "carries_out cl contents ctx" and q: "cmd_queue_cache s ctx = Some qc" and kill: "get_error_envvar (environ s) = 0"
    and m: "cl_mem_alloc s h = Some a" "mobjs s a = Some m" "m_context m = ctx" "\<not> m_is_image m"
    and g: "guarded (contents (world s)) s m"
  shows "\<exists>e w. mend_this_canary cl ctx q h copied s = Inr (e, s\<lparr>world := w\<rparr>)
    \<and> contents w = (contents (world s))(m_main_buff m := mended (m_size m) (contents (world s) (m_main_buff m)))"
proof -
  from g have b: "cl_mem_alloc s (m_main_buff m) = None" "unat (m_size m) + 4096 < 2 ^ 32"
    "length (contents (world s) (m_main_buff m)) = unat (m_size m) + 8192" by (simp_all add: guarded_def)
  from mend_run [OF rt b refl refl, of "qc_cached_queue qc" "[copied]"] obtain e w where
    mend: "mend_buffer cl (qc_cached_queue qc) m [copied] s = Inr (e, s\<lparr>world := w\<rparr>)"
    and w: "contents w = (contents (world s))(m_main_buff m := mended (m_size m) (contents (world s) (m_main_buff m)))"
    by blast
  have conv: "convertEvent cl ctx ev t = Inr (ev, t)" for ev t
    by (simp add: convertEvent_def carries_outD(4) [OF rt] query_def andThen_def)
  have "lookup_mobj h s = Inr (Some (a, m), s)"
    using m by (simp add: lookup_mobj_def cl_mem_find_def unomap_find_def get_mobj_def andThen_def)
  then have "mendCanaryRegion cl q h False [copied] True s = Inr (Some e, s\<lparr>world := w\<rparr>)"
    unfolding mendCanaryRegion_def using m mend
    by (simp add: andThen_def cached_queue [OF q] convertEvents_def conv query_def carries_outD(5) [OF rt])
  then have "mend_this_canary cl ctx q h copied s = Inr (e, s\<lparr>world := w\<rparr>)"
    by (simp add: mend_this_canary_def kill andThen_def written_event_def)
  with w show ?thesis by blast
qed

section \<open>One buffer\<close>

lemma copy_offsets:
  assumes "8192 * Suc i < 2 ^ 32"
  shows "unat (ucast (of_nat i * POISON_REGIONS * POISON_FILL_LENGTH :: u32) :: u64) = 8192 * i"
    and "unat (ucast ((of_nat i * POISON_REGIONS + 1) * POISON_FILL_LENGTH :: u32) :: u64) = 8192 * i + 4096"
proof -
  have a: "of_nat i * POISON_REGIONS * POISON_FILL_LENGTH = (of_nat (8192 * i) :: u32)"
    and b: "(of_nat i * POISON_REGIONS + 1) * POISON_FILL_LENGTH = (of_nat (8192 * i + 4096) :: u32)"
    by (simp_all add: POISON_REGIONS_def POISON_FILL_LENGTH_def algebra_simps)
  have conv: "unat (ucast (of_nat k :: u32) :: u64) = k" if "k < 2 ^ 32" for k
    using that by (simp add: unat_ucast_wider unat_of_nat_eq)
  show "unat (ucast (of_nat i * POISON_REGIONS * POISON_FILL_LENGTH :: u32) :: u64) = 8192 * i"
    unfolding a by (rule conv) (use assms in simp)
  show "unat (ucast ((of_nat i * POISON_REGIONS + 1) * POISON_FILL_LENGTH :: u32) :: u64) = 8192 * i + 4096"
    unfolding b by (rule conv) (use assms in simp)
qed

lemma put_put:
  "off + length xs + length ys \<le> length arr \<Longrightarrow>
    put_bytes (off + length xs) ys (put_bytes off xs arr) = put_bytes off (xs @ ys) arr"
  by (simp add: put_bytes_def ac_simps)

text \<open>The contents after buffer \<open>i\<close> has been copied to its place among the copies, and mended.\<close>

definition copied_and_mended :: "cl_mem \<Rightarrow> nat \<times> cl_memobj \<Rightarrow> (cl_mem \<Rightarrow> u8 list) \<Rightarrow> cl_mem \<Rightarrow> u8 list" where
  "copied_and_mended copies im held = (case im of (i, m) \<Rightarrow>
     held(copies := put_bytes (8192 * i) (canary_view (m_size m) (held (m_main_buff m))) (held copies),
       m_main_buff m := mended (m_size m) (held (m_main_buff m))))"

definition room_for_copies :: "(cl_mem \<Rightarrow> u8 list) \<Rightarrow> 'w det \<Rightarrow> cl_mem \<Rightarrow> nat \<Rightarrow> bool" where
  "room_for_copies held s copies n \<longleftrightarrow> 8192 * n < 2 ^ 32 \<and> 8192 * n \<le> length (held copies)
    \<and> (\<exists>c mc. cl_mem_alloc s copies = Some c \<and> mobjs s c = Some mc \<and> 8192 * n \<le> unat (m_size mc))"

lemma copy_one_run:
  assumes rt: "carries_out cl contents ctx" and q: "cmd_queue_cache s ctx = Some qc" and kill: "get_error_envvar (environ s) = 0"
    and m: "cl_mem_alloc s h = Some a" "mobjs s a = Some m" "m_handle m = h" "m_context m = ctx" "\<not> m_is_image m"
    and g: "guarded (contents (world s)) s m" and room: "room_for_copies (contents (world s)) s copies n" "i < n"
  shows "\<exists>evs w. copy_clmem_canaries cl ctx q copies evt (of_nat i, h) s = Inr (evs, s\<lparr>world := w\<rparr>)
    \<and> contents w = copied_and_mended copies (i, m) (contents (world s))"
proof -
  let ?b = "m_main_buff m" and ?held = "contents (world s)" and ?n = "POISON_FILL_LENGTH :: u64"
  let ?dst0 = "ucast (of_nat i * POISON_REGIONS * POISON_FILL_LENGTH :: u32) :: u64"
    and ?dst1 = "ucast ((of_nat i * POISON_REGIONS + 1) * POISON_FILL_LENGTH :: u32) :: u64"
  let ?first = "take 4096 (?held ?b)" and ?second = "take 4096 (drop (4096 + unat (m_size m)) (?held ?b))"
  from g have b: "cl_mem_alloc s ?b = None" and sz: "unat (m_size m) + 4096 < 2 ^ 32" "length (?held ?b) = unat (m_size m) + 8192"
    by (simp_all add: guarded_def)
  from room(1) obtain c mc where c: "cl_mem_alloc s copies = Some c" "mobjs s c = Some mc" and "8192 * n \<le> unat (m_size mc)"
    and "8192 * n \<le> length (?held copies)" "8192 * n < 2 ^ 32"
    unfolding room_for_copies_def by blast
  moreover have "8192 * Suc i \<le> 8192 * n" using room(2) by simp
  ultimately have size: "8192 * Suc i \<le> unat (m_size mc)" and len: "8192 * Suc i \<le> length (?held copies)"
    and bound: "8192 * Suc i < 2 ^ 32" by linarith+
  have n: "unat ?n = 4096" by (rule unat_poison_length)
  have off: "unat (canary_offset (m_size m)) = 4096 + unat (m_size m)" by (rule unat_canary_offset [OF sz(1)])
  note dst = copy_offsets [OF bound]
  have ne: "?b \<noteq> copies" using b c(1) by auto
  have fits: "fits ?dst0 ?n mc" "fits ?dst1 ?n mc" using size dst n by (simp_all add: fits_def)
  have "unat (0 :: u64) + unat ?n \<le> length (?held ?b)" "unat ?dst0 + unat ?n \<le> length (?held copies)"
    using sz(2) len dst n by simp_all
  from buffer_copy_run [OF rt b c(1, 2) fits(1) ne this, of q "[evt]"] dst n obtain e0 w0 where
    r0: "cl_buffer_copy cl q ?b copies 0 ?dst0 ?n [evt] True s = Inr (Some e0, s\<lparr>world := w0\<rparr>)"
    and w0: "contents w0 = ?held(copies := put_bytes (8192 * i) ?first (?held copies))" by auto
  let ?s0 = "s\<lparr>world := w0\<rparr>"
  have s0: "cl_mem_alloc ?s0 ?b = None" "cl_mem_alloc ?s0 copies = Some c" "mobjs ?s0 c = Some mc"
    using b c by simp_all
  have "unat (canary_offset (m_size m)) + unat ?n \<le> length (contents (world ?s0) ?b)"
    "unat ?dst1 + unat ?n \<le> length (contents (world ?s0) copies)"
    using sz(2) len dst n off w0 ne by (simp_all add: length_put_bytes)
  from buffer_copy_run [OF rt s0 fits(2) ne this, of q "[evt]"] obtain e1 w1 where
    r1: "cl_buffer_copy cl q ?b copies (canary_offset (m_size m)) ?dst1 ?n [evt] True ?s0 = Inr (Some e1, ?s0\<lparr>world := w1\<rparr>)"
    and "contents w1 = (contents (world ?s0))(copies := put_bytes (unat ?dst1)
      (take (unat ?n) (drop (unat (canary_offset (m_size m))) (contents (world ?s0) ?b))) (contents (world ?s0) copies))"
    by blast
  then have "contents w1 = (contents w0)(copies := put_bytes (8192 * i + 4096) ?second (contents w0 copies))"
    using dst n off w0 ne by simp
  moreover have "put_bytes (8192 * i + 4096) ?second (put_bytes (8192 * i) ?first (?held copies)) =
      put_bytes (8192 * i) (canary_view (m_size m) (?held ?b)) (?held copies)"
    using put_put [of "8192 * i" ?first ?second "?held copies"] sz(2) len off by (simp add: canary_view_def)
  ultimately have w1: "contents w1 = ?held(copies := put_bytes (8192 * i) (canary_view (m_size m) (?held ?b)) (?held copies))"
    using w0 by simp
  from carries_outD(3) [OF rt, of q "[e0, e1]" w1] obtain err e2 w2 where
    r2: "rt_EnqueueMarkerWithWaitList cl q [e0, e1] w1 = ((err, e2), w2)" and w2: "contents w2 = contents w1" by blast
  let ?s2 = "s\<lparr>world := w2\<rparr>"
  have "cmd_queue_cache ?s2 ctx = Some qc" "get_error_envvar (environ ?s2) = 0" "cl_mem_alloc ?s2 h = Some a"
    "mobjs ?s2 a = Some m" "guarded (contents (world ?s2)) ?s2 m"
    using q kill m g w1 w2 ne by (simp_all add: guarded_def)
  from mend_this_run [OF rt this(1-4) m(4, 5) this(5), of q e2] obtain e3 w3 where
    r3: "mend_this_canary cl ctx q h e2 ?s2 = Inr (e3, s\<lparr>world := w3\<rparr>)"
    and "contents w3 = (contents w2)(?b := mended (m_size m) (contents w2 ?b))" by auto
  then have w3: "contents w3 = copied_and_mended copies (i, m) ?held"
    using w1 w2 ne by (simp add: copied_and_mended_def)
  have "found_mobj h s = Inr (m, s)"
    using m by (simp add: found_mobj_def lookup_mobj_def cl_mem_find_def unomap_find_def get_mobj_def andThen_def)
  then have "copy_clmem_canaries cl ctx q copies evt (of_nat i, h) s = Inr (([e0, e1], e3), s\<lparr>world := w3\<rparr>)"
    unfolding copy_clmem_canaries_def using r0 r1 r2 r3 m(3) by (simp add: andThen_def call_def)
  with w3 show ?thesis by blast
qed

section \<open>All buffers\<close>

text \<open>Buffers of the application in one context, each with a main buffer of its own.\<close>

definition buffers_of :: "cl_context \<Rightarrow> cl_memobj list \<Rightarrow> bool" where
  "buffers_of ctx ms \<longleftrightarrow> (\<forall>m \<in> set ms. m_context m = ctx \<and> \<not> m_is_image m) \<and> distinct (map m_main_buff ms)"

abbreviation view :: "(cl_mem \<Rightarrow> u8 list) \<Rightarrow> cl_memobj \<Rightarrow> u8 list" where
  "view held m \<equiv> canary_view (m_size m) (held (m_main_buff m))"

text \<open>The contents after the check: the canaries among the copies from \<open>i\<close> on, and poison in the buffers.\<close>

definition canaries_copied :: "cl_mem \<Rightarrow> nat \<Rightarrow> cl_memobj list \<Rightarrow> (cl_mem \<Rightarrow> u8 list) \<Rightarrow> (cl_mem \<Rightarrow> u8 list) \<Rightarrow> bool" where
  "canaries_copied copies i ms held held' \<longleftrightarrow>
     held' copies = put_bytes (8192 * i) (concat (map (view held) ms)) (held copies)
   \<and> (\<forall>m \<in> set ms. held' (m_main_buff m) = mended (m_size m) (held (m_main_buff m)))
   \<and> (\<forall>b. b \<noteq> copies \<and> b \<notin> m_main_buff ` set ms \<longrightarrow> held' b = held b)"

lemma length_views: "\<forall>m \<in> set ms. guarded held s m \<Longrightarrow> length (concat (map (view held) ms)) = 8192 * length ms"
  by (induction ms) (simp_all add: guarded_def length_canary_view)

lemma canaries_copied_Cons:
  assumes one: "held1 = copied_and_mended copies (i, m) held" and rest: "canaries_copied copies (Suc i) ms held1 held'"
    and g: "\<forall>x \<in> set (m # ms). guarded held s x" and d: "distinct (map m_main_buff (m # ms))"
      "copies \<notin> m_main_buff ` set (m # ms)" and room: "8192 * (i + length (m # ms)) \<le> length (held copies)"
  shows "canaries_copied copies i (m # ms) held held'"
proof -
  have same: "held1 (m_main_buff x) = held (m_main_buff x)" if "x \<in> set ms" for x
    using imageI [OF that, of m_main_buff] d by (auto simp: one copied_and_mended_def)
  then have views: "map (view held1) ms = map (view held) ms" by simp
  have ne: "m_main_buff m \<noteq> copies" using d(2) by auto
  have c1: "held1 copies = put_bytes (8192 * i) (view held m) (held copies)"
    and m1: "held1 (m_main_buff m) = mended (m_size m) (held (m_main_buff m))"
    using ne by (simp_all add: one copied_and_mended_def)
  have "length (view held m) = 8192" using g by (simp add: guarded_def length_canary_view)
  then have "held' copies = put_bytes (8192 * i) (view held m @ concat (map (view held) ms)) (held copies)"
    using rest room put_put [of "8192 * i" "view held m" "concat (map (view held) ms)" "held copies"]
      length_views [of ms held s] g
    unfolding canaries_copied_def views c1 by (simp add: add.commute)
  moreover have "held' (m_main_buff m) = mended (m_size m) (held (m_main_buff m))"
    using rest ne d(1) m1 unfolding canaries_copied_def by (simp add: image_iff)
  moreover have "\<forall>x \<in> set ms. held' (m_main_buff x) = mended (m_size x) (held (m_main_buff x))"
    using rest same unfolding canaries_copied_def by simp
  moreover have "held' b = held b" if "b \<noteq> copies" "b \<notin> m_main_buff ` set (m # ms)" for b
    using rest that unfolding canaries_copied_def by (simp add: one copied_and_mended_def)
  ultimately show ?thesis unfolding canaries_copied_def by simp
qed

lemma copy_all_run:
  assumes rt: "carries_out cl contents ctx" and "cmd_queue_cache s ctx = Some qc" "get_error_envvar (environ s) = 0"
    and "mobjs_of s hs ms" "\<forall>m \<in> set ms. guarded (contents (world s)) s m" "buffers_of ctx ms"
    and "room_for_copies (contents (world s)) s copies (i + length ms)"
  shows "\<exists>evs w. mapM (copy_clmem_canaries cl ctx q copies evt) (zip (map of_nat [i..<i + length ms]) hs) s =
      Inr (evs, s\<lparr>world := w\<rparr>) \<and> canaries_copied copies i ms (contents (world s)) (contents w)"
  using assms(2-)
proof (induction ms arbitrary: hs s i rule: list.induct)
  case Nil
  then have "hs = []" by (simp add: mobjs_of_def)
  then show ?case
    by (intro exI [of _ "[]"] exI [of _ "world s"]) (simp add: canaries_copied_def put_bytes_def)
next
  case (Cons m ms)
  let ?held = "contents (world s)"
  from Cons.prems(3) obtain h rest a where hs: "hs = h # rest" and m: "cl_mem_alloc s h = Some a" "mobjs s a = Some m" "m_handle m = h"
    and rest: "mobjs_of s rest ms"
    unfolding mobjs_of_def list_all2_Cons2 by blast
  have "m_context m = ctx" "\<not> m_is_image m" "guarded ?held s m" "i < i + length (m # ms)"
    using Cons.prems(4, 5) by (simp_all add: buffers_of_def)
  from copy_one_run [OF rt Cons.prems(1, 2) m this(1-3) Cons.prems(6) this(4), of q evt] obtain e w where
    one: "copy_clmem_canaries cl ctx q copies evt (of_nat i, h) s = Inr (e, s\<lparr>world := w\<rparr>)"
    and w: "contents w = copied_and_mended copies (i, m) ?held" by blast
  let ?s = "s\<lparr>world := w\<rparr>"
  from Cons.prems(6) obtain c where c: "cl_mem_alloc s copies = Some c" unfolding room_for_copies_def by blast
  have d: "distinct (map m_main_buff (m # ms))" "copies \<notin> m_main_buff ` set (m # ms)"
    using Cons.prems(4, 5) c unfolding buffers_of_def guarded_def by auto
  have room: "8192 * (i + length (m # ms)) \<le> length (?held copies)"
    using Cons.prems(6) unfolding room_for_copies_def by blast
  have same: "contents w (m_main_buff x) = ?held (m_main_buff x)" if "x \<in> set ms" for x
    using imageI [OF that, of m_main_buff] d by (auto simp: w copied_and_mended_def)
  have "length (view ?held m) = 8192" using Cons.prems(4) by (simp add: guarded_def length_canary_view)
  then have len: "length (contents w copies) = length (?held copies)"
    using room d(2) by (auto simp: w copied_and_mended_def length_put_bytes)
  have "cmd_queue_cache ?s ctx = Some qc" "get_error_envvar (environ ?s) = 0" "mobjs_of ?s rest ms"
    "\<forall>x \<in> set ms. guarded (contents (world ?s)) ?s x" "buffers_of ctx ms"
    using Cons.prems rest same by (simp_all add: mobjs_of_def guarded_def buffers_of_def)
  moreover have "room_for_copies (contents (world ?s)) ?s copies (Suc i + length ms)"
    using Cons.prems(6) len unfolding room_for_copies_def by simp
  ultimately obtain evs w' where
    tail: "mapM (copy_clmem_canaries cl ctx q copies evt) (zip (map of_nat [Suc i..<Suc i + length ms]) rest) ?s =
        Inr (evs, ?s\<lparr>world := w'\<rparr>)"
    and w': "canaries_copied copies (Suc i) ms (contents w) (contents w')"
    using Cons.IH [of ?s rest "Suc i"] by auto
  have zip: "zip (map of_nat [i..<i + length (m # ms)]) hs =
      (of_nat i, h) # zip (map of_nat [Suc i..<Suc i + length ms]) rest"
    by (simp add: hs upt_conv_Cons del: upt_Suc)
  have "mapM (copy_clmem_canaries cl ctx q copies evt) (zip (map of_nat [i..<i + length (m # ms)]) hs) s =
      Inr (e # evs, s\<lparr>world := w'\<rparr>)"
    unfolding zip using one tail by (simp add: andThen_def)
  moreover have "canaries_copied copies i (m # ms) ?held (contents w')"
    by (rule canaries_copied_Cons [OF w w' Cons.prems(4) d room])
  ultimately show ?case by blast
qed

section \<open>With the buffer of copies\<close>

text \<open>The runtime creates a buffer for \<open>n\<close> copies that is none of the given ones, and leaves the others alone.\<close>

definition creates_copies ::
  "'w ocl \<Rightarrow> ('w \<Rightarrow> cl_mem \<Rightarrow> u8 list) \<Rightarrow> cl_context \<Rightarrow> cl_memobj list \<Rightarrow> 'w det \<Rightarrow> cl_mem \<Rightarrow> bool" where
  "creates_copies cl contents ctx ms s copies \<longleftrightarrow> (\<exists>main w.
     creates_buffer cl ctx (runtime_flags {}) (ucast (canary_bytes (of_nat (length ms))))
       (initial_bytes s {} 0 (ucast (canary_bytes (of_nat (length ms))))) main copies (world s) w
   \<and> (\<forall>m \<in> set ms. contents w (m_main_buff m) = contents (world s) (m_main_buff m))
   \<and> length (contents w copies) = 8192 * length ms)
   \<and> cl_mem_alloc s copies = None \<and> mobjs s (next_obj s) = None \<and> copies \<notin> m_main_buff ` set ms
   \<and> loaded cl ''clCreateBuffer'' \<and> loaded cl ''clCreateSubBuffer'' \<and> (\<forall>n. calloc_ok cl n)"

lemma created_fields:
  "environ (created cl ctx flags sz main r w s) = environ s"
  "cmd_queue_cache (created cl ctx flags sz main r w s) = cmd_queue_cache s"
  "world (created cl ctx flags sz main r w s) = w"
  "cl_mem_alloc (created cl ctx flags sz main r w s) = (cl_mem_alloc s)(r \<mapsto> next_obj s)"
  "mobjs (created cl ctx flags sz main r w s) = (mobjs s)(next_obj s \<mapsto> new_buffer ctx flags sz main r)"
  by (simp_all add: created_def after_buffer_def)

lemma create_copies_run:
  assumes rt: "carries_out cl contents ctx" "creates_copies cl contents ctx ms s copies"
    and s: "cmd_queue_cache s ctx = Some qc" "get_error_envvar (environ s) = 0"
    and ms: "mobjs_of s hs ms" "\<forall>m \<in> set ms. guarded (contents (world s)) s m" "buffers_of ctx ms"
    and n: "ms \<noteq> []" "8192 * length ms + 4096 < 2 ^ 32"
  shows "\<exists>evs t. create_clmem_copies cl ctx q hs evt s = Inr ((copies, evs), t)
    \<and> contents (world t) copies = concat (map (view (contents (world s))) ms)
    \<and> (\<forall>m \<in> set ms. contents (world t) (m_main_buff m) = mended (m_size m) (contents (world s) (m_main_buff m)))"
proof -
  let ?n = "length ms" and ?sz = "ucast (canary_bytes (of_nat (length ms))) :: u64" and ?held = "contents (world s)"
  have len: "length hs = ?n" using ms(1) by (simp add: mobjs_of_def list_all2_lengthD)
  have "canary_bytes (of_nat ?n) = of_nat (8192 * ?n)"
    by (simp add: canary_bytes_def POISON_REGIONS_def POISON_FILL_LENGTH_def)
  then have sz: "unat ?sz = 8192 * ?n" using n(2) by (simp add: unat_ucast_wider unat_of_nat_eq del: of_nat_mult)
  from rt(2) obtain main w where create: "creates_buffer cl ctx (runtime_flags {}) ?sz (initial_bytes s {} 0 ?sz) main copies (world s) w"
    and w: "\<And>m. m \<in> set ms \<Longrightarrow> contents w (m_main_buff m) = ?held (m_main_buff m)" "length (contents w copies) = 8192 * ?n"
    and fresh: "cl_mem_alloc s copies = None" "mobjs s (next_obj s) = None" "copies \<notin> m_main_buff ` set ms"
    and load: "loaded cl ''clCreateBuffer''" "loaded cl ''clCreateSubBuffer''" "\<And>n. calloc_ok cl n"
    unfolding creates_copies_def by blast
  have "?sz \<noteq> 0" using sz n(1) by (metis length_0_conv mult_is_0 unat_0 zero_neq_numeral)
  moreover have "unat ?sz + 4096 < 2 ^ 32" using sz n(2) by simp
  ultimately have made: "clCreateBuffer cl ctx {} ?sz 0 (Some CL_SUCCESS) s =
      Inr ((copies, set_err (Some CL_SUCCESS) CL_SUCCESS), created cl ctx (runtime_flags {}) ?sz main copies w s)"
    by (intro clCreateBuffer_run load create fresh) simp_all
  obtain s1 where s1: "s1 = created cl ctx (runtime_flags {}) ?sz main copies w s" by simp
  note fields = created_fields [of cl ctx "runtime_flags {}" ?sz main copies w s, folded s1]
  have g: "guarded (contents (world s1)) s1 m" if m: "m \<in> set ms" for m
  proof -
    have "m_main_buff m \<noteq> copies" using fresh(3) m by blast
    then show ?thesis using ms(2) m w(1) [OF m] by (simp add: guarded_def fields)
  qed
  have objs: "mobjs_of s1 hs ms"
    using ms(1) fresh unfolding mobjs_of_def fields by (elim list.rel_mono_strong) auto
  have room: "room_for_copies (contents (world s1)) s1 copies (0 + ?n)"
    using n(2) w(2) sz by (simp add: room_for_copies_def fields new_buffer_def)
  have "cmd_queue_cache s1 ctx = Some qc" "get_error_envvar (environ s1) = 0" using s by (simp_all add: fields)
  from copy_all_run [OF rt(1) this objs _ ms(3) room, of q evt] g obtain evs w' where
    loop: "mapM (copy_clmem_canaries cl ctx q copies evt) (zip (map of_nat [0..<0 + ?n]) hs) s1 = Inr (evs, s1\<lparr>world := w'\<rparr>)"
    and w': "canaries_copied copies 0 ms (contents w) (contents w')"
    using fields by auto
  have up: "upto32 (of_nat (length hs)) = map of_nat [0..<0 + ?n]"
    using n(2) len by (simp add: upto32_def unat_of_nat_eq)
  have "create_clmem_copies cl ctx q hs evt s = Inr ((copies, evs), s1\<lparr>world := w'\<rparr>)"
    unfolding create_clmem_copies_def up using made loop
    by (simp add: andThen_def check_cl_error_def set_err_def len s1)
  moreover have "contents w' copies = concat (map (view ?held) ms)"
  proof -
    have views: "map (view (contents w)) ms = map (view ?held) ms" using w(1) by simp
    have "length (concat (map (view ?held) ms)) = 8192 * ?n" by (rule length_views [OF ms(2)])
    with w' w(2) views show ?thesis by (simp add: canaries_copied_def put_bytes_def)
  qed
  moreover have "\<forall>m \<in> set ms. contents w' (m_main_buff m) = mended (m_size m) (?held (m_main_buff m))"
    using w' w(1) by (simp add: canaries_copied_def)
  ultimately show ?thesis by (intro exI [of _ evs] exI [of _ "s1\<lparr>world := w'\<rparr>"]) simp
qed

text \<open>
  C3: After \<open>create_clmem_copies\<close> the buffer of copies holds the canaries of all buffers as they were
  before, 8192 bytes for each buffer in the order of the list, and nothing else; and every buffer holds its
  own data again between two intact canaries. The runtime carries out the commands in the order of the
  calls.
\<close>

theorem device_copies_hold_canaries:
  assumes "carries_out cl contents ctx" "creates_copies cl contents ctx ms s copies"
    and "cmd_queue_cache s ctx = Some qc" "get_error_envvar (environ s) = 0"
    and "mobjs_of s hs ms" "\<forall>m \<in> set ms. guarded (contents (world s)) s m" "buffers_of ctx ms"
    and "ms \<noteq> []" "8192 * length ms + 4096 < 2 ^ 32"
  shows "\<exists>evs t. create_clmem_copies cl ctx q hs evt s = Inr ((copies, evs), t)
    \<and> contents (world t) copies =
        concat (map (\<lambda>m. canary_view (m_size m) (contents (world s) (m_main_buff m))) ms)
    \<and> (\<forall>m \<in> set ms. contents (world t) (m_main_buff m) =
        with_canaries (take (unat (m_size m)) (drop 4096 (contents (world s) (m_main_buff m)))))"
  using create_copies_run [OF assms] by (simp only: mended_def)

text \<open>
  A runtime whose state is what the buffers hold; new buffers are 8 and, within it, 9. The only buffer of
  the application is 5, of 3 bytes, in the main buffer 6, which has been filled with zeros.
\<close>

definition memory_runtime :: "(cl_mem \<Rightarrow> u8 list) ocl \<Rightarrow> (cl_mem \<Rightarrow> u8 list) ocl" where
  "memory_runtime cl = cl\<lparr>loaded := \<lambda>_. True, calloc_ok := \<lambda>_. True,
     rt_CreateBuffer := \<lambda>context flags sz p w. ((8, CL_SUCCESS), w(8 := replicate (unat sz) 0)),
     rt_CreateSubBuffer := \<lambda>b flags t region w. ((9, CL_SUCCESS), w(9 := replicate (unat (br_size region)) 0)),
     q_context_devices := \<lambda>context w. (CL_SUCCESS, [1]), q_device_platform := \<lambda>d w. (CL_SUCCESS, 1),
     q_platform_name := \<lambda>p w. (CL_SUCCESS, ''AMD''),
     rt_EnqueueCopyBuffer := \<lambda>q from to src dst n evs w. ((CL_SUCCESS, 1),
       w(to := put_bytes (unat dst) (take (unat n) (drop (unat src) (w from))) (w to))),
     rt_EnqueueFillBuffer := \<lambda>q b pattern off n evs w. ((CL_SUCCESS, 1),
       w(b := put_bytes (unat off) (replicate (unat n) (hd pattern)) (w b))),
     rt_EnqueueMarkerWithWaitList := \<lambda>q evs w. ((CL_SUCCESS, 1), w),
     q_event_context := \<lambda>e w. 3, q_queue_context := \<lambda>q w. (CL_SUCCESS, 3),
     rt_GetMemObjectInfo := \<lambda>b param w. (CL_SUCCESS, [3])\<rparr>"

definition overwritten :: cl_memobj where
  "overwritten = zero_memobj\<lparr>m_handle := 5, m_main_buff := 6, m_size := 3, m_context := 3, m_has_canary := True\<rparr>"

definition overwritten_state :: "(cl_mem \<Rightarrow> u8 list) det" where
  "overwritten_state = (initial_state (\<lambda>_. replicate 8195 0) Map.empty (\<lambda>_. 0) 0)
    \<lparr>cl_mem_alloc := [5 \<mapsto> 0], mobjs := [0 \<mapsto> overwritten], next_obj := 1, kern_list := [(7, one_arg_kernel)],
      cmd_queue_cache := [3 \<mapsto> \<lparr>qc_handle = 3, qc_cached_queue = 9, qc_ref_count = 1\<rparr>]\<rparr>"

lemma overwritten_facts:
  "carries_out (memory_runtime cl) (\<lambda>w. w) 3"
  "creates_copies (memory_runtime cl) (\<lambda>w. w) 3 [overwritten] overwritten_state 9"
  "cmd_queue_cache overwritten_state 3 = Some \<lparr>qc_handle = 3, qc_cached_queue = 9, qc_ref_count = 1\<rparr>"
  "get_error_envvar (environ overwritten_state) = 0"
  "mobjs_of overwritten_state [5] [overwritten]"
  "\<forall>m \<in> set [overwritten]. guarded (world overwritten_state) overwritten_state m"
  "buffers_of 3 [overwritten]"
proof -
  show "carries_out (memory_runtime cl) (\<lambda>w. w) 3"
    by (simp add: carries_out_def memory_runtime_def)
  show "creates_copies (memory_runtime cl) (\<lambda>w. w) 3 [overwritten] overwritten_state 9"
    unfolding creates_copies_def creates_buffer_def other_platform_def
    by (intro conjI exI [of _ 8] exI [of _ "(world overwritten_state)(8 := replicate 16384 0, 9 := replicate 8192 0)"])
      (simp_all add: memory_runtime_def overwritten_state_def overwritten_def initial_state_def zero_memobj_def
        canary_bytes_def poison_defs)
qed (simp_all add: overwritten_state_def overwritten_def initial_state_def zero_memobj_def mobjs_of_def guarded_def
    buffers_of_def get_error_envvar_def)

theorem device_copies_hold_canaries_witness:
  "\<forall>cl. \<exists>evs t. create_clmem_copies (memory_runtime cl) 3 1 [5] 2 overwritten_state = Inr ((9, evs), t)
    \<and> world t 9 = replicate 8192 0 \<and> world t 6 = with_canaries [0, 0, 0]"
proof
  fix cl
  have size: "unat (m_size overwritten) = 3" by (simp add: overwritten_def)
  then have "canary_view (m_size overwritten) (replicate 8195 0) = replicate 8192 0"
    by (simp add: canary_view_def unat_canary_offset flip: replicate_add)
  moreover have "take (unat (m_size overwritten)) (drop 4096 (replicate 8195 0)) = [0, 0, 0 :: u8]"
  proof -
    have "take (unat (m_size overwritten)) (drop 4096 (replicate 8195 0)) = replicate 3 (0 :: u8)"
      unfolding size by simp
    then show ?thesis by (simp only: numeral_3_eq_3 replicate.simps)
  qed
  moreover note device_copies_hold_canaries [OF overwritten_facts, of cl 1 2]
  ultimately show "\<exists>evs t. create_clmem_copies (memory_runtime cl) 3 1 [5] 2 overwritten_state = Inr ((9, evs), t)
      \<and> world t 9 = replicate 8192 0 \<and> world t 6 = with_canaries [0, 0, 0]"
    by (simp add: overwritten_state_def initial_state_def) (simp add: overwritten_def)
qed

section \<open>The whole check on the device\<close>

lemma nth_views:
  assumes "\<forall>m \<in> set ms. length (f m) = 8192" and "i < 8192" and "b < length ms"
  shows "concat (map f ms) ! (8192 * b + i) = f (ms ! b) ! i"
  using assms
proof (induction ms arbitrary: b)
  case (Cons m ms)
  show ?case
  proof (cases b)
    case 0
    with Cons.prems show ?thesis by (simp add: nth_append)
  next
    case (Suc c)
    then have "concat (map f (m # ms)) ! (8192 * b + i) = concat (map f ms) ! (8192 * c + i)"
      using Cons.prems by (simp add: nth_append)
    with Cons Suc show ?thesis by simp
  qed
qed simp

text \<open>
  C2: The check of buffers on the device is exact. The canaries of the buffers are copied; the
  checker kernel runs over the copies, its items in any order; its results are what the callback of the
  check finds. Then the messages the callback adds announce an overflow if and only if the contents of
  some buffer were not data between two intact canaries when they were copied.
\<close>

theorem device_launch_reports:
  assumes rt: "carries_out cl contents ctx" "creates_copies cl contents ctx ms s copies"
    and s: "cmd_queue_cache s ctx = Some qc" "get_error_envvar (environ s) = 0"
    and ms: "mobjs_of s hs ms" "\<forall>m \<in> set ms. guarded (contents (world s)) s m" "buffers_of ctx ms"
    and n: "ms \<noteq> []" "length ms < 2 ^ 17"
    and copied: "create_clmem_copies cl ctx q hs evt s = Inr ((copies, evs), t)"
    and memory: "\<forall>i < 8192 * length ms. m (B + of_nat i) = contents (world t) copies ! i"
    and run: "run_findCorruptionNoSVM L G (POISON_REGIONS * poisonWordLen)
      (of_nat (length ms) * POISON_REGIONS * poisonWordLen) (of_nat (length ms) * POISON_REGIONS * poisonWordLen)
      POISON_FILL_32B B (dev_start m (replicate (length ms) no_change)) d"
    and groups: "2048 * length ms \<le> G" "G < 2 ^ 32" "0 < L" "L dvd 2048"
    and callback: "k < length (check_callbacks u)" "check_callbacks u ! k = Verify_callback e data"
      "map_find (kern_list u) (vi_kern_info data) = Some ki"
      "change_arrays u (vi_first_change data) = Some (d_first d)" "length (vi_argMap data) = length ms"
  shows "Overflow_detected \<in> set (drop (length (err_out u)) (err_out (final (run_checker_callback cl k u))))
    \<longleftrightarrow> (\<exists>m \<in> set ms. \<not> intact (contents (world s)) m)"
proof -
  let ?n = "length ms" and ?held = "contents (world s)"
  have "8192 * ?n + 4096 < 2 ^ 32" using n(2) by simp
  from create_copies_run [OF rt s ms n(1) this, of q evt] copied
  have copies: "contents (world t) copies = concat (map (view ?held) ms)" by auto
  have len: "\<forall>m \<in> set ms. length (view ?held m) = 8192" using ms(2) view_intact(1) by blast
  have byte: "canary_byte m B 0 ?n b i = view ?held (ms ! b) ! i" if "b < ?n" "i < 8192" for b i
  proof -
    have "8192 * b + i < 8192 * ?n" using that by linarith
    with memory have "m (B + of_nat (8192 * b + i)) = concat (map (view ?held) ms) ! (8192 * b + i)"
      unfolding copies by blast
    with nth_views [OF len that(2, 1)] that(1) show ?thesis unfolding canary_byte_def by (simp only: if_True)
  qed
  let ?bad = "\<lambda>b. \<exists>i < 8192. canary_byte m B 0 ?n b i \<noteq> POISON_FILL"
  have one: "?bad b \<longleftrightarrow> \<not> intact ?held (ms ! b)" if b: "b < ?n" for b
  proof -
    have "(\<forall>i < 8192. view ?held (ms ! b) ! i = POISON_FILL) \<longleftrightarrow> intact ?held (ms ! b)"
      by (rule view_intact(2) [of _ s]) (use ms(2) b in simp)
    then show ?thesis using byte [OF b] by metis
  qed
  have "(\<exists>b < ?n. ?bad b) \<longleftrightarrow> (\<exists>b < ?n. \<not> intact ?held (ms ! b))"
    by (rule ex_cong1, rule conj_cong [OF refl]) (rule one)
  also have "\<dots> \<longleftrightarrow> (\<exists>m \<in> set ms. \<not> intact ?held m)"
    using all_set_conv_all_nth [of ms "intact ?held"] by blast
  finally have bad: "(\<exists>b < ?n. ?bad b) \<longleftrightarrow> (\<exists>m \<in> set ms. \<not> intact ?held m)" .
  have "run_findCorruption L G (POISON_REGIONS * poisonWordLen) (of_nat ?n * POISON_REGIONS * poisonWordLen)
      (of_nat ?n * POISON_REGIONS * poisonWordLen) POISON_FILL_32B B 0 (dev_start m (replicate ?n no_change)) d"
    using run by (simp only: kernels_agree_without_svm [where C = 0])
  from callback_reports [OF callback(1-3) this order.refl n(2) groups callback(4, 5), of cl] show ?thesis
    unfolding bad .
qed

text \<open>The overwritten buffer, checked in groups of 256 items: a run exists, and its callback reports.\<close>

definition one_result :: verif_info where
  "one_result = \<lparr>vi_kern_info = 7, vi_first_change = 0, vi_argMap = [5], vi_cmd_queue = 1, vi_used_svm = 0,
    vi_used_svm_is_clmem = False, vi_dupe = [0], vi_backtrace_str = None\<rparr>"

definition results_ready :: "u32 list \<Rightarrow> (cl_mem \<Rightarrow> u8 list) det" where
  "results_ready first = overwritten_state
    \<lparr>check_callbacks := [Verify_callback 1 one_result], change_arrays := [0 \<mapsto> first]\<rparr>"

theorem device_launch_reports_witness:
  "\<forall>cl. \<exists>first. Overflow_detected \<in> set (err_out (final
    (run_checker_callback (memory_runtime cl) 0 (results_ready first))))"
proof
  fix cl
  let ?c = "POISON_REGIONS * poisonWordLen" and ?n = "of_nat (length [overwritten]) * POISON_REGIONS * poisonWordLen"
  let ?m = "\<lambda>_ :: ptr. 0 :: u8" and ?f = "replicate (length [overwritten]) no_change"
  obtain d where "dev_run 256 (active_items 4096 ?n) (\<lambda>i. findCorruptionNoSVM_item ?c ?n POISON_FILL_32B 0 (of_nat i))
      (emit_findCorruption 256 ?c ?n) (dev_start ?m ?f) d \<and> all_done (active_items 4096 ?n) d"
    using complete_run_exists [OF finite_active] by blast
  then have run: "run_findCorruptionNoSVM 256 4096 ?c ?n ?n POISON_FILL_32B 0 (dev_start ?m ?f) d"
    unfolding run_findCorruptionNoSVM_def .
  have held: "world overwritten_state = (\<lambda>_. replicate 8195 0)" by (simp add: overwritten_state_def initial_state_def)
  from create_copies_run [OF overwritten_facts, of cl 1 2] obtain evs t where
    copied: "create_clmem_copies (memory_runtime cl) 3 1 [5] 2 overwritten_state = Inr ((9, evs), t)"
    and "world t 9 = canary_view (m_size overwritten) (replicate 8195 0)"
    unfolding held by auto
  moreover have "canary_view (m_size overwritten) (replicate 8195 0) = replicate 8192 (0 :: u8)"
    by (simp add: canary_view_def overwritten_def unat_canary_offset flip: replicate_add)
  ultimately have memory: "\<forall>i < 8192 * length [overwritten]. ?m (0 + of_nat i) = world t 9 ! i" by simp
  have "\<not> intact (world overwritten_state) overwritten"
    unfolding held by (auto simp: intact_def with_canaries_def poison_bytes_def POISON_FILL_def nth_append
        dest!: arg_cong [of _ _ "\<lambda>xs. xs ! 0"])
  then have bad: "\<exists>m \<in> set [overwritten]. \<not> intact (world overwritten_state) m" by simp
  have fields: "kern_list overwritten_state = [(7, one_arg_kernel)]" "err_out overwritten_state = []"
    by (simp_all add: overwritten_state_def initial_state_def)
  have callback: "0 < length (check_callbacks (results_ready (d_first d)))"
    "check_callbacks (results_ready (d_first d)) ! 0 = Verify_callback 1 one_result"
    "map_find (kern_list (results_ready (d_first d))) (vi_kern_info one_result) = Some one_arg_kernel"
    "change_arrays (results_ready (d_first d)) (vi_first_change one_result) = Some (d_first d)"
    "length (vi_argMap one_result) = length [overwritten]"
    "err_out (results_ready (d_first d)) = []"
    by (simp_all add: one_result_def results_ready_def fields)
  have "Overflow_detected \<in> set (err_out (final (run_checker_callback (memory_runtime cl) 0 (results_ready (d_first d)))))"
    using device_launch_reports [OF overwritten_facts _ _ copied memory run _ _ _ _ callback(1-5)] bad callback(6) by simp
  then show "\<exists>first. Overflow_detected \<in> set (err_out (final
      (run_checker_callback (memory_runtime cl) 0 (results_ready first))))" by blast
qed

end
