(* ===== verification/Single_Buffer_Reports.thy ===== *)
theory Single_Buffer_Reports
  imports Device_Reports In_Place_Checks
begin

text \<open>
  The strategy of one kernel for each canary as a whole: the kernels check the canaries in place, one after
  the other; a first callback merges their results, a second one reports them.
\<close>

section \<open>The launches\<close>

text \<open>
  The index of the result, the offset and the address of the buffer: what \<open>perform_single_buffer_checks\<close>
  passes for each buffer, given by its address on the device and its size.
\<close>

definition canary_launches :: "(ptr \<times> u32) list \<Rightarrow> (u32 \<times> u32 \<times> ptr) list" where
  "canary_launches bufs = concat (map (\<lambda>(i, B, sz).
     [(POISON_REGIONS * of_nat i, 0, B), (POISON_REGIONS * of_nat i + 1, sz + POISON_FILL_LENGTH, B)])
     (zip [0..<length bufs] bufs))"

text \<open>The kernels run one after the other, each in any order of its items, on one memory and one array.\<close>

inductive canaries_checked ::
  "nat \<Rightarrow> (u32 \<times> u32 \<times> ptr) list \<Rightarrow> memory \<Rightarrow> u32 list \<Rightarrow> memory \<Rightarrow> u32 list \<Rightarrow> bool" for L where
  all_checked: "canaries_checked L [] m first m first"
| check_next: "run_locateDiffParts L 1024 poisonWordLen buffID POISON_FILL_32B offset B (dev_start m first) d \<Longrightarrow>
    canaries_checked L ls (d_mem d) (d_first d) m' first' \<Longrightarrow>
    canaries_checked L ((buffID, offset, B) # ls) m first m' first'"

inductive_cases checked_nil: "canaries_checked L [] m first m' first'"
inductive_cases checked_cons: "canaries_checked L ((buffID, offset, B) # ls) m first m' first'"

definition start_of :: "u32 \<times> u32 \<times> ptr \<Rightarrow> ptr" where
  "start_of l = (case l of (buffID, offset, B) \<Rightarrow> B + ucast offset)"

definition canary_cells :: "ptr \<Rightarrow> ptr set" where
  "canary_cells K = {K + of_nat i | i. i < 4096}"

definition apart :: "(u32 \<times> u32 \<times> ptr) list \<Rightarrow> bool" where
  "apart ls \<longleftrightarrow> (\<forall>j < length ls. \<forall>k < length ls. j \<noteq> k \<longrightarrow>
     canary_cells (start_of (ls ! j)) \<inter> canary_cells (start_of (ls ! k)) = {})"

lemma apart_Cons:
  assumes "apart (l # ls)"
  shows "apart ls" and "x \<in> set ls \<Longrightarrow> canary_cells (start_of l) \<inter> canary_cells (start_of x) = {}"
proof -
  show "apart ls" using assms unfolding apart_def by (metis Suc_less_eq length_Cons nth_Cons_Suc nat.inject)
  assume "x \<in> set ls"
  then obtain k where "k < length ls" "x = ls ! k" by (auto simp: in_set_conv_nth)
  with assms show "canary_cells (start_of l) \<inter> canary_cells (start_of x) = {}"
    unfolding apart_def by (metis Suc_less_eq length_Cons nth_Cons_0 nth_Cons_Suc nat.distinct(1) zero_less_Suc)
qed

lemma canary_at_poisoned:
  "A \<inter> canary_cells K = {} \<Longrightarrow> canary_at (poisoned A m) K = canary_at m K"
  by (rule nth_equalityI) (auto simp: poisoned_def canary_cells_def)

lemma host_result_upto: "length bytes = 4096 \<Longrightarrow> host_result POISON_FILL_LENGTH bytes \<le> no_change"
  using least_bad_upto(1) [OF bytes_result [of bytes 4096]] by (simp add: poison_defs)

text \<open>What the kernels leave: every result is the host's answer for its canary, and all canaries are mended.\<close>

lemma checked_results:
  assumes "canaries_checked L ls m first m' first'" and L: "0 < L" "L dvd 1024" and "apart ls"
    and "distinct (map (\<lambda>l. unat (fst l)) ls)"
    and "\<forall>l \<in> set ls. unat (fst l) < length first \<and> first ! unat (fst l) = no_change"
  shows "length first' = length first
    \<and> (\<forall>l \<in> set ls. first' ! unat (fst l) = host_result POISON_FILL_LENGTH (canary_at m (start_of l)))
    \<and> (\<forall>k. k \<notin> (\<lambda>l. unat (fst l)) ` set ls \<longrightarrow> first' ! k = first ! k)
    \<and> m' = poisoned (\<Union>l \<in> set ls. canary_cells (start_of l)) m"
  using assms(1, 4-6)
proof (induction ls arbitrary: m first)
  case Nil
  then have "m' = m \<and> first' = first" by (auto elim: checked_nil)
  then show ?case by (simp add: poisoned_def)
next
  case (Cons l ls)
  obtain buffID offset B where l: "l = (buffID, offset, B)" by (cases l) auto
  let ?K = "start_of l" and ?id = "unat buffID"
  let ?host = "\<lambda>l. host_result POISON_FILL_LENGTH (canary_at m (start_of l))"
  from Cons.prems(1) obtain d where
    run: "run_locateDiffParts L 1024 poisonWordLen buffID POISON_FILL_32B offset B (dev_start m first) d"
    and rest: "canaries_checked L ls (d_mem d) (d_first d) m' first'"
    unfolding l by (rule checked_cons)
  have id: "?id < length first" "first ! ?id = no_change" using Cons.prems(4) by (simp_all add: l)
  then have "first ! ?id \<le> no_change" by simp
  from in_place_run [OF run L id(1) this] have
    "d_first d = first[?id := min no_change (?host l)]" and mem: "d_mem d = poisoned (canary_cells ?K) m"
    unfolding id(2) by (simp_all add: l start_of_def canary_cells_def)
  then have first: "d_first d = first[?id := ?host l]"
    using host_result_upto [of "canary_at m ?K"] by (simp add: min_absorb2)
  have fresh: "?id \<notin> (\<lambda>l. unat (fst l)) ` set ls" using Cons.prems(3) by (simp add: l)
  have new: "unat (fst x) \<noteq> ?id" if "x \<in> set ls" for x
    using imageI [OF that, of "\<lambda>l. unat (fst l)"] fresh by metis
  have same: "canary_at (d_mem d) (start_of x) = canary_at m (start_of x)" if "x \<in> set ls" for x
    unfolding mem by (rule canary_at_poisoned) (rule apart_Cons(2) [OF Cons.prems(2) that])
  have ready: "\<forall>x \<in> set ls. unat (fst x) < length (d_first d) \<and> d_first d ! unat (fst x) = no_change"
  proof
    fix x
    assume x: "x \<in> set ls"
    with Cons.prems(4) have "unat (fst x) < length first \<and> first ! unat (fst x) = no_change" by simp
    with new [OF x] show "unat (fst x) < length (d_first d) \<and> d_first d ! unat (fst x) = no_change"
      unfolding first by simp
  qed
  have "distinct (map (\<lambda>l. unat (fst l)) ls)" using Cons.prems(3) by simp
  note IH = Cons.IH [OF rest apart_Cons(1) [OF Cons.prems(2)] this ready]
  have "first' ! ?id = ?host l" using IH id(1) fresh by (simp add: first)
  moreover have "\<forall>x \<in> set ls. first' ! unat (fst x) = ?host x" using IH same by simp
  moreover have "first' ! k = first ! k" if "k \<notin> (\<lambda>l. unat (fst l)) ` set (l # ls)" for k
    using IH that by (simp add: first l)
  moreover have "m' = poisoned (\<Union>x \<in> set (l # ls). canary_cells (start_of x)) m"
    using IH by (auto simp: mem poisoned_def fun_eq_iff)
  moreover have "length first' = length first" using IH by (simp add: first)
  ultimately show ?case by (simp add: l)
qed

section \<open>The two canaries of each buffer\<close>

lemma concat_pairs: "concat (map (\<lambda>i. [f (2 * i), f (2 * i + 1)]) [0..<n]) = map f [0..<2 * n]"
  by (induction n) simp_all

text \<open>Canary \<open>j\<close> of the buffers, two for each.\<close>

definition canary_start :: "(ptr \<times> u32) list \<Rightarrow> nat \<Rightarrow> ptr" where
  "canary_start bufs j = (case bufs ! (j div 2) of (B, sz) \<Rightarrow>
     B + (if even j then 0 else ucast (sz + POISON_FILL_LENGTH)))"

lemma canary_launches_nth:
  "\<exists>f. canary_launches bufs = map f [0..<2 * length bufs]
    \<and> (\<forall>j. fst (f j) = of_nat j \<and> start_of (f j) = canary_start bufs j)"
proof -
  let ?f = "\<lambda>j. case bufs ! (j div 2) of (B, sz) \<Rightarrow>
    (of_nat j :: u32, if even j then 0 else sz + POISON_FILL_LENGTH :: u32, B :: ptr)"
  have zip: "zip [0..<length bufs] bufs = map (\<lambda>i. (i, bufs ! i)) [0..<length bufs]"
    by (rule nth_equalityI) simp_all
  have "canary_launches bufs = concat (map (\<lambda>i. [?f (2 * i), ?f (2 * i + 1)]) [0..<length bufs])"
    unfolding canary_launches_def zip map_map
    by (rule arg_cong [of _ _ concat], rule map_cong [OF refl])
      (simp add: POISON_REGIONS_def split: prod.split)
  then have "canary_launches bufs = map ?f [0..<2 * length bufs]"
    by (rule trans) (rule concat_pairs)
  moreover have "fst (?f j) = of_nat j \<and> start_of (?f j) = canary_start bufs j" for j
    by (simp add: start_of_def canary_start_def split: prod.split)
  ultimately show ?thesis by blast
qed

lemma launches_checked:
  assumes "canaries_checked L (canary_launches bufs) m (replicate (2 * length bufs) no_change) m' first'"
    and "0 < L" "L dvd 1024" "apart (canary_launches bufs)" "2 * length bufs < 2 ^ 32"
  shows "first' = map (\<lambda>j. host_result POISON_FILL_LENGTH (canary_at m (canary_start bufs j))) [0..<2 * length bufs]"
    and "m' = poisoned (\<Union>j < 2 * length bufs. canary_cells (canary_start bufs j)) m"
proof -
  let ?n = "2 * length bufs"
  from canary_launches_nth obtain f where f: "canary_launches bufs = map f [0..<?n]"
    "\<And>j. fst (f j) = of_nat j" "\<And>j. start_of (f j) = canary_start bufs j" by metis
  have id: "unat (fst (f j)) = j" if "j < ?n" for j
    using that assms(5) by (simp add: f(2) unat_of_nat_eq)
  have "map (\<lambda>l. unat (fst l)) (canary_launches bufs) = [0..<?n]"
    unfolding f(1) map_map by (rule map_idI) (use id in simp)
  then have "distinct (map (\<lambda>l. unat (fst l)) (canary_launches bufs))" by simp
  moreover have "\<forall>l \<in> set (canary_launches bufs). unat (fst l) < length (replicate ?n no_change)
      \<and> replicate ?n no_change ! unat (fst l) = no_change"
    unfolding f(1) using id by auto
  ultimately have res: "length first' = ?n"
    "\<And>l. l \<in> set (canary_launches bufs) \<Longrightarrow>
      first' ! unat (fst l) = host_result POISON_FILL_LENGTH (canary_at m (start_of l))"
    "m' = poisoned (\<Union>l \<in> set (canary_launches bufs). canary_cells (start_of l)) m"
    using checked_results [OF assms(1-4)] by simp_all
  show "first' = map (\<lambda>j. host_result POISON_FILL_LENGTH (canary_at m (canary_start bufs j))) [0..<?n]"
  proof (rule nth_equalityI)
    fix j
    assume "j < length first'"
    then have j: "j < ?n" using res(1) by simp
    then have "f j \<in> set (canary_launches bufs)" unfolding f(1) by auto
    from res(2) [OF this] j show "first' ! j =
        map (\<lambda>j. host_result POISON_FILL_LENGTH (canary_at m (canary_start bufs j))) [0..<?n] ! j"
      unfolding id [OF j] f(3) by simp
  qed (use res(1) in simp)
  show "m' = poisoned (\<Union>j < ?n. canary_cells (canary_start bufs j)) m"
    unfolding res(3) f(1) by (rule arg_cong [of _ _ "\<lambda>A. poisoned A m"]) (auto simp: f(3))
qed

section \<open>From the kernels to the message\<close>

lemma canary_bad: "(\<exists>i < 4096. canary_at m K ! i \<noteq> POISON_FILL) \<longleftrightarrow> (\<exists>a \<in> canary_cells K. m a \<noteq> POISON_FILL)"
  by (auto simp: canary_cells_def)

lemma merged_changed:
  assumes "length a = 4096" "length b = 4096"
  shows "changed (host_result (POISON_REGIONS * POISON_FILL_LENGTH) (a @ b)) \<longleftrightarrow>
    (\<exists>k < 4096. a ! k \<noteq> POISON_FILL) \<or> (\<exists>k < 4096. b ! k \<noteq> POISON_FILL)"
proof -
  have bad: "(\<exists>k < n. xs ! k \<noteq> POISON_FILL) \<longleftrightarrow> (\<exists>x \<in> set xs. x \<noteq> POISON_FILL)" if "length xs = n" for xs n
    using all_set_conv_all_nth [of xs "\<lambda>x. x = POISON_FILL"] that by blast
  have len: "length (a @ b) = 8192" using assms by simp
  have n: "POISON_REGIONS * POISON_FILL_LENGTH = (8192 :: u32)" "unat (8192 :: u32) = 8192" by (simp_all add: poison_defs)
  have "changed (host_result 8192 (a @ b)) \<longleftrightarrow> (\<exists>k < unat (8192 :: u32). (a @ b) ! k \<noteq> POISON_FILL)"
    by (rule changed_host_result) (use len in \<open>simp_all add: words_covering_def\<close>)
  then show ?thesis unfolding n bad [OF len] bad [OF assms(1)] bad [OF assms(2)] set_append bex_Un .
qed

lemma merged_reports:
  assumes "length bufs < 2 ^ 32"
    and "first = map (\<lambda>j. host_result POISON_FILL_LENGTH (canary_at m (canary_start bufs j))) [0..<2 * length bufs]"
  shows "length bufs \<le> length (merge_changes (of_nat (length bufs)) first)"
    and "(\<forall>x \<in> set (take (length bufs) (merge_changes (of_nat (length bufs)) first)). \<not> changed x) \<longleftrightarrow>
      \<not> (\<exists>j < 2 * length bufs. \<exists>x \<in> canary_cells (canary_start bufs j). m x \<noteq> POISON_FILL)"
proof -
  let ?n = "length bufs" and ?bytes = "\<lambda>j. canary_at m (canary_start bufs j)"
  let ?merged = "merge_changes (of_nat ?n) first" and ?bad = "\<lambda>j. \<exists>x \<in> canary_cells (canary_start bufs j). m x \<noteq> POISON_FILL"
  have merged: "take ?n ?merged =
      map (\<lambda>i. host_result (POISON_REGIONS * POISON_FILL_LENGTH) (?bytes (2 * i) @ ?bytes (2 * i + 1))) [0..<?n]"
    unfolding assms(2) by (rule merged_results) (use assms(1) in simp_all)
  from arg_cong [OF merged, of length] show "?n \<le> length ?merged" by simp
  have one: "changed (host_result (POISON_REGIONS * POISON_FILL_LENGTH) (?bytes i @ ?bytes j)) \<longleftrightarrow> ?bad i \<or> ?bad j" for i j
    using merged_changed [of "?bytes i" "?bytes j"] unfolding canary_bad by simp
  have all: "(\<forall>x \<in> set (map f [0..<?n]). \<not> changed x) \<longleftrightarrow> \<not> (\<exists>i < ?n. changed (f i))" for f
    by auto
  have pairs: "(\<exists>i < ?n. P (2 * i) \<or> P (2 * i + 1)) \<longleftrightarrow> (\<exists>j < 2 * ?n. P j)" for P
  proof
    assume "\<exists>j < 2 * ?n. P j"
    then obtain j where j: "j < 2 * ?n" "P j" by blast
    then have "j div 2 < ?n" "j = 2 * (j div 2) \<or> j = 2 * (j div 2) + 1" by auto
    with j(2) show "\<exists>i < ?n. P (2 * i) \<or> P (2 * i + 1)" by metis
  qed force
  show "(\<forall>x \<in> set (take ?n ?merged). \<not> changed x) \<longleftrightarrow> \<not> (\<exists>j < 2 * ?n. ?bad j)"
    unfolding merged all one using pairs [of ?bad] by (simp only:)
qed

lemma format_callback_run:
  assumes "check_callbacks u = Format_result e a (of_nat n) user # rest" and "change_arrays u a = Some first"
    and "length first = 2 * n" "n < 2 ^ 32" and "rt_SetUserEventComplete cl user (world u) = (CL_SUCCESS, w)"
  shows "run_checker_callback cl 0 u = Inr ((), u\<lparr>check_callbacks := rest, world := w,
    change_arrays := (change_arrays u)(a \<mapsto> merge_changes (of_nat n) first)\<rparr>)"
proof -
  have "unat (of_nat n :: u32) = n" using assms(4) by (simp add: unat_of_nat_eq)
  with assms show ?thesis
    by (simp add: run_checker_callback_def format_result_buff_def read_changes_def write_changes_def
        call_def check_cl_error_def andThen_def)
qed

text \<open>
  C6: The check of buffers in place is exact. The kernels have checked the canaries of the buffers one after
  the other, each in any order of its items; when the callback that merges their results and then the one
  that reports them have run, an overflow is announced if and only if a byte of one of the canaries was
  not poison; and all canaries are mended, while the rest of the memory is as it was.
\<close>

theorem single_buffer_reports:
  assumes checked: "canaries_checked L (canary_launches bufs) m (replicate (2 * length bufs) no_change) m' first"
    and L: "0 < L" "L dvd 1024" and bufs: "apart (canary_launches bufs)" "2 * length bufs < 2 ^ 32"
    and callbacks: "check_callbacks u = [Format_result e a (of_nat (length bufs)) user, Verify_callback user data]"
      "map_find (kern_list u) (vi_kern_info data) = Some ki" "vi_first_change data = a"
      "change_arrays u a = Some first" "length (vi_argMap data) = length bufs"
    and rt: "rt_SetUserEventComplete cl user (world u) = (CL_SUCCESS, w)"
  shows "m' = poisoned (\<Union>j < 2 * length bufs. canary_cells (canary_start bufs j)) m
    \<and> (Overflow_detected \<in> set (drop (length (err_out u))
        (err_out (final (andThen (run_checker_callback cl 0) (\<lambda>_. run_checker_callback cl 0) u))))
      \<longleftrightarrow> (\<exists>j < 2 * length bufs. \<exists>x \<in> canary_cells (canary_start bufs j). m x \<noteq> POISON_FILL))"
proof (rule conjI)
  let ?n = "length bufs"
  show "m' = poisoned (\<Union>j < 2 * ?n. canary_cells (canary_start bufs j)) m"
    by (rule launches_checked(2) [OF checked L bufs])
  have n: "?n < 2 ^ 32" using bufs(2) by simp
  have first: "first = map (\<lambda>j. host_result POISON_FILL_LENGTH (canary_at m (canary_start bufs j))) [0..<2 * ?n]"
    by (rule launches_checked(1) [OF checked L bufs])
  let ?merged = "merge_changes (of_nat ?n) first"
  obtain v where v: "v = u\<lparr>check_callbacks := [Verify_callback user data], world := w,
      change_arrays := (change_arrays u)(a \<mapsto> ?merged)\<rparr>" by simp
  let ?t = "v\<lparr>check_callbacks := []\<rparr>"
  have "length first = 2 * ?n" by (simp add: first)
  then have "run_checker_callback cl 0 u = Inr ((), v)"
    unfolding v by (intro format_callback_run) (use callbacks n rt in simp_all)
  moreover have "run_checker_callback cl 0 v = verify_callback cl ki data ?t"
    unfolding v using callbacks(2) by (simp add: run_checker_callback_def kinfo_find_def)
  ultimately have run: "andThen (run_checker_callback cl 0) (\<lambda>_. run_checker_callback cl 0) u = verify_callback cl ki data ?t"
    by (simp add: andThen_Inr [where f = "run_checker_callback cl 0"])
  note merged = merged_reports [OF n first]
  have len: "length (vi_argMap data) \<le> length ?merged" unfolding callbacks(5) by (rule merged(1))
  have bad: "(\<forall>x \<in> set (take (length (vi_argMap data)) ?merged). \<not> changed x)
      \<longleftrightarrow> \<not> (\<exists>j < 2 * ?n. \<exists>x \<in> canary_cells (canary_start bufs j). m x \<noteq> POISON_FILL)"
    unfolding callbacks(5) by (rule merged(2))
  have arr: "change_arrays ?t (vi_first_change data) = Some ?merged" and err: "err_out ?t = err_out u"
    unfolding v callbacks(3) by simp_all
  note verify_callback_run [OF arr len, of cl ki, unfolded bad err]
  then show "Overflow_detected \<in> set (drop (length (err_out u))
        (err_out (final (andThen (run_checker_callback cl 0) (\<lambda>_. run_checker_callback cl 0) u))))
      \<longleftrightarrow> (\<exists>j < 2 * ?n. \<exists>x \<in> canary_cells (canary_start bufs j). m x \<noteq> POISON_FILL)"
    unfolding run using announced_reports [of u] by (metis (no_types, lifting))
qed

text \<open>One buffer of 8 bytes at address 0, whose second canary has lost a byte.\<close>

lemma checks_complete:
  assumes "0 < L" shows "\<exists>m' first'. canaries_checked L ls m first m' first'"
proof (induction ls arbitrary: m first)
  case Nil
  show ?case by (intro exI) (rule all_checked)
next
  case (Cons l ls)
  obtain buffID offset B where l: "l = (buffID, offset, B)" by (cases l) auto
  obtain d where "dev_run L (active_items 1024 poisonWordLen) (\<lambda>i. locateDiffParts_item POISON_FILL_32B offset B (of_nat i))
      (emit_locateDiffParts L poisonWordLen buffID) (dev_start m first) d \<and> all_done (active_items 1024 poisonWordLen) d"
    using complete_run_exists [OF finite_active] by blast
  then have run: "run_locateDiffParts L 1024 poisonWordLen buffID POISON_FILL_32B offset B (dev_start m first) d"
    unfolding run_locateDiffParts_def .
  from Cons obtain m' first' where "canaries_checked L ls (d_mem d) (d_first d) m' first'" by blast
  with run show ?case unfolding l by (blast intro: check_next)
qed

definition in_place_result :: verif_info where
  "in_place_result = \<lparr>vi_kern_info = 7, vi_first_change = 0, vi_argMap = [5], vi_cmd_queue = 1, vi_used_svm = 0,
    vi_used_svm_is_clmem = False, vi_dupe = [0], vi_backtrace_str = None\<rparr>"

definition to_be_merged :: "u32 list \<Rightarrow> unit det" where
  "to_be_merged first = one_arg_state\<lparr>change_arrays := [0 \<mapsto> first],
    check_callbacks := [Format_result 1 0 1 2, Verify_callback 2 in_place_result]\<rparr>"

theorem single_buffer_reports_witness:
  "\<forall>cl :: unit ocl. \<exists>first. let cl' = cl\<lparr>rt_SetUserEventComplete := \<lambda>e w. (CL_SUCCESS, w)\<rparr>
    in Overflow_detected \<in> set (err_out (final
      (andThen (run_checker_callback cl' 0) (\<lambda>_. run_checker_callback cl' 0) (to_be_merged first))))"
proof
  fix cl :: "unit ocl"
  let ?cl = "cl\<lparr>rt_SetUserEventComplete := \<lambda>e w. (CL_SUCCESS, w)\<rparr>"
  let ?bufs = "[(0 :: ptr, 8 :: u32)]" and ?m = "\<lambda>a :: ptr. if a = 5000 then 0 else POISON_FILL"
  have launches: "canary_launches ?bufs = [(0, 0, 0), (1, 4104, 0)]"
    by (simp add: canary_launches_def poison_defs)
  have cells: "a \<in> canary_cells (of_nat k) \<Longrightarrow> k \<le> unat a \<and> unat a < k + 4096" if "k + 4096 < 2 ^ 32" for a k
  proof -
    assume "a \<in> canary_cells (of_nat k)"
    then obtain i where i: "i < 4096" "a = of_nat k + of_nat i" unfolding canary_cells_def by blast
    then have "a = of_nat (k + i)" by simp
    then have "unat a = k + i" using i(1) that by (simp add: unat_of_nat_eq del: of_nat_add)
    with i(1) show "k \<le> unat a \<and> unat a < k + 4096" by simp
  qed
  have "canary_cells 0 \<inter> canary_cells 4104 = {}"
    using cells [of 0] cells [of 4104] by fastforce
  then have apart: "apart (canary_launches ?bufs)"
    unfolding launches apart_def start_of_def by (auto simp: less_Suc_eq)
  obtain m' first where checked: "canaries_checked 256 (canary_launches ?bufs) ?m (replicate (2 * length ?bufs) no_change) m' first"
    using checks_complete [of 256] by fastforce
  let ?u = "to_be_merged first"
  have u: "check_callbacks ?u = [Format_result 1 0 (of_nat (length ?bufs)) 2, Verify_callback 2 in_place_result]"
    "map_find (kern_list ?u) (vi_kern_info in_place_result) = Some one_arg_kernel" "vi_first_change in_place_result = 0"
    "change_arrays ?u 0 = Some first" "length (vi_argMap in_place_result) = length ?bufs"
    "rt_SetUserEventComplete ?cl 2 (world ?u) = (CL_SUCCESS, world ?u)" "err_out ?u = []"
    by (simp_all add: to_be_merged_def in_place_result_def one_arg_state_def initial_state_def)
  have "(5000 :: ptr) \<in> canary_cells (canary_start ?bufs 1)"
    by (auto simp: canary_cells_def canary_start_def poison_defs intro!: exI [of _ 896])
  then have "\<exists>j < 2 * length ?bufs. \<exists>x \<in> canary_cells (canary_start ?bufs j). ?m x \<noteq> POISON_FILL"
    by (intro exI [of _ 1]) (auto simp: poison_defs)
  with single_buffer_reports [OF checked _ _ apart _ u(1-6)] u(7)
  have "Overflow_detected \<in> set (err_out (final (andThen (run_checker_callback ?cl 0) (\<lambda>_. run_checker_callback ?cl 0) ?u)))"
    by simp
  then show "\<exists>first. let cl' = cl\<lparr>rt_SetUserEventComplete := \<lambda>e w. (CL_SUCCESS, w)\<rparr>
    in Overflow_detected \<in> set (err_out (final
      (andThen (run_checker_callback cl' 0) (\<lambda>_. run_checker_callback cl' 0) (to_be_merged first))))"
    unfolding Let_def by blast
qed

end
