(* ===== verification/Buffer_Life.thy ===== *)
theory Buffer_Life
  imports Launch_Detection Memory_Props
begin

text \<open>
  From the creation of a buffer to its check: what \<open>clCreateBuffer\<close> leaves is what the checks rely on,
  and from then on the canaries are intact exactly as long as nobody changes a byte outside the
  application's data.
\<close>

text \<open>A byte of the main buffer that is not the application's.\<close>

definition outside :: "cl_memobj \<Rightarrow> nat \<Rightarrow> bool" where
  "outside m i \<longleftrightarrow> i < 4096 \<or> 4096 + unat (m_size m) \<le> i"

lemma with_canaries_outside:
  assumes "length xs = n" and "i < n + 8192" and "i < 4096 \<or> 4096 + n \<le> i"
  shows "with_canaries xs ! i = POISON_FILL"
  using assms by (auto simp: with_canaries_def poison_bytes_def nth_append)

lemma intact_outside:
  assumes "length (held (m_main_buff m)) = unat (m_size m) + 8192"
  shows "intact held m \<longleftrightarrow>
    (\<forall>i < unat (m_size m) + 8192. outside m i \<longrightarrow> held (m_main_buff m) ! i = POISON_FILL)"
proof
  assume "intact held m"
  then obtain xs where "length xs = unat (m_size m)" "held (m_main_buff m) = with_canaries xs"
    unfolding intact_def by blast
  then show "\<forall>i < unat (m_size m) + 8192. outside m i \<longrightarrow> held (m_main_buff m) ! i = POISON_FILL"
    using with_canaries_outside [of xs "unat (m_size m)"] by (simp add: outside_def)
next
  let ?arr = "held (m_main_buff m)" and ?n = "unat (m_size m)"
  let ?xs = "take ?n (drop 4096 ?arr)"
  assume poison: "\<forall>i < ?n + 8192. outside m i \<longrightarrow> ?arr ! i = POISON_FILL"
  have xs: "length ?xs = ?n" using assms by simp
  have "?arr = with_canaries ?xs"
  proof (rule nth_equalityI)
    show "length ?arr = length (with_canaries ?xs)" using assms by simp
    fix i
    assume i: "i < length ?arr"
    show "?arr ! i = with_canaries ?xs ! i"
    proof (cases "outside m i")
      case True
      with poison i assms have "?arr ! i = POISON_FILL" by simp
      with with_canaries_outside [OF xs, of i] True i assms show ?thesis by (simp add: outside_def)
    next
      case False
      then have "4096 \<le> i" "i - 4096 < ?n" by (auto simp: outside_def)
      then show ?thesis using assms by (simp add: with_canaries_def poison_bytes_def nth_append)
    qed
  qed
  with xs show "intact held m" unfolding intact_def by blast
qed

text \<open>
  C7: A buffer as \<open>clCreateBuffer\<close> leaves it is one the checks can rely on: it is recorded, its main buffer
  has the length they expect and intact canaries, around the application's data. Whatever its main
  buffer holds later, its canaries count as intact if and only if no byte outside the application's data
  differs from what it was after the creation: the checks miss no change and invent none.
\<close>

theorem new_buffer_guarded:
  assumes "loaded cl ''clCreateBuffer''" "loaded cl ''clCreateSubBuffer''" "sz \<noteq> 0" "unat sz + 4096 < 2 ^ 32"
    and "CL_MEM_USE_HOST_PTR \<notin> flags" "calloc_ok cl (sz + POISON_REGIONS * POISON_FILL_LENGTH)"
    and "creates_buffer cl context (runtime_flags flags) sz (initial_bytes s flags host_ptr sz)
      main_buff r (world s) w"
    and "cl_mem_alloc s r = None" "cl_mem_alloc s main_buff = None" "r \<noteq> main_buff"
    and "contents w main_buff = initial_bytes s flags host_ptr sz"
  shows "\<exists>t a m. clCreateBuffer cl context flags sz host_ptr e s = Inr ((r, set_err e CL_SUCCESS), t)
    \<and> cl_mem_alloc t r = Some a \<and> mobjs t a = Some m \<and> m_handle m = r \<and> m_main_buff m = main_buff
    \<and> m_size m = sz \<and> guarded (contents (world t)) t m \<and> intact (contents (world t)) m
    \<and> (\<forall>held. length (held main_buff) = length (contents (world t) main_buff) \<longrightarrow>
        (intact held m \<longleftrightarrow> (\<forall>i < length (held main_buff). outside m i \<longrightarrow> held main_buff ! i = contents (world t) main_buff ! i)))"
proof -
  let ?m = "new_buffer context (runtime_flags flags) sz main_buff r"
  let ?t = "created cl context (runtime_flags flags) sz main_buff r w s"
  have m: "m_handle ?m = r" "m_main_buff ?m = main_buff" "m_size ?m = sz" by (simp_all add: new_buffer_def zero_memobj_def)
  have t: "cl_mem_alloc ?t r = Some (next_obj s)" "mobjs ?t (next_obj s) = Some ?m" "world ?t = w"
    "cl_mem_alloc ?t main_buff = None"
    using assms(9, 10) by (simp_all add: created_def)
  have len: "length (contents w main_buff) = unat sz + 8192"
    unfolding assms(11) by (simp add: initial_bytes_def)
  have intact: "intact (contents w) ?m"
    unfolding intact_def m assms(11) initial_bytes_def by (intro exI conjI) (auto simp del: length_with_canaries)
  have guarded: "guarded (contents w) ?t ?m"
    unfolding guarded_def m using assms(4) t(4) len by simp
  have exact: "intact held ?m \<longleftrightarrow>
      (\<forall>i < length (held main_buff). outside ?m i \<longrightarrow> held main_buff ! i = contents w main_buff ! i)"
    if "length (held main_buff) = length (contents w main_buff)" for held
    using intact_outside [of held ?m] intact_outside [of "contents w" ?m] intact that len unfolding m by metis
  show ?thesis
  proof (intro exI [of _ ?t] exI [of _ "next_obj s"] exI [of _ ?m] conjI allI impI)
    show "clCreateBuffer cl context flags sz host_ptr e s = Inr ((r, set_err e CL_SUCCESS), ?t)"
      by (rule clCreateBuffer_run [OF assms(1-8)])
    fix held :: "cl_mem \<Rightarrow> u8 list"
    assume "length (held main_buff) = length (contents (world ?t) main_buff)"
    then show "intact held ?m \<longleftrightarrow> (\<forall>i < length (held main_buff). outside ?m i \<longrightarrow>
        held main_buff ! i = contents (world ?t) main_buff ! i)"
      unfolding t(3) by (rule exact)
  qed (use t m guarded intact in \<open>simp_all only:\<close>)
qed

text \<open>A buffer of 100 bytes in the runtime that stores what buffers hold; 9 is the sub-buffer, 8 the main buffer.\<close>

definition storing_runtime :: "(cl_mem \<Rightarrow> u8 list) ocl \<Rightarrow> (cl_mem \<Rightarrow> u8 list) ocl" where
  "storing_runtime cl = cl\<lparr>loaded := \<lambda>_. True, calloc_ok := \<lambda>_. True,
     rt_CreateBuffer := \<lambda>context flags sz data w. ((8, CL_SUCCESS),
       case data of Host_bytes bytes \<Rightarrow> w(8 := bytes) | _ \<Rightarrow> w),
     rt_CreateSubBuffer := \<lambda>b flags t region w. ((9, CL_SUCCESS), w),
     q_context_devices := \<lambda>context w. (CL_SUCCESS, [1]), q_device_platform := \<lambda>d w. (CL_SUCCESS, 1),
     q_platform_name := \<lambda>p w. (CL_SUCCESS, ''AMD'')\<rparr>"

theorem new_buffer_guarded_witness:
  "\<forall>cl. \<exists>t a m. clCreateBuffer (storing_runtime cl) 1 {} 100 0 None
      (initial_state (\<lambda>_. []) Map.empty (\<lambda>_. 0) 0) = Inr ((9, None), t)
    \<and> mobjs t a = Some m \<and> intact (world t) m \<and> \<not> intact ((world t)(8 := (world t 8)[8291 := 0])) m"
proof
  fix cl :: "(cl_mem \<Rightarrow> u8 list) ocl"
  let ?cl = "storing_runtime cl" and ?s = "initial_state (\<lambda>_. []) Map.empty (\<lambda>_. 0) 0 :: (cl_mem \<Rightarrow> u8 list) det"
  let ?bytes = "initial_bytes ?s {} 0 100"
  have "creates_buffer ?cl 1 (runtime_flags {}) 100 ?bytes 8 9 (world ?s) ((world ?s)(8 := ?bytes))"
    by (simp add: creates_buffer_def storing_runtime_def other_platform_def)
  from new_buffer_guarded [where contents = "\<lambda>w. w" and e = None, OF _ _ _ _ _ _ this]
  have "\<exists>t a m. clCreateBuffer ?cl 1 {} 100 0 None ?s = Inr ((9, set_err None CL_SUCCESS), t)
    \<and> cl_mem_alloc t 9 = Some a \<and> mobjs t a = Some m \<and> m_handle m = 9 \<and> m_main_buff m = 8 \<and> m_size m = 100
    \<and> guarded (world t) t m \<and> intact (world t) m
    \<and> (\<forall>held. length (held 8) = length (world t 8) \<longrightarrow>
        (intact held m \<longleftrightarrow> (\<forall>i < length (held 8). outside m i \<longrightarrow> held 8 ! i = world t 8 ! i)))"
    by (simp add: storing_runtime_def initial_state_def)
  then obtain t a m where t: "clCreateBuffer ?cl 1 {} 100 0 None ?s = Inr ((9, None), t)" "mobjs t a = Some m"
    and m: "m_main_buff m = 8" "m_size m = 100" "guarded (world t) t m" "intact (world t) m"
    and exact: "\<And>held. length (held 8) = length (world t 8) \<Longrightarrow>
      intact held m \<longleftrightarrow> (\<forall>i < length (held 8). outside m i \<longrightarrow> held 8 ! i = world t 8 ! i)"
    by (auto simp: set_err_def)
  let ?held = "(world t)(8 := (world t 8)[8291 := 0])"
  have len: "length (world t 8) = 8292" using m(1-3) by (simp add: guarded_def)
  have out: "outside m 8291" using m(2) by (simp add: outside_def)
  with m len have "world t 8 ! 8291 = POISON_FILL" by (simp add: intact_outside)
  then have change: "?held 8 ! 8291 \<noteq> world t 8 ! 8291" using len by (simp add: poison_defs)
  have "\<not> intact ?held m"
  proof
    assume "intact ?held m"
    with exact [of ?held] len have "\<forall>i < 8292. outside m i \<longrightarrow> ?held 8 ! i = world t 8 ! i" by simp
    from this [rule_format, of 8291] out change show False by simp
  qed
  with t m(4) show "\<exists>t a m. clCreateBuffer ?cl 1 {} 100 0 None ?s = Inr ((9, None), t)
    \<and> mobjs t a = Some m \<and> intact (world t) m \<and> \<not> intact ((world t)(8 := (world t 8)[8291 := 0])) m" by blast
qed

end
