(* ===== verification/Tool_Output.thy ===== *)
theory Tool_Output
  imports Dl_Interceptor Interceptor_Kernels
begin

text \<open>
  What the tool writes besides its reports: the prefixed output and the backtraces of
  \<open>src/utils/util_functions.c\<close>, the times of the checks (\<open>src/gpu_check/gpu_check_utils.c\<close>,
  \<open>src/cpu_check/cpu_check.c\<close>), and what the destructor of \<open>cl_wrapper/cl_interceptor.c\<close> leaves behind.
  The reports use a backtrace through the field \<open>backtrace\<close> of the runtime.
\<close>

section \<open>Output with a prefix\<close>

text \<open>
  \<open>out\<close> is the \<open>fprintf\<close> of the C library on one stream: the number of characters written, or a
  negative number. \<open>text\<close> is the message when it has been formatted.
\<close>

definition det_fprintf :: "(string \<Rightarrow> 'io \<Rightarrow> int \<times> 'io) \<Rightarrow> env \<Rightarrow> string \<Rightarrow> 'io \<Rightarrow> int \<times> 'io" where
  "det_fprintf out e text io =
     (case (case get_log_prefix_envvar e of None \<Rightarrow> (0, io) | Some pref \<Rightarrow> out pref io) of (n, io1) \<Rightarrow>
       if n < 0 then (n, io1)
       else (case out text io1 of (err, io2) \<Rightarrow> if err < 0 then (err, io2) else (n + err, io2)))"

text \<open>The same with an argument list, and on standard output.\<close>

definition det_vfprintf :: "(string \<Rightarrow> 'io \<Rightarrow> int \<times> 'io) \<Rightarrow> env \<Rightarrow> string \<Rightarrow> 'io \<Rightarrow> int \<times> 'io" where
  "det_vfprintf out e text io =
     (case (case get_log_prefix_envvar e of None \<Rightarrow> (0, io) | Some pref \<Rightarrow> out pref io) of (n, io1) \<Rightarrow>
       if n < 0 then (n, io1)
       else (case out text io1 of (err, io2) \<Rightarrow> if err < 0 then (err, io2) else (n + err, io2)))"

definition det_printf :: "(string \<Rightarrow> 'io \<Rightarrow> int \<times> 'io) \<Rightarrow> env \<Rightarrow> string \<Rightarrow> 'io \<Rightarrow> int \<times> 'io" where
  "det_printf out_stdout e text io =
     (case (case get_log_prefix_envvar e of None \<Rightarrow> (0, io) | Some pref \<Rightarrow> out_stdout pref io) of (n, io1) \<Rightarrow>
       if n < 0 then (n, io1)
       else (case out_stdout text io1 of (err, io2) \<Rightarrow> if err < 0 then (err, io2) else (n + err, io2)))"

lemma det_fprintf_appends:
  "det_fprintf (\<lambda>t io. (int (length t), io @ t)) e text io =
    (let line = (case get_log_prefix_envvar e of None \<Rightarrow> [] | Some pref \<Rightarrow> pref) @ text
     in (int (length line), io @ line))"
  by (simp add: det_fprintf_def Let_def split: option.split)

section \<open>Backtraces\<close>

datatype bt_msg = Asprintf_failed | Unset_failed | Reset_failed string | Illegal_level int
  | Backtrace_title | Frame string "string option"

record 'w bt_state =
  bt_world :: 'w
  bt_env :: env
  bt_out :: "bt_msg list"

text \<open>
  The C library and the shell: \<open>backtrace\<close> with room for some addresses, the symbol of an address, an
  address in characters, whether \<open>unsetenv\<close> and \<open>setenv\<close> succeed, and \<open>popen\<close>: the output of a
  command, run with the environment of the process, or NULL. Memory can be allocated.
\<close>

record 'w shell =
  sh_backtrace :: "nat \<Rightarrow> ptr list"
  sh_symbol :: "ptr \<Rightarrow> string"
  sh_pointer :: "ptr \<Rightarrow> string"
  sh_unsetenv_ok :: "string \<Rightarrow> bool"
  sh_setenv_ok :: "string \<Rightarrow> string \<Rightarrow> bool"
  sh_popen :: "env \<Rightarrow> string \<Rightarrow> 'w \<Rightarrow> string option \<times> 'w"

definition bt_say :: "bt_msg \<Rightarrow> ('w bt_state, unit) prog" where
  "bt_say m = modify (\<lambda>s. s\<lparr>bt_out := bt_out s @ [m]\<rparr>)"

text \<open>\<open>CHECK_ASPRINTF_RET\<close> takes an empty result for a failure.\<close>

definition check_asprintf_ret :: "string \<Rightarrow> ('w bt_state, unit) prog" where
  "check_asprintf_ret text =
     (if text = [] then andThen (bt_say Asprintf_failed) (\<lambda>_. fail (Exit (-1))) else ret ())"

definition addr2line_command :: "'w shell \<Rightarrow> ptr \<Rightarrow> string \<Rightarrow> string" where
  "addr2line_command sh bt bt_symbol =
     ''addr2line '' @ sh_pointer sh bt @ '' -i -s -p -C -e ''
       @ takeWhile (\<lambda>c. c \<noteq> CHR ''('' \<and> c \<noteq> CHR '' '') bt_symbol
       @ '' | sed '' @ [CHR 0x27] @ ''s/ .inlined by. //'' @ [CHR 0x27]"

text \<open>\<open>fgets\<close> with room for 4096 characters, and the line without its end.\<close>

definition first_line :: "string \<Rightarrow> string" where
  "first_line out = takeWhile (\<lambda>c. c \<noteq> CHR 0x0A) (take 4095 out)"

definition run_popen :: "'w shell \<Rightarrow> string \<Rightarrow> ('w bt_state, string) prog" where
  "run_popen sh syscom s = (case sh_popen sh (bt_env s) syscom (bt_world s) of
       (None, w) \<Rightarrow> fail Null_deref (s\<lparr>bt_world := w\<rparr>)
     | (Some out, w) \<Rightarrow> ret (first_line out) (s\<lparr>bt_world := w\<rparr>))"

definition get_backtrace_human_readable :: "'w shell \<Rightarrow> ptr \<Rightarrow> string \<Rightarrow> ('w bt_state, string option) prog" where
  "get_backtrace_human_readable sh bt bt_symbol =
     andThen (gets (\<lambda>s. bt_env s ''LD_PRELOAD'')) (\<lambda>old_environ.
     andThen (case old_environ of None \<Rightarrow> ret () | Some v \<Rightarrow> check_asprintf_ret v) (\<lambda>_.
       if \<not> sh_unsetenv_ok sh ''LD_PRELOAD''
       then andThen (bt_say Unset_failed) (\<lambda>_. ret None)
       else
         andThen (modify (\<lambda>s. s\<lparr>bt_env := (bt_env s)(''LD_PRELOAD'' := None)\<rparr>)) (\<lambda>_.
         andThen (run_popen sh (addr2line_command sh bt bt_symbol)) (\<lambda>output.
         andThen (case old_environ of
             None \<Rightarrow> ret ()
           | Some v \<Rightarrow>
               if sh_setenv_ok sh ''LD_PRELOAD'' v
               then modify (\<lambda>s. s\<lparr>bt_env := (bt_env s)(''LD_PRELOAD'' \<mapsto> v)\<rparr>)
               else bt_say (Reset_failed v)) (\<lambda>_.
         ret (Some output))))))"

text \<open>The C library prints a NULL string as \<open>(null)\<close>.\<close>

definition printed_string :: "string option \<Rightarrow> string" where
  "printed_string r = (case r of None \<Rightarrow> ''(null)'' | Some v \<Rightarrow> v)"

definition get_backtrace_level :: "'w shell \<Rightarrow> int \<Rightarrow> ('w bt_state, string option) prog" where
  "get_backtrace_level sh level =
     (if level < 1 then andThen (bt_say (Illegal_level level)) (\<lambda>_. ret None)
      else
        let actual_level = nat level + 1; buffer = sh_backtrace sh (actual_level + 1)
        in if length buffer \<noteq> actual_level + 1 then ret None
           else
             let bt = buffer ! actual_level; message = sh_symbol sh bt
             in andThen (get_backtrace_human_readable sh bt message) (\<lambda>bt_string.
                ret (Some (message @ '' - '' @ printed_string bt_string))))"

text \<open>All frames but the innermost, from the outermost on.\<close>

definition print_all_frames :: "'w shell \<Rightarrow> ('w bt_state, unit) prog" where
  "print_all_frames sh =
     (let buffer = sh_backtrace sh 100
      in andThen (bt_say Backtrace_title) (\<lambda>_.
         forM (rev (drop 1 buffer)) (\<lambda>bt.
           andThen (get_backtrace_human_readable sh bt (sh_symbol sh bt)) (\<lambda>bt_string.
           bt_say (Frame (sh_symbol sh bt) bt_string)))))"

text \<open>The version is a macro of the build, from the tags of the repository.\<close>

definition get_clarmor_version :: "string \<Rightarrow> ('w bt_state, string) prog" where
  "get_clarmor_version CLARMOR_VERSION = andThen (check_asprintf_ret CLARMOR_VERSION) (\<lambda>_. ret CLARMOR_VERSION)"

text \<open>
  The child process that resolves an address never runs with \<open>LD_PRELOAD\<close>, so the tool does not load
  itself into it; and the variable has its value again when the function returns.
\<close>

lemma backtrace_without_preload:
  assumes "bt_env s ''LD_PRELOAD'' \<noteq> Some []" "sh_unsetenv_ok sh ''LD_PRELOAD''"
    and "\<And>v. bt_env s ''LD_PRELOAD'' = Some v \<Longrightarrow> sh_setenv_ok sh ''LD_PRELOAD'' v"
    and "sh_popen sh ((bt_env s)(''LD_PRELOAD'' := None)) (addr2line_command sh bt symbol) (bt_world s) = (Some out, w)"
  shows "get_backtrace_human_readable sh bt symbol s = Inr (Some (first_line out), s\<lparr>bt_world := w\<rparr>)"
proof (cases "bt_env s ''LD_PRELOAD''")
  case None
  then have "(bt_env s)(''LD_PRELOAD'' := None) = bt_env s" by auto
  with assms None show ?thesis
    by (simp add: get_backtrace_human_readable_def andThen_def run_popen_def)
next
  case (Some v)
  then have "(bt_env s)(''LD_PRELOAD'' \<mapsto> v) = bt_env s" by auto
  with assms Some show ?thesis
    by (simp add: get_backtrace_human_readable_def andThen_def run_popen_def check_asprintf_ret_def)
qed

text \<open>An empty \<open>LD_PRELOAD\<close> ends the process: the copy of an empty string is taken for a failure.\<close>

lemma empty_preload_exits:
  "bt_env s ''LD_PRELOAD'' = Some [] \<Longrightarrow>
    get_backtrace_human_readable sh bt symbol s = Inl (Exit (-1), s\<lparr>bt_out := bt_out s @ [Asprintf_failed]\<rparr>)"
  by (simp add: get_backtrace_human_readable_def andThen_def check_asprintf_ret_def bt_say_def)

text \<open>A level the stack does not have gives no backtrace.\<close>

lemma backtrace_level_missing:
  "length (sh_backtrace sh (nat level + 2)) < nat level + 2 \<Longrightarrow> 1 \<le> level \<Longrightarrow>
    get_backtrace_level sh level s = Inr (None, s)"
  by (simp add: get_backtrace_level_def Let_def)

section \<open>Times of the checks\<close>

text \<open>A line at the end of the file of statistics; \<open>fopen\<close> of no name is undefined.\<close>

definition append_perf :: "perf_line \<Rightarrow> ('w dl_state, unit) prog" where
  "append_perf l = andThen (gets tool_stats_outfile) (\<lambda>f. case f of
       None \<Rightarrow> fail Null_deref
     | Some _ \<Rightarrow> modify (\<lambda>s. s\<lparr>perf_file := perf_file s @ [l]\<rparr>))"

definition set_kern_runtime :: "u64 \<Rightarrow> ('w dl_state, unit) prog" where
  "set_kern_runtime reset_val = modify (\<lambda>s. s\<lparr>check_kern_runtime_us := reset_val\<rparr>)"

definition add_to_kern_runtime :: "u64 \<Rightarrow> ('w dl_state, unit) prog" where
  "add_to_kern_runtime add_val = modify (\<lambda>s. s\<lparr>check_kern_runtime_us := check_kern_runtime_us s + add_val\<rparr>)"

definition get_kern_runtime :: "('w dl_state, u64) prog" where
  "get_kern_runtime = gets check_kern_runtime_us"

text \<open>The mode is read from the environment again.\<close>

definition output_kern_runtime :: "env \<Rightarrow> ('w dl_state, unit) prog" where
  "output_kern_runtime e =
     whenM (bit (get_tool_perf_envvar e) 1)
       (andThen get_kern_runtime (\<lambda>t. append_perf (Time_line t)))"

text \<open>The host check: the clock when it starts, if times are wanted, and the line when it stops.\<close>

definition start_profile :: "int \<times> int \<Rightarrow> ('w dl_state, (int \<times> int) option) prog" where
  "start_profile now = andThen (gets tool_stats_flags) (\<lambda>flags. ret (if bit flags 1 then Some now else None))"

definition stop_profile_and_print :: "(int \<times> int) option \<Rightarrow> int \<times> int \<Rightarrow> ('w dl_state, unit) prog" where
  "stop_profile_and_print start now = andThen (gets tool_stats_flags) (\<lambda>flags.
     whenM (bit flags 1) (append_perf (Time_line (timeval_diff_us (Some now) start))))"

text \<open>
  The four times of a command; \<open>names\<close> are the parameters \<open>CL_PROFILING_COMMAND_\<close>\<open>QUEUED\<close>, \<open>SUBMIT\<close>, \<open>START\<close>
  and \<open>END\<close>, whose values are in \<open>CL/cl.h\<close>. What is added for a checker kernel, in microseconds.
\<close>

definition kernel_time :: "'w ocl \<Rightarrow> cl_event \<Rightarrow> nat \<Rightarrow> ('w det, u64) prog" where
  "kernel_time cl event name =
     andThen (clGetEventProfilingInfo cl event name) (\<lambda>(retval, v).
       case (retval, v) of
         (CL_SUCCESS, Some t) \<Rightarrow> ret t
       | _ \<Rightarrow> andThen (put_err (Profiling_failed name retval)) (\<lambda>_. fail (Exit (-1))))"

definition populateKernelTimes :: "'w ocl \<Rightarrow> nat list \<Rightarrow> cl_event \<Rightarrow> ('w det, u64 list) prog" where
  "populateKernelTimes cl names event = mapM (kernel_time cl event) names"

definition checker_time :: "u64 list \<Rightarrow> u64" where
  "checker_time ts = (ts ! 3 - ts ! 2) div 1000"

text \<open>
  The launch: its duration, that of the call of the runtime, and the difference. The clock is read when
  \<open>kernelLaunchFunc\<close> starts and ends, and before and after the call.
\<close>

definition print_enqueue_times ::
  "int \<times> int \<Rightarrow> int \<times> int \<Rightarrow> int \<times> int \<Rightarrow> int \<times> int \<Rightarrow> ('w dl_state, unit) prog" where
  "print_enqueue_times total_start enq_start enq_stop total_stop = andThen (gets tool_stats_flags) (\<lambda>flags.
     whenM (bit flags 0)
       (let total_durr_us = timeval_diff_us (Some total_stop) (Some total_start);
            enq_durr_us = timeval_diff_us (Some enq_stop) (Some enq_start)
        in append_perf (Enqueue_line total_durr_us enq_durr_us (total_durr_us - enq_durr_us))))"

text \<open>The times of several checker kernels are one line, their sum.\<close>

lemma kern_runtime_sums:
  assumes "bit (get_tool_perf_envvar e) 1" and "tool_stats_outfile s = Some f"
  shows "andThen (set_kern_runtime 0) (\<lambda>_. andThen (forM ts add_to_kern_runtime) (\<lambda>_. output_kern_runtime e)) s =
    Inr ((), s\<lparr>perf_file := perf_file s @ [Time_line (sum_list ts)], check_kern_runtime_us := sum_list ts\<rparr>)"
proof -
  have add: "forM ts add_to_kern_runtime t = Inr ((), t\<lparr>check_kern_runtime_us := check_kern_runtime_us t + sum_list ts\<rparr>)" for t :: "'w dl_state"
    by (induction ts arbitrary: t) (simp_all add: add_to_kern_runtime_def add.assoc)
  show ?thesis
    using assms by (simp add: set_kern_runtime_def output_kern_runtime_def get_kern_runtime_def append_perf_def
        andThen_Inr [OF add])
qed

section \<open>The destructor\<close>

text \<open>
  The file of statistics is written anew with the counters of the tool; then the log gets its last lines.
  The counters are in the tool's state, the file in that of the loader.
\<close>

definition cl__destructor :: "'v det \<Rightarrow> ('w dl_state, 'v det) prog" where
  "cl__destructor d =
     andThen (gets tool_stats_flags) (\<lambda>flags.
     andThen (whenM (bit flags 2)
       (write_out_mem_perf_stats (total_user_mem d) (total_overhead_mem d) (high_user_mem d) (high_overhead_mem d))) (\<lambda>_.
       case finalize_detector d of Inl (e, _) \<Rightarrow> fail e | Inr (_, d') \<Rightarrow> ret d'))"

lemma destructor_logs_total:
  assumes "log_out d = Some l" and "bit (tool_stats_flags s) 2 \<Longrightarrow> tool_stats_outfile s \<noteq> None"
  shows "\<exists>d' t. cl__destructor d s = Inr (d', t)
    \<and> log_out d' = Some (l @ [Log_complete, Log_total (overflows_observed d)])
    \<and> perf_file t = (if bit (tool_stats_flags s) 2
        then [Mem_header, Mem_line (total_user_mem d) (total_overhead_mem d) (high_user_mem d) (high_overhead_mem d)]
        else perf_file s)"
  using assms
  by (cases "bit (tool_stats_flags s) 2")
    (auto simp: cl__destructor_def andThen_def write_out_mem_perf_stats_def finalize_detector_def)

end
