(* ===== verification/Device_Barrier.thy ===== *)
theory Device_Barrier
  imports Device_Check_Props
begin

text \<open>
  The barrier in \<open>work_group_scan_inclusive_min\<close>. Items past the last canary return before the scan, and
  OpenCL wants a barrier to be reached by all items of a group or by none. Here an item waits for all items
  of its group, so that one that has returned keeps the others waiting forever; the host launches twice as many
  items as there are words (\<open>perform_cl_buffer_checks\<close>), so that half of them return.
\<close>

text \<open>As \<open>dev_step\<close>, where \<open>G\<close> items are launched, of which \<open>items\<close> come to the scan.\<close>

inductive sync_step ::
  "nat \<Rightarrow> nat \<Rightarrow> nat set \<Rightarrow> (nat \<Rightarrow> memory \<Rightarrow> u32 \<times> memory) \<Rightarrow>
    ((nat \<Rightarrow> u32 option) \<Rightarrow> nat \<Rightarrow> (nat \<times> u32) option) \<Rightarrow> device \<Rightarrow> device \<Rightarrow> bool"
  for L G items item emit where
  compute: "t \<in> items \<Longrightarrow> d_rets s t = None \<Longrightarrow> item t (d_mem s) = (r, m) \<Longrightarrow>
    sync_step L G items item emit s (s\<lparr>d_mem := m, d_rets := (d_rets s)(t \<mapsto> r)\<rparr>)"
| atomic: "t \<in> items \<Longrightarrow> t \<notin> d_done s \<Longrightarrow>
    (\<forall>u < G. u div L = t div L \<longrightarrow> u \<in> items \<and> d_rets s u \<noteq> None) \<Longrightarrow>
    sync_step L G items item emit s
      (s\<lparr>d_done := insert t (d_done s), d_first := atomic_min (emit (d_rets s) t) (d_first s)\<rparr>)"

inductive sync_run ::
  "nat \<Rightarrow> nat \<Rightarrow> nat set \<Rightarrow> (nat \<Rightarrow> memory \<Rightarrow> u32 \<times> memory) \<Rightarrow>
    ((nat \<Rightarrow> u32 option) \<Rightarrow> nat \<Rightarrow> (nat \<times> u32) option) \<Rightarrow> device \<Rightarrow> device \<Rightarrow> bool"
  for L G items item emit s0 where
  start: "sync_run L G items item emit s0 s0"
| step: "sync_run L G items item emit s0 s \<Longrightarrow> sync_step L G items item emit s t \<Longrightarrow> sync_run L G items item emit s0 t"

section \<open>Groups that come to the barrier as a whole\<close>

definition whole_groups :: "nat \<Rightarrow> nat \<Rightarrow> nat set \<Rightarrow> bool" where
  "whole_groups L G items \<longleftrightarrow> (\<forall>t \<in> items. \<forall>u < G. u div L = t div L \<longrightarrow> u \<in> items)"

lemma sync_step_dev:
  "sync_step L G items item emit s t \<Longrightarrow> items \<subseteq> {..<G} \<Longrightarrow> dev_step L items item emit s t"
  by (induction rule: sync_step.induct) (auto intro: dev_step.intros)

lemma dev_step_sync:
  "dev_step L items item emit s t \<Longrightarrow> whole_groups L G items \<Longrightarrow> sync_step L G items item emit s t"
  by (induction rule: dev_step.induct) (auto intro: sync_step.intros simp: whole_groups_def)

lemma sync_run_dev:
  "sync_run L G items item emit s t \<Longrightarrow> items \<subseteq> {..<G} \<Longrightarrow> dev_run L items item emit s t"
  by (induction rule: sync_run.induct) (auto intro: dev_run.intros sync_step_dev)

lemma dev_run_sync:
  "dev_run L items item emit s t \<Longrightarrow> whole_groups L G items \<Longrightarrow> sync_run L G items item emit s t"
  by (induction rule: dev_run.induct) (auto intro: sync_run.intros dev_step_sync)

text \<open>An item in a group with one that has returned early never writes.\<close>

lemma divided_group_waits:
  "sync_run L G items item emit s0 s \<Longrightarrow> u < G \<Longrightarrow> u \<notin> items \<Longrightarrow> u div L = t div L \<Longrightarrow> t \<notin> d_done s0 \<Longrightarrow> t \<notin> d_done s"
proof (induction rule: sync_run.induct)
  case (step s s')
  from step.hyps(2) step.IH [OF step.prems] step.prems show ?case by (cases rule: sync_step.cases) auto
qed

lemma divided_group_blocks:
  assumes "sync_run L G items item emit (dev_start m first) s" and "\<not> whole_groups L G items"
  shows "\<not> all_done items s"
proof -
  obtain t u where "t \<in> items" "u < G" "u div L = t div L" "u \<notin> items" using assms(2) unfolding whole_groups_def by blast
  then show ?thesis using divided_group_waits [OF assms(1), of u t] by (auto simp: all_done_def dev_start_def)
qed

lemma sync_run_decreases:
  "sync_run L G items item emit s t \<Longrightarrow> items \<subseteq> {..<G} \<Longrightarrow> t = s \<or> steps_left items t < steps_left items s"
proof (induction rule: sync_run.induct)
  case (step s' t)
  have "finite items" using step.prems by (rule finite_subset) simp
  with step_decreases [OF sync_step_dev [OF step.hyps(2) step.prems]] step.IH [OF step.prems] show ?case by auto
qed simp

lemma no_endless_sync_run:
  assumes "items \<subseteq> {..<G}"
  shows "\<exists>i. \<not> (sync_run L G items item emit (f i) (f (Suc i)) \<and> f i \<noteq> f (Suc i))"
proof (rule ccontr)
  assume "\<nexists>i. \<not> (sync_run L G items item emit (f i) (f (Suc i)) \<and> f i \<noteq> f (Suc i))"
  then have "steps_left items (f (Suc i)) < steps_left items (f i)" for i
    using sync_run_decreases [OF _ assms] by metis
  then show False using wf_no_infinite_down_chainE [OF wf_measure, of "\<lambda>i. f i" "steps_left items"] by fastforce
qed

lemma whole_groups_iff:
  assumes "0 < L" "0 < n" "n < G"
  shows "whole_groups L G {t. t < n} \<longleftrightarrow> L dvd n"
proof
  assume whole: "whole_groups L G {t. t < n}"
  show "L dvd n"
  proof (rule ccontr)
    assume "\<not> L dvd n"
    then have "n div L = (n - 1) div L" using div_Suc [of "n - 1" L] assms(2) by (simp add: dvd_eq_mod_eq_0)
    with whole assms have "n \<in> {t. t < n}" unfolding whole_groups_def by (metis diff_less mem_Collect_eq zero_less_one)
    then show False by simp
  qed
next
  assume "L dvd n"
  then obtain k where k: "n = k * L" by (metis dvd_def mult.commute)
  show "whole_groups L G {t. t < n}"
    unfolding whole_groups_def k using assms(1) by (simp add: less_mult_imp_div_less div_less_iff_less_mult [symmetric])
qed

section \<open>The check of the copies of canaries\<close>

text \<open>The items \<open>perform_cl_buffer_checks\<close> launches for \<open>n\<close> buffers, and the runs of its kernel.\<close>

definition launched_items :: "nat \<Rightarrow> nat" where
  "launched_items n = unat (POISON_REGIONS * ucast poisonWordLen * ucast (POISON_REGIONS * of_nat n :: u32) :: u64)"

definition sync_findCorruption ::
  "nat \<Rightarrow> nat \<Rightarrow> u32 \<Rightarrow> u32 \<Rightarrow> u32 \<Rightarrow> u32 \<Rightarrow> ptr \<Rightarrow> ptr \<Rightarrow> device \<Rightarrow> device \<Rightarrow> bool" where
  "sync_findCorruption L G canaryLen buffEnd svmEnd poison B C =
     sync_run L G (active_items G svmEnd) (\<lambda>i. findCorruption_item canaryLen buffEnd poison B C (of_nat i))
       (emit_findCorruption L canaryLen svmEnd)"

lemma launched:
  assumes "n < 2 ^ 17"
  shows "launched_items n = 4096 * n"
    and "active_items (4096 * n) (of_nat n * POISON_REGIONS * poisonWordLen) = {t. t < 2048 * n}"
proof -
  have "(POISON_REGIONS * of_nat n :: u32) = of_nat (2 * n)" by (simp add: poison_defs)
  moreover have "unat (of_nat (2 * n) :: u32) = 2 * n" by (rule unat_of_nat_eq) (use assms in simp)
  moreover have "unat (ucast (of_nat (2 * n) :: u32) :: u64) = unat (of_nat (2 * n) :: u32)" by (rule unat_ucast_wider) simp
  ultimately have small: "unat (ucast (POISON_REGIONS * of_nat n :: u32) :: u64) = 2 * n" by (simp only:)
  have "POISON_REGIONS * ucast poisonWordLen = (2048 :: u64)" by (simp add: poison_defs poisonWordLen_def)
  then show "launched_items n = 4096 * n"
    unfolding launched_items_def using small assms by (simp only:) (subst unat_mult_fits, simp_all)
  have "of_nat n * POISON_REGIONS * poisonWordLen = (of_nat (2048 * n) :: u32)"
    by (simp add: poisonWordLen_def poison_defs)
  then show "active_items (4096 * n) (of_nat n * POISON_REGIONS * poisonWordLen) = {t. t < 2048 * n}"
    using active_all [of "2048 * n" "4096 * n"] assms by simp
qed

text \<open>
  C27: The check of the copies of canaries comes to an end if and only if the size of its work groups divides
  the number of words to check. If it does, no schedule goes on forever, and from every state a schedule has
  reached the kernel can be completed; if moreover the size divides the 2048 words of a buffer, the results
  are the host's. If it does not, items that have returned keep others of their group waiting at the
  scan, and no schedule completes.
\<close>

theorem checker_synchronises:
  fixes L n nb m B C
  defines "run \<equiv> sync_findCorruption L (launched_items n) (POISON_REGIONS * poisonWordLen)
      (of_nat nb * POISON_REGIONS * poisonWordLen) (of_nat n * POISON_REGIONS * poisonWordLen) POISON_FILL_32B B C"
    and "items \<equiv> active_items (launched_items n) (of_nat n * POISON_REGIONS * poisonWordLen)"
    and "s0 \<equiv> dev_start m (replicate n no_change)"
  assumes n: "0 < n" "n < 2 ^ 17" "nb \<le> n" and L: "0 < L"
  shows "((\<exists>t. run s0 t \<and> all_done items t) \<longleftrightarrow> L dvd 2048 * n)
    \<and> (L dvd 2048 * n \<longrightarrow> (\<forall>s. run s0 s \<longrightarrow> (\<exists>t. run s t \<and> all_done items t)))
    \<and> (\<forall>f. \<exists>i. \<not> (run (f i) (f (Suc i)) \<and> f i \<noteq> f (Suc i)))
    \<and> (L dvd 2048 \<longrightarrow> (\<forall>t. run s0 t \<longrightarrow> all_done items t \<longrightarrow>
        d_first t = map (\<lambda>b. host_result (POISON_REGIONS * POISON_FILL_LENGTH) (map (canary_byte m B C nb b) [0..<8192])) [0..<n]))"
proof -
  let ?words = "POISON_REGIONS * poisonWordLen" and ?g = "4096 * n"
  let ?stop = "of_nat n * POISON_REGIONS * poisonWordLen :: u32" and ?be = "of_nat nb * POISON_REGIONS * poisonWordLen :: u32"
  let ?item = "\<lambda>i. findCorruption_item ?words ?be POISON_FILL_32B B C (of_nat i)"
  let ?emit = "emit_findCorruption L ?words ?stop"
  have run: "run = sync_run L ?g items ?item ?emit"
    unfolding run_def sync_findCorruption_def items_def launched(1) [OF n(2)] ..
  have items: "items = {t. t < 2048 * n}"
    unfolding items_def launched(1) [OF n(2)] by (rule launched(2) [OF n(2)])
  have within: "items \<subseteq> {..<?g}" and fin: "finite items" unfolding items by auto
  have whole: "whole_groups L ?g items \<longleftrightarrow> L dvd 2048 * n" unfolding items using L n(1) by (intro whole_groups_iff) simp_all
  have completes: "\<exists>t. run s t \<and> all_done items t" if "L dvd 2048 * n" for s
    using run_completes [OF fin, of L ?item ?emit s] dev_run_sync that unfolding run whole [symmetric] by blast
  have "L dvd 2048 * n" if "run s0 t" "all_done items t" for t
    using divided_group_blocks [of L ?g items ?item ?emit] that unfolding run s0_def whole [symmetric] by blast
  moreover have "\<exists>i. \<not> (run (f i) (f (Suc i)) \<and> f i \<noteq> f (Suc i))" for f
    unfolding run by (rule no_endless_sync_run [OF within])
  moreover have "d_first t = map (\<lambda>b. host_result (POISON_REGIONS * POISON_FILL_LENGTH)
      (map (canary_byte m B C nb b) [0..<8192])) [0..<n]" if t: "L dvd 2048" "run s0 t" "all_done items t" for t
  proof -
    have "dev_run L items ?item ?emit s0 t" using t(2) unfolding run by (rule sync_run_dev [OF _ within])
    then have "run_findCorruption L ?g ?words ?be ?stop POISON_FILL_32B B C s0 t"
      using t(3) unfolding run_findCorruption_def items_def launched(1) [OF n(2)] by blast
    then show ?thesis unfolding s0_def by (rule kernel_finds_host_results) (use n L t(1) in simp_all)
  qed
  ultimately show ?thesis using completes by blast
qed

text \<open>One buffer: groups of 256 items complete, one group of 4096 items does not.\<close>

theorem checker_synchronises_witness:
  "(\<exists>t. sync_findCorruption 256 (launched_items 1) (POISON_REGIONS * poisonWordLen) (of_nat 1 * POISON_REGIONS * poisonWordLen)
      (of_nat 1 * POISON_REGIONS * poisonWordLen) POISON_FILL_32B 0 0 (dev_start (\<lambda>_. POISON_FILL) (replicate 1 no_change)) t
      \<and> all_done (active_items (launched_items 1) (of_nat 1 * POISON_REGIONS * poisonWordLen)) t)
    \<and> \<not> (\<exists>t. sync_findCorruption 4096 (launched_items 1) (POISON_REGIONS * poisonWordLen) (of_nat 1 * POISON_REGIONS * poisonWordLen)
      (of_nat 1 * POISON_REGIONS * poisonWordLen) POISON_FILL_32B 0 0 (dev_start (\<lambda>_. POISON_FILL) (replicate 1 no_change)) t
      \<and> all_done (active_items (launched_items 1) (of_nat 1 * POISON_REGIONS * poisonWordLen)) t)"
  using checker_synchronises [of 1 1 256 0 0 "\<lambda>_. POISON_FILL"] checker_synchronises [of 1 1 4096 0 0 "\<lambda>_. POISON_FILL"]
  by simp

end
