(* ===== verification/Spec2Isabelle.thy ===== *)
theory Spec2Isabelle
  imports Image_Props Buffer_Props Memory_Props Api_Check_Props Image_Check_Props Session_Safety
    Overflow_Reports Kernel_Arg_Props Svm_Props Device_Check_Props In_Place_Checks Image_Kernel_Props
    Loader_Props Get_Cl_Info Launch_Detection Canary_Copies Single_Buffer_Reports Buffer_Life
    Tool_Output Device_Barrier
begin

text \<open>
  clARMOR is a library that is loaded before an OpenCL application and replaces the functions of
  \<open>libOpenCL\<close>. Every buffer, image and SVM region the application creates gets canaries: 4 KiB
  regions filled with the byte 0xC2 (\<open>POISON_FILL\<close>) before and after its data, or 16 extra columns,
  rows and slices of an image. Transfers are checked against the size the application asked for when they
  are called; a kernel is checked afterwards, by looking for bytes of the canaries it has changed.

  \<^bold>\<open>How the code is written here.\<close> A C function that changes the state of the tool is a function
  of type \<open>prog\<close> (\<open>Prelude\<close>): it takes the state and returns either a result and the new state, or
  the way the process ended (\<open>exit\<close>, a null pointer, freed memory, a failed assertion, a division by
  zero, an access out of bounds) and the state at that moment. The state is the record \<open>det\<close>
  (\<open>Detector_State\<close>): one field for each global table and counter of the tool, a heap for the structs
  the code shares through pointers (\<open>mobjs\<close>, \<open>svobjs\<close>), and the messages printed so far. The OpenCL
  runtime and the C library are not in the repository: they are the record \<open>ocl\<close> (\<open>Runtime\<close>), a
  parameter of the definitions, with one function for each call the code makes, acting on a world of its
  own type. Nothing is assumed of it unless a theorem says so. Integers have the widths of the code
  (64-bit \<open>size_t\<close> and pointers), so wrap-around is that of the code. The configuration is OpenCL 2.0,
  with \<open>UNDERFLOW_CHECK\<close> and \<open>KERN_CALLBACK\<close>, on a 64-bit little-endian machine; the branches for
  other configurations are left out.

  \<^bold>\<open>The theories and the code\<close> (files under \<open>src/src/\<close>):
  \<^item> \<open>Cl_Types\<close>: \<open>include/detector_defines.h\<close>, the types of \<open>CL/cl.h\<close> the code uses.
  \<^item> \<open>Generic_Lists\<close>: \<open>meta_data_lists/generic_lists.ipp\<close>; the locales \<open>handle_table\<close> and
    \<open>keeping_table\<close> state what the containers promise, and are interpreted on all of them.
  \<^item> \<open>Util_Functions\<close>: \<open>utils/util_functions.c\<close>, \<open>utils/cl_err.c\<close>.
  \<^item> \<open>Detector_State\<close>, \<open>Workaround_Lists\<close>: the rest of \<open>meta_data_lists/\<close>.
  \<^item> \<open>Image_Geometry\<close>: sizes and offsets of canaries of images, from \<open>utils/cl_utils.c\<close>,
    \<open>cpu_check/cpu_check_cl_image.c\<close>, \<open>detector/overflow_error.c\<close>.
  \<^item> \<open>Overflow_Error\<close>: \<open>detector/overflow_error.c\<close>.
  \<^item> \<open>Wrapper_Utils\<close>: \<open>cl_wrapper/wrapper_utils.c\<close>.
  \<^item> \<open>Interceptor_Queues\<close>, \<open>_Memory\<close>, \<open>_Images\<close>, \<open>_SVM\<close>, \<open>_Enqueue\<close>, \<open>_Kernels\<close>:
    the wrappers of \<open>cl_wrapper/cl_interceptor.c\<close>.
  \<^item> \<open>Check_Utils\<close>: \<open>detector/check_utils.c\<close>, \<open>utils/universal_event.c\<close>.
  \<^item> \<open>Cpu_Check\<close>: \<open>cpu_check/\<close>.
  \<^item> \<open>Universal_Copy\<close>: \<open>universal_copy/\<close>.
  \<^item> \<open>Gpu_Check_Utils\<close>, \<open>Gpu_Check\<close>: \<open>gpu_check/\<close>; \<open>Device_Kernels\<close>: the OpenCL programs in
    \<open>gpu_check/gpu_check_kernels.cpp\<close>.
  \<^item> \<open>Detector\<close>, \<open>Kernel_Launch\<close>: \<open>detector/bufferOverflowDetect.c\<close> and the launch of a
    kernel in \<open>cl_interceptor.c\<close>.
  \<^item> \<open>Dl_Interceptor\<close>: \<open>cl_wrapper/dl_interceptor.c\<close>, \<open>meta_data_lists/dl_intercept_lists.cpp\<close> and
    the constructor of \<open>cl_interceptor.c\<close>, over a state of their own.
  \<^item> \<open>Tool_Output\<close>: the output, the backtraces and the times of \<open>utils/util_functions.c\<close>,
    \<open>gpu_check/gpu_check_utils.c\<close> and \<open>cpu_check/cpu_check.c\<close>, and the destructor of \<open>cl_interceptor.c\<close>.
  \<^item> \<open>Get_Cl_Info\<close>: the program \<open>info_check/get_cl_info.c\<close>.

  \<^bold>\<open>How the parts interact.\<close> A wrapper checks, calls the runtime and records what it needs in
  the tables. A launch (\<open>kernelLaunchFunc\<close>) looks up the recorded arguments, runs the kernel, or a copy
  of it whose arguments all have canaries (\<open>createPoisonedKernel\<close>), and then checks the canaries
  of its arguments (\<open>verifyBufferInBounds\<close>), on the host by reading them back or on the device by a
  checker kernel whose results a callback reports later (\<open>run_checker_callback\<close>). The tool's own
  commands go through its own wrappers.

  \<^bold>\<open>What the lemmas show.\<close>
  \<^item> \<open>Table_Invariant\<close>, \<open>Wrapper_Invariants\<close>, \<open>Launch_Invariants\<close>: the invariant \<open>tables_ok\<close> of
    the tables is kept by every function, also when it ends the process; the rules of the collection
    \<open>keeps\<close> follow the shape of a program. \<open>Api_Trace\<close> has the calls of a client and the
    initial state, \<open>Launch_Trace\<close> composes the rules over sessions of calls, launches and callbacks, and shows that a launch with an SVM
    argument checks every region. \<open>Session_Safety\<close>: no call but a launch or a callback reads freed memory, and
    a launch of a kernel with a released argument does.
  \<^item> \<open>Buffer_Props\<close>, \<open>Memory_Props\<close>, \<open>Cpu_Check_Props\<close>: creation of buffers with canaries, the
    round trips of the reference counts, what the host check finds;
    from 4 GiB less 4096 bytes on the second canary is misplaced.
  \<^item> \<open>Overflow_Reports\<close>: a byte that is not poison is always announced (\<open>keeps_printed\<close>:
    what is printed stays printed), and what the report of an overflow says.
  \<^item> \<open>Launch_Detection\<close>: the host check of a launch as a whole, from the arguments of the kernel to the
    message: an overflow is announced exactly when a canary of a buffer among them is not intact.
  \<^item> \<open>Buffer_Life\<close>: what \<open>clCreateBuffer\<close> leaves is what the checks rely on, and its canaries are intact
    as long as no byte outside the application's data changes.
  \<^item> \<open>Device_Reports\<close>, \<open>Canary_Copies\<close>: the same for the device check of buffers: the copies hold the
    canaries as they were before they are mended, and the callback announces an overflow exactly when
    the checker kernel, whatever the order of its items, has looked at a damaged canary.
    \<open>Single_Buffer_Reports\<close>: the same for the kernels that check the canaries in place.
  \<^item> \<open>Kernel_Arg_Props\<close>: the recorded arguments of a kernel as a map, the objects a launch checks, the
    events the application sees.
  \<^item> \<open>Svm_Props\<close>: looking up a region, the cache of regions, allocating and freeing.
  \<^item> \<open>Api_Check_Props\<close>, \<open>Image_Check_Props\<close>: which accesses the checks of the transfers let through.
  \<^item> \<open>Image_Props\<close>: the layout of the canaries of an image, and the way back from an offset, which is
    wrong for arrays of images.
  \<^item> \<open>Device_Runs\<close>, \<open>Device_Check_Props\<close>: a run of a checker kernel is a sequence of steps
    of work items in any order; the locale \<open>independent_items\<close> derives the results of every complete run
    from what the items promise, and is interpreted on the kernels. \<open>In_Place_Checks\<close> does so with
    \<open>mending_items\<close> for the kernel that mends the canary while it checks it, \<open>Image_Kernel_Props\<close> for the
    kernel that checks images. \<open>Device_Progress\<close>: every such run ends. In these runs nobody
    waits for an item that has returned early; \<open>Device_Barrier\<close> has the runs in which it is waited for, and shows
    for which sizes of work groups this makes a difference.
  \<^item> \<open>Loader_Props\<close>: what \<open>dlsym\<close> returns to an application, and what the constructor loads.

  \<^bold>\<open>Bounds and fuel.\<close> \<open>svm_walk\<close> has the number of regions plus one as fuel, which is
  enough (\<open>svm_walk_result\<close>, \<open>svm_regions_all_checked\<close>); no other loop has fuel. Sizes in theorems are
  bounded where the 32-bit arithmetic of the code needs it, as their hypotheses say.

  \<^bold>\<open>Not modelled.\<close> Where the launch and the checks read the clock and append to the file of statistics
  (the functions they call for it are in \<open>Tool_Output\<close>), the backtrace inside the reports (a parameter of
  the runtime), the signal \<open>optionalKillOnOverflow\<close> sends to the thread of a launch, the text of the
  messages (they are values that keep what is printed), the callbacks that only free memory, the branches
  for other configurations, scripts and tests. Mutexes serialise calls and are left out: an execution
  is the sequence of the calls and callbacks. The application has one thread, so that a variable the code
  keeps for each thread (\<open>canaryAccess\<close>, \<open>internal_create\<close>) is one field of the state.
\<close>

end
